(* ===== verification/Prelude.thy ===== *)
theory Prelude
  imports Main "HOL-Library.Word"
begin

text \<open>
  The types and generic facts shared by every component of the library: the machine
  integers of the C code, the little-endian byte form of an integer (what \<open>memcpy\<close> of a
  \<open>uint32_t\<close> or the load of a \<open>uint64_t\<close> does on the targets of the repository), updates
  of byte-indexed storage, and the fact collections the component proofs use.
\<close>

unbundle bit_operations_syntax

type_synonym u8 = "8 word"
type_synonym u16 = "16 word"
type_synonym u32 = "32 word"
type_synonym u64 = "64 word"

named_theorems insn_simps \<open>unfolding of the instruction encoders and decoders\<close>
named_theorems mem_simps \<open>evaluation of loads and stores\<close>
named_theorems suite_simps \<open>unfolding of the test-suite control flow\<close>

section \<open>Words as little-endian byte lists\<close>

primrec le_bytes :: "nat \<Rightarrow> 'a::len word \<Rightarrow> u8 list" where
  "le_bytes 0 w = []"
| "le_bytes (Suc n) w = ucast w # le_bytes n (drop_bit 8 w)"

primrec of_le :: "u8 list \<Rightarrow> 'a::len word" where
  "of_le [] = 0"
| "of_le (b # bs) = ucast b OR push_bit 8 (of_le bs)"

lemma le_bytes_numeral:
  "le_bytes (numeral k) w = ucast w # le_bytes (pred_numeral k) (drop_bit 8 w)"
  by (simp add: numeral_eq_Suc)

lemma length_le_bytes [simp]: "length (le_bytes n w) = n"
  by (induction n arbitrary: w) simp_all

lemma of_le_le_bytes_take: "of_le (le_bytes n w) = take_bit (8 * n) (w :: 'a::len word)"
proof (induction n arbitrary: w)
  case 0
  then show ?case by simp
next
  case (Suc n)
  have "ucast (ucast w :: u8) OR push_bit 8 (take_bit (8 * n) (drop_bit 8 w)) =
    take_bit (8 * Suc n) w"
    by (rule bit_word_eqI) (auto simp: bit_simps)
  with Suc.IH [of "drop_bit 8 w"] show ?case by simp
qed

lemma take_bit_full: "LENGTH('a) \<le> n \<Longrightarrow> take_bit n (w :: 'a::len word) = w"
  by (rule bit_word_eqI) (auto simp: bit_simps)

lemma of_le_le_bytes:
  "LENGTH('a) \<le> 8 * n \<Longrightarrow> of_le (le_bytes n w) = (w :: 'a::len word)"
  by (simp add: of_le_le_bytes_take take_bit_full)

lemma le_bytes_of_le:
  "8 * length bs \<le> LENGTH('a) \<Longrightarrow> le_bytes (length bs) (of_le bs :: 'a::len word) = bs"
proof (induction bs)
  case Nil
  then show ?case by simp
next
  case (Cons b bs)
  have len: "8 + 8 * length bs \<le> LENGTH('a)" using Cons.prems by simp
  have hd: "ucast (ucast b OR push_bit 8 (of_le bs :: 'a word)) = b"
    by (rule bit_word_eqI) (use len in \<open>auto simp: bit_simps\<close>)
  have "drop_bit 8 (ucast b OR push_bit 8 (of_le bs :: 'a word)) =
      take_bit (LENGTH('a) - 8) (of_le bs)"
    by (rule bit_word_eqI) (use len in \<open>auto simp: bit_simps dest: bit_imp_le_length\<close>)
  moreover have "le_bytes (length bs) (take_bit (LENGTH('a) - 8) (of_le bs :: 'a word)) =
      le_bytes (length bs) (of_le bs :: 'a word)"
  proof -
    have *: "8 * n \<le> k \<Longrightarrow> le_bytes n (take_bit k w) = le_bytes n w"
      for n k and w :: "'a word"
    proof (induction n arbitrary: k w)
      case 0
      then show ?case by simp
    next
      case (Suc n)
      have "drop_bit 8 (take_bit k w) = take_bit (k - 8) (drop_bit 8 w)"
        by (simp add: drop_bit_take_bit)
      moreover have "ucast (take_bit k w) = (ucast w :: u8)"
        by (rule bit_word_eqI) (use Suc.prems in \<open>auto simp: bit_simps\<close>)
      ultimately show ?case using Suc by simp
    qed
    show ?thesis by (rule *) (use len in simp)
  qed
  ultimately show ?case using hd Cons by simp
qed

section \<open>Byte-indexed storage\<close>

text \<open>Storage of bytes is a function on offsets; \<open>put_bytes\<close> writes a block.\<close>

primrec put_bytes :: "nat \<Rightarrow> u8 list \<Rightarrow> (nat \<Rightarrow> u8) \<Rightarrow> nat \<Rightarrow> u8" where
  "put_bytes off [] c = c"
| "put_bytes off (b # bs) c = put_bytes (Suc off) bs (c(off := b))"

primrec get_bytes :: "nat \<Rightarrow> nat \<Rightarrow> (nat \<Rightarrow> u8) \<Rightarrow> u8 list" where
  "get_bytes off 0 c = []"
| "get_bytes off (Suc n) c = c off # get_bytes (Suc off) n c"

lemma get_bytes_numeral:
  "get_bytes off (numeral k) c = c off # get_bytes (Suc off) (pred_numeral k) c"
  by (simp add: numeral_eq_Suc)

lemma length_get_bytes [simp]: "length (get_bytes off n c) = n"
  by (induction n arbitrary: off) simp_all

lemma put_bytes_before [simp]: "i < off \<Longrightarrow> put_bytes off bs c i = c i"
  by (induction bs arbitrary: off c) simp_all

lemma put_bytes_after [simp]: "off + length bs \<le> i \<Longrightarrow> put_bytes off bs c i = c i"
  by (induction bs arbitrary: off c) simp_all

lemma get_bytes_cong:
  "(\<And>i. off \<le> i \<Longrightarrow> i < off + n \<Longrightarrow> c i = d i) \<Longrightarrow> get_bytes off n c = get_bytes off n d"
  by (induction n arbitrary: off) simp_all

lemma get_put_same [simp]: "get_bytes off (length bs) (put_bytes off bs c) = bs"
proof (induction bs arbitrary: off c)
  case Nil
  then show ?case by simp
next
  case (Cons b bs)
  then show ?case by simp
qed

lemma get_put_other:
  "off + n \<le> off' \<or> off' + length bs \<le> off \<Longrightarrow>
   get_bytes off n (put_bytes off' bs c) = get_bytes off n c"
  by (rule get_bytes_cong) auto

lemma put_get_same: "put_bytes off (get_bytes off n c) c = c"
  by (induction n arbitrary: off) simp_all

lemmas bytes_eval = le_bytes_numeral get_bytes_numeral

section \<open>Codecs of fixed width\<close>

text \<open>
  A value written to memory or to an instruction stream is read back by the matching
  reader. The interface is what every client of such a pair relies on.
\<close>

locale fixed_codec =
  fixes enc :: "'v \<Rightarrow> u8 list"
    and dec :: "u8 list \<Rightarrow> 'v"
    and width :: nat
  assumes enc_width: "length (enc v) = width"
    and dec_enc: "dec (enc v) = v"
    and enc_dec: "length bs = width \<Longrightarrow> enc (dec bs) = bs"
begin

lemma enc_inj: "enc v = enc w \<longleftrightarrow> v = w"
  by (metis dec_enc)

lemma dec_inj: "length bs = width \<Longrightarrow> length cs = width \<Longrightarrow> dec bs = dec cs \<longleftrightarrow> bs = cs"
  by (metis enc_dec)

lemma dec_stored: "dec (get_bytes off width (put_bytes off (enc v) c)) = v"
  using get_put_same [of off "enc v" c] by (simp add: enc_width dec_enc)

lemma stored_other:
  "off + n \<le> off' \<or> off' + width \<le> off \<Longrightarrow>
   get_bytes off n (put_bytes off' (enc v) c) = get_bytes off n c"
  by (simp add: get_put_other enc_width)

lemma dec_prefix: "dec (take width (enc v @ rest)) = v"
  by (simp add: dec_enc enc_width)

end

lemma le_codec:
  "8 * n = LENGTH('a) \<Longrightarrow> fixed_codec (le_bytes n :: 'a::len word \<Rightarrow> u8 list) of_le n"
  by (rule fixed_codec.intro) (auto simp: of_le_le_bytes le_bytes_of_le)

interpretation c8: fixed_codec "le_bytes 1 :: u8 \<Rightarrow> u8 list" of_le 1
  by (rule le_codec) simp

interpretation c16: fixed_codec "le_bytes 2 :: u16 \<Rightarrow> u8 list" of_le 2
  by (rule le_codec) simp

interpretation c32: fixed_codec "le_bytes 4 :: u32 \<Rightarrow> u8 list" of_le 4
  by (rule le_codec) simp

interpretation c64: fixed_codec "le_bytes 8 :: u64 \<Rightarrow> u8 list" of_le 8
  by (rule le_codec) simp

section \<open>Counting failures\<close>

text \<open>
  Every suite of the repository adds up the failures of its cases, in order, and exits
  with 0 exactly when there are none.
\<close>

text \<open>\<open>paired\<close> gives the case at every index its own environment: the answers of the
  kernel differ from one run to the next.\<close>

definition paired :: "(nat \<Rightarrow> 'e) \<Rightarrow> 'c list \<Rightarrow> ('e \<times> 'c) list" where
  "paired env cs = map (\<lambda>i. (env i, cs ! i)) [0..<length cs]"

lemma ball_paired: "(\<forall>x\<in>set (paired env cs). P x) \<longleftrightarrow> (\<forall>i<length cs. P (env i, cs ! i))"
  by (auto simp: paired_def)

lemma sum_list_zero_iff: "sum_list (map f xs) = (0::nat) \<longleftrightarrow> (\<forall>x\<in>set xs. f x = 0)"
  by (induction xs) auto

locale suite =
  fixes run :: "'c \<Rightarrow> nat"
  assumes run_le_1: "run c \<le> 1"
begin

lemma failures_le: "sum_list (map run cs) \<le> length cs"
proof (induction cs)
  case Nil
  then show ?case by simp
next
  case (Cons c cs)
  then show ?case using run_le_1 [of c] by simp
qed

lemma failures_count: "sum_list (map run cs) = length (filter (\<lambda>c. run c \<noteq> 0) cs)"
proof (induction cs)
  case Nil
  then show ?case by simp
next
  case (Cons c cs)
  then show ?case using run_le_1 [of c] by auto
qed

lemma all_pass: "sum_list (map run cs) = 0 \<longleftrightarrow> (\<forall>c\<in>set cs. run c = 0)"
  by (rule sum_list_zero_iff)

lemma exit_zero:
  "(if sum_list (map run cs) \<noteq> 0 then 1 else (0 :: nat)) = 0 \<longleftrightarrow> (\<forall>c\<in>set cs. run c = 0)"
  using all_pass [of cs] by (cases "sum_list (map run cs) = 0") simp_all

lemma failures_count_index:
  "sum_list (map run cs) = card {i. i < length cs \<and> run (cs ! i) \<noteq> 0}"
  by (simp only: failures_count length_filter_conv_card)

end

end
