(* ===== verification/Cap_Contract.thy ===== *)
theory Cap_Contract
  imports Prelude
begin

text \<open>
  The register-state contract of \<open>cheri_jit_contract.h\<close>: every eBPF register is either a
  scalar or a capability with a source and a bounds identifier. The header gives the
  state of one register and the three operations on it; a register file is
  \<open>CHERI_BPF_REG_COUNT\<close> of them. The abstract view of a file is the authority each
  register carries, and the operations refine updates of that view.
\<close>

section \<open>State and operations\<close>

definition CHERI_BPF_REG_COUNT :: nat where "CHERI_BPF_REG_COUNT = 11"

datatype value_kind = VALUE_SCALAR | VALUE_CAPABILITY

datatype cap_source = CAP_NONE | CAP_CONTEXT | CAP_STACK | CAP_MAP_VALUE | CAP_HELPER_RETURN

fun value_kind_code :: "value_kind \<Rightarrow> nat" where
  "value_kind_code VALUE_SCALAR = 0"
| "value_kind_code VALUE_CAPABILITY = 1"

fun cap_source_code :: "cap_source \<Rightarrow> nat" where
  "cap_source_code CAP_NONE = 0"
| "cap_source_code CAP_CONTEXT = 1"
| "cap_source_code CAP_STACK = 2"
| "cap_source_code CAP_MAP_VALUE = 3"
| "cap_source_code CAP_HELPER_RETURN = 4"

record reg_state =
  kind :: value_kind
  source :: cap_source
  bounds_id :: u32

definition mark_scalar :: "reg_state \<Rightarrow> reg_state" where
  "mark_scalar reg = reg\<lparr>kind := VALUE_SCALAR, source := CAP_NONE, bounds_id := 0\<rparr>"

definition mark_capability :: "reg_state \<Rightarrow> cap_source \<Rightarrow> u32 \<Rightarrow> reg_state" where
  "mark_capability reg src bid = reg\<lparr>kind := VALUE_CAPABILITY, source := src, bounds_id := bid\<rparr>"

definition is_capability :: "reg_state \<Rightarrow> bool" where
  "is_capability reg \<longleftrightarrow> kind reg = VALUE_CAPABILITY"

lemmas contract_defs = mark_scalar_def mark_capability_def is_capability_def

text \<open>The enumerators are ordered as C compares them, by their codes.\<close>

lemma cap_source_code_inj: "cap_source_code a = cap_source_code b \<longleftrightarrow> a = b"
  by (cases a; cases b) simp_all

instantiation cap_source :: linorder
begin

definition less_eq_cap_source :: "cap_source \<Rightarrow> cap_source \<Rightarrow> bool" where
  "less_eq_cap_source a b \<longleftrightarrow> cap_source_code a \<le> cap_source_code b"

definition less_cap_source :: "cap_source \<Rightarrow> cap_source \<Rightarrow> bool" where
  "less_cap_source a b \<longleftrightarrow> cap_source_code a < cap_source_code b"

instance
  by standard (auto simp: less_eq_cap_source_def less_cap_source_def cap_source_code_inj)

end

section \<open>Well-formed registers\<close>

text \<open>
  A scalar carries no source and no bounds, a capability has a source. A register
  cleared to zero bytes is well formed.
\<close>

definition reg_wf :: "reg_state \<Rightarrow> bool" where
  "reg_wf reg \<longleftrightarrow> (kind reg = VALUE_SCALAR \<longleftrightarrow> source reg = CAP_NONE) \<and>
     (kind reg = VALUE_SCALAR \<longrightarrow> bounds_id reg = 0)"

definition zero_reg :: reg_state where
  "zero_reg = \<lparr>kind = VALUE_SCALAR, source = CAP_NONE, bounds_id = 0\<rparr>"

lemma reg_wf_zero [simp]: "reg_wf zero_reg"
  by (simp add: reg_wf_def zero_reg_def)

lemma reg_wf_mark_scalar [simp]: "reg_wf (mark_scalar reg)"
  by (simp add: reg_wf_def contract_defs)

lemma reg_wf_mark_capability [simp]: "reg_wf (mark_capability reg src bid) \<longleftrightarrow> src \<noteq> CAP_NONE"
  by (simp add: reg_wf_def contract_defs)

lemma is_capability_marks [simp]:
  "\<not> is_capability (mark_scalar reg)"
  "is_capability (mark_capability reg src bid)"
  by (simp_all add: contract_defs)

section \<open>Register files and their authority\<close>

datatype reg_op = MarkScalar nat | MarkCapability nat cap_source u32

fun reg_op_ok :: "reg_op \<Rightarrow> bool" where
  "reg_op_ok (MarkScalar r) \<longleftrightarrow> r < CHERI_BPF_REG_COUNT"
| "reg_op_ok (MarkCapability r src bid) \<longleftrightarrow> r < CHERI_BPF_REG_COUNT \<and> src \<noteq> CAP_NONE"

fun apply_reg_op :: "reg_state list \<Rightarrow> reg_op \<Rightarrow> reg_state list" where
  "apply_reg_op regs (MarkScalar r) = regs[r := mark_scalar (regs ! r)]"
| "apply_reg_op regs (MarkCapability r src bid) = regs[r := mark_capability (regs ! r) src bid]"

definition run_reg_ops :: "reg_state list \<Rightarrow> reg_op list \<Rightarrow> reg_state list" where
  "run_reg_ops regs ops = foldl apply_reg_op regs ops"

definition file_wf :: "reg_state list \<Rightarrow> bool" where
  "file_wf regs \<longleftrightarrow> length regs = CHERI_BPF_REG_COUNT \<and> (\<forall>reg\<in>set regs. reg_wf reg)"

type_synonym authority = "nat \<rightharpoonup> cap_source \<times> u32"

definition authority :: "reg_state list \<Rightarrow> authority" where
  "authority regs r =
     (if r < length regs \<and> is_capability (regs ! r)
      then Some (source (regs ! r), bounds_id (regs ! r)) else None)"

fun auth_op :: "authority \<Rightarrow> reg_op \<Rightarrow> authority" where
  "auth_op a (MarkScalar r) = a(r := None)"
| "auth_op a (MarkCapability r src bid) = a(r \<mapsto> (src, bid))"

lemma apply_reg_op_wf: "file_wf regs \<Longrightarrow> reg_op_ok rop \<Longrightarrow> file_wf (apply_reg_op regs rop)"
  by (cases rop) (auto simp: file_wf_def dest!: set_update_subset_insert [THEN subsetD])

lemma run_reg_ops_simps [simp]:
  "run_reg_ops regs [] = regs"
  "run_reg_ops regs (rop # ops) = run_reg_ops (apply_reg_op regs rop) ops"
  by (simp_all add: run_reg_ops_def)

lemma authority_apply:
  "length regs = CHERI_BPF_REG_COUNT \<Longrightarrow> reg_op_ok rop \<Longrightarrow>
   authority (apply_reg_op regs rop) = auth_op (authority regs) rop"
  by (cases rop) (auto simp: authority_def fun_eq_iff nth_list_update contract_defs)

lemma run_reg_ops_wf:
  "file_wf regs \<Longrightarrow> \<forall>rop\<in>set ops. reg_op_ok rop \<Longrightarrow> file_wf (run_reg_ops regs ops)"
  by (induction ops arbitrary: regs) (auto intro: apply_reg_op_wf)

lemma length_apply_reg_op [simp]: "length (apply_reg_op regs rop) = length regs"
  by (cases rop) simp_all

lemma run_reg_ops_authority:
  "length regs = CHERI_BPF_REG_COUNT \<Longrightarrow> \<forall>rop\<in>set ops. reg_op_ok rop \<Longrightarrow>
   authority (run_reg_ops regs ops) = foldl auth_op (authority regs) ops"
  by (induction ops arbitrary: regs) (simp_all add: authority_apply)

lemma foldl_auth_op_origin:
  "foldl auth_op a ops r = Some (src, bid) \<Longrightarrow>
   a r = Some (src, bid) \<or> MarkCapability r src bid \<in> set ops"
proof (induction ops arbitrary: a)
  case Nil
  then show ?case by simp
next
  case (Cons rop ops)
  from Cons.prems have "auth_op a rop r = Some (src, bid) \<or> MarkCapability r src bid \<in> set ops"
    using Cons.IH [of "auth_op a rop"] by simp
  then show ?case
    by (cases rop) (auto split: if_splits)
qed

section \<open>Properties of the contract\<close>

text \<open>C22: the marking operations refine updates of the authority map: after any sequence
  of in-range marks on an eleven-register file, the authority of the file is the abstract
  map updated once per mark, in order, and every register stays well formed.\<close>
theorem reg_contract_refines:
  assumes "file_wf regs" and "\<forall>rop\<in>set ops. reg_op_ok rop"
  shows "authority (run_reg_ops regs ops) = foldl auth_op (authority regs) ops \<and>
    file_wf (run_reg_ops regs ops)"
  using assms run_reg_ops_wf [OF assms] run_reg_ops_authority [of regs ops]
  by (simp add: file_wf_def)

theorem reg_contract_refines_witness:
  "authority (run_reg_ops (replicate 11 zero_reg) [MarkCapability 1 CAP_CONTEXT 7, MarkScalar 1])
   = foldl auth_op (authority (replicate 11 zero_reg))
       [MarkCapability 1 CAP_CONTEXT 7, MarkScalar 1] \<and>
   file_wf (run_reg_ops (replicate 11 zero_reg) [MarkCapability 1 CAP_CONTEXT 7, MarkScalar 1])"
  by (rule reg_contract_refines) (simp_all add: file_wf_def CHERI_BPF_REG_COUNT_def)

text \<open>C23: marking never invents authority. A register that ends as a capability either
  carried that very source and bounds before the marks, or one of the marks gave it to
  that register; a file of scalars with no capability mark holds no capability.\<close>
theorem authority_has_origin:
  assumes "file_wf regs" and "\<forall>rop\<in>set ops. reg_op_ok rop"
    and "authority (run_reg_ops regs ops) r = Some (src, bid)"
  shows "authority regs r = Some (src, bid) \<or> MarkCapability r src bid \<in> set ops"
  using assms run_reg_ops_authority [of regs ops]
  by (intro foldl_auth_op_origin) (simp add: file_wf_def)

theorem authority_has_origin_witness:
  "authority (replicate 11 zero_reg) 1 = Some (CAP_CONTEXT, 7) \<or>
   MarkCapability 1 CAP_CONTEXT 7 \<in> set [MarkCapability 1 CAP_CONTEXT 7, MarkScalar 2]"
  by (rule authority_has_origin)
    (simp_all add: file_wf_def CHERI_BPF_REG_COUNT_def authority_def contract_defs numeral_eq_Suc)

end
