(* ===== verification/Object_Memory.thy ===== *)
theory Object_Memory
  imports Prelude
begin

text \<open>
  The memory an eBPF program of the repository works on: the object passed in \<open>r1\<close> (the
  context, or the map value a helper hands back) and the eBPF stack. Each object has a
  logical length, the size the program is entitled to, and a backing length, the bytes the
  host really allocated for it. Under CHERI an access is authorised by the bounds of the
  capability, the logical length; on the host baseline the JIT checks nothing and an access
  goes through as long as the backing reaches. The C expressions of the fixtures are
  written with the state-and-fault operations at the end.
\<close>

section \<open>Objects and accesses\<close>

datatype obj_id = MemObj | StackObj

record object =
  logical_len :: nat
  backing_len :: nat
  content :: "nat \<Rightarrow> u8"

type_synonym memory = "obj_id \<Rightarrow> object"
type_synonym ptr = "obj_id \<times> u64"

datatype policy = Cheri | Host

datatype fault = BoundsTrap | Unbacked

fun bound :: "policy \<Rightarrow> memory \<Rightarrow> obj_id \<Rightarrow> nat" where
  "bound Cheri m r = logical_len (m r)"
| "bound Host m r = backing_len (m r)"

declare bound.simps [simp del]

fun trap_of :: "policy \<Rightarrow> fault" where
  "trap_of Cheri = BoundsTrap"
| "trap_of Host = Unbacked"

definition mem_load :: "policy \<Rightarrow> memory \<Rightarrow> ptr \<Rightarrow> nat \<Rightarrow> fault + u8 list" where
  "mem_load pol m p n =
     (if unat (snd p) + n \<le> bound pol m (fst p)
      then Inr (get_bytes (unat (snd p)) n (content (m (fst p))))
      else Inl (trap_of pol))"

definition write_obj :: "memory \<Rightarrow> ptr \<Rightarrow> u8 list \<Rightarrow> memory" where
  "write_obj m p bs =
     m(fst p := (m (fst p))\<lparr>content := put_bytes (unat (snd p)) bs (content (m (fst p)))\<rparr>)"

definition mem_store :: "policy \<Rightarrow> memory \<Rightarrow> ptr \<Rightarrow> u8 list \<Rightarrow> fault + memory" where
  "mem_store pol m p bs =
     (if unat (snd p) + length bs \<le> bound pol m (fst p)
      then Inr (write_obj m p bs)
      else Inl (trap_of pol))"

lemma bound_write_obj [simp]: "bound pol (write_obj m p bs) r = bound pol m r"
  by (cases pol) (simp_all add: write_obj_def bound.simps)

lemma lens_write_obj [simp]:
  "logical_len (write_obj m p bs r) = logical_len (m r)"
  "backing_len (write_obj m p bs r) = backing_len (m r)"
  by (simp_all add: write_obj_def)

definition disjoint_access :: "ptr \<Rightarrow> nat \<Rightarrow> ptr \<Rightarrow> nat \<Rightarrow> bool" where
  "disjoint_access p n q k \<longleftrightarrow> fst p \<noteq> fst q \<or>
     unat (snd p) + n \<le> unat (snd q) \<or> unat (snd q) + k \<le> unat (snd p)"

lemma get_write_same:
  "get_bytes (unat (snd p)) (length bs) (content (write_obj m p bs (fst p))) = bs"
  by (simp add: write_obj_def)

lemma get_write_other:
  "disjoint_access p n q (length bs) \<Longrightarrow>
   get_bytes (unat (snd p)) n (content (write_obj m q bs (fst p))) =
   get_bytes (unat (snd p)) n (content (m (fst p)))"
  by (auto simp: write_obj_def disjoint_access_def get_put_other)

section \<open>The interface of a checked memory\<close>

locale checked_memory =
  fixes ld :: "memory \<Rightarrow> ptr \<Rightarrow> nat \<Rightarrow> fault + u8 list"
    and st :: "memory \<Rightarrow> ptr \<Rightarrow> u8 list \<Rightarrow> fault + memory"
    and lim :: "memory \<Rightarrow> obj_id \<Rightarrow> nat"
    and trap :: fault
  assumes ld_in: "unat (snd p) + n \<le> lim m (fst p) \<Longrightarrow> \<exists>bs. ld m p n = Inr bs \<and> length bs = n"
    and ld_out: "\<not> unat (snd p) + n \<le> lim m (fst p) \<Longrightarrow> ld m p n = Inl trap"
    and st_in: "unat (snd p) + length bs \<le> lim m (fst p) \<Longrightarrow> \<exists>m'. st m p bs = Inr m'"
    and st_out: "\<not> unat (snd p) + length bs \<le> lim m (fst p) \<Longrightarrow> st m p bs = Inl trap"
    and ld_st_same: "st m p bs = Inr m' \<Longrightarrow> ld m' p (length bs) = Inr bs"
    and ld_st_other: "st m p bs = Inr m' \<Longrightarrow> disjoint_access q n p (length bs) \<Longrightarrow>
      ld m' q n = ld m q n"
    and lim_st: "st m p bs = Inr m' \<Longrightarrow> lim m' r = lim m r"
begin

lemma ld_traps_iff: "ld m p n = Inl trap \<longleftrightarrow> \<not> unat (snd p) + n \<le> lim m (fst p)"
  using ld_in [of p n m] ld_out [of p n m] by (cases "unat (snd p) + n \<le> lim m (fst p)") auto

lemma st_traps_iff: "st m p bs = Inl trap \<longleftrightarrow> \<not> unat (snd p) + length bs \<le> lim m (fst p)"
  using st_in [of p bs m] st_out [of p bs m]
  by (cases "unat (snd p) + length bs \<le> lim m (fst p)") auto

lemma ld_fault: "ld m p n = Inl e \<Longrightarrow> e = trap"
  using ld_in [of p n m] ld_out [of p n m] by (cases "unat (snd p) + n \<le> lim m (fst p)") auto

text \<open>What was stored is loaded back, whatever the width, also past a store elsewhere.\<close>

lemma ld_after_two:
  assumes "st m p bs = Inr m1" and "st m1 q cs = Inr m2"
    and "disjoint_access p (length bs) q (length cs)"
  shows "ld m2 p (length bs) = Inr bs"
  using assms ld_st_same ld_st_other by metis

end

lemma checked_memory_policy:
  "checked_memory (mem_load pol) (mem_store pol) (bound pol) (trap_of pol)"
proof (unfold_locales, goal_cases)
  case (5 m p bs m')
  then show ?case
    by (auto simp: mem_store_def mem_load_def get_write_same split: if_splits)
next
  case (6 m p bs m' q n)
  then show ?case
    by (auto simp: mem_store_def mem_load_def get_write_other split: if_splits)
qed (auto simp: mem_load_def mem_store_def split: if_splits)

interpretation cheri: checked_memory "mem_load Cheri" "mem_store Cheri" "bound Cheri" BoundsTrap
  using checked_memory_policy [of Cheri] by simp

interpretation host: checked_memory "mem_load Host" "mem_store Host" "bound Host" Unbacked
  using checked_memory_policy [of Host] by simp

section \<open>Memory operations with faults\<close>

type_synonym 'a mop = "memory \<Rightarrow> fault + 'a \<times> memory"

definition mret :: "'a \<Rightarrow> 'a mop" where
  "mret x m = Inr (x, m)"

definition mbind :: "'a mop \<Rightarrow> ('a \<Rightarrow> 'b mop) \<Rightarrow> 'b mop" where
  "mbind f g m = (case f m of Inl e \<Rightarrow> Inl e | Inr (x, m') \<Rightarrow> g x m')"

definition padd :: "ptr \<Rightarrow> u64 \<Rightarrow> ptr" where
  "padd p d = (fst p, snd p + d)"

definition rd :: "policy \<Rightarrow> ptr \<Rightarrow> nat \<Rightarrow> u8 list mop" where
  "rd pol p n m = (case mem_load pol m p n of Inl e \<Rightarrow> Inl e | Inr bs \<Rightarrow> Inr (bs, m))"

definition wr :: "policy \<Rightarrow> ptr \<Rightarrow> u8 list \<Rightarrow> unit mop" where
  "wr pol p bs m = (case mem_store pol m p bs of Inl e \<Rightarrow> Inl e | Inr m' \<Rightarrow> Inr ((), m'))"

definition rd8 :: "policy \<Rightarrow> ptr \<Rightarrow> u8 mop" where
  "rd8 pol p = mbind (rd pol p 1) (\<lambda>bs. mret (of_le bs))"

definition rd16 :: "policy \<Rightarrow> ptr \<Rightarrow> u16 mop" where
  "rd16 pol p = mbind (rd pol p 2) (\<lambda>bs. mret (of_le bs))"

definition rd32 :: "policy \<Rightarrow> ptr \<Rightarrow> u32 mop" where
  "rd32 pol p = mbind (rd pol p 4) (\<lambda>bs. mret (of_le bs))"

definition rd64 :: "policy \<Rightarrow> ptr \<Rightarrow> u64 mop" where
  "rd64 pol p = mbind (rd pol p 8) (\<lambda>bs. mret (of_le bs))"

definition wr8 :: "policy \<Rightarrow> ptr \<Rightarrow> u8 \<Rightarrow> unit mop" where
  "wr8 pol p v = wr pol p (le_bytes 1 v)"

definition wr16 :: "policy \<Rightarrow> ptr \<Rightarrow> u16 \<Rightarrow> unit mop" where
  "wr16 pol p v = wr pol p (le_bytes 2 v)"

definition wr32 :: "policy \<Rightarrow> ptr \<Rightarrow> u32 \<Rightarrow> unit mop" where
  "wr32 pol p v = wr pol p (le_bytes 4 v)"

definition wr64 :: "policy \<Rightarrow> ptr \<Rightarrow> u64 \<Rightarrow> unit mop" where
  "wr64 pol p v = wr pol p (le_bytes 8 v)"

lemma mret_apply [simp]: "mret x m = Inr (x, m)"
  by (simp add: mret_def)

lemma mbind_Inr [simp]: "f m = Inr (x, m') \<Longrightarrow> mbind f g m = g x m'"
  by (simp add: mbind_def)

lemma mbind_Inl [simp]: "f m = Inl e \<Longrightarrow> mbind f g m = Inl e"
  by (simp add: mbind_def)

text \<open>The value at a place, as a client sees it after any stores.\<close>

definition val_at :: "memory \<Rightarrow> ptr \<Rightarrow> nat \<Rightarrow> 'a::len word" where
  "val_at m p n = of_le (get_bytes (unat (snd p)) n (content (m (fst p))))"

lemma rd_in: "unat (snd p) + n \<le> bound pol m (fst p) \<Longrightarrow>
    rd pol p n m = Inr (get_bytes (unat (snd p)) n (content (m (fst p))), m)"
  by (simp add: rd_def mem_load_def)

lemma rd_out: "\<not> unat (snd p) + n \<le> bound pol m (fst p) \<Longrightarrow> rd pol p n m = Inl (trap_of pol)"
  by (simp add: rd_def mem_load_def)

lemma rd_typed_in [mem_simps]:
  "unat (snd p) + 1 \<le> bound pol m (fst p) \<Longrightarrow> rd8 pol p m = Inr (val_at m p 1, m)"
  "unat (snd p) + 2 \<le> bound pol m (fst p) \<Longrightarrow> rd16 pol p m = Inr (val_at m p 2, m)"
  "unat (snd p) + 4 \<le> bound pol m (fst p) \<Longrightarrow> rd32 pol p m = Inr (val_at m p 4, m)"
  "unat (snd p) + 8 \<le> bound pol m (fst p) \<Longrightarrow> rd64 pol p m = Inr (val_at m p 8, m)"
  by (simp_all add: rd8_def rd16_def rd32_def rd64_def mbind_def rd_in val_at_def)

lemma rd_typed_out [mem_simps]:
  "\<not> unat (snd p) + 1 \<le> bound pol m (fst p) \<Longrightarrow> rd8 pol p m = Inl (trap_of pol)"
  "\<not> unat (snd p) + 2 \<le> bound pol m (fst p) \<Longrightarrow> rd16 pol p m = Inl (trap_of pol)"
  "\<not> unat (snd p) + 4 \<le> bound pol m (fst p) \<Longrightarrow> rd32 pol p m = Inl (trap_of pol)"
  "\<not> unat (snd p) + 8 \<le> bound pol m (fst p) \<Longrightarrow> rd64 pol p m = Inl (trap_of pol)"
  by (simp_all add: rd8_def rd16_def rd32_def rd64_def mbind_def rd_out)

lemma wr_in: "unat (snd p) + length bs \<le> bound pol m (fst p) \<Longrightarrow>
    wr pol p bs m = Inr ((), write_obj m p bs)"
  by (simp add: wr_def mem_store_def)

lemma wr_out: "\<not> unat (snd p) + length bs \<le> bound pol m (fst p) \<Longrightarrow>
    wr pol p bs m = Inl (trap_of pol)"
  by (simp add: wr_def mem_store_def)

lemma wr_typed_in [mem_simps]:
  "unat (snd p) + 1 \<le> bound pol m (fst p) \<Longrightarrow> wr8 pol p b m = Inr ((), write_obj m p [b])"
  "unat (snd p) + 2 \<le> bound pol m (fst p) \<Longrightarrow> wr16 pol p h m = Inr ((), write_obj m p (le_bytes 2 h))"
  "unat (snd p) + 4 \<le> bound pol m (fst p) \<Longrightarrow> wr32 pol p w m = Inr ((), write_obj m p (le_bytes 4 w))"
  "unat (snd p) + 8 \<le> bound pol m (fst p) \<Longrightarrow> wr64 pol p d m = Inr ((), write_obj m p (le_bytes 8 d))"
  by (simp_all add: wr8_def wr16_def wr32_def wr64_def wr_in)

lemma wr_typed_out [mem_simps]:
  "\<not> unat (snd p) + 1 \<le> bound pol m (fst p) \<Longrightarrow> wr8 pol p b m = Inl (trap_of pol)"
  "\<not> unat (snd p) + 2 \<le> bound pol m (fst p) \<Longrightarrow> wr16 pol p h m = Inl (trap_of pol)"
  "\<not> unat (snd p) + 4 \<le> bound pol m (fst p) \<Longrightarrow> wr32 pol p w m = Inl (trap_of pol)"
  "\<not> unat (snd p) + 8 \<le> bound pol m (fst p) \<Longrightarrow> wr64 pol p d m = Inl (trap_of pol)"
  by (simp_all add: wr8_def wr16_def wr32_def wr64_def wr_out)

lemma val_at_write_same [mem_simps]:
  "val_at (write_obj m p [b]) p (Suc 0) = (b :: u8)"
  "val_at (write_obj m p (le_bytes 2 h)) p 2 = (h :: u16)"
  "val_at (write_obj m p (le_bytes 4 w)) p 4 = (w :: u32)"
  "val_at (write_obj m p (le_bytes 8 d)) p 8 = (d :: u64)"
proof -
  have g: "get_bytes (unat (snd p)) n (content (write_obj m p bs (fst p))) = bs"
    if "length bs = n" for bs n
    using get_write_same [of p bs m] that by simp
  show "val_at (write_obj m p [b]) p (Suc 0) = (b :: u8)"
    unfolding val_at_def by (subst g) simp_all
  show "val_at (write_obj m p (le_bytes 2 h)) p 2 = (h :: u16)"
    unfolding val_at_def by (subst g) (simp_all only: length_le_bytes c16.dec_enc)
  show "val_at (write_obj m p (le_bytes 4 w)) p 4 = (w :: u32)"
    unfolding val_at_def by (subst g) (simp_all only: length_le_bytes c32.dec_enc)
  show "val_at (write_obj m p (le_bytes 8 d)) p 8 = (d :: u64)"
    unfolding val_at_def by (subst g) (simp_all only: length_le_bytes c64.dec_enc)
qed

lemma val_at_write_other [mem_simps]:
  "disjoint_access p n q (length bs) \<Longrightarrow> val_at (write_obj m q bs) p n = val_at m p n"
  by (simp add: val_at_def get_write_other)

section \<open>CHERI removes behaviour and adds none\<close>

text \<open>
  A program under CHERI either faults or does exactly what the host does, as long as every
  object is backed at least up to its logical length. The relation is kept by every
  operation and by sequencing, so it holds of every program built from them.
\<close>

definition backed :: "memory \<Rightarrow> bool" where
  "backed m \<longleftrightarrow> (\<forall>r. logical_len (m r) \<le> backing_len (m r))"

definition preserved :: "(policy \<Rightarrow> 'a mop) \<Rightarrow> bool" where
  "preserved f \<longleftrightarrow> (\<forall>m x m'. backed m \<longrightarrow> f Cheri m = Inr (x, m') \<longrightarrow>
     f Host m = Inr (x, m') \<and> backed m')"

lemma preservedD:
  "preserved f \<Longrightarrow> backed m \<Longrightarrow> f Cheri m = Inr (x, m') \<Longrightarrow> f Host m = Inr (x, m') \<and> backed m'"
  by (simp add: preserved_def)

lemma backed_write_obj [simp]: "backed (write_obj m p bs) = backed m"
  by (simp add: backed_def)

lemma preserved_mret [intro!]: "preserved (\<lambda>pol. mret x)"
  by (simp add: preserved_def)

lemma preserved_mbind [intro]:
  assumes "preserved f" and "\<And>x. preserved (\<lambda>pol. g pol x)"
  shows "preserved (\<lambda>pol. mbind (f pol) (g pol))"
proof (unfold preserved_def, intro allI impI)
  fix m x m'
  assume m: "backed m" and run: "mbind (f Cheri) (g Cheri) m = Inr (x, m')"
  then obtain y m1 where f: "f Cheri m = Inr (y, m1)" and g: "g Cheri y m1 = Inr (x, m')"
    by (auto simp: mbind_def split: sum.splits)
  from assms(1) m f have "f Host m = Inr (y, m1)" and "backed m1"
    by (auto dest: preservedD)
  moreover from assms(2) [of y] \<open>backed m1\<close> g have "g Host y m1 = Inr (x, m') \<and> backed m'"
    by (rule preservedD)
  ultimately show "mbind (f Host) (g Host) m = Inr (x, m') \<and> backed m'"
    by simp
qed

lemma preserved_rd [intro!]: "preserved (\<lambda>pol. rd pol p n)"
  unfolding preserved_def
proof (intro allI impI)
  fix m x m'
  assume m: "backed m" and r: "rd Cheri p n m = Inr (x, m')"
  then have "unat (snd p) + n \<le> logical_len (m (fst p))"
    by (auto simp: rd_def mem_load_def bound.simps split: if_splits)
  moreover from m have "logical_len (m (fst p)) \<le> backing_len (m (fst p))"
    by (simp add: backed_def)
  ultimately show "rd Host p n m = Inr (x, m') \<and> backed m'"
    using m r by (auto simp: rd_def mem_load_def bound.simps)
qed

lemma preserved_wr [intro!]: "preserved (\<lambda>pol. wr pol p bs)"
  unfolding preserved_def
proof (intro allI impI)
  fix m x m'
  assume m: "backed m" and r: "wr Cheri p bs m = Inr (x, m')"
  then have "unat (snd p) + length bs \<le> logical_len (m (fst p))"
    by (auto simp: wr_def mem_store_def bound.simps split: if_splits)
  moreover from m have "logical_len (m (fst p)) \<le> backing_len (m (fst p))"
    by (simp add: backed_def)
  ultimately show "wr Host p bs m = Inr (x, m') \<and> backed m'"
    using m r by (auto simp: wr_def mem_store_def bound.simps)
qed

lemma preserved_typed [intro!]:
  "preserved (\<lambda>pol. rd8 pol p)" "preserved (\<lambda>pol. rd16 pol p)"
  "preserved (\<lambda>pol. rd32 pol p)" "preserved (\<lambda>pol. rd64 pol p)"
  "preserved (\<lambda>pol. wr8 pol p b)" "preserved (\<lambda>pol. wr16 pol p h)"
  "preserved (\<lambda>pol. wr32 pol p w)" "preserved (\<lambda>pol. wr64 pol p d)"
  by (auto simp: rd8_def rd16_def rd32_def rd64_def wr8_def wr16_def wr32_def wr64_def
      intro: preserved_mbind)

lemma preserved_if [intro]:
  "preserved f \<Longrightarrow> preserved g \<Longrightarrow> preserved (\<lambda>pol. if b then f pol else g pol)"
  by (cases b) auto

end
