(* ===== verification/Fixtures.thy ===== *)
theory Fixtures
  imports Object_Memory
begin

text \<open>
  The C programs the suites compile and run: the fourteen generated-BPF fixtures of
  \<open>workspace/bpf/\<close>, the loader payload, and the small load helpers of the reproduction
  programs. Each function takes the memory policy it runs under, the pointers it is given,
  and, where it has local arrays, the places the compiler put them in the eBPF stack.
  \<open>ctx->a\<close> and \<open>ctx->b\<close> are the 8-byte fields at offsets 0 and 8; \<open>words[i]\<close> is the
  8-byte access at \<open>8 * i\<close> past the pointer, in 64-bit address arithmetic; an \<open>int\<close>
  result is its 32-bit pattern.
\<close>

section \<open>Pointer arithmetic of the fixtures\<close>

definition ctx_a :: "ptr \<Rightarrow> ptr" where "ctx_a ctx = padd ctx 0"
definition ctx_b :: "ptr \<Rightarrow> ptr" where "ctx_b ctx = padd ctx 8"

definition word_ptr :: "ptr \<Rightarrow> u64 \<Rightarrow> ptr" where
  "word_ptr words i = padd words (8 * i)"

lemmas ptr_simps = ctx_a_def ctx_b_def word_ptr_def padd_def

section \<open>Stack fixtures\<close>

definition stack_array_foo :: "policy \<Rightarrow> ptr \<Rightarrow> ptr \<Rightarrow> u32 mop" where
  "stack_array_foo pol slots ctx =
     mbind (rd64 pol (ctx_a ctx)) (\<lambda>a.
     let index = ucast (a AND 7) :: u32 in
     mbind (wr8 pol (padd slots (ucast index)) 0x5a) (\<lambda>_.
     mbind (rd8 pol (padd slots (ucast index))) (\<lambda>s.
     mbind (rd64 pol (ctx_b ctx)) (\<lambda>b.
     mbind (rd64 pol (ctx_a ctx)) (\<lambda>a'.
     mret (ucast s + ucast (drop_bit 8 (b - a'))))))))"

definition branch_stack_foo :: "policy \<Rightarrow> ptr \<Rightarrow> ptr \<Rightarrow> u32 mop" where
  "branch_stack_foo pol slot ctx =
     mbind (rd64 pol (ctx_a ctx)) (\<lambda>a.
     mbind (if a AND 1 \<noteq> 0 then wr8 pol (padd slot 3) 0x11
            else wr8 pol (padd slot 3) 0x22) (\<lambda>_.
     mbind (rd8 pol (padd slot 3)) (\<lambda>s.
     mbind (rd64 pol (ctx_b ctx)) (\<lambda>b.
     mret (ucast s + ucast (drop_bit 12 b))))))"

definition stack_widths_foo :: "policy \<Rightarrow> ptr \<Rightarrow> ptr \<Rightarrow> ptr \<Rightarrow> ptr \<Rightarrow> u32 mop" where
  "stack_widths_foo pol wide word half ctx =
     mbind (rd64 pol (ctx_a ctx)) (\<lambda>a.
     mbind (wr64 pol wide a) (\<lambda>_.
     mbind (rd64 pol (ctx_b ctx)) (\<lambda>b.
     mbind (wr32 pol word (ucast b)) (\<lambda>_.
     mbind (wr16 pol half 0x1234) (\<lambda>_.
     mbind (rd64 pol wide) (\<lambda>w.
     mbind (rd32 pol word) (\<lambda>d.
     mbind (rd16 pol half) (\<lambda>h.
     mret (ucast (drop_bit 8 w) + drop_bit 8 d + (ucast h AND 0xff))))))))))"

definition stack_oob_foo :: "policy \<Rightarrow> ptr \<Rightarrow> ptr \<Rightarrow> u32 mop" where
  "stack_oob_foo pol slots ctx =
     mbind (rd64 pol (ctx_a ctx)) (\<lambda>a.
     let index = ucast a :: u32 in
     mbind (wr8 pol (padd slots (ucast index)) 0x5a) (\<lambda>_.
     mbind (rd8 pol (padd slots (ucast index))) (\<lambda>s.
     mret (ucast s))))"

section \<open>Context fixtures\<close>

definition context_in_bounds_foo :: "policy \<Rightarrow> ptr \<Rightarrow> u64 mop" where
  "context_in_bounds_foo pol ctx =
     mbind (rd64 pol (word_ptr ctx 0)) (\<lambda>w0.
     mbind (rd64 pol (word_ptr ctx 1)) (\<lambda>w1.
     mret (w0 + w1)))"

definition branch_context_in_bounds_foo :: "policy \<Rightarrow> ptr \<Rightarrow> u64 mop" where
  "branch_context_in_bounds_foo pol ctx =
     mbind (rd64 pol (ctx_a ctx)) (\<lambda>a.
     if a = 0x1000 then rd64 pol (word_ptr ctx 1) else rd64 pol (word_ptr ctx 0))"

definition arithmetic_context_in_bounds_foo :: "policy \<Rightarrow> ptr \<Rightarrow> u64 mop" where
  "arithmetic_context_in_bounds_foo pol ctx =
     mbind (rd64 pol (ctx_a ctx)) (\<lambda>a.
     let index = drop_bit 12 a AND 1 in
     rd64 pol (word_ptr ctx index))"

definition context_oob_foo :: "policy \<Rightarrow> ptr \<Rightarrow> u64 mop" where
  "context_oob_foo pol ctx = rd64 pol (word_ptr ctx 512)"

definition branch_context_oob_foo :: "policy \<Rightarrow> ptr \<Rightarrow> u64 mop" where
  "branch_context_oob_foo pol ctx =
     mbind (rd64 pol (ctx_a ctx)) (\<lambda>a.
     if a = 0x1000 then rd64 pol (word_ptr ctx 512) else rd64 pol (ctx_b ctx))"

definition arithmetic_context_oob_foo :: "policy \<Rightarrow> ptr \<Rightarrow> u64 mop" where
  "arithmetic_context_oob_foo pol ctx =
     mbind (rd64 pol (ctx_a ctx)) (\<lambda>a.
     let index = drop_bit 12 a in
     rd64 pol (word_ptr ctx (index + 511)))"

section \<open>Helper fixtures\<close>

text \<open>
  \<open>map_lookup_value\<close> is the helper the harness registers; the fixtures receive it as a
  function from pointer to pointer. The harnesses register \<open>map_lookup_helper\<close>, which
  ignores its five scalar arguments and returns the memory pointer of the VM. Its C return
  type is a 64-bit integer, which on purecap drops the capability; the harnesses configure
  the helper as the map-value root (\<open>ubpf_cheri_set_map_value_helper_index\<close>), for which the
  backend uses the bounded capability in place of the integer. The definition is the
  helper as a program sees it under that configuration.
\<close>

definition map_lookup_helper :: "u64 \<Rightarrow> u64 \<Rightarrow> u64 \<Rightarrow> u64 \<Rightarrow> u64 \<Rightarrow> ptr \<Rightarrow> ptr" where
  "map_lookup_helper p0 p1 p2 p3 p4 ctx = ctx"

definition helper_map_read_in_bounds_foo :: "policy \<Rightarrow> (ptr \<Rightarrow> ptr) \<Rightarrow> ptr \<Rightarrow> u64 mop" where
  "helper_map_read_in_bounds_foo pol map_lookup_value ctx =
     (let bpf_map = map_lookup_value ctx in rd64 pol (word_ptr bpf_map 1))"

definition helper_map_write_in_bounds_foo :: "policy \<Rightarrow> (ptr \<Rightarrow> ptr) \<Rightarrow> ptr \<Rightarrow> u64 mop" where
  "helper_map_write_in_bounds_foo pol map_lookup_value ctx =
     (let bpf_map = map_lookup_value ctx in
      mbind (wr64 pol (word_ptr bpf_map 1) 0x5a) (\<lambda>_.
      rd64 pol (word_ptr bpf_map 1)))"

definition helper_map_read_oob_foo :: "policy \<Rightarrow> (ptr \<Rightarrow> ptr) \<Rightarrow> ptr \<Rightarrow> u64 mop" where
  "helper_map_read_oob_foo pol map_lookup_value ctx =
     (let bpf_map = map_lookup_value ctx in rd64 pol (word_ptr bpf_map 512))"

definition helper_map_write_oob_foo :: "policy \<Rightarrow> (ptr \<Rightarrow> ptr) \<Rightarrow> ptr \<Rightarrow> u64 mop" where
  "helper_map_write_oob_foo pol map_lookup_value ctx =
     (let bpf_map = map_lookup_value ctx in
      mbind (wr64 pol (word_ptr bpf_map 512) 0x5a) (\<lambda>_. mret 0))"

section \<open>Load helpers of the reproduction programs\<close>

definition loader_jit_load_u64 :: "policy \<Rightarrow> ptr \<Rightarrow> u64 mop" where
  "loader_jit_load_u64 pol p = rd64 pol (word_ptr p 1)"

definition loader_jit_load_u64_oob :: "policy \<Rightarrow> ptr \<Rightarrow> u64 mop" where
  "loader_jit_load_u64_oob pol p = rd64 pol (padd p 4096)"

definition elf_c_load_ref :: "policy \<Rightarrow> ptr \<Rightarrow> u64 mop" where
  "elf_c_load_ref pol p = rd64 pol (word_ptr p 1)"

definition ctx_load_u64_helper :: "policy \<Rightarrow> ptr \<Rightarrow> u64 \<Rightarrow> u64 \<Rightarrow> u64 mop" where
  "ctx_load_u64_helper pol p len offset = rd64 pol (padd p offset)"

lemmas fixture_defs =
  stack_array_foo_def branch_stack_foo_def stack_widths_foo_def stack_oob_foo_def
  context_in_bounds_foo_def branch_context_in_bounds_foo_def
  arithmetic_context_in_bounds_foo_def context_oob_foo_def branch_context_oob_foo_def
  arithmetic_context_oob_foo_def helper_map_read_in_bounds_foo_def
  helper_map_write_in_bounds_foo_def helper_map_read_oob_foo_def helper_map_write_oob_foo_def

section \<open>Every fixture, under CHERI and on the host\<close>

lemma fixtures_preserved:
  "preserved (\<lambda>pol. stack_array_foo pol slots ctx)"
  "preserved (\<lambda>pol. branch_stack_foo pol slots ctx)"
  "preserved (\<lambda>pol. stack_widths_foo pol wide word half ctx)"
  "preserved (\<lambda>pol. stack_oob_foo pol slots ctx)"
  "preserved (\<lambda>pol. context_in_bounds_foo pol ctx)"
  "preserved (\<lambda>pol. branch_context_in_bounds_foo pol ctx)"
  "preserved (\<lambda>pol. arithmetic_context_in_bounds_foo pol ctx)"
  "preserved (\<lambda>pol. context_oob_foo pol ctx)"
  "preserved (\<lambda>pol. branch_context_oob_foo pol ctx)"
  "preserved (\<lambda>pol. arithmetic_context_oob_foo pol ctx)"
  "preserved (\<lambda>pol. helper_map_read_in_bounds_foo pol look ctx)"
  "preserved (\<lambda>pol. helper_map_write_in_bounds_foo pol look ctx)"
  "preserved (\<lambda>pol. helper_map_read_oob_foo pol look ctx)"
  "preserved (\<lambda>pol. helper_map_write_oob_foo pol look ctx)"
  unfolding fixture_defs Let_def
  by (intro preserved_mbind preserved_typed preserved_mret preserved_if)+

end
