(* ===== verification/Harness_Memory.thy ===== *)
theory Harness_Memory
  imports Object_Memory
begin

text \<open>
  The memory the harnesses prepare before a call: two known words at the start of the
  object the program receives and, on the host baseline, a sentinel word at byte 4096 of
  the backing allocation, which an out-of-bounds access of the fixtures reaches.
\<close>

section \<open>The purecap preparation: an array of words\<close>

text \<open>A store through the array capability: out of range it traps.\<close>

definition arr_set :: "u64 list \<Rightarrow> nat \<Rightarrow> u64 \<Rightarrow> fault + u64 list" where
  "arr_set ws i v = (if i < length ws then Inr (ws[i := v]) else Inl BoundsTrap)"

function zero_words :: "nat \<Rightarrow> nat \<Rightarrow> u64 list \<Rightarrow> fault + u64 list" where
  "zero_words i n ws =
     (if i < n then case arr_set ws i 0 of Inl e \<Rightarrow> Inl e | Inr ws' \<Rightarrow> zero_words (Suc i) n ws'
      else Inr ws)"
  by pat_completeness auto
termination
  by (relation "measure (\<lambda>(i, n, ws). n - i)") auto

declare zero_words.simps [simp del]

definition prepare_words :: "u64 list \<Rightarrow> nat \<Rightarrow> fault + u64 list" where
  "prepare_words ws word_count =
     (case zero_words 0 word_count ws of Inl e \<Rightarrow> Inl e
      | Inr ws1 \<Rightarrow> (case arr_set ws1 0 0x1000 of Inl e \<Rightarrow> Inl e
      | Inr ws2 \<Rightarrow> arr_set ws2 1 0x2000))"

lemma zero_words_fits:
  "i \<le> n \<Longrightarrow> n \<le> length ws \<Longrightarrow>
   zero_words i n ws = Inr (take i ws @ replicate (n - i) 0 @ drop n ws)"
proof (induction i n ws rule: zero_words.induct)
  case (1 i n ws)
  show ?case
  proof (cases "i < n")
    case True
    then have i: "i < length ws" using "1.prems" by simp
    have ih: "zero_words (Suc i) n (ws[i := 0]) =
        Inr (take (Suc i) (ws[i := 0]) @ replicate (n - Suc i) 0 @ drop n (ws[i := 0]))"
      by (rule "1.IH" [OF True]) (use True i "1.prems" in \<open>simp_all add: arr_set_def\<close>)
    have "zero_words i n ws = zero_words (Suc i) n (ws[i := 0])"
      using True i by (simp add: zero_words.simps [of i] arr_set_def)
    also have "\<dots> = Inr (take i ws @ (0 # replicate (n - Suc i) 0) @ drop n ws)"
      using True i by (simp add: ih take_Suc_conv_app_nth)
    also have "0 # replicate (n - Suc i) (0 :: u64) = replicate (n - i) 0"
      using True by (metis Suc_diff_Suc replicate_Suc)
    finally show ?thesis .
  next
    case False
    with "1.prems" have "i = n" by simp
    then show ?thesis by (simp add: zero_words.simps [of n])
  qed
qed

lemma prepare_words_fits:
  assumes "2 \<le> n" and "n \<le> length ws"
  shows "prepare_words ws n = Inr (0x1000 # 0x2000 # replicate (n - 2) 0 @ drop n ws)"
proof -
  obtain k where n: "n = Suc (Suc k)" using assms(1) by (auto simp: le_iff_add)
  have "zero_words 0 n ws = Inr (replicate n 0 @ drop n ws)"
    using zero_words_fits [of 0 n ws] assms by simp
  then show ?thesis by (simp add: prepare_words_def arr_set_def n)
qed

section \<open>The host preparation: a byte allocation\<close>

definition HOST_OOB_SENTINEL :: u64 where "HOST_OOB_SENTINEL = 0xfeedfacecafebeef"
definition HOST_CONTEXT_LOGICAL_BYTES :: nat where "HOST_CONTEXT_LOGICAL_BYTES = 16"
definition HOST_CONTEXT_BACKING_BYTES :: nat where "HOST_CONTEXT_BACKING_BYTES = 8192"
definition HOST_MAP_LOGICAL_BYTES :: nat where "HOST_MAP_LOGICAL_BYTES = 16"
definition HOST_MAP_BACKING_BYTES :: nat where "HOST_MAP_BACKING_BYTES = 8192"

lemmas host_sizes =
  HOST_CONTEXT_LOGICAL_BYTES_def HOST_CONTEXT_BACKING_BYTES_def
  HOST_MAP_LOGICAL_BYTES_def HOST_MAP_BACKING_BYTES_def

definition memset0 :: "nat \<Rightarrow> (nat \<Rightarrow> u8) \<Rightarrow> nat \<Rightarrow> u8" where
  "memset0 len c = (\<lambda>i. if i < len then 0 else c i)"

definition put_word :: "nat \<Rightarrow> u64 \<Rightarrow> (nat \<Rightarrow> u8) \<Rightarrow> nat \<Rightarrow> u8" where
  "put_word i w c = put_bytes (8 * i) (le_bytes 8 w) c"

definition prepare_backing :: "nat \<Rightarrow> (nat \<Rightarrow> u8) \<Rightarrow> nat \<Rightarrow> u8" where
  "prepare_backing len c =
     (let c0 = memset0 len c;
          c1 = put_word 0 0x1000 c0;
          c2 = put_word 1 0x2000 c1
      in if 4096 + 8 \<le> len then put_word 512 HOST_OOB_SENTINEL c2 else c2)"

definition prepare_map :: "nat \<Rightarrow> (nat \<Rightarrow> u8) \<Rightarrow> nat \<Rightarrow> u8" where
  "prepare_map len c =
     (let c0 = memset0 len c;
          c1 = put_word 0 0x1000 c0;
          c2 = put_word 1 0x2000 c1
      in if 4096 + 8 \<le> len then put_word 512 HOST_OOB_SENTINEL c2 else c2)"

definition word_in :: "(nat \<Rightarrow> u8) \<Rightarrow> nat \<Rightarrow> u64" where
  "word_in c i = of_le (get_bytes (8 * i) 8 c)"

lemma word_in_put [simp]: "word_in (put_word i w c) j = (if i = j then w else word_in c j)"
proof (cases "i = j")
  case True
  then show ?thesis by (simp add: word_in_def put_word_def c64.dec_stored)
next
  case False
  then have "8 * j + 8 \<le> 8 * i \<or> 8 * i + 8 \<le> 8 * j" by arith
  then show ?thesis using False
    by (simp add: word_in_def put_word_def get_put_other)
qed

lemma of_le_zeros: "of_le (replicate n 0) = (0 :: 'a::len word)"
  by (induction n) simp_all

lemma get_bytes_zeros: "(\<And>i. off \<le> i \<Longrightarrow> i < off + n \<Longrightarrow> c i = 0) \<Longrightarrow> get_bytes off n c = replicate n 0"
  by (induction n arbitrary: off) simp_all

lemma word_in_memset0: "8 * i + 8 \<le> len \<Longrightarrow> word_in (memset0 len c) i = 0"
  unfolding word_in_def
  by (subst get_bytes_zeros) (auto simp: memset0_def of_le_zeros)

text \<open>The words a prepared allocation holds: the two known words, the sentinel, zeros.\<close>

lemma prepare_backing_words:
  assumes "4104 \<le> len" and "8 * i + 8 \<le> len"
  shows "word_in (prepare_backing len c) i =
    (if i = 0 then 0x1000 else if i = 1 then 0x2000
     else if i = 512 then HOST_OOB_SENTINEL else 0)"
  using assms by (simp add: prepare_backing_def word_in_memset0)

lemma prepare_backing_small:
  assumes "len < 4104" and "8 * i + 8 \<le> len"
  shows "word_in (prepare_backing len c) i = (if i = 0 then 0x1000 else if i = 1 then 0x2000 else 0)"
  using assms by (simp add: prepare_backing_def word_in_memset0)

lemma prepare_map_backing: "prepare_map = prepare_backing"
  by (simp add: prepare_map_def prepare_backing_def fun_eq_iff)

lemma prepare_backing_outside:
  "16 \<le> len \<Longrightarrow> len \<le> i \<Longrightarrow> prepare_backing len c i = c i"
  by (simp add: prepare_backing_def put_word_def memset0_def Let_def)

section \<open>The memory of a call\<close>

text \<open>
  \<open>words_content\<close> is a word array as bytes. A purecap call passes the two-word array with
  exact bounds; a host call passes the 8192-byte allocation with a logical length of 16.
  The stack object is whatever the VM provides: its size and its content are parameters.
\<close>

definition words_content :: "u64 list \<Rightarrow> nat \<Rightarrow> u8" where
  "words_content ws = (\<lambda>i. if i < 8 * length ws then le_bytes 8 (ws ! (i div 8)) ! (i mod 8) else 0)"

definition cheri_memory :: "u64 list \<Rightarrow> object \<Rightarrow> memory" where
  "cheri_memory ws stack r =
     (case r of
        MemObj \<Rightarrow> \<lparr>logical_len = 8 * length ws, backing_len = 8 * length ws, content = words_content ws\<rparr>
      | StackObj \<Rightarrow> stack)"

definition host_memory :: "nat \<Rightarrow> nat \<Rightarrow> (nat \<Rightarrow> u8) \<Rightarrow> object \<Rightarrow> memory" where
  "host_memory logical backing c stack r =
     (case r of
        MemObj \<Rightarrow> \<lparr>logical_len = logical, backing_len = backing, content = c\<rparr>
      | StackObj \<Rightarrow> stack)"

lemma get_bytes_nth: "get_bytes off n c = map (\<lambda>i. c (off + i)) [0..<n]"
proof (induction n arbitrary: off)
  case 0
  then show ?case by simp
next
  case (Suc n)
  have "map (\<lambda>i. c (off + i)) [0..<Suc n] = c off # map (\<lambda>i. c (Suc off + i)) [0..<n]"
    by (simp add: upt_conv_Cons map_Suc_upt [symmetric] del: upt_Suc)
  with Suc show ?case by simp
qed

lemma word_in_words_content:
  assumes "i < length ws"
  shows "word_in (words_content ws) i = ws ! i"
proof -
  have "get_bytes (8 * i) 8 (words_content ws) = map (\<lambda>k. words_content ws (8 * i + k)) [0..<8]"
    by (rule get_bytes_nth)
  also have "\<dots> = map (\<lambda>k. le_bytes 8 (ws ! i) ! k) [0..<8]"
  proof (rule map_cong [OF refl])
    fix k assume "k \<in> set [0..<(8 :: nat)]"
    then have k: "k < 8" by simp
    then have "8 * i + k < 8 * length ws" using assms by arith
    moreover have "(8 * i + k) div 8 = i" and "(8 * i + k) mod 8 = k" using k by simp_all
    ultimately show "words_content ws (8 * i + k) = le_bytes 8 (ws ! i) ! k"
      unfolding words_content_def by presburger
  qed
  also have "\<dots> = le_bytes 8 (ws ! i)"
    by (rule nth_equalityI) (simp_all)
  finally show ?thesis
    by (simp only: word_in_def c64.dec_enc)
qed

lemma val_at_cheri_memory [mem_simps]:
  "val_at (cheri_memory ws stack) (MemObj, off) 8 = word_in (words_content ws) (unat off div 8)"
  if "8 dvd unat off"
  using that by (simp add: val_at_def cheri_memory_def word_in_def)

lemma val_at_host_memory [mem_simps]:
  "val_at (host_memory l bk c stack) (MemObj, off) 8 = word_in c (unat off div 8)"
  if "8 dvd unat off"
  using that by (simp add: val_at_def host_memory_def word_in_def)

lemma bound_memories [mem_simps]:
  "bound Cheri (cheri_memory ws stack) MemObj = 8 * length ws"
  "bound pol (cheri_memory ws stack) StackObj = (case pol of Cheri \<Rightarrow> logical_len stack | Host \<Rightarrow> backing_len stack)"
  "bound Host (host_memory l bk c stack) MemObj = bk"
  "bound Cheri (host_memory l bk c stack) MemObj = l"
  "bound pol (host_memory l bk c stack) StackObj = (case pol of Cheri \<Rightarrow> logical_len stack | Host \<Rightarrow> backing_len stack)"
  by (cases pol; simp add: cheri_memory_def host_memory_def bound.simps)+

end
