(* ===== verification/Fixture_Props.thy ===== *)
theory Fixture_Props
  imports Fixtures Harness_Memory
begin

text \<open>
  What the fixtures compute and when they fault, for every content of the memory: the
  positive controls never leave their objects, whatever the context holds, and each
  negative fixture leaves its object exactly under the stated condition.
\<close>

definition mem_ptr :: ptr where "mem_ptr = (MemObj, 0)"

definition fld_a :: "memory \<Rightarrow> u64" where "fld_a m = val_at m (MemObj, 0) 8"
definition fld_b :: "memory \<Rightarrow> u64" where "fld_b m = val_at m (MemObj, 8) 8"

lemma unat_plus_le:
  "unat x + unat y < 2 ^ 64 \<Longrightarrow> unat (x + y :: u64) = unat x + unat y"
  by (simp add: unat_word_ariths)

lemma unat_ucast_32_64 [simp]: "unat (ucast (w :: u32) :: u64) = unat w"
proof -
  have "unat w < 2 ^ 64" using unsigned_less [of w, where 'a = nat] by simp
  then show ?thesis by (simp add: unsigned_ucast_eq take_bit_nat_eq_self)
qed

lemma ctx_reads [simp]:
  "16 \<le> bound pol m MemObj \<Longrightarrow> rd64 pol (ctx_a mem_ptr) m = Inr (fld_a m, m)"
  "16 \<le> bound pol m MemObj \<Longrightarrow> rd64 pol (ctx_b mem_ptr) m = Inr (fld_b m, m)"
  by (simp_all add: mem_ptr_def fld_a_def fld_b_def ptr_simps mem_simps)

lemma word_reads:
  "16 \<le> bound pol m MemObj \<Longrightarrow> rd64 pol (word_ptr mem_ptr 0) m = Inr (fld_a m, m)"
  "16 \<le> bound pol m MemObj \<Longrightarrow> rd64 pol (word_ptr mem_ptr 1) m = Inr (fld_b m, m)"
  by (simp_all add: mem_ptr_def fld_a_def fld_b_def ptr_simps mem_simps)

lemma fields_after_stack_write [simp]:
  "fld_a (write_obj m (StackObj, off) bs) = fld_a m"
  "fld_b (write_obj m (StackObj, off) bs) = fld_b m"
  by (simp_all add: fld_a_def fld_b_def mem_simps disjoint_access_def)

section \<open>Stack fixtures\<close>

lemma and_7_less: "unat (ucast (a AND 7 :: u64) :: u32) < 8"
proof -
  have "a AND 7 = take_bit 3 a"
    by (simp add: take_bit_eq_mask mask_eq_exp_minus_1)
  then have "unat (a AND 7) < 8"
    by (simp add: unsigned_take_bit_eq) (simp add: take_bit_nat_def)
  then show ?thesis by (simp add: unsigned_ucast_eq take_bit_nat_def)
qed

lemma stack_array_run:
  assumes "16 \<le> bound pol m MemObj"
    and "unat off + 40 \<le> bound pol m StackObj" and "unat off + 40 \<le> 2 ^ 64"
  shows "\<exists>m'. stack_array_foo pol (StackObj, off) mem_ptr m =
    Inr (0x5a + ucast (drop_bit 8 (fld_b m - fld_a m)), m')"
proof -
  define p where "p = padd (StackObj, off) (ucast (ucast (fld_a m AND 7) :: u32))"
  have "unat (snd p) = unat off + unat (ucast (fld_a m AND 7) :: u32)"
    using assms(3) and_7_less [of "fld_a m"] by (simp add: p_def padd_def unat_plus_le)
  then have "unat (snd p) + 1 \<le> bound pol m (fst p)"
    using assms(2) and_7_less [of "fld_a m"] by (simp add: p_def padd_def)
  moreover have "\<exists>off'. p = (StackObj, off')" by (simp add: p_def padd_def)
  ultimately show ?thesis
    using assms(1)
    by (auto simp: stack_array_foo_def mem_simps p_def [symmetric])
qed

text \<open>C25: \<open>stack_array\<close> is safe for every context: the index is masked to three bits, so the
  byte store and load stay inside the 40-byte array wherever the compiler places it, and
  the result is \<open>0x5a + ((b - a) >> 8)\<close> truncated to 32 bits.\<close>
theorem stack_array_result:
  assumes "16 \<le> bound pol m MemObj"
    and "unat off + 40 \<le> bound pol m StackObj" and "unat off + 40 \<le> 2 ^ 64"
  shows "\<exists>m'. stack_array_foo pol (StackObj, off) mem_ptr m =
    Inr (0x5a + ucast (drop_bit 8 (fld_b m - fld_a m)), m')"
  using assms by (rule stack_array_run)

theorem stack_array_result_witness:
  "\<exists>m'. stack_array_foo Cheri (StackObj, 4056) mem_ptr
     (cheri_memory [0x1000, 0x2000] \<lparr>logical_len = 4096, backing_len = 4096, content = (\<lambda>_. 0)\<rparr>) =
   Inr (0x5a + ucast (drop_bit 8
     (fld_b (cheri_memory [0x1000, 0x2000] \<lparr>logical_len = 4096, backing_len = 4096, content = (\<lambda>_. 0)\<rparr>) -
      fld_a (cheri_memory [0x1000, 0x2000] \<lparr>logical_len = 4096, backing_len = 4096, content = (\<lambda>_. 0)\<rparr>))), m')"
  by (rule stack_array_result) (simp_all add: mem_simps)

lemma branch_stack_result:
  assumes "16 \<le> bound pol m MemObj"
    and "unat off + 8 \<le> bound pol m StackObj" and "unat off + 8 \<le> 2 ^ 64"
  shows "\<exists>m'. branch_stack_foo pol (StackObj, off) mem_ptr m =
    Inr ((if fld_a m AND 1 \<noteq> 0 then 0x11 else 0x22) + ucast (drop_bit 12 (fld_b m)), m')"
proof -
  have "unat (off + 3) = unat off + 3" using assms(3) by (simp add: unat_plus_le)
  then have "padd (StackObj, off) 3 = (StackObj, off + 3)"
    and "unat (off + 3) + 1 \<le> bound pol m StackObj"
    using assms(2) by (simp_all add: padd_def)
  then show ?thesis
    using assms(1) by (auto simp: branch_stack_foo_def mem_simps)
qed

lemma stack_widths_result:
  assumes "16 \<le> bound pol m MemObj"
    and "unat wide + 8 \<le> bound pol m StackObj" and "unat word + 4 \<le> bound pol m StackObj"
    and "unat half + 2 \<le> bound pol m StackObj"
    and "disjoint_access (StackObj, wide) 8 (StackObj, word) 4"
    and "disjoint_access (StackObj, wide) 8 (StackObj, half) 2"
    and "disjoint_access (StackObj, word) 4 (StackObj, half) 2"
  shows "\<exists>m'. stack_widths_foo pol (StackObj, wide) (StackObj, word) (StackObj, half) mem_ptr m =
    Inr (ucast (drop_bit 8 (fld_a m)) + drop_bit 8 (ucast (fld_b m)) + 0x34, m')"
  using assms by (auto simp: stack_widths_foo_def mem_simps)

text \<open>The other two stack controls are safe for every context as well, and compute
  what their C text says: \<open>branch_stack\<close> selects \<open>0x11\<close> or \<open>0x22\<close> by the low bit of \<open>a\<close>
  and adds \<open>b >> 12\<close>; \<open>stack_widths\<close> reads back exactly the 64-, 32- and 16-bit values it
  stored in its three separate locals.\<close>
lemma stack_controls_result:
  assumes "16 \<le> bound pol m MemObj"
    and "unat slot + 8 \<le> bound pol m StackObj" and "unat slot + 8 \<le> 2 ^ 64"
    and "unat wide + 8 \<le> bound pol m StackObj" and "unat word + 4 \<le> bound pol m StackObj"
    and "unat half + 2 \<le> bound pol m StackObj"
    and "disjoint_access (StackObj, wide) 8 (StackObj, word) 4"
    and "disjoint_access (StackObj, wide) 8 (StackObj, half) 2"
    and "disjoint_access (StackObj, word) 4 (StackObj, half) 2"
  shows "(\<exists>m'. branch_stack_foo pol (StackObj, slot) mem_ptr m =
      Inr ((if fld_a m AND 1 \<noteq> 0 then 0x11 else 0x22) + ucast (drop_bit 12 (fld_b m)), m')) \<and>
    (\<exists>m'. stack_widths_foo pol (StackObj, wide) (StackObj, word) (StackObj, half) mem_ptr m =
      Inr (ucast (drop_bit 8 (fld_a m)) + drop_bit 8 (ucast (fld_b m)) + 0x34, m'))"
  using branch_stack_result [OF assms(1-3)] stack_widths_result [OF assms(1,4-9)] by blast

lemma ex_stack_bounds:
  "16 \<le> bound Cheri (cheri_memory [a, b] \<lparr>logical_len = 4096, backing_len = 4096, content = c\<rparr>) MemObj"
  "bound Cheri (cheri_memory [a, b] \<lparr>logical_len = 4096, backing_len = 4096, content = c\<rparr>) StackObj = 4096"
  by (simp_all add: mem_simps)

lemma stack_oob_run:
  assumes "16 \<le> bound pol m MemObj" and "unat off + 2 ^ 32 \<le> 2 ^ 64"
  shows "if unat off + unat (ucast (fld_a m) :: u32) < bound pol m StackObj
    then \<exists>m'. stack_oob_foo pol (StackObj, off) mem_ptr m = Inr (0x5a, m')
    else stack_oob_foo pol (StackObj, off) mem_ptr m = Inl (trap_of pol)"
proof -
  let ?i = "ucast (fld_a m) :: u32"
  have "unat ?i < 2 ^ 32" using unsigned_less [of ?i, where 'a = nat] by simp
  then have "unat (off + ucast ?i) = unat off + unat ?i"
    using assms(2) by (simp add: unat_plus_le)
  moreover have "padd (StackObj, off) (ucast ?i) = (StackObj, off + ucast ?i)"
    by (simp add: padd_def)
  ultimately show ?thesis
    using assms(1) by (auto simp: stack_oob_foo_def mem_simps Let_def)
qed

text \<open>C26: \<open>stack_oob\<close> uses the context word as an unchecked 32-bit index. It faults
  exactly when \<open>slots + index\<close> reaches the end of the stack object, and otherwise stores
  and returns \<open>0x5a\<close>, also when the index has left the 40-byte array but not the stack.\<close>
theorem stack_oob_result:
  assumes "16 \<le> bound pol m MemObj" and "unat off + 2 ^ 32 \<le> 2 ^ 64"
  shows "if unat off + unat (ucast (fld_a m) :: u32) < bound pol m StackObj
    then \<exists>m'. stack_oob_foo pol (StackObj, off) mem_ptr m = Inr (0x5a, m')
    else stack_oob_foo pol (StackObj, off) mem_ptr m = Inl (trap_of pol)"
  using assms by (rule stack_oob_run)

theorem stack_oob_result_witness:
  "let m = cheri_memory [0x1000, 0x2000] \<lparr>logical_len = 4096, backing_len = 4096, content = (\<lambda>_. 0)\<rparr> in
   if unat (4056 :: u64) + unat (ucast (fld_a m) :: u32) < bound Cheri m StackObj
    then \<exists>m'. stack_oob_foo Cheri (StackObj, 4056) mem_ptr m = Inr (0x5a, m')
    else stack_oob_foo Cheri (StackObj, 4056) mem_ptr m = Inl (trap_of Cheri)"
  unfolding Let_def by (rule stack_oob_result) (simp_all add: mem_simps)

section \<open>Context fixtures\<close>

lemma and_1_cases: "drop_bit 12 (a :: u64) AND 1 = (if bit a 12 then 1 else 0)"
  by (auto intro!: bit_word_eqI simp: bit_simps)

lemma context_controls_run:
  assumes "16 \<le> bound pol m MemObj"
  shows "context_in_bounds_foo pol mem_ptr m = Inr (fld_a m + fld_b m, m) \<and>
    branch_context_in_bounds_foo pol mem_ptr m =
      Inr (if fld_a m = 0x1000 then fld_b m else fld_a m, m) \<and>
    arithmetic_context_in_bounds_foo pol mem_ptr m =
      Inr (if bit (fld_a m) 12 then fld_b m else fld_a m, m)"
  using assms
  by (simp add: context_in_bounds_foo_def branch_context_in_bounds_foo_def
      arithmetic_context_in_bounds_foo_def Let_def word_reads and_1_cases)

text \<open>The context controls read only the two words of the context, whatever they hold:
  the direct read returns \<open>a + b\<close>, the branch returns \<open>b\<close> exactly when \<open>a\<close> is \<open>0x1000\<close>,
  and the arithmetic index, masked to one bit, selects by bit 12 of \<open>a\<close>; memory is
  unchanged.\<close>
lemma context_controls_result:
  assumes "16 \<le> bound pol m MemObj"
  shows "context_in_bounds_foo pol mem_ptr m = Inr (fld_a m + fld_b m, m) \<and>
    branch_context_in_bounds_foo pol mem_ptr m =
      Inr (if fld_a m = 0x1000 then fld_b m else fld_a m, m) \<and>
    arithmetic_context_in_bounds_foo pol mem_ptr m =
      Inr (if bit (fld_a m) 12 then fld_b m else fld_a m, m)"
  using assms by (rule context_controls_run)

lemma helper_controls_result:
  assumes "16 \<le> bound pol m MemObj"
  shows "helper_map_read_in_bounds_foo pol (map_lookup_helper 0 0 0 0 0) mem_ptr m = Inr (fld_b m, m) \<and>
    helper_map_write_in_bounds_foo pol (map_lookup_helper 0 0 0 0 0) mem_ptr m =
      Inr (0x5a, write_obj m (MemObj, 8) (le_bytes 8 (0x5a :: u64)))"
  using assms
  by (simp add: helper_map_read_in_bounds_foo_def helper_map_write_in_bounds_foo_def
      map_lookup_helper_def Let_def fld_b_def mem_ptr_def ptr_simps mem_simps)

text \<open>C8: the control fixtures are safe whatever the object and the context hold, under either
  memory policy, and compute what their C text says. With room for the two words and for
  each local: \<open>branch_stack\<close> selects \<open>0x11\<close> or \<open>0x22\<close> by the low bit of \<open>a\<close> and adds
  \<open>b >> 12\<close>; \<open>stack_widths\<close> reads back exactly the 64-, 32- and 16-bit values it stored in
  its three locals; the context fixtures return \<open>a + b\<close>, \<open>b\<close> exactly when \<open>a\<close> is \<open>0x1000\<close>,
  and the word selected by bit 12 of \<open>a\<close>, and leave memory unchanged; the map fixtures
  return the second word, and store and return \<open>0x5a\<close> in it.\<close>
theorem control_fixtures_result:
  assumes "16 \<le> bound pol m MemObj"
    and "unat slot + 8 \<le> bound pol m StackObj" and "unat slot + 8 \<le> 2 ^ 64"
    and "unat wide + 8 \<le> bound pol m StackObj" and "unat word + 4 \<le> bound pol m StackObj"
    and "unat half + 2 \<le> bound pol m StackObj"
    and "disjoint_access (StackObj, wide) 8 (StackObj, word) 4"
    and "disjoint_access (StackObj, wide) 8 (StackObj, half) 2"
    and "disjoint_access (StackObj, word) 4 (StackObj, half) 2"
  shows "(\<exists>m'. branch_stack_foo pol (StackObj, slot) mem_ptr m =
      Inr ((if fld_a m AND 1 \<noteq> 0 then 0x11 else 0x22) + ucast (drop_bit 12 (fld_b m)), m')) \<and>
    (\<exists>m'. stack_widths_foo pol (StackObj, wide) (StackObj, word) (StackObj, half) mem_ptr m =
      Inr (ucast (drop_bit 8 (fld_a m)) + drop_bit 8 (ucast (fld_b m)) + 0x34, m')) \<and>
    context_in_bounds_foo pol mem_ptr m = Inr (fld_a m + fld_b m, m) \<and>
    branch_context_in_bounds_foo pol mem_ptr m =
      Inr (if fld_a m = 0x1000 then fld_b m else fld_a m, m) \<and>
    arithmetic_context_in_bounds_foo pol mem_ptr m =
      Inr (if bit (fld_a m) 12 then fld_b m else fld_a m, m) \<and>
    helper_map_read_in_bounds_foo pol (map_lookup_helper 0 0 0 0 0) mem_ptr m = Inr (fld_b m, m) \<and>
    helper_map_write_in_bounds_foo pol (map_lookup_helper 0 0 0 0 0) mem_ptr m =
      Inr (0x5a, write_obj m (MemObj, 8) (le_bytes 8 (0x5a :: u64)))"
  using stack_controls_result [OF assms] context_controls_result [OF assms(1)]
    helper_controls_result [OF assms(1)] by blast

theorem control_fixtures_result_witness:
  "let m = cheri_memory [1, 0x2000] \<lparr>logical_len = 4096, backing_len = 4096, content = (\<lambda>_. 7)\<rparr> in
   branch_context_in_bounds_foo Cheri mem_ptr m = Inr (fld_a m, m) \<and>
   (\<exists>m'. stack_widths_foo Cheri (StackObj, 4088) (StackObj, 4084) (StackObj, 4082) mem_ptr m =
      Inr (ucast (drop_bit 8 (fld_a m)) + drop_bit 8 (ucast (fld_b m)) + 0x34, m'))"
proof -
  let ?m = "cheri_memory [1, 0x2000] \<lparr>logical_len = 4096, backing_len = 4096, content = (\<lambda>_. 7)\<rparr>"
  have "fld_a ?m \<noteq> 0x1000" by (simp add: fld_a_def mem_simps word_in_words_content)
  then show ?thesis
    unfolding Let_def
    using control_fixtures_result [of Cheri ?m 4088 4088 4084 4082]
    by (simp add: ex_stack_bounds disjoint_access_def)
qed

lemma unat_word_index:
  "unat (8 * (drop_bit 12 (a :: u64) + 511)) = 8 * (unat (drop_bit 12 a) + 511)"
proof -
  have d: "unat (drop_bit 12 a) < 2 ^ 52"
    using unsigned_less [of a, where 'a = nat]
    by (simp add: unsigned_drop_bit_eq drop_bit_nat_def take_bit_nat_eq_self)
  have "unat (drop_bit 12 a + 511) = unat (drop_bit 12 a) + 511"
    using d by (simp add: unat_plus_le)
  then show ?thesis
    using d by (simp add: unat_word_ariths)
qed

lemma word_512: "unat (snd (word_ptr mem_ptr 512)) = 4096" "fst (word_ptr mem_ptr i) = MemObj"
  by (simp_all add: mem_ptr_def word_ptr_def padd_def)

lemma context_oob_traps:
  "context_oob_foo pol mem_ptr m = Inl (trap_of pol) \<longleftrightarrow> bound pol m MemObj < 4104"
proof (cases "bound pol m MemObj < 4104")
  case True
  then show ?thesis by (simp add: context_oob_foo_def mem_simps word_512)
next
  case False
  then show ?thesis by (simp add: context_oob_foo_def mem_simps word_512)
qed

lemma branch_context_oob_traps:
  assumes "16 \<le> bound pol m MemObj"
  shows "branch_context_oob_foo pol mem_ptr m = Inl (trap_of pol) \<longleftrightarrow>
    fld_a m = 0x1000 \<and> bound pol m MemObj < 4104"
  using assms context_oob_traps [of pol m]
  by (simp add: branch_context_oob_foo_def context_oob_foo_def)

lemma arithmetic_context_oob_traps:
  assumes "16 \<le> bound pol m MemObj"
  shows "arithmetic_context_oob_foo pol mem_ptr m = Inl (trap_of pol) \<longleftrightarrow>
    bound pol m MemObj < 8 * unat (drop_bit 12 (fld_a m)) + 4096"
proof -
  let ?p = "word_ptr mem_ptr (drop_bit 12 (fld_a m) + 511)"
  have "snd ?p = 8 * (drop_bit 12 (fld_a m) + 511)" by (simp add: mem_ptr_def word_ptr_def padd_def)
  then have p: "unat (snd ?p) = 8 * (unat (drop_bit 12 (fld_a m)) + 511)"
    by (simp only: unat_word_index)
  have run: "arithmetic_context_oob_foo pol mem_ptr m = rd64 pol ?p m"
    using assms by (simp add: arithmetic_context_oob_foo_def Let_def)
  show ?thesis
  proof (cases "unat (snd ?p) + 8 \<le> bound pol m MemObj")
    case True
    then have "rd64 pol ?p m \<noteq> Inl (trap_of pol)" by (simp add: mem_simps word_512)
    with True p run show ?thesis by simp
  next
    case False
    then have "rd64 pol ?p m = Inl (trap_of pol)" by (simp add: mem_simps word_512)
    with False p run show ?thesis by simp
  qed
qed

text \<open>C24: the exact trap conditions of the context OOB fixtures. The direct read traps iff
  the object is shorter than 4104 bytes; the branch traps iff it is taken (\<open>a = 0x1000\<close>)
  and the object is that short; the arithmetic read traps iff the object ends before
  \<open>8 * (a >> 12) + 4096\<close>, with no wrap-around of the 64-bit address computation. So on
  every object of at most 4095 bytes the direct and arithmetic fixtures always trap.\<close>
theorem context_oob_trap_conditions:
  assumes "16 \<le> bound pol m MemObj"
  shows "(context_oob_foo pol mem_ptr m = Inl (trap_of pol) \<longleftrightarrow> bound pol m MemObj < 4104) \<and>
    (branch_context_oob_foo pol mem_ptr m = Inl (trap_of pol) \<longleftrightarrow>
      fld_a m = 0x1000 \<and> bound pol m MemObj < 4104) \<and>
    (arithmetic_context_oob_foo pol mem_ptr m = Inl (trap_of pol) \<longleftrightarrow>
      bound pol m MemObj < 8 * unat (drop_bit 12 (fld_a m)) + 4096)"
  using context_oob_traps branch_context_oob_traps [OF assms] arithmetic_context_oob_traps [OF assms]
  by blast

theorem context_oob_trap_conditions_witness:
  "let m = cheri_memory [0x1000, 0x2000] \<lparr>logical_len = 4096, backing_len = 4096, content = (\<lambda>_. 0)\<rparr> in
   (context_oob_foo Cheri mem_ptr m = Inl (trap_of Cheri) \<longleftrightarrow> bound Cheri m MemObj < 4104) \<and>
   (branch_context_oob_foo Cheri mem_ptr m = Inl (trap_of Cheri) \<longleftrightarrow>
      fld_a m = 0x1000 \<and> bound Cheri m MemObj < 4104) \<and>
   (arithmetic_context_oob_foo Cheri mem_ptr m = Inl (trap_of Cheri) \<longleftrightarrow>
      bound Cheri m MemObj < 8 * unat (drop_bit 12 (fld_a m)) + 4096)"
  unfolding Let_def by (rule context_oob_trap_conditions) (rule ex_stack_bounds)

end
