(* ===== verification/Generated_Cases.thy ===== *)
theory Generated_Cases
  imports Fixture_Props
begin

text \<open>
  The case manifest \<open>generated_bpf_cases.h\<close> and its consistency with the fixtures: the
  entry of every case, with its expected result and expectation, is what the C fixture of
  that name does on the memory the harness prepares.
\<close>

section \<open>The manifest\<close>

datatype generated_bpf_expectation = EXPECT_RETURN | EXPECT_CHERI_TRAP

datatype generated_bpf_memory_root = GENERATED_ROOT_CONTEXT | GENERATED_ROOT_HELPER_MAP

record generated_bpf_case =
  name :: string
  object_path :: string
  symbol :: string
  cve_relevance :: string
  coverage :: string
  expected_result :: u64
  expectation :: generated_bpf_expectation
  memory_root :: generated_bpf_memory_root

definition GENERATED_BPF_HELPER_MAP_LOOKUP :: int where "GENERATED_BPF_HELPER_MAP_LOOKUP = 7"
definition GENERATED_BPF_HELPER_MAP_NAME :: string where
  "GENERATED_BPF_HELPER_MAP_NAME = ''map_lookup_value''"

definition GENERATED_BPF_OBJECT :: "string \<Rightarrow> string \<Rightarrow> string" where
  "GENERATED_BPF_OBJECT root nm = root @ nm @ ''.o''"

definition generated_bpf_cases :: "string \<Rightarrow> generated_bpf_case list" where
  "generated_bpf_cases root =
    [\<lparr>name = ''stack_array'', object_path = GENERATED_BPF_OBJECT root ''stack_array'',
      symbol = ''foo'', cve_relevance = ''positive control'',
      coverage = ''dynamic bounded stack byte access'',
      expected_result = 0x6a, expectation = EXPECT_RETURN, memory_root = GENERATED_ROOT_CONTEXT\<rparr>,
     \<lparr>name = ''branch_stack'', object_path = GENERATED_BPF_OBJECT root ''branch_stack'',
      symbol = ''foo'', cve_relevance = ''positive control'',
      coverage = ''branch-selected stack byte access'',
      expected_result = 0x24, expectation = EXPECT_RETURN, memory_root = GENERATED_ROOT_CONTEXT\<rparr>,
     \<lparr>name = ''stack_widths'', object_path = GENERATED_BPF_OBJECT root ''stack_widths'',
      symbol = ''foo'', cve_relevance = ''positive control'',
      coverage = ''stack u64, u32, and u16 accesses'',
      expected_result = 0x64, expectation = EXPECT_RETURN, memory_root = GENERATED_ROOT_CONTEXT\<rparr>,
     \<lparr>name = ''context_in_bounds'', object_path = GENERATED_BPF_OBJECT root ''context_in_bounds'',
      symbol = ''foo'', cve_relevance = ''positive control'',
      coverage = ''direct in-bounds context reads'',
      expected_result = 0x3000, expectation = EXPECT_RETURN, memory_root = GENERATED_ROOT_CONTEXT\<rparr>,
     \<lparr>name = ''branch_context_in_bounds'',
      object_path = GENERATED_BPF_OBJECT root ''branch_context_in_bounds'',
      symbol = ''foo'', cve_relevance = ''positive control'',
      coverage = ''branch-selected in-bounds context read'',
      expected_result = 0x2000, expectation = EXPECT_RETURN, memory_root = GENERATED_ROOT_CONTEXT\<rparr>,
     \<lparr>name = ''arithmetic_context_in_bounds'',
      object_path = GENERATED_BPF_OBJECT root ''arithmetic_context_in_bounds'',
      symbol = ''foo'', cve_relevance = ''positive control'',
      coverage = ''arithmetic-derived in-bounds context read'',
      expected_result = 0x2000, expectation = EXPECT_RETURN, memory_root = GENERATED_ROOT_CONTEXT\<rparr>,
     \<lparr>name = ''helper_map_read_in_bounds'',
      object_path = GENERATED_BPF_OBJECT root ''helper_map_read_in_bounds'',
      symbol = ''foo'', cve_relevance = ''positive control'',
      coverage = ''compiler-generated helper-returned map-value in-bounds read'',
      expected_result = 0x2000, expectation = EXPECT_RETURN, memory_root = GENERATED_ROOT_HELPER_MAP\<rparr>,
     \<lparr>name = ''helper_map_write_in_bounds'',
      object_path = GENERATED_BPF_OBJECT root ''helper_map_write_in_bounds'',
      symbol = ''foo'', cve_relevance = ''positive control'',
      coverage = ''compiler-generated helper-returned map-value in-bounds write/read'',
      expected_result = 0x5a, expectation = EXPECT_RETURN, memory_root = GENERATED_ROOT_HELPER_MAP\<rparr>,
     \<lparr>name = ''context_oob'', object_path = GENERATED_BPF_OBJECT root ''context_oob'',
      symbol = ''foo'', cve_relevance = ''CVE-2020-8835-style range-analysis OOB'',
      coverage = ''direct out-of-bounds context read'',
      expected_result = 0, expectation = EXPECT_CHERI_TRAP, memory_root = GENERATED_ROOT_CONTEXT\<rparr>,
     \<lparr>name = ''branch_context_oob'', object_path = GENERATED_BPF_OBJECT root ''branch_context_oob'',
      symbol = ''foo'', cve_relevance = ''CVE-2023-2163-style unsafe path/pruning OOB'',
      coverage = ''branch-selected out-of-bounds context read'',
      expected_result = 0, expectation = EXPECT_CHERI_TRAP, memory_root = GENERATED_ROOT_CONTEXT\<rparr>,
     \<lparr>name = ''arithmetic_context_oob'',
      object_path = GENERATED_BPF_OBJECT root ''arithmetic_context_oob'',
      symbol = ''foo'', cve_relevance = ''CVE-2021-3490/CVE-2021-31440-style arithmetic OOB'',
      coverage = ''arithmetic-derived out-of-bounds context read'',
      expected_result = 0, expectation = EXPECT_CHERI_TRAP, memory_root = GENERATED_ROOT_CONTEXT\<rparr>,
     \<lparr>name = ''stack_oob'', object_path = GENERATED_BPF_OBJECT root ''stack_oob'',
      symbol = ''foo'', cve_relevance = ''CVE-2017-16995-style bad-offset memory corruption analogue'',
      coverage = ''dynamic out-of-bounds stack access'',
      expected_result = 0, expectation = EXPECT_CHERI_TRAP, memory_root = GENERATED_ROOT_CONTEXT\<rparr>,
     \<lparr>name = ''helper_map_read_oob'', object_path = GENERATED_BPF_OBJECT root ''helper_map_read_oob'',
      symbol = ''foo'', cve_relevance = ''CVE-2021-4204-style helper/map OOB read analogue'',
      coverage = ''compiler-generated helper-returned map-value out-of-bounds read'',
      expected_result = 0, expectation = EXPECT_CHERI_TRAP, memory_root = GENERATED_ROOT_HELPER_MAP\<rparr>,
     \<lparr>name = ''helper_map_write_oob'',
      object_path = GENERATED_BPF_OBJECT root ''helper_map_write_oob'',
      symbol = ''foo'', cve_relevance = ''CVE-2021-4204-style helper/map OOB write analogue'',
      coverage = ''compiler-generated helper-returned map-value out-of-bounds write'',
      expected_result = 0, expectation = EXPECT_CHERI_TRAP, memory_root = GENERATED_ROOT_HELPER_MAP\<rparr>]"

section \<open>Running the fixture of a case\<close>

text \<open>
  The object file of a case is compiled from the C file of the same name. What is left to
  the compiler is a parameter: the places of the local arrays in the eBPF stack and the
  extension of an \<open>int\<close> result to the 64-bit \<open>r0\<close>, which only matters from \<open>2 ^ 31\<close> up.
\<close>

record frame =
  slots_at :: u64
  slot_at :: u64
  wide_at :: u64
  word_at :: u64
  half_at :: u64

definition frame_ok :: "nat \<Rightarrow> frame \<Rightarrow> bool" where
  "frame_ok n fr \<longleftrightarrow>
     unat (slots_at fr) + 40 \<le> n \<and> unat (slot_at fr) + 8 \<le> n \<and> unat (wide_at fr) + 8 \<le> n \<and>
     unat (word_at fr) + 4 \<le> n \<and> unat (half_at fr) + 2 \<le> n \<and>
     disjoint_access (StackObj, wide_at fr) 8 (StackObj, word_at fr) 4 \<and>
     disjoint_access (StackObj, wide_at fr) 8 (StackObj, half_at fr) 2 \<and>
     disjoint_access (StackObj, word_at fr) 4 (StackObj, half_at fr) 2"

definition int_result :: "(u32 \<Rightarrow> u64) \<Rightarrow> u32 mop \<Rightarrow> u64 mop" where
  "int_result ext f = mbind f (\<lambda>w. mret (ext w))"

definition harness_helper :: "ptr \<Rightarrow> ptr" where
  "harness_helper p = map_lookup_helper 0 0 0 0 0 p"

definition run_fixture :: "(u32 \<Rightarrow> u64) \<Rightarrow> frame \<Rightarrow> string \<Rightarrow> policy \<Rightarrow> u64 mop option" where
  "run_fixture ext fr nm pol =
    (if nm = ''stack_array'' then
       Some (int_result ext (stack_array_foo pol (StackObj, slots_at fr) mem_ptr))
     else if nm = ''branch_stack'' then
       Some (int_result ext (branch_stack_foo pol (StackObj, slot_at fr) mem_ptr))
     else if nm = ''stack_widths'' then
       Some (int_result ext (stack_widths_foo pol (StackObj, wide_at fr) (StackObj, word_at fr)
         (StackObj, half_at fr) mem_ptr))
     else if nm = ''stack_oob'' then
       Some (int_result ext (stack_oob_foo pol (StackObj, slots_at fr) mem_ptr))
     else if nm = ''context_in_bounds'' then Some (context_in_bounds_foo pol mem_ptr)
     else if nm = ''branch_context_in_bounds'' then Some (branch_context_in_bounds_foo pol mem_ptr)
     else if nm = ''arithmetic_context_in_bounds'' then
       Some (arithmetic_context_in_bounds_foo pol mem_ptr)
     else if nm = ''context_oob'' then Some (context_oob_foo pol mem_ptr)
     else if nm = ''branch_context_oob'' then Some (branch_context_oob_foo pol mem_ptr)
     else if nm = ''arithmetic_context_oob'' then Some (arithmetic_context_oob_foo pol mem_ptr)
     else if nm = ''helper_map_read_in_bounds'' then
       Some (helper_map_read_in_bounds_foo pol harness_helper mem_ptr)
     else if nm = ''helper_map_write_in_bounds'' then
       Some (helper_map_write_in_bounds_foo pol harness_helper mem_ptr)
     else if nm = ''helper_map_read_oob'' then
       Some (helper_map_read_oob_foo pol harness_helper mem_ptr)
     else if nm = ''helper_map_write_oob'' then
       Some (helper_map_write_oob_foo pol harness_helper mem_ptr)
     else None)"

text \<open>What a run of a case shows to its caller: the value of \<open>r0\<close> or the fault.\<close>

definition case_outcome ::
  "(u32 \<Rightarrow> u64) \<Rightarrow> frame \<Rightarrow> policy \<Rightarrow> memory \<Rightarrow> generated_bpf_case \<Rightarrow> (fault + u64) option" where
  "case_outcome ext fr pol m c =
     (case run_fixture ext fr (name c) pol of
        None \<Rightarrow> None
      | Some f \<Rightarrow> (case f m of Inl e \<Rightarrow> Some (Inl e) | Inr (v, m') \<Rightarrow> Some (Inr v)))"

definition int_ext :: "(u32 \<Rightarrow> u64) \<Rightarrow> bool" where
  "int_ext ext \<longleftrightarrow> (\<forall>w. unat w < 2 ^ 31 \<longrightarrow> ext w = ucast w)"

lemma int_ext_zero: "int_ext ucast"
  by (simp add: int_ext_def)

lemma int_result_Inr: "f m = Inr (w, m') \<Longrightarrow> int_result ext f m = Inr (ext w, m')"
  by (simp add: int_result_def)

lemma int_result_Inl: "f m = Inl e \<Longrightarrow> int_result ext f m = Inl e"
  by (simp add: int_result_def)

lemma int_ext_small: "int_ext ext \<Longrightarrow> unat w < 2 ^ 31 \<Longrightarrow> ext w = ucast w"
  by (simp add: int_ext_def)

section \<open>The manifest agrees with the fixtures\<close>

definition two_words :: "memory \<Rightarrow> bool" where
  "two_words m \<longleftrightarrow> fld_a m = 0x1000 \<and> fld_b m = 0x2000"

lemma two_words_cheri: "two_words (cheri_memory [0x1000, 0x2000] stack)"
  by (simp add: two_words_def fld_a_def fld_b_def mem_simps word_in_words_content)

lemma two_words_host: "two_words (host_memory 16 8192 (prepare_backing 8192 c) stack)"
  by (simp add: two_words_def fld_a_def fld_b_def mem_simps prepare_backing_words)

text \<open>The positive controls, under either policy, on any memory that starts with the two
  words the harnesses store.\<close>

lemma controls_return:
  assumes m: "two_words m" "16 \<le> bound pol m MemObj" and fr: "frame_ok (bound pol m StackObj) fr"
    and sz: "bound pol m StackObj \<le> 2 ^ 63" and ie: "int_ext ext"
  shows "\<exists>m'. int_result ext (stack_array_foo pol (StackObj, slots_at fr) mem_ptr) m = Inr (0x6a, m')"
    and "\<exists>m'. int_result ext (branch_stack_foo pol (StackObj, slot_at fr) mem_ptr) m = Inr (0x24, m')"
    and "\<exists>m'. int_result ext (stack_widths_foo pol (StackObj, wide_at fr) (StackObj, word_at fr)
      (StackObj, half_at fr) mem_ptr) m = Inr (0x64, m')"
proof -
  have f: "unat (slots_at fr) + 40 \<le> bound pol m StackObj" "unat (slots_at fr) + 40 \<le> 2 ^ 64"
    "unat (slot_at fr) + 8 \<le> bound pol m StackObj" "unat (slot_at fr) + 8 \<le> 2 ^ 64"
    using fr sz by (simp_all add: frame_ok_def)
  have w: "unat (wide_at fr) + 8 \<le> bound pol m StackObj" "unat (word_at fr) + 4 \<le> bound pol m StackObj"
    "unat (half_at fr) + 2 \<le> bound pol m StackObj"
    "disjoint_access (StackObj, wide_at fr) 8 (StackObj, word_at fr) 4"
    "disjoint_access (StackObj, wide_at fr) 8 (StackObj, half_at fr) 2"
    "disjoint_access (StackObj, word_at fr) 4 (StackObj, half_at fr) 2"
    using fr by (simp_all add: frame_ok_def)
  show "\<exists>m'. int_result ext (stack_array_foo pol (StackObj, slots_at fr) mem_ptr) m = Inr (0x6a, m')"
    using stack_array_run [OF m(2) f(1,2)] m(1) int_ext_small [OF ie, where w = "0x6a"]
    by (auto simp: two_words_def int_result_Inr)
  show "\<exists>m'. int_result ext (branch_stack_foo pol (StackObj, slot_at fr) mem_ptr) m = Inr (0x24, m')"
    using branch_stack_result [OF m(2) f(3,4)] m(1) int_ext_small [OF ie, where w = "0x24"]
    by (auto simp: two_words_def int_result_Inr)
  show "\<exists>m'. int_result ext (stack_widths_foo pol (StackObj, wide_at fr) (StackObj, word_at fr)
      (StackObj, half_at fr) mem_ptr) m = Inr (0x64, m')"
    using stack_widths_result [OF m(2) w] m(1) int_ext_small [OF ie, where w = "0x64"]
    by (auto simp: two_words_def int_result_Inr)
qed

lemma context_controls_two:
  assumes "two_words m" "16 \<le> bound pol m MemObj"
  shows "context_in_bounds_foo pol mem_ptr m = Inr (0x3000, m)"
    and "branch_context_in_bounds_foo pol mem_ptr m = Inr (0x2000, m)"
    and "arithmetic_context_in_bounds_foo pol mem_ptr m = Inr (0x2000, m)"
  using context_controls_run [OF assms(2)] assms(1) by (simp_all add: two_words_def)

lemma harness_helper_id [simp]: "harness_helper p = p"
  by (simp add: harness_helper_def map_lookup_helper_def)

lemma helper_controls_two:
  assumes "two_words m" "16 \<le> bound pol m MemObj"
  shows "helper_map_read_in_bounds_foo pol harness_helper mem_ptr m = Inr (0x2000, m)"
    and "\<exists>m'. helper_map_write_in_bounds_foo pol harness_helper mem_ptr m = Inr (0x5a, m')"
proof -
  show "helper_map_read_in_bounds_foo pol harness_helper mem_ptr m = Inr (0x2000, m)"
    using assms by (simp add: helper_map_read_in_bounds_foo_def word_reads two_words_def)
  have p: "word_ptr mem_ptr 1 = (MemObj, 8)" by (simp add: word_ptr_def mem_ptr_def padd_def)
  show "\<exists>m'. helper_map_write_in_bounds_foo pol harness_helper mem_ptr m = Inr (0x5a, m')"
    using assms(2) by (simp add: helper_map_write_in_bounds_foo_def p mem_simps)
qed

lemma word_512_ptr: "word_ptr mem_ptr 512 = (MemObj, 4096)"
  by (simp add: word_ptr_def mem_ptr_def padd_def)

lemma helper_oob_short:
  assumes "bound pol m MemObj < 4104"
  shows "helper_map_read_oob_foo pol harness_helper mem_ptr m = Inl (trap_of pol)"
    and "helper_map_write_oob_foo pol harness_helper mem_ptr m = Inl (trap_of pol)"
  using assms
  by (simp_all add: helper_map_read_oob_foo_def helper_map_write_oob_foo_def word_512_ptr mem_simps)

lemma helper_oob_long:
  assumes "4104 \<le> bound pol m MemObj"
  shows "helper_map_read_oob_foo pol harness_helper mem_ptr m = Inr (val_at m (MemObj, 4096) 8, m)"
    and "\<exists>m'. helper_map_write_oob_foo pol harness_helper mem_ptr m = Inr (0, m')"
  using assms
  by (simp_all add: helper_map_read_oob_foo_def helper_map_write_oob_foo_def word_512_ptr mem_simps)

lemma context_oob_long:
  assumes "two_words m" "4104 \<le> bound pol m MemObj"
  shows "context_oob_foo pol mem_ptr m = Inr (val_at m (MemObj, 4096) 8, m)"
    and "branch_context_oob_foo pol mem_ptr m = Inr (val_at m (MemObj, 4096) 8, m)"
    and "arithmetic_context_oob_foo pol mem_ptr m = Inr (val_at m (MemObj, 4096) 8, m)"
proof -
  have b: "16 \<le> bound pol m MemObj" using assms(2) by simp
  have a: "fld_a m = 0x1000" using assms(1) by (simp add: two_words_def)
  show "context_oob_foo pol mem_ptr m = Inr (val_at m (MemObj, 4096) 8, m)"
    using assms by (simp add: context_oob_foo_def word_512_ptr mem_simps)
  show "branch_context_oob_foo pol mem_ptr m = Inr (val_at m (MemObj, 4096) 8, m)"
    using assms b a by (simp add: branch_context_oob_foo_def word_512_ptr mem_simps)
  show "arithmetic_context_oob_foo pol mem_ptr m = Inr (val_at m (MemObj, 4096) 8, m)"
    using assms b a by (simp add: arithmetic_context_oob_foo_def Let_def word_512_ptr mem_simps)
qed

lemma context_oob_short:
  assumes "two_words m" "16 \<le> bound pol m MemObj" "bound pol m MemObj < 4104"
  shows "context_oob_foo pol mem_ptr m = Inl (trap_of pol)"
    and "branch_context_oob_foo pol mem_ptr m = Inl (trap_of pol)"
    and "arithmetic_context_oob_foo pol mem_ptr m = Inl (trap_of pol)"
  using assms context_oob_traps [of pol m] branch_context_oob_traps [OF assms(2)]
    arithmetic_context_oob_traps [OF assms(2)]
  by (simp_all add: two_words_def)

lemma stack_oob_short:
  assumes "two_words m" "16 \<le> bound pol m MemObj" "frame_ok (bound pol m StackObj) fr"
    and "bound pol m StackObj \<le> 4096"
  shows "int_result ext (stack_oob_foo pol (StackObj, slots_at fr) mem_ptr) m = Inl (trap_of pol)"
proof (rule int_result_Inl)
  have "unat (slots_at fr) + 2 ^ 32 \<le> 2 ^ 64" using assms(3,4) by (simp add: frame_ok_def)
  from stack_oob_run [OF assms(2) this] assms(1,4)
  show "stack_oob_foo pol (StackObj, slots_at fr) mem_ptr m = Inl (trap_of pol)"
    by (simp add: two_words_def)
qed

lemma stack_oob_long:
  assumes "two_words m" "16 \<le> bound pol m MemObj"
    and "unat (slots_at fr) + 4096 < bound pol m StackObj" "bound pol m StackObj \<le> 2 ^ 63"
    and "int_ext ext"
  shows "\<exists>m'. int_result ext (stack_oob_foo pol (StackObj, slots_at fr) mem_ptr) m = Inr (0x5a, m')"
proof -
  have "unat (slots_at fr) + 2 ^ 32 \<le> 2 ^ 64" using assms(3,4) by simp
  from stack_oob_run [OF assms(2) this] assms(1,3)
  obtain m' where "stack_oob_foo pol (StackObj, slots_at fr) mem_ptr m = Inr (0x5a, m')"
    by (auto simp: two_words_def)
  then show ?thesis
    using int_ext_small [OF assms(5), where w = "0x5a"] by (auto simp: int_result_Inr)
qed

definition cheri_expected :: "generated_bpf_case \<Rightarrow> fault + u64" where
  "cheri_expected c =
     (case expectation c of EXPECT_RETURN \<Rightarrow> Inr (expected_result c)
      | EXPECT_CHERI_TRAP \<Rightarrow> Inl BoundsTrap)"

definition host_expected :: "generated_bpf_case \<Rightarrow> fault + u64" where
  "host_expected c =
     (case expectation c of EXPECT_RETURN \<Rightarrow> Inr (expected_result c)
      | EXPECT_CHERI_TRAP \<Rightarrow>
          Inr (if name c = ''stack_oob'' then 0x5a
               else if name c = ''helper_map_write_oob'' then 0 else HOST_OOB_SENTINEL))"

lemma case_outcome_Inr:
  "run_fixture ext fr (name c) pol = Some f \<Longrightarrow> \<exists>m'. f m = Inr (v, m') \<Longrightarrow>
   case_outcome ext fr pol m c = Some (Inr v)"
  by (auto simp: case_outcome_def)

lemma case_outcome_Inl:
  "run_fixture ext fr (name c) pol = Some f \<Longrightarrow> f m = Inl e \<Longrightarrow>
   case_outcome ext fr pol m c = Some (Inl e)"
  by (auto simp: case_outcome_def)

lemma cheri_cases_outcome:
  assumes m: "two_words m" "bound Cheri m MemObj = 16"
    and st: "frame_ok (bound Cheri m StackObj) fr" "bound Cheri m StackObj \<le> 4096"
    and ie: "int_ext ext" and c: "c \<in> set (generated_bpf_cases root)"
  shows "case_outcome ext fr Cheri m c = Some (cheri_expected c)"
proof -
  have b: "16 \<le> bound Cheri m MemObj" "bound Cheri m MemObj < 4104" "bound Cheri m StackObj \<le> 2 ^ 63"
    using m st by simp_all
  obtain m1 m2 m3 m4 where ctl:
    "int_result ext (stack_array_foo Cheri (StackObj, slots_at fr) mem_ptr) m = Inr (0x6a, m1)"
    "int_result ext (branch_stack_foo Cheri (StackObj, slot_at fr) mem_ptr) m = Inr (0x24, m2)"
    "int_result ext (stack_widths_foo Cheri (StackObj, wide_at fr) (StackObj, word_at fr)
      (StackObj, half_at fr) mem_ptr) m = Inr (0x64, m3)"
    "helper_map_write_in_bounds_foo Cheri harness_helper mem_ptr m = Inr (0x5a, m4)"
    using controls_return [OF m(1) b(1) st(1) b(3) ie] helper_controls_two(2) [OF m(1) b(1)]
    by blast
  note short = context_oob_short [OF m(1) b(1,2)] helper_oob_short [OF b(2)]
    stack_oob_short [OF m(1) b(1) st]
  note good = context_controls_two [OF m(1) b(1)] helper_controls_two(1) [OF m(1) b(1)]
  from c show ?thesis
    unfolding generated_bpf_cases_def
    by (simp only: list.set insert_iff empty_iff, elim disjE FalseE)
      (simp_all add: case_outcome_def run_fixture_def cheri_expected_def short good ctl)
qed

lemma host_cases_outcome:
  assumes m: "two_words m" "4104 \<le> bound Host m MemObj"
    and oob: "val_at m (MemObj, 4096) 8 = HOST_OOB_SENTINEL"
    and st: "frame_ok (bound Host m StackObj) fr" "bound Host m StackObj \<le> 2 ^ 63"
      "unat (slots_at fr) + 4096 < bound Host m StackObj"
    and ie: "int_ext ext" and c: "c \<in> set (generated_bpf_cases root)"
  shows "case_outcome ext fr Host m c = Some (host_expected c)"
proof -
  have b: "16 \<le> bound Host m MemObj" using m by simp
  obtain m1 m2 m3 m4 m5 m6 where ctl:
    "int_result ext (stack_array_foo Host (StackObj, slots_at fr) mem_ptr) m = Inr (0x6a, m1)"
    "int_result ext (branch_stack_foo Host (StackObj, slot_at fr) mem_ptr) m = Inr (0x24, m2)"
    "int_result ext (stack_widths_foo Host (StackObj, wide_at fr) (StackObj, word_at fr)
      (StackObj, half_at fr) mem_ptr) m = Inr (0x64, m3)"
    "helper_map_write_in_bounds_foo Host harness_helper mem_ptr m = Inr (0x5a, m4)"
    "int_result ext (stack_oob_foo Host (StackObj, slots_at fr) mem_ptr) m = Inr (0x5a, m5)"
    "helper_map_write_oob_foo Host harness_helper mem_ptr m = Inr (0, m6)"
    using controls_return [OF m(1) b st(1,2) ie] helper_controls_two(2) [OF m(1) b]
      stack_oob_long [OF m(1) b st(3,2) ie] helper_oob_long(2) [OF m(2)]
    by blast
  note long = context_oob_long [OF m, unfolded oob] helper_oob_long(1) [OF m(2), unfolded oob]
  note good = context_controls_two [OF m(1) b] helper_controls_two(1) [OF m(1) b]
  from c show ?thesis
    unfolding generated_bpf_cases_def
    by (simp only: list.set insert_iff empty_iff, elim disjE FalseE)
      (simp_all add: case_outcome_def run_fixture_def host_expected_def long good ctl)
qed

section \<open>Properties of the manifest\<close>

definition witness_frame :: frame where
  "witness_frame = \<lparr>slots_at = 0, slot_at = 40, wide_at = 48, word_at = 56, half_at = 60\<rparr>"

definition witness_stack :: "nat \<Rightarrow> nat \<Rightarrow> object" where
  "witness_stack l b = \<lparr>logical_len = l, backing_len = b, content = (\<lambda>_. 0)\<rparr>"

lemma witness_frame_ok: "64 \<le> n \<Longrightarrow> frame_ok n witness_frame"
  by (simp add: frame_ok_def witness_frame_def disjoint_access_def)

lemma slots_at_witness: "slots_at witness_frame = 0"
  by (simp add: witness_frame_def)

text \<open>C6: the manifest is right about CHERI. Every case of the table, run on the two words
  the purecap harness prepares and an eBPF stack of at most 4096 bytes that holds the
  fixture's local arrays, returns the value the table expects if the entry says
  \<open>EXPECT_RETURN\<close> and stops with a bounds fault if it says \<open>EXPECT_CHERI_TRAP\<close>.\<close>

theorem cheri_table_correct:
  assumes "prepare_words [ua, ub] 2 = Inr ws"
    and "frame_ok (logical_len stack) fr" and "logical_len stack \<le> 4096"
    and "int_ext ext" and "c \<in> set (generated_bpf_cases root)"
  shows "case_outcome ext fr Cheri (cheri_memory ws stack) c = Some (cheri_expected c)"
proof -
  have ws: "ws = [0x1000, 0x2000]" using assms(1) prepare_words_fits [of 2 "[ua, ub]"] by simp
  show ?thesis
    by (rule cheri_cases_outcome [OF _ _ _ _ assms(4,5)])
      (use assms(2,3) in \<open>simp_all add: ws two_words_cheri bound_memories\<close>)
qed

theorem cheri_table_correct_witness:
  "case_outcome ucast witness_frame Cheri (cheri_memory [0x1000, 0x2000] (witness_stack 512 512))
     (generated_bpf_cases [] ! 11) = Some (Inl BoundsTrap)"
proof -
  have "case_outcome ucast witness_frame Cheri (cheri_memory [0x1000, 0x2000] (witness_stack 512 512))
     (generated_bpf_cases [] ! 11) = Some (cheri_expected (generated_bpf_cases [] ! 11))"
    by (rule cheri_table_correct [where ua = 5 and ub = 7 and root = "[]"])
      (simp_all add: prepare_words_fits witness_frame_ok witness_stack_def int_ext_zero
        generated_bpf_cases_def)
  then show ?thesis by (simp add: generated_bpf_cases_def cheri_expected_def)
qed

text \<open>C7: the manifest names the damage CHERI stops. On the unchecked host, with the
  8192-byte backing the harness prepares and a stack backing that reaches 4096 bytes past
  the array, every case returns: the controls their expected value, the out-of-bounds reads
  the sentinel planted behind the object, the out-of-bounds stack write its own byte.\<close>

theorem host_table_correct:
  assumes "frame_ok (backing_len stack) fr" and "backing_len stack \<le> 2 ^ 63"
    and "unat (slots_at fr) + 4096 < backing_len stack"
    and "int_ext ext" and "c \<in> set (generated_bpf_cases root)"
  shows "case_outcome ext fr Host
    (host_memory HOST_CONTEXT_LOGICAL_BYTES HOST_CONTEXT_BACKING_BYTES
      (prepare_backing HOST_CONTEXT_BACKING_BYTES junk) stack) c = Some (host_expected c)"
  unfolding host_sizes
  by (rule host_cases_outcome [OF _ _ _ _ _ _ assms(4,5)])
    (use assms(1-3) in \<open>simp_all add: two_words_host mem_simps prepare_backing_words\<close>)

theorem host_table_correct_witness:
  "case_outcome ucast witness_frame Host
    (host_memory HOST_CONTEXT_LOGICAL_BYTES HOST_CONTEXT_BACKING_BYTES
      (prepare_backing HOST_CONTEXT_BACKING_BYTES (\<lambda>_. 255)) (witness_stack 512 8192))
    (generated_bpf_cases [] ! 8) = Some (Inr 0xfeedfacecafebeef)"
proof -
  have "case_outcome ucast witness_frame Host
    (host_memory HOST_CONTEXT_LOGICAL_BYTES HOST_CONTEXT_BACKING_BYTES
      (prepare_backing HOST_CONTEXT_BACKING_BYTES (\<lambda>_. 255)) (witness_stack 512 8192))
    (generated_bpf_cases [] ! 8) = Some (host_expected (generated_bpf_cases [] ! 8))"
    by (rule host_table_correct [where root = "[]"])
      (simp_all add: witness_frame_ok witness_stack_def int_ext_zero slots_at_witness
        generated_bpf_cases_def)
  then show ?thesis
    by (simp add: generated_bpf_cases_def host_expected_def HOST_OOB_SENTINEL_def)
qed

lemma preserved_int_result:
  "preserved f \<Longrightarrow> preserved (\<lambda>pol. int_result ext (f pol))"
  unfolding int_result_def by (rule preserved_mbind) auto

lemmas int_fixtures_preserved = fixtures_preserved(1-4) [THEN preserved_int_result]

lemma preserved_run_fixture:
  assumes "run_fixture ext fr nm Cheri = Some fc" and "run_fixture ext fr nm Host = Some fh"
    and "backed m" and "fc m = Inr (v, m')"
  shows "fh m = Inr (v, m') \<and> backed m'"
proof -
  have "\<exists>f. preserved f \<and> f Cheri = fc \<and> f Host = fh"
    using assms(1,2) unfolding run_fixture_def
    by (auto split: if_splits intro: fixtures_preserved int_fixtures_preserved
        intro!: exI [where x = "\<lambda>pol. the (run_fixture ext fr nm pol)"] simp: run_fixture_def)
  then show ?thesis using preservedD assms(3,4) by metis
qed

text \<open>Capability checking never changes a result. For every fixture of the
  manifest and any memory whose objects are backed up to their logical length, a run that
  completes under CHERI completes on the host with the same value and the same final
  memory; a case can differ between the two only by trapping under CHERI. This holds of
  any program built from the memory operations.\<close>

lemma cheri_refines_host:
  assumes "backed m" and "run_fixture ext fr nm Cheri = Some fc" and "fc m = Inr (v, m')"
  shows "\<exists>fh. run_fixture ext fr nm Host = Some fh \<and> fh m = Inr (v, m') \<and> backed m'"
proof -
  obtain fh where fh: "run_fixture ext fr nm Host = Some fh"
    using assms(2) by (auto simp: run_fixture_def split: if_splits)
  with preserved_run_fixture [OF assms(2) fh assms(1,3)] show ?thesis by simp
qed

lemma cheri_refines_host_example:
  "\<exists>fh. run_fixture ucast witness_frame ''context_in_bounds'' Host = Some fh \<and>
     fh (cheri_memory [0x1000, 0x2000] (witness_stack 512 512)) =
       Inr (0x3000, cheri_memory [0x1000, 0x2000] (witness_stack 512 512)) \<and>
     backed (cheri_memory [0x1000, 0x2000] (witness_stack 512 512))"
proof (rule cheri_refines_host)
  show "backed (cheri_memory [0x1000, 0x2000] (witness_stack 512 512))"
    by (simp add: backed_def cheri_memory_def witness_stack_def split: obj_id.split)
  show "run_fixture ucast witness_frame ''context_in_bounds'' Cheri =
      Some (context_in_bounds_foo Cheri mem_ptr)"
    by (simp add: run_fixture_def)
  show "context_in_bounds_foo Cheri mem_ptr (cheri_memory [0x1000, 0x2000] (witness_stack 512 512)) =
      Inr (0x3000, cheri_memory [0x1000, 0x2000] (witness_stack 512 512))"
    by (rule context_controls_two) (simp_all add: two_words_cheri bound_memories)
qed

end
