(* ===== verification/Process.thy ===== *)
theory Process
  imports Object_Memory
begin

text \<open>
  What the harnesses use of the operating system and of \<open>ubpf\<close>. A case runs in a forked
  child; the child ends with \<open>_exit\<close> or by a signal, and the parent reads its wait
  status. The kernel's answers (does \<open>fork\<close> succeed, how much does \<open>write\<close> take, what is in
  a file) and the virtual machine (an external library) are parameters: a record \<open>os\<close> and
  a record \<open>ubpf\<close> whose fields are the calls the sources make. A process is a function of
  its state: the resources it owns and the bytes it wrote to its pipe.
\<close>

section \<open>Signals and the end of a process\<close>

definition SIGILL :: int where "SIGILL = 4"
definition SIGSEGV :: int where "SIGSEGV = 11"
definition SIGPROT :: int where "SIGPROT = 34"

lemma signals_distinct [simp]: "SIGPROT \<noteq> SIGSEGV" "SIGSEGV \<noteq> SIGPROT" "SIGILL \<noteq> SIGPROT"
    "SIGILL \<noteq> SIGSEGV" "SIGPROT \<noteq> SIGILL" "SIGSEGV \<noteq> SIGILL"
  by (simp_all add: SIGPROT_def SIGSEGV_def SIGILL_def)

fun fault_signal :: "fault \<Rightarrow> int" where
  "fault_signal BoundsTrap = SIGPROT"
| "fault_signal Unbacked = SIGSEGV"

datatype ending = Exits int | Dies int

text \<open>The status \<open>waitpid\<close> stores: an exit keeps eight bits of the code; a stopped child is
  neither exited nor signalled.\<close>

datatype wait_status = Exited int | Signalled int | Stopped

fun status_of :: "ending \<Rightarrow> wait_status" where
  "status_of (Exits n) = Exited (n mod 256)"
| "status_of (Dies s) = Signalled s"

fun WIFSIGNALED :: "wait_status \<Rightarrow> bool" where
  "WIFSIGNALED (Signalled s) = True"
| "WIFSIGNALED st = False"

fun WIFEXITED :: "wait_status \<Rightarrow> bool" where
  "WIFEXITED (Exited n) = True"
| "WIFEXITED st = False"

fun WTERMSIG :: "wait_status \<Rightarrow> int" where
  "WTERMSIG (Signalled s) = s"
| "WTERMSIG st = 0"

fun WEXITSTATUS :: "wait_status \<Rightarrow> int" where
  "WEXITSTATUS (Exited n) = n"
| "WEXITSTATUS st = 0"

section \<open>Parameters: the kernel and the virtual machine\<close>

text \<open>\<open>junk\<close> is what uninitialised local words hold.\<close>

record file_state =
  fopen_ok :: bool
  fseek_rc :: int
  ftell_rc :: int
  malloc_ok :: bool
  fread_rc :: "nat \<Rightarrow> nat"
  file_bytes :: "u8 list"

record os =
  fork_ok :: bool
  waitpid_ok :: bool
  pipe_ok :: bool
  sigaction_ok :: "int \<Rightarrow> bool"
  file_at :: "string \<Rightarrow> file_state"
  write_rc :: "nat \<Rightarrow> nat \<Rightarrow> int"
  read_rc :: "nat \<Rightarrow> int"
  junk :: "nat \<Rightarrow> u64"

text \<open>A compiled program is called on an object and its length and returns a value or
  raises a signal, and so does a run on the interpreter; the other calls return, with an
  error message or a new machine.\<close>

type_synonym jit_fn = "object \<Rightarrow> nat \<Rightarrow> int + u64"

record 'v ubpf =
  ubpf_create :: "'v option"
  ubpf_cheri_set_map_value_helper_index :: "'v \<Rightarrow> int \<Rightarrow> 'v"
  ubpf_register :: "'v \<Rightarrow> int \<Rightarrow> string \<Rightarrow> int \<times> 'v"
  ubpf_load_elf_ex :: "'v \<Rightarrow> u8 list \<Rightarrow> string \<Rightarrow> string option + 'v"
  ubpf_load :: "'v \<Rightarrow> u8 list \<Rightarrow> string option + 'v"
  ubpf_compile :: "'v \<Rightarrow> string option + jit_fn"
  ubpf_use_stock_jit :: "'v \<Rightarrow> bool \<Rightarrow> 'v"
  set_jit_translate_cheri :: "'v \<Rightarrow> 'v"
  ubpf_translate_ex :: "'v \<Rightarrow> int \<times> string option"
  ubpf_exec :: "'v \<Rightarrow> object \<Rightarrow> nat \<Rightarrow> int + u64 option"

section \<open>A process and its resources\<close>

datatype resource = Elf | Vm | Errmsg

text \<open>\<open>misused\<close> records a second acquisition or the release of what is not owned.\<close>

record pstate =
  owned :: "resource set"
  misused :: bool
  sent :: "u8 list"

type_synonym 'a proc = "pstate \<Rightarrow> (ending + 'a) \<times> pstate"

definition pret :: "'a \<Rightarrow> 'a proc" where
  "pret x s = (Inr x, s)"

definition pbind :: "'a proc \<Rightarrow> ('a \<Rightarrow> 'b proc) \<Rightarrow> 'b proc" where
  "pbind f g s = (case f s of (Inl e, s') \<Rightarrow> (Inl e, s') | (Inr x, s') \<Rightarrow> g x s')"

definition pexit :: "int \<Rightarrow> 'a proc" where
  "pexit n s = (Inl (Exits n), s)"

definition acquire :: "resource \<Rightarrow> unit proc" where
  "acquire r s =
     (Inr (), s\<lparr>owned := insert r (owned s), misused := misused s \<or> r \<in> owned s\<rparr>)"

definition release :: "resource \<Rightarrow> unit proc" where
  "release r s =
     (Inr (), s\<lparr>owned := owned s - {r}, misused := misused s \<or> r \<notin> owned s\<rparr>)"

definition pseq :: "'a proc \<Rightarrow> 'b proc \<Rightarrow> 'b proc" where
  "pseq f g = pbind f (\<lambda>_. g)"

text \<open>Signal delivery: a handler of these programs ends the process with a code.\<close>

type_synonym handlers = "int \<Rightarrow> int option"

definition deliver :: "handlers \<Rightarrow> int \<Rightarrow> ending" where
  "deliver h sg = (case h sg of Some code \<Rightarrow> Exits code | None \<Rightarrow> Dies sg)"

definition pcall :: "handlers \<Rightarrow> int + 'a \<Rightarrow> 'a proc" where
  "pcall h r s = (case r of Inl sg \<Rightarrow> (Inl (deliver h sg), s) | Inr x \<Rightarrow> (Inr x, s))"

text \<open>A message is a resource when there is one; \<open>free(NULL)\<close> releases nothing.\<close>

definition acquire_msg :: "string option \<Rightarrow> unit proc" where
  "acquire_msg m = (if m = None then pret () else acquire Errmsg)"

definition free_msg :: "string option \<Rightarrow> unit proc" where
  "free_msg m = (if m = None then pret () else release Errmsg)"

lemmas proc_defs = pret_def pbind_def pexit_def acquire_def release_def pseq_def pcall_def
  acquire_msg_def free_msg_def

definition start :: pstate where
  "start = \<lparr>owned = {}, misused = False, sent = []\<rparr>"

lemma start_simps [simp]: "owned start = {}" "\<not> misused start" "sent start = []"
  by (simp_all add: start_def)

text \<open>How a child that calls a function and then \<open>_exit\<close>s with its result ends.\<close>

definition child_end :: "int proc \<Rightarrow> ending" where
  "child_end p = (case p start of (Inl e, _) \<Rightarrow> e | (Inr n, _) \<Rightarrow> Exits n)"

lemma child_end_bind:
  "child_end (pbind f g) =
     (case f start of (Inl e, s) \<Rightarrow> e
      | (Inr x, s) \<Rightarrow> (case g x s of (Inl e, _) \<Rightarrow> e | (Inr n, _) \<Rightarrow> Exits n))"
  by (simp add: child_end_def pbind_def split: prod.splits sum.splits)

section \<open>Resource discipline\<close>

definition leak_free :: "'a proc \<Rightarrow> bool" where
  "leak_free p \<longleftrightarrow> (\<forall>x s'. p start = (Inr x, s') \<longrightarrow> owned s' = {} \<and> \<not> misused s')"

section \<open>\<open>write_all\<close>\<close>

text \<open>
  The loop of \<open>write_all\<close>: \<open>k\<close> counts the calls of \<open>write\<close>, each asked for the rest of
  the payload. It ends because every call that does not fail makes progress.
\<close>

function write_all_loop :: "(nat \<Rightarrow> nat \<Rightarrow> int) \<Rightarrow> u8 list \<Rightarrow> nat \<Rightarrow> nat \<Rightarrow> u8 list \<Rightarrow> int \<times> u8 list" where
  "write_all_loop wrc payload k written out =
     (if written < length payload then
        let rc = wrc k (length payload - written) in
        if rc \<le> 0 then (-1, out)
        else write_all_loop wrc payload (Suc k) (written + nat rc)
               (out @ take (nat rc) (drop written payload))
      else (0, out))"
  by pat_completeness auto
termination
  by (relation "measure (\<lambda>(wrc, payload, k, written, out). length payload - written)") auto

declare write_all_loop.simps [simp del]

definition write_all :: "os \<Rightarrow> u8 list \<Rightarrow> int proc" where
  "write_all os payload s =
     (let (rc, out) = write_all_loop (write_rc os) payload 0 0 [] in
      (Inr rc, s\<lparr>sent := sent s @ out\<rparr>))"

text \<open>POSIX: \<open>write\<close> never reports more than it was asked for.\<close>

definition honest_write :: "(nat \<Rightarrow> nat \<Rightarrow> int) \<Rightarrow> bool" where
  "honest_write wrc \<longleftrightarrow> (\<forall>k n. wrc k n \<le> int n)"

lemma write_all_loop_result:
  "honest_write wrc \<Longrightarrow> written \<le> length payload \<Longrightarrow> out = take written payload \<Longrightarrow>
   write_all_loop wrc payload k written out = (rc, res) \<Longrightarrow>
   (rc = 0 \<and> res = payload) \<or> (rc = -1 \<and> (\<exists>n < length payload. res = take n payload))"
proof (induction wrc payload k written out rule: write_all_loop.induct)
  case (1 wrc payload k written out)
  let ?rc = "wrc k (length payload - written)"
  show ?case
  proof (cases "written < length payload \<and> 0 < ?rc")
    case True
    then have le: "written + nat ?rc \<le> length payload"
    proof -
      have "?rc \<le> int (length payload - written)" using "1.prems"(1) by (simp add: honest_write_def)
      then show ?thesis using True by linarith
    qed
    have rest: "write_all_loop wrc payload (Suc k) (written + nat ?rc)
        (out @ take (nat ?rc) (drop written payload)) = (rc, res)"
      using "1.prems"(4) True by (simp add: write_all_loop.simps [of _ _ k] Let_def)
    have "out @ take (nat ?rc) (drop written payload) = take (written + nat ?rc) payload"
      using "1.prems"(3) by (simp add: take_add)
    from "1.IH" [OF _ refl _ "1.prems"(1) le this rest] True show ?thesis by simp
  next
    case False
    then show ?thesis
      using "1.prems"
      by (auto simp: write_all_loop.simps [of _ _ k] Let_def split: if_splits)
  qed
qed

lemma write_all_cases:
  assumes "honest_write (write_rc os)"
  obtains (all) "write_all os payload s = (Inr 0, s\<lparr>sent := sent s @ payload\<rparr>)"
  | (short) n where "n < length payload"
    "write_all os payload s = (Inr (-1), s\<lparr>sent := sent s @ take n payload\<rparr>)"
proof -
  obtain rc res where r: "write_all_loop (write_rc os) payload 0 0 [] = (rc, res)"
    by (cases "write_all_loop (write_rc os) payload 0 0 []")
  show ?thesis
    using write_all_loop_result [OF assms _ _ r] r that
    by (auto simp: write_all_def)
qed

section \<open>\<open>read_file\<close>\<close>

text \<open>The size is \<open>ftell\<close> at the end; the buffer is what \<open>fread\<close> filled, and a short read
  is an error. A directory or a stream that cannot seek shows up as an error code.\<close>

definition read_file :: "os \<Rightarrow> string \<Rightarrow> u8 list option proc" where
  "read_file os path =
     (let fp = file_at os path in
      if \<not> fopen_ok fp then pret None
      else if fseek_rc fp \<noteq> 0 then pret None
      else if ftell_rc fp < 0 then pret None
      else if \<not> malloc_ok fp then pret None
      else let size = nat (ftell_rc fp) in
        pseq (acquire Elf)
         (if fread_rc fp size \<noteq> size then pseq (release Elf) (pret None)
          else pret (Some (take size (file_bytes fp)))))"

text \<open>What a client relies on: the whole file or nothing, and the buffer is owned exactly
  when the contents are returned.\<close>

definition file_contents :: "os \<Rightarrow> string \<Rightarrow> u8 list option" where
  "file_contents os path =
     (let fp = file_at os path in
      if fopen_ok fp \<and> fseek_rc fp = 0 \<and> 0 \<le> ftell_rc fp \<and> malloc_ok fp \<and>
         fread_rc fp (nat (ftell_rc fp)) = nat (ftell_rc fp)
      then Some (take (nat (ftell_rc fp)) (file_bytes fp)) else None)"

lemma read_file_some:
  "file_contents os path = Some elf \<Longrightarrow> Elf \<notin> owned s \<Longrightarrow>
   read_file os path s = (Inr (Some elf), s\<lparr>owned := insert Elf (owned s)\<rparr>)"
  by (auto simp: read_file_def file_contents_def Let_def proc_defs split: if_splits)

lemma read_file_none:
  "file_contents os path = None \<Longrightarrow> Elf \<notin> owned s \<Longrightarrow> read_file os path s = (Inr None, s)"
  by (cases s) (auto simp: read_file_def file_contents_def Let_def proc_defs split: if_splits)

section \<open>Waiting for a child\<close>

definition wait_child :: "os \<Rightarrow> ending \<Rightarrow> wait_status option" where
  "wait_child os e = (if waitpid_ok os then Some (status_of e) else None)"

text \<open>One read of the parent from the pipe into a zeroed 64-bit value: the count and the
  value. The parent reads at most eight bytes of what the child wrote.\<close>

definition read_pipe :: "os \<Rightarrow> u8 list \<Rightarrow> int \<times> u64" where
  "read_pipe os out =
     (let n = read_rc os (min 8 (length out)) in
      (n, of_le (take (nat n) out @ replicate (8 - nat n) 0)))"

definition honest_read :: "os \<Rightarrow> bool" where
  "honest_read os \<longleftrightarrow> (\<forall>n. read_rc os n = int n)"

lemma read_pipe_whole:
  "honest_read os \<Longrightarrow> read_pipe os (le_bytes 8 v) = (8, v)"
  by (simp add: read_pipe_def honest_read_def Let_def) (simp only: c64.dec_enc)

lemma read_pipe_short:
  "honest_read os \<Longrightarrow> length out < 8 \<Longrightarrow> fst (read_pipe os out) \<noteq> 8"
  by (simp add: read_pipe_def honest_read_def Let_def)

section \<open>Children with a pipe\<close>

text \<open>How a child ends together with what it has written to its pipe.\<close>

definition child_result :: "int proc \<Rightarrow> ending \<times> u8 list" where
  "child_result p = (case p start of (Inl e, s) \<Rightarrow> (e, sent s) | (Inr n, s) \<Rightarrow> (Exits n, sent s))"

definition full_write :: "os \<Rightarrow> bool" where
  "full_write os \<longleftrightarrow> (\<forall>k n. 0 < n \<longrightarrow> 0 < write_rc os k n \<and> write_rc os k n \<le> int n)"

lemma write_all_loop_full:
  "full_write os \<Longrightarrow> written \<le> length payload \<Longrightarrow>
   fst (write_all_loop (write_rc os) payload k written out) = 0 \<and>
   snd (write_all_loop (write_rc os) payload k written out) = out @ drop written payload"
proof (induction "write_rc os" payload k written out rule: write_all_loop.induct)
  case (1 payload k written out)
  let ?rc = "write_rc os k (length payload - written)"
  show ?case
  proof (cases "written < length payload")
    case True
    have rc: "0 < ?rc" "?rc \<le> int (length payload - written)"
      using "1.prems"(1) True unfolding full_write_def by (metis zero_less_diff)+
    then have le: "written + nat ?rc \<le> length payload" using True by linarith
    have "take (nat ?rc) (drop written payload) @ drop (written + nat ?rc) payload =
        drop written payload"
      by (metis add.commute append_take_drop_id drop_drop)
    then show ?thesis
      using "1.hyps" [OF True refl _ "1.prems"(1) le] rc True
      by (simp add: write_all_loop.simps [of _ _ k] Let_def)
  next
    case False
    then show ?thesis using "1.prems" by (simp add: write_all_loop.simps [of _ _ k])
  qed
qed

lemma write_all_loop_whole:
  "full_write os \<Longrightarrow> write_all_loop (write_rc os) payload 0 0 [] = (0, payload)"
  using write_all_loop_full [of os 0 payload 0 "[]"] by (simp add: prod_eq_iff)

lemma write_all_full:
  "full_write os \<Longrightarrow> write_all os payload s = (Inr 0, s\<lparr>sent := sent s @ payload\<rparr>)"
  by (simp add: write_all_def write_all_loop_whole)

end
