(* ===== verification/Suite_Generated.thy ===== *)
theory Suite_Generated
  imports Generated_Cases Process
begin

text \<open>
  The purecap suite over the generated programs, \<open>test_cheri_generated_bpf.c\<close>: the signal
  handlers of the child, the load-compile-call pipeline with its exit codes and resource
  handling, the verdict of the parent, and \<open>main\<close>.
\<close>

section \<open>The child\<close>

definition gen_trap_handler :: "bool \<Rightarrow> int" where
  "gen_trap_handler expect_signal_trap = (if expect_signal_trap then 0 else 31)"

definition gen_install_trap_handlers :: "os \<Rightarrow> generated_bpf_expectation \<Rightarrow> handlers proc" where
  "gen_install_trap_handlers os ex =
     (let expect_signal_trap = (ex = EXPECT_CHERI_TRAP) in
      if \<not> sigaction_ok os SIGPROT then pexit 11
      else if \<not> sigaction_ok os SIGSEGV then pexit 11
      else pret [SIGPROT \<mapsto> gen_trap_handler expect_signal_trap,
                 SIGSEGV \<mapsto> gen_trap_handler expect_signal_trap])"

definition words_object :: "u64 list \<Rightarrow> object" where
  "words_object ws =
     \<lparr>logical_len = 8 * length ws, backing_len = 8 * length ws, content = words_content ws\<rparr>"

definition prepared :: "handlers \<Rightarrow> fault + 'a \<Rightarrow> 'a proc" where
  "prepared h r = pcall h (case r of Inl f \<Rightarrow> Inl (fault_signal f) | Inr x \<Rightarrow> Inr x)"

definition gen_load_compile_and_call ::
  "os \<Rightarrow> 'v ubpf \<Rightarrow> handlers \<Rightarrow> generated_bpf_case \<Rightarrow> int proc" where
  "gen_load_compile_and_call os v h c =
     pbind (read_file os (object_path c)) (\<lambda>elf_opt.
     case elf_opt of None \<Rightarrow> pret 2
     | Some elf \<Rightarrow>
     (case ubpf_create v of None \<Rightarrow> pseq (release Elf) (pret 2)
     | Some vm0 \<Rightarrow>
     pseq (acquire Vm)
     (let vm1 = ubpf_cheri_set_map_value_helper_index v vm0 GENERATED_BPF_HELPER_MAP_LOOKUP;
          (rc, vm2) = ubpf_register v vm1 GENERATED_BPF_HELPER_MAP_LOOKUP GENERATED_BPF_HELPER_MAP_NAME
      in if rc \<noteq> 0 then pseq (release Vm) (pseq (release Elf) (pret 2))
      else case ubpf_load_elf_ex v vm2 elf (symbol c) of
        Inl errmsg \<Rightarrow> pseq (acquire_msg errmsg) (pseq (free_msg errmsg)
          (pseq (release Vm) (pseq (release Elf) (pret 1))))
      | Inr vm3 \<Rightarrow> (case ubpf_compile v vm3 of
          Inl errmsg \<Rightarrow> pseq (acquire_msg errmsg) (pseq (free_msg errmsg)
            (pseq (release Vm) (pseq (release Elf) (pret 1))))
        | Inr fn \<Rightarrow>
          pbind (prepared h (prepare_words [junk os 0, junk os 1] 2)) (\<lambda>ctx.
          pbind (prepared h (prepare_words [junk os 2, junk os 3] 2)) (\<lambda>mp.
          let mem = (if memory_root c = GENERATED_ROOT_HELPER_MAP then mp else ctx);
              mem_len = 8 * length mem in
          pbind (pcall h (fn (words_object mem) mem_len)) (\<lambda>result.
          pseq (release Vm) (pseq (release Elf)
          (if expectation c = EXPECT_CHERI_TRAP then pret 20
           else pret (if result = expected_result c then 0 else 21))))))))))"

definition gen_child :: "os \<Rightarrow> 'v ubpf \<Rightarrow> generated_bpf_case \<Rightarrow> int proc" where
  "gen_child os v c =
     pbind (gen_install_trap_handlers os (expectation c)) (\<lambda>h. gen_load_compile_and_call os v h c)"

section \<open>The parent\<close>

definition gen_run_case :: "os \<Rightarrow> 'v ubpf \<Rightarrow> generated_bpf_case \<Rightarrow> nat" where
  "gen_run_case os v c =
     (if \<not> fork_ok os then 1
      else case wait_child os (child_end (gen_child os v c)) of None \<Rightarrow> 1
      | Some status \<Rightarrow>
        if WIFSIGNALED status then (if expectation c = EXPECT_CHERI_TRAP then 0 else 1)
        else let exit_status = (if WIFEXITED status then WEXITSTATUS status else 99)
          in if exit_status = 0 then 0 else 1)"

definition gen_main :: "(nat \<Rightarrow> os) \<Rightarrow> 'v ubpf \<Rightarrow> nat" where
  "gen_main env v =
     (let failures = sum_list (map (\<lambda>(os, c). gen_run_case os v c)
            (paired env (generated_bpf_cases ''/mnt/bpf/'')))
      in if failures \<noteq> 0 then 1 else 0)"

section \<open>What the child does, as a pipeline\<close>

text \<open>The stages before the call: an exit code, or the compiled function.\<close>

definition gen_stage :: "os \<Rightarrow> 'v ubpf \<Rightarrow> generated_bpf_case \<Rightarrow> int + jit_fn" where
  "gen_stage os v c =
     (case file_contents os (object_path c) of None \<Rightarrow> Inl 2
      | Some elf \<Rightarrow> (case ubpf_create v of None \<Rightarrow> Inl 2
      | Some vm \<Rightarrow>
        let r = ubpf_register v (ubpf_cheri_set_map_value_helper_index v vm 7) 7 ''map_lookup_value''
        in if fst r \<noteq> 0 then Inl 2
        else case ubpf_load_elf_ex v (snd r) elf (symbol c) of Inl _ \<Rightarrow> Inl 1
        | Inr vm' \<Rightarrow> (case ubpf_compile v vm' of Inl _ \<Rightarrow> Inl 1 | Inr fn \<Rightarrow> Inr fn)))"

definition signals_ok :: "os \<Rightarrow> bool" where
  "signals_ok os \<longleftrightarrow> sigaction_ok os SIGPROT \<and> sigaction_ok os SIGSEGV"

abbreviation two_word_object :: object where
  "two_word_object \<equiv> words_object [0x1000, 0x2000]"

lemma prepared_two [simp]:
  "prepared h (prepare_words [a, b] 2) s = (Inr [0x1000, 0x2000], s)"
  by (simp add: prepared_def prepare_words_fits proc_defs)

lemma gen_stage_code: "gen_stage os v c = Inl k \<Longrightarrow> k = 1 \<or> k = 2"
  by (auto simp: gen_stage_def Let_def split: option.splits sum.splits if_splits)

lemma gen_load_stage_fails:
  assumes "gen_stage os v c = Inl k"
  shows "gen_load_compile_and_call os v h c start = (Inr k, start)"
  using assms
  by (cases "file_contents os (object_path c)")
    (auto simp: gen_load_compile_and_call_def gen_stage_def Let_def proc_defs start_def
      read_file_none read_file_some GENERATED_BPF_HELPER_MAP_LOOKUP_def
      GENERATED_BPF_HELPER_MAP_NAME_def split: option.splits sum.splits if_splits prod.splits)

lemma gen_load_stage_ok:
  assumes "gen_stage os v c = Inr fn"
  shows "gen_load_compile_and_call os v h c start =
    (case fn two_word_object 16 of
       Inl sg \<Rightarrow> (Inl (deliver h sg), start\<lparr>owned := {Elf, Vm}\<rparr>)
     | Inr r \<Rightarrow> (Inr (if expectation c = EXPECT_CHERI_TRAP then 20
                     else if r = expected_result c then 0 else 21), start))"
proof -
  obtain elf where f: "file_contents os (object_path c) = Some elf"
    using assms by (auto simp: gen_stage_def split: option.splits)
  obtain vm where cr: "ubpf_create v = Some vm"
    using assms f by (auto simp: gen_stage_def split: option.splits)
  obtain rc vm2 where rg: "ubpf_register v (ubpf_cheri_set_map_value_helper_index v vm 7) 7
      ''map_lookup_value'' = (rc, vm2)"
    by (cases "ubpf_register v (ubpf_cheri_set_map_value_helper_index v vm 7) 7 ''map_lookup_value''")
  have rc: "rc = 0" using assms f cr rg by (auto simp: gen_stage_def split: if_splits)
  obtain vm3 where l: "ubpf_load_elf_ex v vm2 elf (symbol c) = Inr vm3"
    using assms f cr rg rc by (auto simp: gen_stage_def split: sum.splits)
  have cp: "ubpf_compile v vm3 = Inr fn"
    using assms f cr rg rc l by (auto simp: gen_stage_def split: sum.splits)
  have rd: "read_file os (object_path c) start = (Inr (Some elf), start\<lparr>owned := {Elf}\<rparr>)"
    using read_file_some [OF f, of start] by (simp add: start_def)
  show ?thesis
    by (cases "fn two_word_object 16")
      (auto simp: gen_load_compile_and_call_def rd [unfolded start_def] cr rg rc l cp GENERATED_BPF_HELPER_MAP_LOOKUP_def
        GENERATED_BPF_HELPER_MAP_NAME_def proc_defs start_def Let_def)
qed

lemma gen_child_end:
  assumes "signals_ok os"
  shows "child_end (gen_child os v c) =
    (case gen_stage os v c of Inl k \<Rightarrow> Exits k
     | Inr fn \<Rightarrow> (case fn two_word_object 16 of
         Inl sg \<Rightarrow> if sg = SIGPROT \<or> sg = SIGSEGV
           then Exits (if expectation c = EXPECT_CHERI_TRAP then 0 else 31) else Dies sg
       | Inr r \<Rightarrow> Exits (if expectation c = EXPECT_CHERI_TRAP then 20
                       else if r = expected_result c then 0 else 21)))"
proof -
  define h where "h = [SIGPROT \<mapsto> gen_trap_handler (expectation c = EXPECT_CHERI_TRAP),
    SIGSEGV \<mapsto> gen_trap_handler (expectation c = EXPECT_CHERI_TRAP)]"
  have "gen_install_trap_handlers os (expectation c) start = (Inr h, start)"
    using assms by (simp add: gen_install_trap_handlers_def signals_ok_def h_def Let_def pret_def)
  then have e: "child_end (gen_child os v c) =
      (case gen_load_compile_and_call os v h c start of (Inl e, _) \<Rightarrow> e | (Inr n, _) \<Rightarrow> Exits n)"
    by (simp add: gen_child_def child_end_bind)
  show ?thesis
    by (cases "gen_stage os v c")
      (auto simp: e gen_load_stage_fails gen_load_stage_ok deliver_def h_def gen_trap_handler_def
        split: sum.splits)
qed

lemma gen_child_no_signals: "\<not> signals_ok os \<Longrightarrow> child_end (gen_child os v c) = Exits 11"
  by (auto simp: gen_child_def child_end_bind gen_install_trap_handlers_def signals_ok_def pexit_def Let_def)

section \<open>The verdict\<close>

definition kernel_ok :: "os \<Rightarrow> bool" where
  "kernel_ok os \<longleftrightarrow> fork_ok os \<and> waitpid_ok os \<and> signals_ok os"

definition gen_as_expected :: "generated_bpf_case \<Rightarrow> int + u64 \<Rightarrow> bool" where
  "gen_as_expected c r \<longleftrightarrow>
     (case expectation c of EXPECT_RETURN \<Rightarrow> r = Inr (expected_result c)
      | EXPECT_CHERI_TRAP \<Rightarrow> (\<exists>sg. r = Inl sg))"

lemma gen_run_case_verdict:
  "gen_run_case os v c = 0 \<longleftrightarrow> kernel_ok os \<and>
     (\<exists>fn. gen_stage os v c = Inr fn \<and> gen_as_expected c (fn two_word_object 16))"
proof (cases "signals_ok os")
  case False
  then show ?thesis
    by (auto simp: gen_run_case_def kernel_ok_def wait_child_def gen_child_no_signals)
next
  case True
  show ?thesis
  proof (cases "gen_stage os v c")
    case (Inl k)
    then show ?thesis using True gen_stage_code [OF Inl]
      by (auto simp: gen_run_case_def kernel_ok_def wait_child_def gen_child_end)
  next
    case (Inr fn)
    show ?thesis
    proof (cases "fn two_word_object 16")
      case (Inl sg)
      then show ?thesis using True Inr
        by (cases "expectation c")
          (auto simp: gen_run_case_def kernel_ok_def wait_child_def gen_child_end gen_as_expected_def)
    next
      case (Inr r)
      then show ?thesis using True \<open>gen_stage os v c = Inr fn\<close>
        by (cases "expectation c")
          (auto simp: gen_run_case_def kernel_ok_def wait_child_def gen_child_end gen_as_expected_def)
    qed
  qed
qed

lemma gen_run_case_le_1: "gen_run_case os v c \<le> 1"
  by (simp add: gen_run_case_def Let_def split: option.splits)

interpretation gen: suite "\<lambda>(os, c). gen_run_case os v c" for v :: "'v ubpf"
  by unfold_locales (auto simp: gen_run_case_le_1 simp del: One_nat_def)

lemma gen_main_verdict:
  "gen_main env v = 0 \<longleftrightarrow>
     (\<forall>i < length (generated_bpf_cases ''/mnt/bpf/'').
        gen_run_case (env i) v (generated_bpf_cases ''/mnt/bpf/'' ! i) = 0)"
  by (simp only: gen_main_def Let_def gen.exit_zero ball_paired prod.case)

section \<open>Properties of the suite\<close>

text \<open>C2: the verdict of a case is exact. \<open>run_case\<close> reports success exactly when the
  kernel calls succeeded, every stage up to \<open>ubpf_compile\<close> succeeded, and the compiled
  program, called on the two prepared words, did what the table says: returned the
  expected value, or raised a signal if a trap is expected. No failing stage, exit code or
  handler is ever mistaken for a pass.\<close>
theorem gen_case_verdict:
  "gen_run_case os v c = 0 \<longleftrightarrow> kernel_ok os \<and>
     (\<exists>fn. gen_stage os v c = Inr fn \<and> gen_as_expected c (fn two_word_object 16))"
  by (rule gen_run_case_verdict)

text \<open>The exit status of the suite is 0 exactly when all fourteen cases behaved as the
  table says; one failing case, whichever it is, makes it 1.\<close>
lemma gen_suite_passes:
  "gen_main env v = (if \<forall>i < length (generated_bpf_cases ''/mnt/bpf/'').
        kernel_ok (env i) \<and>
        (\<exists>fn. gen_stage (env i) v (generated_bpf_cases ''/mnt/bpf/'' ! i) = Inr fn \<and>
           gen_as_expected (generated_bpf_cases ''/mnt/bpf/'' ! i) (fn two_word_object 16))
      then 0 else 1)"
proof -
  have "gen_main env v = 0 \<or> gen_main env v = 1" by (simp add: gen_main_def Let_def)
  then show ?thesis using gen_main_verdict [of env v] by (auto simp: gen_run_case_verdict)
qed

text \<open>C21: the child owns nothing when it is about to exit. On every path that returns an
  exit code, from a missing object file to a completed run, the file buffer, the virtual
  machine and the error message have been released, each exactly once.\<close>
theorem gen_child_leak_free:
  "leak_free (gen_load_compile_and_call os v h c)"
  by (cases "gen_stage os v c")
    (auto simp: leak_free_def gen_load_stage_fails gen_load_stage_ok split: sum.splits)

text \<open>What a virtual machine shows to a caller when it runs a fixture: a fault is a signal.\<close>

fun signal_outcome :: "fault + u64 \<Rightarrow> int + u64" where
  "signal_outcome (Inl f) = Inl (fault_signal f)"
| "signal_outcome (Inr r) = Inr r"

definition vm_conforms ::
  "(u32 \<Rightarrow> u64) \<Rightarrow> frame \<Rightarrow> object \<Rightarrow> os \<Rightarrow> 'v ubpf \<Rightarrow> generated_bpf_case \<Rightarrow> bool" where
  "vm_conforms ext fr stack os v c \<longleftrightarrow>
     (\<exists>fn. gen_stage os v c = Inr fn \<and>
        Some (fn two_word_object 16) =
          map_option signal_outcome (case_outcome ext fr Cheri (cheri_memory [0x1000, 0x2000] stack) c))"

lemma cheri_memory_object: "cheri_memory ws stack MemObj = words_object ws"
  by (simp add: cheri_memory_def words_object_def)

lemma conforming_case_passes:
  assumes "frame_ok (logical_len stack) fr" and "logical_len stack \<le> 4096" and "int_ext ext"
    and "c \<in> set (generated_bpf_cases root)" and "kernel_ok os" and "vm_conforms ext fr stack os v c"
  shows "gen_run_case os v c = 0"
proof -
  have "case_outcome ext fr Cheri (cheri_memory [0x1000, 0x2000] stack) c = Some (cheri_expected c)"
    by (rule cheri_cases_outcome [OF _ _ _ _ assms(3,4)])
      (use assms(1,2) in \<open>simp_all add: two_words_cheri bound_memories\<close>)
  with assms(6) obtain fn where "gen_stage os v c = Inr fn"
    and "fn two_word_object 16 = signal_outcome (cheri_expected c)"
    by (auto simp: vm_conforms_def)
  then show ?thesis
    using assms(5)
    by (auto simp: gen_run_case_verdict gen_as_expected_def cheri_expected_def
        split: generated_bpf_expectation.split)
qed

text \<open>C1: the suite accepts a correct JIT. If the kernel calls succeed and the virtual
  machine loads every object and runs it as the C fixture runs under capability bounds,
  with an eBPF stack of at most 4096 bytes, then \<open>main\<close> returns 0. The fourteen
  expectations of the table are consistent with the fixtures they name.\<close>
theorem gen_suite_accepts_conforming:
  assumes "frame_ok (logical_len stack) fr" and "logical_len stack \<le> 4096" and "int_ext ext"
    and "\<forall>i < length (generated_bpf_cases ''/mnt/bpf/''). kernel_ok (env i)"
    and "\<forall>i < length (generated_bpf_cases ''/mnt/bpf/'').
      vm_conforms ext fr stack (env i) v (generated_bpf_cases ''/mnt/bpf/'' ! i)"
  shows "gen_main env v = 0"
  unfolding gen_main_verdict
proof (intro allI impI)
  fix i assume i: "i < length (generated_bpf_cases ''/mnt/bpf/'')"
  show "gen_run_case (env i) v (generated_bpf_cases ''/mnt/bpf/'' ! i) = 0"
    using assms(4,5) i by (intro conforming_case_passes [OF assms(1-3), where root = "''/mnt/bpf/''"]) auto
qed

text \<open>A kernel and a machine for the witness: file \<open>i\<close> holds the byte \<open>i\<close>, and the machine
  compiles that byte to the behaviour of case \<open>i\<close>.\<close>

definition demo_os :: "nat \<Rightarrow> os" where
  "demo_os i = \<lparr>fork_ok = True, waitpid_ok = True, pipe_ok = True, sigaction_ok = (\<lambda>_. True),
     file_at = (\<lambda>_. \<lparr>fopen_ok = True, fseek_rc = 0, ftell_rc = 1, malloc_ok = True,
       fread_rc = (\<lambda>n. n), file_bytes = [of_nat i]\<rparr>),
     write_rc = (\<lambda>_ n. int n), read_rc = int, junk = (\<lambda>_. 7)\<rparr>"

definition demo_vm :: "(nat \<Rightarrow> int + u64) \<Rightarrow> u8 list ubpf" where
  "demo_vm behave = \<lparr>ubpf_create = Some [], ubpf_cheri_set_map_value_helper_index = (\<lambda>v _. v),
     ubpf_register = (\<lambda>v _ _. (0, v)), ubpf_load_elf_ex = (\<lambda>_ elf _. Inr elf),
     ubpf_load = (\<lambda>_ code. Inr code), ubpf_compile = (\<lambda>v. Inr (\<lambda>_ _. behave (unat (v ! 0)))),
     ubpf_use_stock_jit = (\<lambda>v _. v), set_jit_translate_cheri = (\<lambda>v. v),
     ubpf_translate_ex = (\<lambda>_. (0, None)), ubpf_exec = (\<lambda>_ _ _. Inr None)\<rparr>"

lemma demo_kernel_ok: "kernel_ok (demo_os i)"
  by (simp add: kernel_ok_def signals_ok_def demo_os_def)

lemma demo_stage:
  "i < 256 \<Longrightarrow> gen_stage (demo_os i) (demo_vm behave) c = Inr (\<lambda>_ _. behave i)"
  by (simp add: gen_stage_def demo_os_def demo_vm_def file_contents_def unat_of_nat)

lemma length_generated: "length (generated_bpf_cases root) = 14"
  by (simp add: generated_bpf_cases_def)

lemma gen_suite_passes_example: "gen_main demo_os (demo_vm (\<lambda>_. Inl 34)) = 1"
proof -
  have "\<not> gen_as_expected (generated_bpf_cases ''/mnt/bpf/'' ! 0) (Inl 34)"
    by (simp add: gen_as_expected_def generated_bpf_cases_def)
  then have "\<not> (\<forall>i < length (generated_bpf_cases ''/mnt/bpf/''). kernel_ok (demo_os i) \<and>
      (\<exists>fn. gen_stage (demo_os i) (demo_vm (\<lambda>_. Inl 34)) (generated_bpf_cases ''/mnt/bpf/'' ! i) = Inr fn \<and>
        gen_as_expected (generated_bpf_cases ''/mnt/bpf/'' ! i) (fn two_word_object 16)))"
    by (auto simp: length_generated demo_stage intro!: exI [of _ 0])
  then show ?thesis using gen_suite_passes [of demo_os "demo_vm (\<lambda>_. Inl 34)"] by (simp only: if_False)
qed

theorem gen_suite_accepts_conforming_witness:
  "gen_main demo_os (demo_vm (\<lambda>i. signal_outcome (the (case_outcome ucast witness_frame Cheri
     (cheri_memory [0x1000, 0x2000] (witness_stack 512 512))
     (generated_bpf_cases ''/mnt/bpf/'' ! i))))) = 0"
proof (rule gen_suite_accepts_conforming)
  show "frame_ok (logical_len (witness_stack 512 512)) witness_frame"
    by (simp add: witness_stack_def witness_frame_ok)
  show "\<forall>i < length (generated_bpf_cases ''/mnt/bpf/'').
      vm_conforms ucast witness_frame (witness_stack 512 512) (demo_os i)
       (demo_vm (\<lambda>i. signal_outcome (the (case_outcome ucast witness_frame Cheri
         (cheri_memory [0x1000, 0x2000] (witness_stack 512 512))
         (generated_bpf_cases ''/mnt/bpf/'' ! i))))) (generated_bpf_cases ''/mnt/bpf/'' ! i)"
  proof (intro allI impI)
    fix i assume i: "i < length (generated_bpf_cases ''/mnt/bpf/'')"
    then have "generated_bpf_cases ''/mnt/bpf/'' ! i \<in> set (generated_bpf_cases ''/mnt/bpf/'')"
      by simp
    from cheri_cases_outcome [OF two_words_cheri _ _ _ int_ext_zero this,
      of "witness_stack 512 512" witness_frame]
    have "case_outcome ucast witness_frame Cheri (cheri_memory [0x1000, 0x2000] (witness_stack 512 512))
      (generated_bpf_cases ''/mnt/bpf/'' ! i) = Some (cheri_expected (generated_bpf_cases ''/mnt/bpf/'' ! i))"
      by (simp add: bound_memories witness_stack_def witness_frame_ok)
    with i show "vm_conforms ucast witness_frame (witness_stack 512 512) (demo_os i)
       (demo_vm (\<lambda>i. signal_outcome (the (case_outcome ucast witness_frame Cheri
         (cheri_memory [0x1000, 0x2000] (witness_stack 512 512))
         (generated_bpf_cases ''/mnt/bpf/'' ! i))))) (generated_bpf_cases ''/mnt/bpf/'' ! i)"
      by (simp add: vm_conforms_def demo_stage length_generated)
  qed
qed (simp_all add: witness_stack_def int_ext_zero demo_kernel_ok)

end
