(* ===== verification/Suite_Host.thy ===== *)
theory Suite_Host
  imports Suite_Generated
begin

text \<open>
  The comparison baseline \<open>test_generated_bpf_host.c\<close>: the same cases under a JIT without
  capabilities. The child passes its result through a pipe; the parent turns what it sees
  into a \<open>host_outcome\<close> and the outcome into a verdict.
\<close>

section \<open>Outcomes\<close>

datatype host_outcome_kind = HOST_RETURNED | HOST_SIGNALLED | HOST_ERROR

record host_outcome =
  ho_kind :: host_outcome_kind
  ho_value :: u64
  ho_signal :: int
  ho_exit_status :: int

definition zero_outcome :: host_outcome where
  "zero_outcome = \<lparr>ho_kind = HOST_RETURNED, ho_value = 0, ho_signal = 0, ho_exit_status = 0\<rparr>"

definition host_outcome_matches :: "generated_bpf_case \<Rightarrow> host_outcome \<Rightarrow> bool" where
  "host_outcome_matches c oc =
     (if expectation c = EXPECT_RETURN
      then ho_kind oc = HOST_RETURNED \<and> ho_value oc = expected_result c
      else ho_kind oc = HOST_RETURNED \<or> ho_kind oc = HOST_SIGNALLED)"


section \<open>The child\<close>

definition host_object :: "os \<Rightarrow> generated_bpf_case \<Rightarrow> object" where
  "host_object os c =
     \<lparr>logical_len = (if memory_root c = GENERATED_ROOT_HELPER_MAP then HOST_MAP_LOGICAL_BYTES
                    else HOST_CONTEXT_LOGICAL_BYTES),
      backing_len = HOST_CONTEXT_BACKING_BYTES,
      content = prepare_backing HOST_CONTEXT_BACKING_BYTES (\<lambda>i. ucast (junk os i))\<rparr>"

definition host_load_compile_and_call :: "os \<Rightarrow> 'v ubpf \<Rightarrow> generated_bpf_case \<Rightarrow> int proc" where
  "host_load_compile_and_call os v c =
     (let backing = host_object os c in
     pbind (read_file os (object_path c)) (\<lambda>elf_opt.
     case elf_opt of None \<Rightarrow> pret 2
     | Some elf \<Rightarrow>
     (case ubpf_create v of None \<Rightarrow> pseq (release Elf) (pret 2)
     | Some vm0 \<Rightarrow>
     pseq (acquire Vm)
     (let vm1 = ubpf_cheri_set_map_value_helper_index v vm0 GENERATED_BPF_HELPER_MAP_LOOKUP;
          (rc, vm2) = ubpf_register v vm1 GENERATED_BPF_HELPER_MAP_LOOKUP GENERATED_BPF_HELPER_MAP_NAME
      in if rc \<noteq> 0 then pseq (release Vm) (pseq (release Elf) (pret 2))
      else case ubpf_load_elf_ex v vm2 elf (symbol c) of
        Inl errmsg \<Rightarrow> pseq (acquire_msg errmsg) (pseq (free_msg errmsg)
          (pseq (release Vm) (pseq (release Elf) (pret 3))))
      | Inr vm3 \<Rightarrow> (case ubpf_compile v vm3 of
          Inl errmsg \<Rightarrow> pseq (acquire_msg errmsg) (pseq (free_msg errmsg)
            (pseq (release Vm) (pseq (release Elf) (pret 4))))
        | Inr fn \<Rightarrow>
          pbind (pcall Map.empty (fn backing (logical_len backing))) (\<lambda>result.
          pbind (write_all os (le_bytes 8 result)) (\<lambda>rc.
          if rc \<noteq> 0 then pseq (release Vm) (pseq (release Elf) (pret 5))
          else pseq (release Vm) (pseq (release Elf) (pret 0)))))))))"

section \<open>The parent\<close>

definition host_run_case_child :: "os \<Rightarrow> 'v ubpf \<Rightarrow> generated_bpf_case \<Rightarrow> host_outcome" where
  "host_run_case_child os v c =
     (if \<not> pipe_ok os then zero_outcome\<lparr>ho_kind := HOST_ERROR, ho_exit_status := 90\<rparr>
      else if \<not> fork_ok os then zero_outcome\<lparr>ho_kind := HOST_ERROR, ho_exit_status := 91\<rparr>
      else let (e, out) = child_result (host_load_compile_and_call os v c);
               (n, value) = read_pipe os out
        in case wait_child os e of
          None \<Rightarrow> zero_outcome\<lparr>ho_kind := HOST_ERROR, ho_exit_status := 92\<rparr>
        | Some status \<Rightarrow>
          if WIFSIGNALED status
          then zero_outcome\<lparr>ho_kind := HOST_SIGNALLED, ho_signal := WTERMSIG status\<rparr>
          else if \<not> WIFEXITED status
          then zero_outcome\<lparr>ho_kind := HOST_ERROR, ho_exit_status := 93\<rparr>
          else let oc = zero_outcome\<lparr>ho_exit_status := WEXITSTATUS status\<rparr> in
            if ho_exit_status oc = 0 \<and> n = 8
            then oc\<lparr>ho_kind := HOST_RETURNED, ho_value := value\<rparr>
            else oc\<lparr>ho_kind := HOST_ERROR\<rparr>)"

definition host_failed :: "os \<Rightarrow> 'v ubpf \<Rightarrow> generated_bpf_case \<Rightarrow> nat" where
  "host_failed os v c = (if host_outcome_matches c (host_run_case_child os v c) then 0 else 1)"

definition host_main :: "(nat \<Rightarrow> os) \<Rightarrow> 'v ubpf \<Rightarrow> nat" where
  "host_main env v =
     (let failures = sum_list (map (\<lambda>(os, c). host_failed os v c)
            (paired env (generated_bpf_cases ''workspace/bpf/'')))
      in if failures \<noteq> 0 then 1 else 0)"

section \<open>The child as a pipeline\<close>

definition host_stage :: "os \<Rightarrow> 'v ubpf \<Rightarrow> generated_bpf_case \<Rightarrow> int + jit_fn" where
  "host_stage os v c =
     (case file_contents os (object_path c) of None \<Rightarrow> Inl 2
      | Some elf \<Rightarrow> (case ubpf_create v of None \<Rightarrow> Inl 2
      | Some vm \<Rightarrow>
        let r = ubpf_register v (ubpf_cheri_set_map_value_helper_index v vm 7) 7 ''map_lookup_value''
        in if fst r \<noteq> 0 then Inl 2
        else case ubpf_load_elf_ex v (snd r) elf (symbol c) of Inl _ \<Rightarrow> Inl 3
        | Inr vm' \<Rightarrow> (case ubpf_compile v vm' of Inl _ \<Rightarrow> Inl 4 | Inr fn \<Rightarrow> Inr fn)))"

lemma host_stage_gen: "host_stage os v c = Inr fn \<longleftrightarrow> gen_stage os v c = Inr fn"
  by (auto simp: host_stage_def gen_stage_def Let_def split: option.splits sum.splits)

lemma host_stage_code: "host_stage os v c = Inl k \<Longrightarrow> k = 2 \<or> k = 3 \<or> k = 4"
  by (auto simp: host_stage_def Let_def split: option.splits sum.splits if_splits)

lemma host_load_fails:
  assumes "host_stage os v c = Inl k"
  shows "host_load_compile_and_call os v c start = (Inr k, start)"
  using assms
  by (cases "file_contents os (object_path c)")
    (auto simp: host_load_compile_and_call_def host_stage_def Let_def proc_defs start_def
      read_file_none read_file_some GENERATED_BPF_HELPER_MAP_LOOKUP_def
      GENERATED_BPF_HELPER_MAP_NAME_def split: option.splits sum.splits if_splits prod.splits)

lemma host_object_len [simp]: "logical_len (host_object os c) = 16"
  by (simp add: host_object_def host_sizes)

lemma host_load_ok:
  assumes "host_stage os v c = Inr fn"
  shows "host_load_compile_and_call os v c start =
    (case fn (host_object os c) 16 of
       Inl sg \<Rightarrow> (Inl (Dies sg), start\<lparr>owned := {Elf, Vm}\<rparr>)
     | Inr r \<Rightarrow> (case write_all_loop (write_rc os) (le_bytes 8 r) 0 0 [] of
         (rc, out) \<Rightarrow> (Inr (if rc = 0 then 0 else 5), start\<lparr>sent := out\<rparr>)))"
proof -
  obtain elf where f: "file_contents os (object_path c) = Some elf"
    using assms by (auto simp: host_stage_def split: option.splits)
  obtain vm where cr: "ubpf_create v = Some vm"
    using assms f by (auto simp: host_stage_def split: option.splits)
  obtain rc vm2 where rg: "ubpf_register v (ubpf_cheri_set_map_value_helper_index v vm 7) 7
      ''map_lookup_value'' = (rc, vm2)"
    by (cases "ubpf_register v (ubpf_cheri_set_map_value_helper_index v vm 7) 7 ''map_lookup_value''")
  have rc: "rc = 0" using assms f cr rg by (auto simp: host_stage_def split: if_splits)
  obtain vm3 where l: "ubpf_load_elf_ex v vm2 elf (symbol c) = Inr vm3"
    using assms f cr rg rc by (auto simp: host_stage_def split: sum.splits)
  have cp: "ubpf_compile v vm3 = Inr fn"
    using assms f cr rg rc l by (auto simp: host_stage_def split: sum.splits)
  have rd: "read_file os (object_path c) start = (Inr (Some elf), start\<lparr>owned := {Elf}\<rparr>)"
    using read_file_some [OF f, of start] by (simp add: start_def)
  show ?thesis
    by (cases "fn (host_object os c) 16")
      (auto simp: host_load_compile_and_call_def rd [unfolded start_def] cr rg rc l cp
        GENERATED_BPF_HELPER_MAP_LOOKUP_def GENERATED_BPF_HELPER_MAP_NAME_def proc_defs start_def
        Let_def deliver_def write_all_def split: prod.splits)
qed

lemma host_child_result:
  assumes "full_write os"
  shows "child_result (host_load_compile_and_call os v c) =
    (case host_stage os v c of Inl k \<Rightarrow> (Exits k, [])
     | Inr fn \<Rightarrow> (case fn (host_object os c) 16 of Inl sg \<Rightarrow> (Dies sg, [])
       | Inr r \<Rightarrow> (Exits 0, le_bytes 8 r)))"
  by (cases "host_stage os v c")
    (auto simp: child_result_def host_load_fails host_load_ok write_all_loop_whole [OF assms]
      split: sum.splits)

text \<open>The calls of the kernel that the parent and the pipe rely on.\<close>

definition host_kernel_ok :: "os \<Rightarrow> bool" where
  "host_kernel_ok os \<longleftrightarrow> pipe_ok os \<and> fork_ok os \<and> waitpid_ok os \<and> full_write os \<and> honest_read os"

lemma host_outcome_cases:
  assumes "host_kernel_ok os"
  shows "host_run_case_child os v c =
    (case host_stage os v c of
       Inl k \<Rightarrow> zero_outcome\<lparr>ho_kind := HOST_ERROR, ho_exit_status := k\<rparr>
     | Inr fn \<Rightarrow> (case fn (host_object os c) 16 of
         Inl sg \<Rightarrow> zero_outcome\<lparr>ho_kind := HOST_SIGNALLED, ho_signal := sg\<rparr>
       | Inr r \<Rightarrow> zero_outcome\<lparr>ho_value := r\<rparr>))"
proof -
  have k: "full_write os" "honest_read os" "pipe_ok os" "fork_ok os" "waitpid_ok os"
    using assms by (simp_all add: host_kernel_ok_def)
  show ?thesis
  proof (cases "host_stage os v c")
    case (Inl k')
    then show ?thesis using k host_stage_code [OF Inl] read_pipe_short [OF k(2), of "[]"]
      by (auto simp: host_run_case_child_def host_child_result wait_child_def zero_outcome_def
          split: prod.split)
  next
    case (Inr fn)
    then show ?thesis using k
      by (cases "fn (host_object os c) 16")
        (auto simp: host_run_case_child_def host_child_result wait_child_def zero_outcome_def
          read_pipe_whole split: prod.split)
  qed
qed

lemma host_failed_le_1: "host_failed os v c \<le> 1"
  by (simp add: host_failed_def)

interpretation host_suite: suite "\<lambda>(os, c). host_failed os v c" for v :: "'v ubpf"
  by unfold_locales (auto simp: host_failed_le_1 simp del: One_nat_def)

lemma host_main_verdict:
  "host_main env v = 0 \<longleftrightarrow>
     (\<forall>i < length (generated_bpf_cases ''workspace/bpf/'').
        host_failed (env i) v (generated_bpf_cases ''workspace/bpf/'' ! i) = 0)"
  by (simp only: host_main_def Let_def host_suite.exit_zero ball_paired prod.case)

section \<open>Properties of the baseline\<close>

text \<open>C20: \<open>write_all\<close> hands over the whole payload or says so. Whatever the kernel answers,
  as long as \<open>write\<close> never claims more than it was asked for, the loop ends; it returns 0
  exactly when every byte of the payload has been sent, in order, and -1 when a proper
  prefix has.\<close>
theorem write_all_sends:
  assumes "honest_write (write_rc os)" and "write_all os payload s = (Inr rc, s')"
  shows "(rc = 0 \<and> sent s' = sent s @ payload) \<or>
    (rc = -1 \<and> (\<exists>n < length payload. sent s' = sent s @ take n payload))"
  using assms(2) by (rule_tac write_all_cases [OF assms(1), of payload s]) auto

theorem write_all_sends_witness:
  "((0::int) = 0 \<and> sent (start\<lparr>sent := [1, 2, 3]\<rparr>) = sent start @ [1, 2, 3]) \<or>
    ((0::int) = -1 \<and> (\<exists>n < length [1 :: u8, 2, 3].
      sent (start\<lparr>sent := [1, 2, 3]\<rparr>) = sent start @ take n [1, 2, 3]))"
proof (rule write_all_sends)
  show "honest_write (write_rc (demo_os 0\<lparr>write_rc := \<lambda>_ n. 1\<rparr>\<lparr>write_rc := \<lambda>_ n. min 1 (int n)\<rparr>))"
    by (simp add: honest_write_def)
  show "write_all (demo_os 0\<lparr>write_rc := \<lambda>_ n. 1\<rparr>\<lparr>write_rc := \<lambda>_ n. min 1 (int n)\<rparr>) [1, 2, 3] start
      = (Inr 0, start\<lparr>sent := [1, 2, 3]\<rparr>)"
    by (simp add: write_all_def start_def write_all_loop.simps)
qed

lemma host_matches_verdict:
  assumes "host_kernel_ok os"
  shows "host_outcome_matches c (host_run_case_child os v c) \<longleftrightarrow>
    (\<exists>fn. host_stage os v c = Inr fn \<and>
      (expectation c = EXPECT_RETURN \<longrightarrow> fn (host_object os c) 16 = Inr (expected_result c)))"
  unfolding host_outcome_cases [OF assms]
  by (cases "expectation c"; cases "host_stage os v c")
    (auto simp: host_outcome_matches_def zero_outcome_def split: sum.splits)

text \<open>C19: what the baseline accepts. With a well-behaved kernel a case of the host suite
  passes exactly when the pipeline reached the call and, for a control, the call returned
  the expected value through the pipe; for a case marked \<open>EXPECT_CHERI_TRAP\<close> any outcome
  of the call passes, value or signal, since the baseline only records it.\<close>
theorem host_case_verdict:
  assumes "host_kernel_ok os"
  shows "host_outcome_matches c (host_run_case_child os v c) \<longleftrightarrow>
    (\<exists>fn. host_stage os v c = Inr fn \<and>
      (expectation c = EXPECT_RETURN \<longrightarrow> fn (host_object os c) 16 = Inr (expected_result c)))"
  using assms by (rule host_matches_verdict)

lemma demo_host_kernel: "host_kernel_ok (demo_os i)"
  by (simp add: host_kernel_ok_def demo_os_def full_write_def honest_read_def)

lemma demo_host_stage:
  "i < 256 \<Longrightarrow> host_stage (demo_os i) (demo_vm behave) c = Inr (\<lambda>_ _. behave i)"
  by (simp add: host_stage_gen demo_stage)

theorem host_case_verdict_witness:
  "host_outcome_matches (generated_bpf_cases [] ! 8)
     (host_run_case_child (demo_os 8) (demo_vm (\<lambda>_. Inl 4)) (generated_bpf_cases [] ! 8))"
proof -
  have e: "expectation (generated_bpf_cases [] ! 8) = EXPECT_CHERI_TRAP"
    by (simp add: generated_bpf_cases_def)
  show ?thesis
    unfolding host_case_verdict [OF demo_host_kernel] e
    by (simp add: demo_host_stage)
qed







text \<open>The exit status of the baseline. With a well-behaved kernel \<open>main\<close> returns 0
  exactly when every object compiled and every control returned its expected value: the
  six out-of-bounds cases cannot make it fail once they compile.\<close>
lemma host_main_ignores_traps:
  assumes "\<forall>i. host_kernel_ok (env i)"
  shows "host_main env v = 0 \<longleftrightarrow>
    (\<forall>i < length (generated_bpf_cases ''workspace/bpf/'').
      \<exists>fn. host_stage (env i) v (generated_bpf_cases ''workspace/bpf/'' ! i) = Inr fn \<and>
        (expectation (generated_bpf_cases ''workspace/bpf/'' ! i) = EXPECT_RETURN \<longrightarrow>
          fn (host_object (env i) (generated_bpf_cases ''workspace/bpf/'' ! i)) 16 =
            Inr (expected_result (generated_bpf_cases ''workspace/bpf/'' ! i))))"
proof -
  have "host_failed (env i) v c = 0 \<longleftrightarrow> (\<exists>fn. host_stage (env i) v c = Inr fn \<and>
      (expectation c = EXPECT_RETURN \<longrightarrow> fn (host_object (env i) c) 16 = Inr (expected_result c)))"
    for i c
    using host_matches_verdict [of "env i" c v] assms by (simp add: host_failed_def)
  then show ?thesis unfolding host_main_verdict by simp
qed

lemma host_main_ignores_traps_example:
  "host_main demo_os (demo_vm (\<lambda>i. if i < 8 then Inr (expected_result
     (generated_bpf_cases ''workspace/bpf/'' ! i)) else Inl 4)) = 0"
proof -
  have k: "\<forall>i. host_kernel_ok (demo_os i)" by (simp add: demo_host_kernel)
  have t: "expectation (generated_bpf_cases ''workspace/bpf/'' ! i) = EXPECT_CHERI_TRAP"
    if "8 \<le> i" "i < 14" for i
    using that by (auto simp: generated_bpf_cases_def nth_Cons' numeral_eq_Suc)
  show ?thesis
    unfolding host_main_ignores_traps [OF k] length_generated
    using t by (auto simp: demo_host_stage)
qed

end
