(* ===== verification/Bpf_Insn.thy ===== *)
theory Bpf_Insn
  imports Prelude
begin

text \<open>
  The eBPF instruction format as the C sources write and read it: the byte-encoding macros
  (\<open>INSN\<close> of the test programs, \<open>BPF_RAW\<close> and its wrappers in \<open>exploit_programs.h\<close>) and
  the field readers of \<open>test_cheri_tail_helper_context.c\<close>. Macro arguments are C \<open>int\<close>
  expressions, so the encoders take \<open>int\<close>; every byte is the result of the mask, shift
  and \<open>uint8_t\<close> cast that the macro writes.
\<close>

section \<open>Encoders\<close>

definition INSN :: "int \<Rightarrow> int \<Rightarrow> int \<Rightarrow> int \<Rightarrow> int \<Rightarrow> u8 list" where
  "INSN op dst src off imm =
     [word_of_int op, word_of_int (dst OR push_bit 4 src),
      word_of_int (off AND 0xff), word_of_int (drop_bit 8 off AND 0xff),
      word_of_int (imm AND 0xff), word_of_int (drop_bit 8 imm AND 0xff),
      word_of_int (drop_bit 16 imm AND 0xff), word_of_int (drop_bit 24 imm AND 0xff)]"

definition BPF_RAW :: "int \<Rightarrow> int \<Rightarrow> int \<Rightarrow> int \<Rightarrow> int \<Rightarrow> u8 list" where
  "BPF_RAW op dst src off imm =
     [word_of_int op, word_of_int ((dst AND 0xf) OR push_bit 4 (src AND 0xf)),
      word_of_int (off AND 0xff), word_of_int (drop_bit 8 off AND 0xff),
      word_of_int (imm AND 0xff), word_of_int (drop_bit 8 imm AND 0xff),
      word_of_int (drop_bit 16 imm AND 0xff), word_of_int (drop_bit 24 imm AND 0xff)]"

definition BPF_MOV64_IMM :: "int \<Rightarrow> int \<Rightarrow> u8 list" where
  "BPF_MOV64_IMM dst imm = BPF_RAW 0xb7 dst 0 0 imm"

definition BPF_MOV64_REG :: "int \<Rightarrow> int \<Rightarrow> u8 list" where
  "BPF_MOV64_REG dst src = BPF_RAW 0xbf dst src 0 0"

definition BPF_ALU64_IMM :: "int \<Rightarrow> int \<Rightarrow> int \<Rightarrow> u8 list" where
  "BPF_ALU64_IMM op dst imm = BPF_RAW op dst 0 0 imm"

definition BPF_ALU64_REG :: "int \<Rightarrow> int \<Rightarrow> int \<Rightarrow> u8 list" where
  "BPF_ALU64_REG op dst src = BPF_RAW op dst src 0 0"

definition BPF_LDX_MEM :: "int \<Rightarrow> int \<Rightarrow> int \<Rightarrow> int \<Rightarrow> u8 list" where
  "BPF_LDX_MEM sz dst src off = BPF_RAW (0x61 OR sz) dst src off 0"

definition BPF_STX_MEM :: "int \<Rightarrow> int \<Rightarrow> int \<Rightarrow> int \<Rightarrow> u8 list" where
  "BPF_STX_MEM sz dst src off = BPF_RAW (0x63 OR sz) dst src off 0"

definition BPF_EXIT :: "u8 list" where
  "BPF_EXIT = BPF_RAW 0x95 0 0 0 0"

definition BPF_DW :: int where "BPF_DW = 0x18"
definition BPF_W :: int where "BPF_W = 0x00"
definition BPF_H :: int where "BPF_H = 0x08"
definition BPF_B :: int where "BPF_B = 0x10"

definition BPF_ADD :: int where "BPF_ADD = 0x07"
definition BPF_SUB :: int where "BPF_SUB = 0x17"
definition BPF_AND :: int where "BPF_AND = 0x57"
definition BPF_OR :: int where "BPF_OR = 0x47"
definition BPF_XOR :: int where "BPF_XOR = 0xa7"
definition BPF_LSH :: int where "BPF_LSH = 0x67"
definition BPF_RSH :: int where "BPF_RSH = 0x77"
definition BPF_ARSH :: int where "BPF_ARSH = 0xc7"

lemmas bpf_encoders [insn_simps] =
  INSN_def BPF_RAW_def BPF_MOV64_IMM_def BPF_MOV64_REG_def BPF_ALU64_IMM_def
  BPF_ALU64_REG_def BPF_LDX_MEM_def BPF_STX_MEM_def BPF_EXIT_def
  BPF_DW_def BPF_W_def BPF_H_def BPF_B_def BPF_ADD_def

section \<open>Field readers\<close>

text \<open>
  The C readers index a byte pointer; their callers pass a whole instruction, so the
  reads stay inside the list.
\<close>

definition read_i16 :: "u8 list \<Rightarrow> int" where
  "read_i16 p = sint ((ucast (p ! 0) :: u16) OR push_bit 8 (ucast (p ! 1)))"

definition insn_dst :: "u8 list \<Rightarrow> u8" where
  "insn_dst insn = insn ! 1 AND 0x0f"

definition insn_src :: "u8 list \<Rightarrow> u8" where
  "insn_src insn = drop_bit 4 (insn ! 1)"

lemmas bpf_readers [insn_simps] = read_i16_def insn_dst_def insn_src_def

section \<open>The bytes of an encoded instruction\<close>

lemma byte_of_int_mask: "(word_of_int (x AND 0xff) :: u8) = word_of_int x"
proof -
  have "x AND 0xff = take_bit 8 x" by (simp add: take_bit_eq_mask mask_eq_exp_minus_1)
  then show ?thesis by (auto intro: bit_word_eqI simp: bit_simps)
qed

lemma int_bytes_of_word:
  assumes "n + 8 \<le> LENGTH('a::len)"
  shows "(word_of_int (drop_bit n x) :: u8) = ucast (drop_bit n (word_of_int x :: 'a word))"
  by (rule bit_word_eqI) (use assms in \<open>auto simp: bit_simps\<close>)

lemma INSN_le:
  "INSN op dst src off imm =
     [word_of_int op, word_of_int (dst OR push_bit 4 src)] @
     le_bytes 2 (word_of_int off :: u16) @ le_bytes 4 (word_of_int imm :: u32)"
proof -
  have off: "(word_of_int off :: u8) = ucast (word_of_int off :: u16)"
      "(word_of_int (drop_bit 8 off) :: u8) = ucast (drop_bit 8 (word_of_int off :: u16))"
    using int_bytes_of_word [where 'a = 16, of 0 off] int_bytes_of_word [where 'a = 16, of 8 off]
    by simp_all
  have imm: "(word_of_int imm :: u8) = ucast (word_of_int imm :: u32)"
      "(word_of_int (drop_bit 8 imm) :: u8) = ucast (drop_bit 8 (word_of_int imm :: u32))"
      "(word_of_int (drop_bit 16 imm) :: u8) = ucast (drop_bit 16 (word_of_int imm :: u32))"
      "(word_of_int (drop_bit 24 imm) :: u8) = ucast (drop_bit 24 (word_of_int imm :: u32))"
    using int_bytes_of_word [where 'a = 32, of 0 imm] int_bytes_of_word [where 'a = 32, of 8 imm]
      int_bytes_of_word [where 'a = 32, of 16 imm] int_bytes_of_word [where 'a = 32, of 24 imm]
    by simp_all
  show ?thesis
    by (simp add: INSN_def byte_of_int_mask off imm bytes_eval)
qed

lemma BPF_RAW_INSN: "BPF_RAW op dst src off imm = INSN op (dst AND 0xf) (src AND 0xf) off imm"
  by (simp add: BPF_RAW_def INSN_def)

lemma length_INSN [simp]: "length (INSN op dst src off imm) = 8"
  by (simp add: INSN_def)

lemma length_BPF_RAW [simp]: "length (BPF_RAW op dst src off imm) = 8"
  by (simp add: BPF_RAW_def)

lemma read_i16_of_le: "read_i16 (a # b # p) = sint (of_le [a, b] :: u16)"
  by (simp add: read_i16_def)

lemma read_i16_INSN:
  assumes "- 32768 \<le> off" and "off < 32768"
  shows "read_i16 (drop 2 (INSN op dst src off imm)) = off"
proof -
  have "read_i16 (drop 2 (INSN op dst src off imm)) =
      sint (of_le (le_bytes 2 (word_of_int off :: u16)) :: u16)"
    by (simp add: INSN_le read_i16_of_le bytes_eval)
  also have "\<dots> = sint (word_of_int off :: u16)"
    by (simp only: c16.dec_enc)
  also have "\<dots> = off"
    using assms by (simp add: signed_of_int signed_take_bit_int_eq_self)
  finally show ?thesis .
qed

lemma and_nibble: "(w :: u8) AND 0x0f = take_bit 4 w"
  by (simp add: take_bit_eq_mask mask_eq_exp_minus_1)

lemma int_and_nibble: "(x :: int) AND 0xf = take_bit 4 x"
  by (simp add: take_bit_eq_mask mask_eq_exp_minus_1)

lemma reg_byte_dst:
  "(word_of_int (dst OR push_bit 4 src) :: u8) AND 0x0f = word_of_int (take_bit 4 dst)"
  unfolding and_nibble by (auto intro!: bit_word_eqI simp: bit_simps)

lemma reg_byte_src:
  "drop_bit 4 (word_of_int (dst OR push_bit 4 src) :: u8) =
   word_of_int (take_bit 4 (drop_bit 4 dst OR src))"
  by (auto intro!: bit_word_eqI simp: bit_simps ac_simps)

lemma insn_dst_INSN: "insn_dst (INSN op dst src off imm) = word_of_int (take_bit 4 dst)"
  by (simp add: insn_dst_def INSN_def reg_byte_dst)

lemma insn_src_INSN:
  "insn_src (INSN op dst src off imm) = word_of_int (take_bit 4 (drop_bit 4 dst OR src))"
  by (simp add: insn_src_def INSN_def reg_byte_src)

lemma take_bit_4_small: "0 \<le> x \<Longrightarrow> x < 16 \<Longrightarrow> take_bit 4 x = (x :: int)"
  by (simp add: take_bit_int_eq_self)

lemma drop_bit_4_small: "0 \<le> x \<Longrightarrow> x < 16 \<Longrightarrow> drop_bit 4 x = (0 :: int)"
  by (simp add: drop_bit_eq_div)

lemma drop_4_INSN: "drop 4 (INSN op dst src off imm) = le_bytes 4 (word_of_int imm :: u32)"
  by (simp add: INSN_le)

section \<open>What a reader relies on\<close>

text \<open>
  The interface between the encoders and whoever reads a program: within the field ranges,
  the five fields come back. \<open>program\<close> lays instructions out one after the other, as the
  initialiser of a \<open>uint8_t[]\<close> does, and \<open>insn_at\<close> is the slot a reader looks at.
\<close>

type_synonym insn_fields = "int \<times> int \<times> int \<times> int \<times> int"

definition fields_ok :: "insn_fields \<Rightarrow> bool" where
  "fields_ok f = (case f of (op, dst, src, off, imm) \<Rightarrow>
     0 \<le> op \<and> op < 256 \<and> 0 \<le> dst \<and> dst < 16 \<and> 0 \<le> src \<and> src < 16 \<and>
     - 32768 \<le> off \<and> off < 32768 \<and> - 2147483648 \<le> imm \<and> imm < 2147483648)"

definition read_fields :: "u8 list \<Rightarrow> insn_fields" where
  "read_fields insn =
     (uint (insn ! 0), uint (insn_dst insn), uint (insn_src insn),
      read_i16 (drop 2 insn), sint (of_le (drop 4 insn) :: u32))"

definition program ::
  "(int \<Rightarrow> int \<Rightarrow> int \<Rightarrow> int \<Rightarrow> int \<Rightarrow> u8 list) \<Rightarrow> insn_fields list \<Rightarrow> u8 list" where
  "program enc fs = concat (map (\<lambda>(op, dst, src, off, imm). enc op dst src off imm) fs)"

definition insn_at :: "u8 list \<Rightarrow> nat \<Rightarrow> u8 list" where
  "insn_at prog i = take 8 (drop (8 * i) prog)"

locale insn_format =
  fixes enc :: "int \<Rightarrow> int \<Rightarrow> int \<Rightarrow> int \<Rightarrow> int \<Rightarrow> u8 list"
  assumes enc_length: "length (enc op dst src off imm) = 8"
    and read_enc: "fields_ok (op, dst, src, off, imm) \<Longrightarrow>
      read_fields (enc op dst src off imm) = (op, dst, src, off, imm)"
begin

lemma length_program: "length (program enc fs) = 8 * length fs"
  by (induction fs) (auto simp: program_def enc_length split: prod.splits)

lemma insn_at_program:
  "i < length fs \<Longrightarrow>
   insn_at (program enc fs) i = (case fs ! i of (op, dst, src, off, imm) \<Rightarrow> enc op dst src off imm)"
proof (induction fs arbitrary: i)
  case Nil
  then show ?case by simp
next
  case (Cons f fs)
  obtain op dst src off imm where f: "f = (op, dst, src, off, imm)" by (cases f)
  have cons: "program enc ((op, dst, src, off, imm) # fs) =
      enc op dst src off imm @ program enc fs"
    by (simp add: program_def)
  show ?case
  proof (cases i)
    case 0
    then show ?thesis by (simp add: cons insn_at_def enc_length f)
  next
    case (Suc k)
    have "insn_at (program enc (f # fs)) i = insn_at (program enc fs) k"
      by (simp add: cons insn_at_def enc_length Suc f)
    with Cons Suc show ?thesis by simp
  qed
qed

lemma read_program:
  assumes "\<forall>f\<in>set fs. fields_ok f"
  shows "map (\<lambda>i. read_fields (insn_at (program enc fs) i)) [0..<length fs] = fs"
proof (rule nth_equalityI)
  fix i
  assume "i < length (map (\<lambda>i. read_fields (insn_at (program enc fs) i)) [0..<length fs])"
  then have i: "i < length fs" by simp
  then have "fields_ok (fs ! i)" using assms by simp
  with i show "map (\<lambda>i. read_fields (insn_at (program enc fs) i)) [0..<length fs] ! i = fs ! i"
    by (auto simp: insn_at_program read_enc split: prod.splits)
qed simp

lemma program_inj:
  assumes "\<forall>f\<in>set fs. fields_ok f" and "\<forall>f\<in>set gs. fields_ok f"
  shows "program enc fs = program enc gs \<longleftrightarrow> fs = gs"
proof
  assume eq: "program enc fs = program enc gs"
  then have "8 * length fs = 8 * length gs" by (metis length_program)
  then have "length fs = length gs" by simp
  then show "fs = gs" by (metis eq assms read_program)
qed simp

end

lemma uint_of_range: "0 \<le> x \<Longrightarrow> x < 256 \<Longrightarrow> uint (word_of_int x :: u8) = x"
  by (simp add: uint_word_of_int take_bit_int_eq_self)

lemma read_fields_INSN:
  assumes "fields_ok (op, dst, src, off, imm)"
  shows "read_fields (INSN op dst src off imm) = (op, dst, src, off, imm)"
proof -
  have r: "0 \<le> op" "op < 256" "0 \<le> dst" "dst < 16" "0 \<le> src" "src < 16" "- 32768 \<le> off" "off < 32768"
    "- 2147483648 \<le> imm" "imm < 2147483648"
    using assms by (simp_all add: fields_ok_def)
  have "uint (INSN op dst src off imm ! 0) = op"
    using r by (simp add: INSN_def uint_of_range)
  moreover have "uint (insn_dst (INSN op dst src off imm)) = dst"
    using r by (simp add: insn_dst_INSN take_bit_4_small uint_of_range)
  moreover have "uint (insn_src (INSN op dst src off imm)) = src"
    using r by (simp add: insn_src_INSN take_bit_4_small drop_bit_4_small uint_of_range)
  moreover have "sint (of_le (drop 4 (INSN op dst src off imm)) :: u32) = imm"
    unfolding drop_4_INSN c32.dec_enc
    using r by (simp add: signed_of_int signed_take_bit_int_eq_self)
  ultimately show ?thesis
    using r by (simp add: read_fields_def read_i16_INSN)
qed

lemma BPF_RAW_eq_INSN:
  "0 \<le> dst \<Longrightarrow> dst < 16 \<Longrightarrow> 0 \<le> src \<Longrightarrow> src < 16 \<Longrightarrow>
   BPF_RAW op dst src off imm = INSN op dst src off imm"
  by (simp add: BPF_RAW_INSN int_and_nibble take_bit_4_small)

interpretation insn: insn_format INSN
  by unfold_locales (simp_all add: read_fields_INSN)

interpretation raw: insn_format BPF_RAW
  by unfold_locales (simp_all add: BPF_RAW_eq_INSN fields_ok_def read_fields_INSN)

section \<open>Properties of the encoders\<close>

text \<open>C11: a program written with the \<open>INSN\<close> macro, with every field in its C range, is
  read back instruction by instruction as the fields it was written from: opcode byte,
  both register nibbles, the signed 16-bit offset and the signed 32-bit immediate.\<close>
theorem insn_program_roundtrip:
  assumes "\<forall>f\<in>set fs. fields_ok f"
  shows "map (\<lambda>i. read_fields (insn_at (program INSN fs) i)) [0..<length fs] = fs"
  using assms by (rule insn.read_program)

theorem insn_program_roundtrip_witness:
  "map (\<lambda>i. read_fields (insn_at (program INSN [(0xb7, 0, 0, 0, 42), (0x7b, 0xa, 0, -8, 0)]) i))
     [0..<length [(0xb7, 0, 0, 0, 42) :: insn_fields, (0x7b, 0xa, 0, -8, 0)]]
   = [(0xb7, 0, 0, 0, 42), (0x7b, 0xa, 0, -8, 0)]"
  by (rule insn_program_roundtrip) (simp add: fields_ok_def)

text \<open>C40: the two copies of the macro differ. \<open>BPF_RAW\<close> (and the \<open>INSN\<close> of
  \<open>test_helper_map_cap.c\<close>) masks both register numbers to four bits; the unmasked
  \<open>INSN\<close> lets the high bits of a destination number above 15 run into the source
  field. The source nibble read back is the OR of the source and the spilled bits, the
  destination nibble is the same in both.\<close>
theorem register_nibbles:
  "insn_dst (INSN op dst src off imm) = word_of_int (take_bit 4 dst) \<and>
   insn_src (INSN op dst src off imm) = word_of_int (take_bit 4 (drop_bit 4 dst OR src)) \<and>
   insn_dst (BPF_RAW op dst src off imm) = word_of_int (take_bit 4 dst) \<and>
   insn_src (BPF_RAW op dst src off imm) = word_of_int (take_bit 4 src)"
proof -
  have "drop_bit 4 (take_bit 4 dst) OR take_bit 4 src = take_bit 4 src"
    by (rule bit_eqI) (auto simp: bit_simps)
  then show ?thesis
    by (simp add: BPF_RAW_INSN int_and_nibble insn_dst_INSN insn_src_INSN)
qed

end
