(* ===== verification/Bpf_Machine.thy ===== *)
theory Bpf_Machine
  imports Bpf_Insn Harness_Memory
begin

text \<open>
  A reference machine for the eBPF instructions the byte programs of the repository use, as
  the published instruction set defines them: 64-bit ALU, loads and stores of four widths
  with and without sign extension, the jumps the tests use, helper calls and exit. A
  register holds nothing, a number, or a pointer into one of the two memory objects; the
  capability view of the CHERI backend is that a number is never a pointer. The machine is
  the specification the expected results of the test programs are checked against; the
  translators of \<open>ubpf\<close> itself are not in this repository and are parameters elsewhere.
\<close>

section \<open>State\<close>

datatype val = Undef | Num u64 | Cap ptr

datatype stop =
  Returned u64 | ReturnedCap ptr | Faulted fault | NotACapability | CapabilityStored
| NotANumber | BadInsn | NoHelper

record mach =
  pc :: nat
  regs :: "nat \<Rightarrow> val"
  store :: memory

type_synonym helpers = "int \<Rightarrow> val option"

definition next_pc :: "int \<Rightarrow> mach \<Rightarrow> mach" where
  "next_pc d m = m\<lparr>pc := nat (int (pc m) + 1 + d)\<rparr>"

definition set_reg :: "int \<Rightarrow> val \<Rightarrow> mach \<Rightarrow> mach" where
  "set_reg r v m = m\<lparr>regs := (regs m)(nat r := v)\<rparr>"

section \<open>Arithmetic\<close>

definition alu :: "int \<Rightarrow> u64 \<Rightarrow> u64 \<Rightarrow> u64 option" where
  "alu code a b =
     (if code = 0x00 then Some (a + b) else if code = 0x10 then Some (a - b)
      else if code = 0x40 then Some (a OR b) else if code = 0x50 then Some (a AND b)
      else if code = 0x60 then Some (push_bit (unat (b AND 63)) a)
      else if code = 0x70 then Some (drop_bit (unat (b AND 63)) a)
      else if code = 0xa0 then Some (a XOR b)
      else if code = 0xc0 then Some (signed_drop_bit (unat (b AND 63)) a)
      else None)"

definition alu_val :: "int \<Rightarrow> val \<Rightarrow> val \<Rightarrow> stop + val" where
  "alu_val code a b =
     (if code = 0xb0 then (if b = Undef then Inl NotANumber else Inr b)
      else case (a, b) of
        (Num x, Num y) \<Rightarrow> (case alu code x y of Some z \<Rightarrow> Inr (Num z) | None \<Rightarrow> Inl BadInsn)
      | (Cap p, Num y) \<Rightarrow>
          if code = 0x00 then Inr (Cap (padd p y))
          else if code = 0x10 then Inr (Cap (padd p (- y))) else Inl NotANumber
      | _ \<Rightarrow> Inl NotANumber)"

definition jump_cond :: "int \<Rightarrow> u64 \<Rightarrow> u64 \<Rightarrow> bool option" where
  "jump_cond code a b =
     (if code = 0x10 then Some (a = b) else if code = 0x20 then Some (b < a)
      else if code = 0x50 then Some (a \<noteq> b) else None)"

section \<open>One instruction\<close>

definition width_of :: "int \<Rightarrow> nat" where
  "width_of op = (if op AND 0x18 = 0x00 then 4 else if op AND 0x18 = 0x08 then 2
                  else if op AND 0x18 = 0x10 then 1 else 8)"

definition imm_val :: "int \<Rightarrow> val" where
  "imm_val imm = Num (word_of_int imm)"

definition load_reg :: "policy \<Rightarrow> bool \<Rightarrow> int \<Rightarrow> int \<Rightarrow> val \<Rightarrow> int \<Rightarrow> mach \<Rightarrow> stop + mach" where
  "load_reg pol sx op dst base off m =
     (case base of
        Cap p \<Rightarrow> (case mem_load pol (store m) (padd p (word_of_int off)) (width_of op) of
            Inl f \<Rightarrow> Inl (Faulted f)
          | Inr bs \<Rightarrow> let v = of_le bs :: u64 in
              Inr (next_pc 0 (set_reg dst (Num (if sx
                then word_of_int (signed_take_bit (8 * width_of op - 1) (uint v)) else v)) m)))
      | _ \<Rightarrow> Inl NotACapability)"

definition store_val :: "policy \<Rightarrow> int \<Rightarrow> val \<Rightarrow> int \<Rightarrow> val \<Rightarrow> mach \<Rightarrow> stop + mach" where
  "store_val pol op base off v m =
     (case base of
        Cap p \<Rightarrow> (case v of
            Num x \<Rightarrow> (case mem_store pol (store m) (padd p (word_of_int off)) (le_bytes (width_of op) x) of
                Inl f \<Rightarrow> Inl (Faulted f)
              | Inr mem \<Rightarrow> Inr (next_pc 0 (m\<lparr>store := mem\<rparr>)))
          | Cap _ \<Rightarrow> Inl CapabilityStored
          | Undef \<Rightarrow> Inl NotANumber)
      | _ \<Rightarrow> Inl NotACapability)"

definition step_alu :: "int \<Rightarrow> int \<Rightarrow> val \<Rightarrow> mach \<Rightarrow> stop + mach" where
  "step_alu op dst b m =
     (case alu_val (op AND 0xf0) (regs m (nat dst)) b of
        Inl e \<Rightarrow> Inl e | Inr v \<Rightarrow> Inr (next_pc 0 (set_reg dst v m)))"

definition step_jump :: "int \<Rightarrow> val \<Rightarrow> val \<Rightarrow> int \<Rightarrow> mach \<Rightarrow> stop + mach" where
  "step_jump op a b off m =
     (case (a, b) of
        (Num x, Num y) \<Rightarrow> (case jump_cond (op AND 0xf0) x y of
            None \<Rightarrow> Inl BadInsn
          | Some c \<Rightarrow> Inr (next_pc (if c then off else 0) m))
      | _ \<Rightarrow> Inl NotANumber)"

definition step_call :: "helpers \<Rightarrow> int \<Rightarrow> mach \<Rightarrow> stop + mach" where
  "step_call h imm m =
     (case h imm of None \<Rightarrow> Inl NoHelper
      | Some v \<Rightarrow> Inr (next_pc 0 (m\<lparr>regs := (\<lambda>r. if r = 0 then v
          else if r \<le> 5 then Undef else regs m r)\<rparr>)))"

definition step_exit :: "mach \<Rightarrow> stop" where
  "step_exit m = (case regs m 0 of Num x \<Rightarrow> Returned x | Cap p \<Rightarrow> ReturnedCap p | Undef \<Rightarrow> NotANumber)"

definition step_fields :: "policy \<Rightarrow> helpers \<Rightarrow> insn_fields \<Rightarrow> mach \<Rightarrow> stop + mach" where
  "step_fields pol h f m =
     (case f of (op, dst, src, off, imm) \<Rightarrow>
      if op = 0x85 then step_call h imm m
      else if op = 0x95 then Inl (step_exit m)
      else if op = 0x05 then Inr (next_pc off m)
      else if op AND 0x0f = 0x07 then step_alu op dst (imm_val imm) m
      else if op AND 0x0f = 0x0f then step_alu op dst (regs m (nat src)) m
      else if op AND 0x0f = 0x05 then step_jump op (regs m (nat dst)) (imm_val imm) off m
      else if op AND 0x0f = 0x0d then step_jump op (regs m (nat dst)) (regs m (nat src)) off m
      else if op \<in> {0x61, 0x69, 0x71, 0x79}
        then load_reg pol False op dst (regs m (nat src)) off m
      else if op \<in> {0x81, 0x89, 0x91}
        then load_reg pol True op dst (regs m (nat src)) off m
      else if op \<in> {0x62, 0x6a, 0x72, 0x7a}
        then store_val pol op (regs m (nat dst)) off (imm_val imm) m
      else if op \<in> {0x63, 0x6b, 0x73, 0x7b}
        then store_val pol op (regs m (nat dst)) off (regs m (nat src)) m
      else Inl BadInsn)"

section \<open>Running a program\<close>

definition step :: "policy \<Rightarrow> helpers \<Rightarrow> u8 list \<Rightarrow> mach \<Rightarrow> stop + mach" where
  "step pol h prog m =
     (if pc m < length prog div 8 then step_fields pol h (read_fields (insn_at prog (pc m))) m
      else Inl BadInsn)"

fun run :: "policy \<Rightarrow> helpers \<Rightarrow> u8 list \<Rightarrow> nat \<Rightarrow> mach \<Rightarrow> stop option" where
  "run pol h prog 0 m = None"
| "run pol h prog (Suc n) m =
     (case step pol h prog m of Inl s \<Rightarrow> Some s | Inr m' \<Rightarrow> run pol h prog n m')"

text \<open>The same run on the fields a program was written from.\<close>

fun run_fields :: "policy \<Rightarrow> helpers \<Rightarrow> insn_fields list \<Rightarrow> nat \<Rightarrow> mach \<Rightarrow> stop option" where
  "run_fields pol h fs 0 m = None"
| "run_fields pol h fs (Suc n) m =
     (if pc m < length fs
      then case step_fields pol h (fs ! pc m) m of Inl s \<Rightarrow> Some s | Inr m' \<Rightarrow> run_fields pol h fs n m'
      else Some BadInsn)"

lemma step_program:
  assumes "\<forall>f\<in>set fs. fields_ok f"
  shows "step pol h (program INSN fs) m =
    (if pc m < length fs then step_fields pol h (fs ! pc m) m else Inl BadInsn)"
proof (cases "pc m < length fs")
  case True
  obtain op dst src off imm where f: "fs ! pc m = (op, dst, src, off, imm)" by (cases "fs ! pc m")
  from True assms have "fields_ok (fs ! pc m)" by simp
  then show ?thesis using True f
    by (simp add: step_def insn.length_program insn.insn_at_program insn.read_enc)
next
  case False
  then show ?thesis by (simp add: step_def insn.length_program)
qed

lemma run_program:
  "\<forall>f\<in>set fs. fields_ok f \<Longrightarrow> run pol h (program INSN fs) n m = run_fields pol h fs n m"
  by (induction n arbitrary: m) (simp_all add: step_program split: sum.splits)

lemma run_more_fuel: "run pol h prog n m = Some s \<Longrightarrow> n \<le> k \<Longrightarrow> run pol h prog k m = Some s"
proof (induction n arbitrary: m k)
  case 0
  then show ?case by simp
next
  case (Suc n)
  then obtain k' where "k = Suc k'" "n \<le> k'" by (cases k) auto
  with Suc show ?case by (auto split: sum.splits)
qed

text \<open>The state a call starts in: \<open>r1\<close> the object, \<open>r2\<close> its length, \<open>r10\<close> the end of the
  stack. \<open>machine_stack\<close> is an eBPF stack of the given size, zeroed.\<close>

definition machine_stack :: "nat \<Rightarrow> object" where
  "machine_stack n = \<lparr>logical_len = n, backing_len = n, content = (\<lambda>_. 0)\<rparr>"

definition entry :: "policy \<Rightarrow> memory \<Rightarrow> u64 \<Rightarrow> mach" where
  "entry pol mem len =
     \<lparr>pc = 0,
      regs = (\<lambda>_. Undef)(1 := Cap (MemObj, 0), 2 := Num len,
        10 := Cap (StackObj, of_nat (bound pol mem StackObj))),
      store = mem\<rparr>"

section \<open>What never changes during a run\<close>

text \<open>A run never changes the size of an object.\<close>

lemma step_fields_bound:
  "step_fields pol h f m = Inr m' \<Longrightarrow> bound q (store m') r = bound q (store m) r"
  by (cases f)
    (auto simp: step_fields_def step_call_def step_alu_def step_jump_def load_reg_def store_val_def
      next_pc_def set_reg_def Let_def mem_store_def split: if_splits option.splits sum.splits val.splits)

section \<open>Evaluation\<close>

lemma run_fields_numeral:
  "run_fields pol h fs (numeral k) m =
     (if pc m < length fs
      then case step_fields pol h (fs ! pc m) m of
             Inl s \<Rightarrow> Some s | Inr m' \<Rightarrow> run_fields pol h fs (pred_numeral k) m'
      else Some BadInsn)"
  by (simp add: numeral_eq_Suc)

lemma imm_val_eval:
  "imm_val 0 = Num 0" "imm_val 1 = Num 1" "imm_val (numeral k) = Num (numeral k)"
  "imm_val (- numeral k) = Num (- numeral k)" "imm_val (- 1) = Num 0xffffffffffffffff"
  by (simp_all add: imm_val_def)

lemmas machine_eval =
  run_fields_numeral step_fields_def step_call_def step_alu_def step_jump_def load_reg_def
  store_val_def next_pc_def set_reg_def mem_store_def mem_load_def width_of_def alu_val_def
  alu_def jump_cond_def imm_val_eval padd_def step_exit_def bytes_eval entry_def
  machine_stack_def cheri_memory_def bound.simps write_obj_def words_content_def

text \<open>The outcome of a byte program under the capability policy, called on an array of
  words with exact bounds and an eBPF stack of 4096 zero bytes; the fuel bounds the number
  of instructions executed, and a result is one that any larger fuel gives as well.\<close>

definition bpf_call :: "helpers \<Rightarrow> u8 list \<Rightarrow> u64 list \<Rightarrow> nat \<Rightarrow> stop option" where
  "bpf_call h prog ws n =
     run Cheri h prog n
       (entry Cheri (cheri_memory ws (machine_stack 4096)) (of_nat (8 * length ws)))"

lemma bpf_call_program:
  "\<forall>f\<in>set fs. fields_ok f \<Longrightarrow>
   bpf_call h (program INSN fs) ws n =
     run_fields Cheri h fs n
       (entry Cheri (cheri_memory ws (machine_stack 4096)) (of_nat (8 * length ws)))"
  by (simp add: bpf_call_def run_program)

lemma bpf_call_more_fuel: "bpf_call h prog ws n = Some s \<Longrightarrow> n \<le> k \<Longrightarrow> bpf_call h prog ws k = Some s"
  unfolding bpf_call_def by (rule run_more_fuel)

lemma bpf_call_unique:
  "bpf_call h prog ws n = Some s \<Longrightarrow> bpf_call h prog ws k = Some t \<Longrightarrow> s = t"
  using bpf_call_more_fuel [of h prog ws n s "max n k"] bpf_call_more_fuel [of h prog ws k t "max n k"]
  by simp

end
