(* ===== verification/Objjit_Programs.thy ===== *)
theory Objjit_Programs
  imports Bpf_Machine
begin

text \<open>
  The byte programs of \<open>test_cheri_objjit_compile.c\<close> and its two lists of cases: the ones
  compiled and called on the two-word context, with the expected result or trap, and the
  ones the compiler has to reject. Every expectation of the first list is what the
  reference machine does.
\<close>

section \<open>Programs\<close>

definition oj_context_load_8 :: "u8 list" where
  "oj_context_load_8 = program INSN
     [(0x79, 0, 1, 8, 0), (0x95, 0, 0, 0, 0)]"

definition oj_context_load_b_8 :: "u8 list" where
  "oj_context_load_b_8 = program INSN
     [(0x71, 0, 1, 8, 0), (0x95, 0, 0, 0, 0)]"

definition oj_context_load_h_8 :: "u8 list" where
  "oj_context_load_h_8 = program INSN
     [(0x69, 0, 1, 8, 0), (0x95, 0, 0, 0, 0)]"

definition oj_context_load_w_8 :: "u8 list" where
  "oj_context_load_w_8 = program INSN
     [(0x61, 0, 1, 8, 0), (0x95, 0, 0, 0, 0)]"

definition oj_context_load_bsx_8 :: "u8 list" where
  "oj_context_load_bsx_8 = program INSN
     [(0x91, 0, 1, 8, 0), (0x95, 0, 0, 0, 0)]"

definition oj_context_load_hsx_8 :: "u8 list" where
  "oj_context_load_hsx_8 = program INSN
     [(0x89, 0, 1, 8, 0), (0x95, 0, 0, 0, 0)]"

definition oj_context_load_wsx_8 :: "u8 list" where
  "oj_context_load_wsx_8 = program INSN
     [(0x81, 0, 1, 8, 0), (0x95, 0, 0, 0, 0)]"

definition oj_context_load_4096 :: "u8 list" where
  "oj_context_load_4096 = program INSN
     [(0x79, 0, 1, 4096, 0), (0x95, 0, 0, 0, 0)]"

definition oj_context_alias_load_8 :: "u8 list" where
  "oj_context_alias_load_8 = program INSN
     [(0xbf, 6, 1, 0, 0), (0x79, 0, 6, 8, 0), (0x95, 0, 0, 0, 0)]"

definition oj_context_alias_load_4096 :: "u8 list" where
  "oj_context_alias_load_4096 = program INSN
     [(0xbf, 6, 1, 0, 0), (0x79, 0, 6, 4096, 0), (0x95, 0, 0, 0, 0)]"

definition oj_context_ptr_add_load_8 :: "u8 list" where
  "oj_context_ptr_add_load_8 = program INSN
     [(0xbf, 6, 1, 0, 0),
      (0x07, 6, 0, 0, 8),
      (0x79, 0, 6, 0, 0),
      (0x95, 0, 0, 0, 0)]"

definition oj_context_ptr_add_load_4096 :: "u8 list" where
  "oj_context_ptr_add_load_4096 = program INSN
     [(0xbf, 6, 1, 0, 0),
      (0x07, 6, 0, 0, 4096),
      (0x79, 0, 6, 0, 0),
      (0x95, 0, 0, 0, 0)]"

definition oj_branch_preserves_context :: "u8 list" where
  "oj_branch_preserves_context = program INSN
     [(0xbf, 6, 1, 0, 0),
      (0xb7, 0, 0, 0, 0),
      (0x15, 0, 0, 1, 0),
      (0xb7, 0, 0, 0, 1),
      (0x79, 0, 6, 8, 0),
      (0x95, 0, 0, 0, 0)]"

definition oj_branch_join_clobbered_context :: "u8 list" where
  "oj_branch_join_clobbered_context = program INSN
     [(0xbf, 6, 1, 0, 0),
      (0xb7, 0, 0, 0, 0),
      (0x15, 0, 0, 2, 0),
      (0xb7, 6, 0, 0, 0),
      (0x05, 0, 0, 0, 0),
      (0x79, 0, 6, 8, 0),
      (0x95, 0, 0, 0, 0)]"

definition oj_stack_store_load :: "u8 list" where
  "oj_stack_store_load = program INSN
     [(0xb7, 0, 0, 0, 42),
      (0x7b, 0xa, 0, -8, 0),
      (0xb7, 0, 0, 0, 0),
      (0x79, 0, 0xa, -8, 0),
      (0x95, 0, 0, 0, 0)]"

definition oj_stack_store_load_b :: "u8 list" where
  "oj_stack_store_load_b = program INSN
     [(0xb7, 0, 0, 0, 0x12345678),
      (0x73, 0xa, 0, -1, 0),
      (0xb7, 0, 0, 0, 0),
      (0x71, 0, 0xa, -1, 0),
      (0x95, 0, 0, 0, 0)]"

definition oj_stack_store_load_h :: "u8 list" where
  "oj_stack_store_load_h = program INSN
     [(0xb7, 0, 0, 0, 0x12345678),
      (0x6b, 0xa, 0, -2, 0),
      (0xb7, 0, 0, 0, 0),
      (0x69, 0, 0xa, -2, 0),
      (0x95, 0, 0, 0, 0)]"

definition oj_stack_store_load_w :: "u8 list" where
  "oj_stack_store_load_w = program INSN
     [(0xb7, 0, 0, 0, 0x12345678),
      (0x63, 0xa, 0, -4, 0),
      (0xb7, 0, 0, 0, 0),
      (0x61, 0, 0xa, -4, 0),
      (0x95, 0, 0, 0, 0)]"

definition oj_stack_signed_load_b :: "u8 list" where
  "oj_stack_signed_load_b = program INSN
     [(0x72, 0xa, 0, -1, -1), (0x91, 0, 0xa, -1, 0), (0x95, 0, 0, 0, 0)]"

definition oj_stack_signed_load_h :: "u8 list" where
  "oj_stack_signed_load_h = program INSN
     [(0x6a, 0xa, 0, -2, -1), (0x89, 0, 0xa, -2, 0), (0x95, 0, 0, 0, 0)]"

definition oj_stack_signed_load_w :: "u8 list" where
  "oj_stack_signed_load_w = program INSN
     [(0x62, 0xa, 0, -4, -1), (0x81, 0, 0xa, -4, 0), (0x95, 0, 0, 0, 0)]"

definition oj_stack_reg_index_store_load :: "u8 list" where
  "oj_stack_reg_index_store_load = program INSN
     [(0xb7, 2, 0, 0, 3),
      (0xb7, 4, 0, 0, 0x5a),
      (0xbf, 5, 10, 0, 0),
      (0x07, 5, 0, 0, -40),
      (0x0f, 5, 2, 0, 0),
      (0x73, 5, 4, 0, 0),
      (0x71, 0, 5, 0, 0),
      (0x95, 0, 0, 0, 0)]"

definition oj_stack_reg_sub_store_load :: "u8 list" where
  "oj_stack_reg_sub_store_load = program INSN
     [(0xb7, 0, 0, 0, 42),
      (0xb7, 2, 0, 0, 8),
      (0xbf, 5, 10, 0, 0),
      (0x1f, 5, 2, 0, 0),
      (0x7b, 5, 0, 0, 0),
      (0x79, 0, 5, 0, 0),
      (0x95, 0, 0, 0, 0)]"

definition oj_immediate_stack_store_load :: "u8 list" where
  "oj_immediate_stack_store_load = program INSN
     [(0x7a, 0xa, 0, -8, 42), (0x79, 0, 0xa, -8, 0), (0x95, 0, 0, 0, 0)]"

definition oj_stack_ptr_add_store_load :: "u8 list" where
  "oj_stack_ptr_add_store_load = program INSN
     [(0xbf, 2, 10, 0, 0),
      (0x07, 2, 0, 0, -16),
      (0xb7, 0, 0, 0, 42),
      (0x7b, 2, 0, 8, 0),
      (0x79, 0, 2, 8, 0),
      (0x95, 0, 0, 0, 0)]"

definition oj_uninit_stack_ptr_add_load :: "u8 list" where
  "oj_uninit_stack_ptr_add_load = program INSN
     [(0xbf, 2, 10, 0, 0),
      (0x07, 2, 0, 0, -8),
      (0x79, 0, 2, 0, 0),
      (0x95, 0, 0, 0, 0)]"

definition oj_stack_ptr_add_load_oob :: "u8 list" where
  "oj_stack_ptr_add_load_oob = program INSN
     [(0xbf, 2, 10, 0, 0),
      (0x07, 2, 0, 0, -4104),
      (0x79, 0, 2, 0, 0),
      (0x95, 0, 0, 0, 0)]"

definition oj_stack_store_oob :: "u8 list" where
  "oj_stack_store_oob = program INSN
     [(0xb7, 0, 0, 0, 42), (0x7b, 0xa, 0, -4104, 0), (0x95, 0, 0, 0, 0)]"

definition oj_stack_load_oob :: "u8 list" where
  "oj_stack_load_oob = program INSN
     [(0x79, 0, 0xa, -4104, 0), (0x95, 0, 0, 0, 0)]"

definition oj_context_store :: "u8 list" where
  "oj_context_store = program INSN
     [(0xb7, 0, 0, 0, 42), (0x7b, 1, 0, 0, 0), (0x95, 0, 0, 0, 0)]"

definition oj_capability_stack_store :: "u8 list" where
  "oj_capability_stack_store = program INSN
     [(0xbf, 2, 1, 0, 0), (0x7b, 0xa, 2, -8, 0), (0x95, 0, 0, 0, 0)]"

definition oj_clobbered_r1_load :: "u8 list" where
  "oj_clobbered_r1_load = program INSN
     [(0xb7, 1, 0, 0, 0), (0x79, 0, 1, 0, 0), (0x95, 0, 0, 0, 0)]"

lemmas oj_progs =
  oj_context_load_8_def
  oj_context_load_b_8_def
  oj_context_load_h_8_def
  oj_context_load_w_8_def
  oj_context_load_bsx_8_def
  oj_context_load_hsx_8_def
  oj_context_load_wsx_8_def
  oj_context_load_4096_def
  oj_context_alias_load_8_def
  oj_context_alias_load_4096_def
  oj_context_ptr_add_load_8_def
  oj_context_ptr_add_load_4096_def
  oj_branch_preserves_context_def
  oj_branch_join_clobbered_context_def
  oj_stack_store_load_def
  oj_stack_store_load_b_def
  oj_stack_store_load_h_def
  oj_stack_store_load_w_def
  oj_stack_signed_load_b_def
  oj_stack_signed_load_h_def
  oj_stack_signed_load_w_def
  oj_stack_reg_index_store_load_def
  oj_stack_reg_sub_store_load_def
  oj_immediate_stack_store_load_def
  oj_stack_ptr_add_store_load_def
  oj_uninit_stack_ptr_add_load_def
  oj_stack_ptr_add_load_oob_def
  oj_stack_store_oob_def
  oj_stack_load_oob_def
  oj_context_store_def
  oj_capability_stack_store_def
  oj_clobbered_r1_load_def

section \<open>Cases\<close>

definition oj_calls :: "(string \<times> u8 list \<times> u64 \<times> bool) list" where
  "oj_calls =
    [(''context_load_8'', oj_context_load_8, 0xfeedfacecafebeef, False),
     (''context_load_b_8'', oj_context_load_b_8, 0xef, False),
     (''context_load_h_8'', oj_context_load_h_8, 0xbeef, False),
     (''context_load_w_8'', oj_context_load_w_8, 0xcafebeef, False),
     (''context_load_bsx_8'', oj_context_load_bsx_8, 0xffffffffffffffef, False),
     (''context_load_hsx_8'', oj_context_load_hsx_8, 0xffffffffffffbeef, False),
     (''context_load_wsx_8'', oj_context_load_wsx_8, 0xffffffffcafebeef, False),
     (''context_load_4096'', oj_context_load_4096, 0, True),
     (''context_alias_load_8'', oj_context_alias_load_8, 0xfeedfacecafebeef, False),
     (''context_alias_load_4096'', oj_context_alias_load_4096, 0, True),
     (''context_ptr_add_load_8'', oj_context_ptr_add_load_8, 0xfeedfacecafebeef, False),
     (''context_ptr_add_load_4096'', oj_context_ptr_add_load_4096, 0, True),
     (''branch_preserves_context'', oj_branch_preserves_context, 0xfeedfacecafebeef, False),
     (''stack_store_load'', oj_stack_store_load, 42, False),
     (''stack_store_load_b'', oj_stack_store_load_b, 0x78, False),
     (''stack_store_load_h'', oj_stack_store_load_h, 0x5678, False),
     (''stack_store_load_w'', oj_stack_store_load_w, 0x12345678, False),
     (''stack_signed_load_b'', oj_stack_signed_load_b, 0xffffffffffffffff, False),
     (''stack_signed_load_h'', oj_stack_signed_load_h, 0xffffffffffffffff, False),
     (''stack_signed_load_w'', oj_stack_signed_load_w, 0xffffffffffffffff, False),
     (''stack_reg_index_store_load'', oj_stack_reg_index_store_load, 0x5a, False),
     (''stack_reg_sub_store_load'', oj_stack_reg_sub_store_load, 42, False),
     (''immediate_stack_store_load'', oj_immediate_stack_store_load, 42, False),
     (''stack_ptr_add_store_load'', oj_stack_ptr_add_store_load, 42, False),
     (''uninit_stack_ptr_add_load'', oj_uninit_stack_ptr_add_load, 0, False),
     (''stack_store_oob'', oj_stack_store_oob, 0, True),
     (''stack_load_oob'', oj_stack_load_oob, 0, True),
     (''stack_ptr_add_load_oob'', oj_stack_ptr_add_load_oob, 0, True)]"

definition oj_rejects :: "(string \<times> u8 list) list" where
  "oj_rejects =
    [(''context_store'', oj_context_store),
     (''capability_stack_store'', oj_capability_stack_store),
     (''clobbered_r1_load'', oj_clobbered_r1_load),
     (''branch_join_clobbered_context'', oj_branch_join_clobbered_context)]"

definition oj_ctx :: "u64 list" where
  "oj_ctx = [0x1111111111111111, 0xfeedfacecafebeef]"

definition no_helper :: helpers where
  "no_helper = (\<lambda>_. None)"

section \<open>The expectations are right\<close>

lemma oj_calls_run:
  "\<forall>(nm, prog, expected, expect_trap) \<in> set oj_calls.
     bpf_call no_helper prog oj_ctx 10 =
       Some (if expect_trap then Faulted BoundsTrap else Returned expected)"
  unfolding oj_calls_def oj_progs oj_ctx_def no_helper_def
  by (simp only: list.set ball_simps prod.case; intro conjI)
    (simp_all add: bpf_call_program fields_ok_def machine_eval)

lemma oj_rejects_run:
  "bpf_call no_helper oj_context_store oj_ctx 10 = Some (Returned 42) \<and>
   bpf_call no_helper oj_capability_stack_store oj_ctx 10 = Some CapabilityStored \<and>
   bpf_call no_helper oj_clobbered_r1_load oj_ctx 10 = Some NotACapability \<and>
   bpf_call no_helper oj_branch_join_clobbered_context oj_ctx 10 = Some (Returned 0xfeedfacecafebeef)"
  unfolding oj_progs oj_ctx_def no_helper_def
  by (intro conjI) (simp_all add: bpf_call_program fields_ok_def machine_eval)

end
