(* ===== verification/Sigprot_Child.thy ===== *)
theory Sigprot_Child
  imports Process
begin

text \<open>
  The child protocol of the CHERI reproduction programs (\<open>test_cheri_direct_jit_repro.c\<close>,
  copied into \<open>test_cheri_objjit_compile.c\<close>, \<open>test_cheri_loader_jit_repro.c\<close> and
  \<open>test_cheri_objjit_context_repro.c\<close>): a handler for SIGPROT only, and a parent that
  judges the wait status by whether a trap was expected.
\<close>

definition sigprot_handler :: "bool \<Rightarrow> int" where
  "sigprot_handler expect_sigprot = (if expect_sigprot then 0 else 31)"

definition install_sigprot_handler :: "os \<Rightarrow> bool \<Rightarrow> handlers proc" where
  "install_sigprot_handler os expect_trap =
     (if \<not> sigaction_ok os SIGPROT then pexit 11
      else pret [SIGPROT \<mapsto> sigprot_handler expect_trap])"

text \<open>A fork that fails leaves no child; the programs then wait for process \<open>-1\<close>, which
  fails because there is none.\<close>

definition forked :: "os \<Rightarrow> int proc \<Rightarrow> ending option" where
  "forked os child = (if fork_ok os then Some (child_end child) else None)"

definition waitpid_status :: "os \<Rightarrow> ending option \<Rightarrow> wait_status option" where
  "waitpid_status os child = (if waitpid_ok os then map_option status_of child else None)"

definition wait_for_child :: "os \<Rightarrow> ending option \<Rightarrow> bool \<Rightarrow> nat" where
  "wait_for_child os child expect_trap =
     (case waitpid_status os child of None \<Rightarrow> 1
      | Some status \<Rightarrow>
        if WIFSIGNALED status then (if expect_trap then 0 else 1)
        else let exit_status = (if WIFEXITED status then WEXITSTATUS status else 99) in
          if expect_trap then (if exit_status = 20 then 1 else 0)
          else (if exit_status = 0 then 0 else 1))"

lemma wait_for_child_le_1: "wait_for_child os child expect_trap \<le> 1"
  by (simp add: wait_for_child_def Let_def split: option.split)

lemma wait_for_child_return:
  "wait_for_child os child False = 0 \<longleftrightarrow>
     waitpid_ok os \<and> (\<exists>n. child = Some (Exits n) \<and> n mod 256 = 0)"
proof (cases child)
  case None
  then show ?thesis by (simp add: wait_for_child_def waitpid_status_def)
next
  case (Some e)
  then show ?thesis by (cases e) (auto simp: wait_for_child_def waitpid_status_def)
qed

lemma wait_for_child_trap:
  "wait_for_child os child True = 0 \<longleftrightarrow>
     waitpid_ok os \<and> child \<noteq> None \<and> (\<forall>n. child = Some (Exits n) \<longrightarrow> n mod 256 \<noteq> 20)"
proof (cases child)
  case None
  then show ?thesis by (simp add: wait_for_child_def waitpid_status_def)
next
  case (Some e)
  then show ?thesis by (cases e) (auto simp: wait_for_child_def waitpid_status_def)
qed

text \<open>The common end of these children: call the function; a return where a trap was
  expected exits 20, a wrong value 21.\<close>

definition judged_call :: "handlers \<Rightarrow> int + u64 \<Rightarrow> (u64 \<Rightarrow> bool) \<Rightarrow> bool \<Rightarrow> int proc" where
  "judged_call h r good expect_trap =
     pbind (pcall h r) (\<lambda>result.
       if expect_trap then pexit 20 else pexit (if good result then 0 else 21))"

definition judged_end :: "int + u64 \<Rightarrow> (u64 \<Rightarrow> bool) \<Rightarrow> bool \<Rightarrow> ending" where
  "judged_end r good expect_trap =
     (case r of
        Inl sg \<Rightarrow> if sg = SIGPROT then Exits (sigprot_handler expect_trap) else Dies sg
      | Inr v \<Rightarrow> Exits (if expect_trap then 20 else if good v then 0 else 21))"

lemma judged_call_end:
  "fst (judged_call [SIGPROT \<mapsto> sigprot_handler expect_trap] r good expect_trap s) =
   Inl (judged_end r good expect_trap)"
  by (cases r) (auto simp: judged_call_def judged_end_def proc_defs deliver_def)

lemma judged_end_passes:
  "fork_ok os \<Longrightarrow> waitpid_ok os \<Longrightarrow>
   wait_for_child os (Some (judged_end r good False)) False = 0 \<longleftrightarrow> (\<exists>v. r = Inr v \<and> good v)"
  "fork_ok os \<Longrightarrow> waitpid_ok os \<Longrightarrow>
   wait_for_child os (Some (judged_end r good True)) True = 0 \<longleftrightarrow> (\<exists>sg. r = Inl sg)"
  unfolding wait_for_child_return wait_for_child_trap
  by (cases r; auto simp: judged_end_def sigprot_handler_def)+

lemma install_sigprot_handler_cases:
  "install_sigprot_handler os ex s =
     (if sigaction_ok os SIGPROT then (Inr [SIGPROT \<mapsto> sigprot_handler ex], s) else (Inl (Exits 11), s))"
  by (simp add: install_sigprot_handler_def proc_defs)

end
