(* ===== verification/Suite_Objjit.thy ===== *)
theory Suite_Objjit
  imports Objjit_Programs Sigprot_Child Suite_Host
begin

text \<open>
  The harness of \<open>test_cheri_objjit_compile.c\<close>: load and compile a byte program, call it in
  a child on a two-word context, or check that the compiler rejects it with one of the
  known messages. The result of the compiled program is judged by its exit code.
\<close>

section \<open>Compiling\<close>

definition compile_with_ubpf :: "'v ubpf \<Rightarrow> u8 list \<Rightarrow> jit_fn option proc" where
  "compile_with_ubpf v prog =
     (case ubpf_create v of None \<Rightarrow> pret None
      | Some vm \<Rightarrow> pseq (acquire Vm)
        (case ubpf_load v vm prog of
           Inl errmsg \<Rightarrow> pseq (acquire_msg errmsg) (pseq (free_msg errmsg)
             (pseq (release Vm) (pret None)))
         | Inr vm' \<Rightarrow> (case ubpf_compile v vm' of
             Inl errmsg \<Rightarrow> pseq (acquire_msg errmsg) (pseq (free_msg errmsg)
               (pseq (release Vm) (pret None)))
           | Inr fn \<Rightarrow> pret (Some fn))))"

text \<open>What \<open>ubpf\<close> makes of a program: nothing, or a function.\<close>

definition compiled :: "'v ubpf \<Rightarrow> u8 list \<Rightarrow> jit_fn option" where
  "compiled v prog =
     (case ubpf_create v of None \<Rightarrow> None
      | Some vm \<Rightarrow> (case ubpf_load v vm prog of Inl _ \<Rightarrow> None
      | Inr vm' \<Rightarrow> (case ubpf_compile v vm' of Inl _ \<Rightarrow> None | Inr fn \<Rightarrow> Some fn)))"

lemma compile_with_ubpf_start:
  "compile_with_ubpf v prog start =
     (Inr (compiled v prog), start\<lparr>owned := (if compiled v prog = None then {} else {Vm})\<rparr>)"
  by (auto simp: compile_with_ubpf_def compiled_def proc_defs start_def
      split: option.splits sum.splits)

section \<open>Calling in a child\<close>

definition oj_sigprot_handler :: "bool \<Rightarrow> int" where
  "oj_sigprot_handler expect_sigprot = (if expect_sigprot then 0 else 31)"

definition oj_install_sigprot_handler :: "os \<Rightarrow> bool \<Rightarrow> handlers proc" where
  "oj_install_sigprot_handler os expect_trap =
     (if \<not> sigaction_ok os SIGPROT then pexit 11
      else pret [SIGPROT \<mapsto> oj_sigprot_handler expect_trap])"

definition oj_wait_for_child :: "os \<Rightarrow> ending option \<Rightarrow> bool \<Rightarrow> nat" where
  "oj_wait_for_child os child expect_trap =
     (case waitpid_status os child of None \<Rightarrow> 1
      | Some status \<Rightarrow>
        if WIFSIGNALED status then (if expect_trap then 0 else 1)
        else let exit_status = (if WIFEXITED status then WEXITSTATUS status else 99) in
          if expect_trap then (if exit_status = 20 then 1 else 0)
          else (if exit_status = 0 then 0 else 1))"

text \<open>The three functions are copies of the ones in \<open>test_cheri_direct_jit_repro.c\<close>.\<close>

lemma oj_copies [simp]:
  "oj_sigprot_handler = sigprot_handler"
  "oj_install_sigprot_handler = install_sigprot_handler"
  "oj_wait_for_child = wait_for_child"
  by (simp_all add: fun_eq_iff oj_sigprot_handler_def sigprot_handler_def
      oj_install_sigprot_handler_def install_sigprot_handler_def oj_wait_for_child_def
      wait_for_child_def)

definition compile_and_call_child :: "os \<Rightarrow> 'v ubpf \<Rightarrow> u8 list \<Rightarrow> u64 \<Rightarrow> bool \<Rightarrow> int proc" where
  "compile_and_call_child os v prog expected expect_trap =
     pbind (oj_install_sigprot_handler os expect_trap) (\<lambda>h.
     pbind (compile_with_ubpf v prog) (\<lambda>fn_opt.
     case fn_opt of None \<Rightarrow> pexit 10
     | Some fn \<Rightarrow>
       pbind (pcall h (fn (words_object oj_ctx) (8 * length oj_ctx))) (\<lambda>result.
       let ok = (result = expected) in
       pseq (release Vm)
       (if expect_trap then pexit 20 else pexit (if ok then 0 else 21)))))"

definition run_compile_and_call :: "os \<Rightarrow> 'v ubpf \<Rightarrow> u8 list \<Rightarrow> u64 \<Rightarrow> bool \<Rightarrow> nat" where
  "run_compile_and_call os v prog expected expect_trap =
     oj_wait_for_child os (forked os (compile_and_call_child os v prog expected expect_trap))
       expect_trap"

section \<open>Expecting a rejection\<close>

text \<open>\<open>strstr\<close>, used as a truth value.\<close>

fun strstr :: "string \<Rightarrow> string \<Rightarrow> bool" where
  "strstr hay needle =
     (take (length needle) hay = needle \<or> (case hay of [] \<Rightarrow> False | _ # t \<Rightarrow> strstr t needle))"

declare strstr.simps [simp del]

lemma strstr_iff: "strstr hay needle \<longleftrightarrow> (\<exists>a b. hay = a @ needle @ b)"
proof
  show "strstr hay needle \<Longrightarrow> \<exists>a b. hay = a @ needle @ b"
  proof (induction hay needle rule: strstr.induct)
    case (1 hay needle)
    show ?case
    proof (cases "take (length needle) hay = needle")
      case True
      then show ?thesis by (metis append_Nil append_take_drop_id)
    next
      case False
      with "1.prems" obtain x t where h: "hay = x # t" "strstr t needle"
        by (subst (asm) strstr.simps) (auto split: list.splits)
      with "1.IH" False obtain a b where "t = a @ needle @ b" by blast
      with h show ?thesis by (metis append_Cons)
    qed
  qed
next
  assume "\<exists>a b. hay = a @ needle @ b"
  then obtain a b where "hay = a @ needle @ b" by blast
  then show "strstr hay needle"
  proof (induction a arbitrary: hay)
    case Nil
    then show ?case by (subst strstr.simps) simp
  next
    case (Cons x a)
    then show ?case by (subst strstr.simps) simp
  qed
qed

definition oj_reject_messages :: "string list" where
  "oj_reject_messages =
     [''does not yet support memory opcode'', ''tracked context or stack capabilities'',
      ''tracked stack capabilities'', ''does not allow storing a capability value'',
      ''does not allow returning a capability value'']"

definition expect_compile_reject :: "'v ubpf \<Rightarrow> u8 list \<Rightarrow> nat proc" where
  "expect_compile_reject v prog =
     (case ubpf_create v of None \<Rightarrow> pret 1
      | Some vm \<Rightarrow> pseq (acquire Vm)
        (case ubpf_load v vm prog of
           Inl errmsg \<Rightarrow> pseq (acquire_msg errmsg) (pseq (free_msg errmsg)
             (pseq (release Vm) (pret 1)))
         | Inr vm' \<Rightarrow> (case ubpf_compile v vm' of
             Inr fn \<Rightarrow> pseq (release Vm) (pret 1)
           | Inl errmsg \<Rightarrow> pseq (acquire_msg errmsg)
             (let matched = (case errmsg of None \<Rightarrow> False
                  | Some e \<Rightarrow> \<exists>msg \<in> set oj_reject_messages. strstr e msg) in
              pseq (free_msg errmsg) (pseq (release Vm) (pret (if matched then 0 else 1)))))))"

definition proc_value :: "nat proc \<Rightarrow> nat" where
  "proc_value p = (case p start of (Inr n, _) \<Rightarrow> n | (Inl _, _) \<Rightarrow> 1)"

section \<open>\<open>main\<close>\<close>

definition oj_main :: "(nat \<Rightarrow> os) \<Rightarrow> 'v ubpf \<Rightarrow> nat" where
  "oj_main env v =
     (let failures =
        sum_list (map (\<lambda>(os, nm, prog, expected, trap). run_compile_and_call os v prog expected trap)
          (paired env oj_calls)) +
        sum_list (map (\<lambda>(nm, prog). proc_value (expect_compile_reject v prog)) oj_rejects)
      in if failures = 0 then 0 else 1)"

section \<open>Verdicts\<close>

lemma compile_and_call_child_end:
  "child_end (compile_and_call_child os v prog expected trap) =
    (if \<not> sigaction_ok os SIGPROT then Exits 11
     else case compiled v prog of None \<Rightarrow> Exits 10
     | Some fn \<Rightarrow> judged_end (fn (words_object oj_ctx) 16) (\<lambda>r. r = expected) trap)"
proof -
  have len: "8 * length oj_ctx = 16" by (simp add: oj_ctx_def)
  show ?thesis
    unfolding compile_and_call_child_def len
    by (auto simp: child_end_bind install_sigprot_handler_cases compile_with_ubpf_start
        proc_defs judged_end_def deliver_def split: option.splits sum.splits)
qed

lemma run_call_return:
  "run_compile_and_call os v prog expected False = 0 \<longleftrightarrow>
     fork_ok os \<and> waitpid_ok os \<and> sigaction_ok os SIGPROT \<and>
     (\<exists>fn. compiled v prog = Some fn \<and> fn (words_object oj_ctx) 16 = Inr expected)"
  by (auto simp: run_compile_and_call_def wait_for_child_return forked_def
      compile_and_call_child_end judged_end_def sigprot_handler_def
      split: option.splits sum.splits if_splits)

lemma run_call_trap:
  "run_compile_and_call os v prog expected True = 0 \<longleftrightarrow>
     fork_ok os \<and> waitpid_ok os \<and>
     (sigaction_ok os SIGPROT \<longrightarrow>
       (\<forall>fn r. compiled v prog = Some fn \<longrightarrow> fn (words_object oj_ctx) 16 \<noteq> Inr r))"
  by (auto simp: run_compile_and_call_def wait_for_child_trap forked_def
      compile_and_call_child_end judged_end_def sigprot_handler_def
      split: option.splits sum.splits if_splits)

lemma run_compile_and_call_le_1: "run_compile_and_call os v prog expected trap \<le> 1"
  by (simp add: run_compile_and_call_def wait_for_child_le_1 del: One_nat_def)

interpretation oj_call_suite:
  suite "\<lambda>(os, nm :: string, prog, expected, trap). run_compile_and_call os v prog expected trap"
  for v :: "'v ubpf"
  by unfold_locales (auto simp: run_compile_and_call_le_1 simp del: One_nat_def)

lemma expect_compile_reject_value:
  "expect_compile_reject v prog start =
    (Inr (case ubpf_create v of None \<Rightarrow> 1
      | Some vm \<Rightarrow> (case ubpf_load v vm prog of Inl _ \<Rightarrow> 1
      | Inr vm' \<Rightarrow> (case ubpf_compile v vm' of Inr _ \<Rightarrow> 1 | Inl None \<Rightarrow> 1
      | Inl (Some e) \<Rightarrow> if \<exists>msg \<in> set oj_reject_messages. strstr e msg then 0 else 1))), start)"
  by (auto simp: expect_compile_reject_def proc_defs start_def split: option.splits sum.splits)

lemma expect_compile_reject_passes:
  "proc_value (expect_compile_reject v prog) = 0 \<longleftrightarrow>
    (\<exists>vm vm' e. ubpf_create v = Some vm \<and> ubpf_load v vm prog = Inr vm' \<and>
       ubpf_compile v vm' = Inl (Some e) \<and> (\<exists>msg \<in> set oj_reject_messages. strstr e msg))"
  by (auto simp: proc_value_def expect_compile_reject_value split: option.splits sum.splits if_splits)

interpretation oj_reject_suite:
  suite "\<lambda>(nm :: string, prog). proc_value (expect_compile_reject v prog)" for v :: "'v ubpf"
  by unfold_locales
    (auto simp: proc_value_def expect_compile_reject_value split: option.splits sum.splits)

lemma oj_main_zero:
  "oj_main env v = 0 \<longleftrightarrow>
     (\<forall>i < length oj_calls. case oj_calls ! i of
        (nm, prog, expected, trap) \<Rightarrow> run_compile_and_call (env i) v prog expected trap = 0) \<and>
     (\<forall>(nm, prog) \<in> set oj_rejects. proc_value (expect_compile_reject v prog) = 0)"
proof -
  have "oj_main env v = 0 \<longleftrightarrow>
    sum_list (map (\<lambda>(os, nm, prog, expected, trap). run_compile_and_call os v prog expected trap)
          (paired env oj_calls)) = 0 \<and>
    sum_list (map (\<lambda>(nm, prog). proc_value (expect_compile_reject v prog)) oj_rejects) = 0"
    by (simp add: oj_main_def Let_def)
  then show ?thesis
    by (simp only: oj_call_suite.all_pass oj_reject_suite.all_pass ball_paired)
      (simp add: case_prod_unfold)
qed

section \<open>Properties\<close>

text \<open>C9: every expectation of the call list is what the eBPF program does. On the
  two-word context, with bounds-checked memory and 4096 bytes of zeroed stack, the 28
  programs return exactly the listed value or, where a trap is expected, stop with a bounds
  fault; ten instructions are enough for each.\<close>
theorem oj_expectations_hold:
  "list_all (\<lambda>(nm, prog, expected, expect_trap).
     bpf_call no_helper prog oj_ctx 10 =
       Some (if expect_trap then Faulted BoundsTrap else Returned expected)) oj_calls"
  using oj_calls_run by (simp add: list_all_iff)

text \<open>What the four rejected programs would do. Two of them misuse a capability (one
  stores the context pointer to the stack, one loads through a number); the other two, the
  store to the context and the load behind a join, run cleanly and return, so rejecting
  them is a restriction of the compiler and not a safety necessity.\<close>
lemma oj_rejected_behaviour:
  "bpf_call no_helper oj_context_store oj_ctx 10 = Some (Returned 42) \<and>
   bpf_call no_helper oj_capability_stack_store oj_ctx 10 = Some CapabilityStored \<and>
   bpf_call no_helper oj_clobbered_r1_load oj_ctx 10 = Some NotACapability \<and>
   bpf_call no_helper oj_branch_join_clobbered_context oj_ctx 10 = Some (Returned 0xfeedfacecafebeef)"
  by (rule oj_rejects_run)

text \<open>The verdict where a value is expected is exact: success means that fork, wait
  and sigaction worked, the program compiled, and the call returned the expected value.\<close>
lemma oj_return_verdict:
  "run_compile_and_call os v prog expected False = 0 \<longleftrightarrow>
     fork_ok os \<and> waitpid_ok os \<and> sigaction_ok os SIGPROT \<and>
     (\<exists>fn. compiled v prog = Some fn \<and> fn (words_object oj_ctx) 16 = Inr expected)"
  by (rule run_call_return)

text \<open>C34: the verdict where a trap is expected is not. The parent counts every end of the
  child except exit code 20 as the expected trap, so a program that does not even load or
  compile (exit 10) or a handler that could not be installed (exit 11) is reported as a
  success, for any program whatsoever.\<close>
theorem oj_trap_pass_without_run:
  assumes "fork_ok os" and "waitpid_ok os"
    and "compiled v prog = None \<or> \<not> sigaction_ok os SIGPROT"
  shows "run_compile_and_call os v prog expected True = 0"
  using assms by (auto simp: run_call_trap)

theorem oj_trap_pass_without_run_witness:
  "run_compile_and_call (demo_os 0) (demo_vm (\<lambda>_. Inr 1)\<lparr>ubpf_compile := \<lambda>_. Inl None\<rparr>)
     oj_context_load_8 0 True = 0"
  by (rule oj_trap_pass_without_run) (simp_all add: demo_os_def demo_vm_def compiled_def)

definition stop_signal :: "stop \<Rightarrow> (int + u64) option" where
  "stop_signal s =
     (case s of Returned r \<Rightarrow> Some (Inr r) | Faulted f \<Rightarrow> Some (Inl (fault_signal f)) | _ \<Rightarrow> None)"

text \<open>A virtual machine implements a program if it compiles it to a function that shows
  the outcome of the eBPF run.\<close>

definition implements :: "'v ubpf \<Rightarrow> helpers \<Rightarrow> u64 list \<Rightarrow> u8 list \<Rightarrow> bool" where
  "implements v h ws prog \<longleftrightarrow>
     (\<exists>fn n s. compiled v prog = Some fn \<and> bpf_call h prog ws n = Some s \<and>
        stop_signal s = Some (fn (words_object ws) (8 * length ws)))"

text \<open>How a machine refuses a program: the message of \<open>ubpf_compile\<close> after a successful load.
  A machine refuses as documented if the message contains one of the five phrases of the
  backend for memory operations and capabilities it does not support.\<close>

definition compile_refusal :: "'v ubpf \<Rightarrow> u8 list \<Rightarrow> string option" where
  "compile_refusal v prog =
     (case ubpf_create v of None \<Rightarrow> None
      | Some vm \<Rightarrow> (case ubpf_load v vm prog of Inl _ \<Rightarrow> None
      | Inr vm' \<Rightarrow> (case ubpf_compile v vm' of Inl errmsg \<Rightarrow> errmsg | Inr _ \<Rightarrow> None)))"

definition has_phrase :: "string \<Rightarrow> string \<Rightarrow> bool" where
  "has_phrase e p \<longleftrightarrow> (\<exists>before after. e = before @ p @ after)"

definition refused_by_compiler :: "'v ubpf \<Rightarrow> u8 list \<Rightarrow> bool" where
  "refused_by_compiler v prog \<longleftrightarrow> (\<exists>e. compile_refusal v prog = Some e \<and>
     (\<exists>p \<in> {''does not yet support memory opcode'', ''tracked context or stack capabilities'',
        ''tracked stack capabilities'', ''does not allow storing a capability value'',
        ''does not allow returning a capability value''}. has_phrase e p))"

lemma expect_compile_reject_refused:
  "proc_value (expect_compile_reject v prog) = 0 \<longleftrightarrow> refused_by_compiler v prog"
  unfolding expect_compile_reject_passes
  by (auto simp: refused_by_compiler_def compile_refusal_def has_phrase_def oj_reject_messages_def
      strstr_iff split: option.splits sum.splits)

lemma implements_outcome:
  assumes "implements v h ws prog" and "bpf_call h prog ws k = Some s"
  shows "\<exists>fn. compiled v prog = Some fn \<and> stop_signal s = Some (fn (words_object ws) (8 * length ws))"
  using assms bpf_call_unique unfolding implements_def by blast

lemma oj_case_passes:
  assumes "kernel_ok os" and "implements v no_helper oj_ctx prog"
    and "(nm, prog, expected, trap) \<in> set oj_calls"
  shows "run_compile_and_call os v prog expected trap = 0"
proof -
  have "bpf_call no_helper prog oj_ctx 10 = Some (if trap then Faulted BoundsTrap else Returned expected)"
    using oj_calls_run assms(3) by fastforce
  from implements_outcome [OF assms(2) this] obtain fn where "compiled v prog = Some fn"
    and "stop_signal (if trap then Faulted BoundsTrap else Returned expected) =
      Some (fn (words_object oj_ctx) (8 * length oj_ctx))" by blast
  then show ?thesis
    using assms(1)
    by (cases trap)
      (auto simp: run_call_return run_call_trap stop_signal_def kernel_ok_def signals_ok_def oj_ctx_def
        dest: sym)
qed

text \<open>C5: the suite accepts a correct compiler. If the kernel calls succeed, the compiled
  code of the 28 programs does what eBPF with capability bounds does, and \<open>ubpf_compile\<close>
  refuses each of the other four, once loaded, with a message that contains one of the five
  documented phrases, then \<open>main\<close> returns 0.\<close>
theorem oj_main_accepts:
  assumes "\<forall>i. kernel_ok (env i)"
    and "\<forall>(nm, prog, expected, trap) \<in> set oj_calls. implements v no_helper oj_ctx prog"
    and "\<forall>(nm, prog) \<in> set oj_rejects. refused_by_compiler v prog"
  shows "oj_main env v = 0"
  unfolding oj_main_zero
proof (intro conjI allI impI)
  fix i assume "i < length oj_calls"
  then have m: "oj_calls ! i \<in> set oj_calls" by simp
  obtain nm prog expected trap where c: "oj_calls ! i = (nm, prog, expected, trap)"
    by (cases "oj_calls ! i")
  with m assms(1,2) have "run_compile_and_call (env i) v prog expected trap = 0"
    by (intro oj_case_passes) auto
  with c show "case oj_calls ! i of (nm, prog, expected, trap) \<Rightarrow>
      run_compile_and_call (env i) v prog expected trap = 0" by simp
qed (use assms(3) in \<open>simp add: expect_compile_reject_refused\<close>)

definition demo_bpf_vm :: "u8 list ubpf" where
  "demo_bpf_vm = demo_vm (\<lambda>_. Inr 0)\<lparr>ubpf_compile := \<lambda>prog.
     if prog \<in> set (map snd oj_rejects) then Inl (Some ''tracked stack capabilities'')
     else Inr (\<lambda>_ _. case bpf_call no_helper prog oj_ctx 10 of
       Some s \<Rightarrow> (case stop_signal s of Some r \<Rightarrow> r | None \<Rightarrow> Inl 34) | None \<Rightarrow> Inl 34)\<rparr>"

lemma oj_calls_not_rejected:
  "\<forall>(nm, prog, expected, trap) \<in> set oj_calls. prog \<notin> set (map snd oj_rejects)"
  unfolding oj_calls_def oj_rejects_def oj_progs
  by (simp only: list.set ball_simps prod.case; intro conjI)
    (simp_all add: insn.program_inj fields_ok_def)

theorem oj_main_accepts_witness: "oj_main demo_os demo_bpf_vm = 0"
proof (rule oj_main_accepts)
  show "\<forall>(nm, prog, expected, trap) \<in> set oj_calls. implements demo_bpf_vm no_helper oj_ctx prog"
  proof safe
    fix nm prog expected trap
    assume m: "(nm, prog, expected, trap) \<in> set oj_calls"
    then have r: "bpf_call no_helper prog oj_ctx 10 =
        Some (if trap then Faulted BoundsTrap else Returned expected)"
      using oj_calls_run by fastforce
    have "prog \<notin> set (map snd oj_rejects)" using m oj_calls_not_rejected by fastforce
    then have "compiled demo_bpf_vm prog = Some (\<lambda>_ _. case bpf_call no_helper prog oj_ctx 10 of
       Some s \<Rightarrow> (case stop_signal s of Some r \<Rightarrow> r | None \<Rightarrow> Inl 34) | None \<Rightarrow> Inl 34)"
      by (simp add: compiled_def demo_bpf_vm_def demo_vm_def)
    with r show "implements demo_bpf_vm no_helper oj_ctx prog"
      unfolding implements_def by (intro exI conjI) (auto simp: stop_signal_def)
  qed
  show "\<forall>(nm, prog) \<in> set oj_rejects. refused_by_compiler demo_bpf_vm prog"
  proof safe
    fix nm prog assume "(nm, prog) \<in> set oj_rejects"
    then have "prog \<in> set (map snd oj_rejects)" by force
    moreover have "has_phrase ''tracked stack capabilities'' ''tracked stack capabilities''"
      by (auto simp: has_phrase_def intro: exI [of _ "[]"])
    ultimately show "refused_by_compiler demo_bpf_vm prog"
      by (simp add: refused_by_compiler_def compile_refusal_def demo_bpf_vm_def demo_vm_def)
  qed
qed (simp add: demo_kernel_ok)

end
