(* ===== verification/Suite_Helper_Map.thy ===== *)
theory Suite_Helper_Map
  imports Suite_Objjit
begin

text \<open>
  The helper-returned map pointer suite \<open>test_helper_map_cap.c\<close>. The source is compiled
  twice, for purecap CheriBSD and for a host without capabilities; \<open>purecap\<close> selects what
  \<open>__CHERI_PURE_CAPABILITY__\<close> selects. Under purecap the child's handlers turn an expected
  trap into exit code 100, which the parent turns back into a signal.
\<close>

section \<open>Programs\<close>

definition HM_INSN :: "int \<Rightarrow> int \<Rightarrow> int \<Rightarrow> int \<Rightarrow> int \<Rightarrow> u8 list" where
  "HM_INSN op dst src off imm =
     [word_of_int op, word_of_int ((dst AND 0xf) OR push_bit 4 (src AND 0xf)),
      word_of_int (off AND 0xff), word_of_int (drop_bit 8 off AND 0xff),
      word_of_int (imm AND 0xff), word_of_int (drop_bit 8 imm AND 0xff),
      word_of_int (drop_bit 16 imm AND 0xff), word_of_int (drop_bit 24 imm AND 0xff)]"

lemma HM_INSN_raw: "HM_INSN = BPF_RAW"
  by (simp add: fun_eq_iff HM_INSN_def BPF_RAW_def)

definition HELPER_MAP_LOOKUP :: int where "HELPER_MAP_LOOKUP = 7"

definition helper_map_read_in_bounds :: "u8 list" where
  "helper_map_read_in_bounds = program HM_INSN
     [(0x85, 0, 0, 0, HELPER_MAP_LOOKUP), (0xbf, 6, 0, 0, 0), (0x79, 0, 6, 8, 0), (0x95, 0, 0, 0, 0)]"

definition helper_map_write_in_bounds :: "u8 list" where
  "helper_map_write_in_bounds = program HM_INSN
     [(0x85, 0, 0, 0, HELPER_MAP_LOOKUP), (0xbf, 6, 0, 0, 0), (0xb7, 2, 0, 0, 0x5a),
      (0x7b, 6, 2, 8, 0), (0x79, 0, 6, 8, 0), (0x95, 0, 0, 0, 0)]"

definition helper_map_read_oob :: "u8 list" where
  "helper_map_read_oob = program HM_INSN
     [(0x85, 0, 0, 0, HELPER_MAP_LOOKUP), (0xbf, 6, 0, 0, 0), (0x79, 0, 6, 4096, 0),
      (0x95, 0, 0, 0, 0)]"

definition helper_map_write_oob :: "u8 list" where
  "helper_map_write_oob = program HM_INSN
     [(0x85, 0, 0, 0, HELPER_MAP_LOOKUP), (0xbf, 6, 0, 0, 0), (0xb7, 2, 0, 0, 0x5a),
      (0x7b, 6, 2, 4096, 0), (0xb7, 0, 0, 0, 0), (0x95, 0, 0, 0, 0)]"

lemmas hm_progs = helper_map_read_in_bounds_def helper_map_write_in_bounds_def
  helper_map_read_oob_def helper_map_write_oob_def

section \<open>Cases and outcomes\<close>

datatype hm_expectation = HM_EXPECT_RETURN | HM_EXPECT_TRAP

record helper_map_case =
  hm_name :: string
  hm_coverage :: string
  hm_code :: "u8 list"
  hm_expectation :: hm_expectation
  hm_expected :: u64

record run_outcome =
  ro_returned :: bool
  ro_signalled :: bool
  ro_signal :: int
  ro_exit_status :: int
  ro_value :: u64

definition zero_run_outcome :: run_outcome where
  "zero_run_outcome = \<lparr>ro_returned = False, ro_signalled = False, ro_signal = 0,
     ro_exit_status = 0, ro_value = 0\<rparr>"

definition helper_map_cases :: "helper_map_case list" where
  "helper_map_cases =
    [\<lparr>hm_name = ''helper_map_read_in_bounds'',
      hm_coverage = ''helper-returned map-value root, in-bounds read'',
      hm_code = helper_map_read_in_bounds, hm_expectation = HM_EXPECT_RETURN, hm_expected = 0x2000\<rparr>,
     \<lparr>hm_name = ''helper_map_write_in_bounds'',
      hm_coverage = ''helper-returned map-value root, in-bounds write/read'',
      hm_code = helper_map_write_in_bounds, hm_expectation = HM_EXPECT_RETURN, hm_expected = 0x5a\<rparr>,
     \<lparr>hm_name = ''helper_map_read_oob'',
      hm_coverage = ''CVE-2021-4204-style helper/map OOB read analogue'',
      hm_code = helper_map_read_oob, hm_expectation = HM_EXPECT_TRAP, hm_expected = 0\<rparr>,
     \<lparr>hm_name = ''helper_map_write_oob'',
      hm_coverage = ''CVE-2021-4204-style helper/map OOB write analogue'',
      hm_code = helper_map_write_oob, hm_expectation = HM_EXPECT_TRAP, hm_expected = 0\<rparr>]"

definition hm_case_passed :: "bool \<Rightarrow> helper_map_case \<Rightarrow> run_outcome \<Rightarrow> bool" where
  "hm_case_passed purecap c oc =
     (if purecap then
        if hm_expectation c = HM_EXPECT_TRAP then ro_signalled oc \<and> ro_signal oc = SIGPROT
        else ro_returned oc \<and> ro_value oc = hm_expected c
      else
        if hm_expectation c = HM_EXPECT_TRAP then ro_returned oc \<or> ro_signalled oc
        else ro_returned oc \<and> ro_value oc = hm_expected c)"

section \<open>The child\<close>

definition hm_trap_handler :: "bool \<Rightarrow> int" where
  "hm_trap_handler expect_signal_trap = (if expect_signal_trap then 100 else 31)"

definition hm_install_trap_handlers :: "os \<Rightarrow> hm_expectation \<Rightarrow> handlers proc" where
  "hm_install_trap_handlers os ex =
     (let expect_signal_trap = (ex = HM_EXPECT_TRAP) in
      if \<not> sigaction_ok os SIGPROT then pexit 11
      else if \<not> sigaction_ok os SIGSEGV then pexit 11
      else pret [SIGPROT \<mapsto> hm_trap_handler expect_signal_trap,
                 SIGSEGV \<mapsto> hm_trap_handler expect_signal_trap])"

definition hm_map :: "bool \<Rightarrow> os \<Rightarrow> object" where
  "hm_map purecap os =
     (if purecap
      then \<lparr>logical_len = 16, backing_len = 16, content = prepare_map 16 (\<lambda>i. ucast (junk os i))\<rparr>
      else \<lparr>logical_len = HOST_MAP_LOGICAL_BYTES, backing_len = HOST_MAP_BACKING_BYTES,
            content = prepare_map HOST_MAP_BACKING_BYTES (\<lambda>i. ucast (junk os i))\<rparr>)"

definition hm_load_compile_and_call ::
  "bool \<Rightarrow> os \<Rightarrow> 'v ubpf \<Rightarrow> handlers \<Rightarrow> helper_map_case \<Rightarrow> int proc" where
  "hm_load_compile_and_call purecap os v h c =
     (let mem = hm_map purecap os in
      case ubpf_create v of None \<Rightarrow> pret 2
      | Some vm0 \<Rightarrow>
      pseq (acquire Vm)
      (let vm1 = ubpf_cheri_set_map_value_helper_index v vm0 HELPER_MAP_LOOKUP;
           (rc, vm2) = ubpf_register v vm1 HELPER_MAP_LOOKUP ''map_lookup_value''
       in if rc \<noteq> 0 then pseq (release Vm) (pret 2)
       else case ubpf_load v vm2 (hm_code c) of
         Inl errmsg \<Rightarrow> pseq (acquire_msg errmsg) (pseq (free_msg errmsg)
           (pseq (release Vm) (pret 3)))
       | Inr vm3 \<Rightarrow> (case ubpf_compile v vm3 of
           Inl errmsg \<Rightarrow> pseq (acquire_msg errmsg) (pseq (free_msg errmsg)
             (pseq (release Vm) (pret 4)))
         | Inr fn \<Rightarrow>
           pbind (pcall h (fn mem (logical_len mem))) (\<lambda>result.
           pbind (write_all os (le_bytes 8 result)) (\<lambda>rc.
           if rc \<noteq> 0 then pseq (release Vm) (pret 5)
           else pseq (release Vm) (pret 0))))))"

definition hm_child :: "bool \<Rightarrow> os \<Rightarrow> 'v ubpf \<Rightarrow> helper_map_case \<Rightarrow> int proc" where
  "hm_child purecap os v c =
     pbind (if purecap then hm_install_trap_handlers os (hm_expectation c) else pret Map.empty)
       (\<lambda>h. hm_load_compile_and_call purecap os v h c)"

section \<open>The parent\<close>

definition hm_run_case_child :: "bool \<Rightarrow> os \<Rightarrow> 'v ubpf \<Rightarrow> helper_map_case \<Rightarrow> run_outcome" where
  "hm_run_case_child purecap os v c =
     (if \<not> pipe_ok os then zero_run_outcome\<lparr>ro_exit_status := 90\<rparr>
      else if \<not> fork_ok os then zero_run_outcome\<lparr>ro_exit_status := 91\<rparr>
      else let (e, out) = child_result (hm_child purecap os v c);
               (n, value) = read_pipe os out
        in case wait_child os e of
          None \<Rightarrow> zero_run_outcome\<lparr>ro_exit_status := 92\<rparr>
        | Some status \<Rightarrow>
          if WIFSIGNALED status
          then zero_run_outcome\<lparr>ro_signalled := True, ro_signal := WTERMSIG status\<rparr>
          else let oc = zero_run_outcome\<lparr>ro_exit_status :=
                 (if WIFEXITED status then WEXITSTATUS status else 93)\<rparr> in
            if ro_exit_status oc = 100
            then oc\<lparr>ro_signalled := True, ro_signal := (if purecap then SIGPROT else 0)\<rparr>
            else if ro_exit_status oc = 0 \<and> n = 8
            then oc\<lparr>ro_returned := True, ro_value := value\<rparr>
            else oc)"

definition hm_failed :: "bool \<Rightarrow> os \<Rightarrow> 'v ubpf \<Rightarrow> helper_map_case \<Rightarrow> nat" where
  "hm_failed purecap os v c =
     (if hm_case_passed purecap c (hm_run_case_child purecap os v c) then 0 else 1)"

definition hm_verdict :: "bool \<Rightarrow> helper_map_case \<Rightarrow> run_outcome \<Rightarrow> string" where
  "hm_verdict purecap c oc =
     (let ok = hm_case_passed purecap c oc in
      if purecap then (if ok then ''CHERI behavior matched'' else ''unexpected CHERI behavior'')
      else if hm_expectation c = HM_EXPECT_TRAP \<and> ro_returned oc
      then ''unsafe helper/map access executed under non-capability JIT''
      else if ok then ''host baseline recorded'' else ''unexpected host behavior'')"

definition hm_main :: "bool \<Rightarrow> (nat \<Rightarrow> os) \<Rightarrow> 'v ubpf \<Rightarrow> nat" where
  "hm_main purecap env v =
     (let failures = sum_list (map (\<lambda>(os, c). hm_failed purecap os v c) (paired env helper_map_cases))
      in if failures \<noteq> 0 then 1 else 0)"

section \<open>The child as a pipeline\<close>

definition hm_stage :: "'v ubpf \<Rightarrow> u8 list \<Rightarrow> int + jit_fn" where
  "hm_stage v code =
     (case ubpf_create v of None \<Rightarrow> Inl 2
      | Some vm \<Rightarrow>
        let r = ubpf_register v (ubpf_cheri_set_map_value_helper_index v vm 7) 7 ''map_lookup_value''
        in if fst r \<noteq> 0 then Inl 2
        else case ubpf_load v (snd r) code of Inl _ \<Rightarrow> Inl 3
        | Inr vm' \<Rightarrow> (case ubpf_compile v vm' of Inl _ \<Rightarrow> Inl 4 | Inr fn \<Rightarrow> Inr fn))"

lemma hm_stage_code: "hm_stage v code = Inl k \<Longrightarrow> k = 2 \<or> k = 3 \<or> k = 4"
  by (auto simp: hm_stage_def Let_def split: option.splits sum.splits if_splits)

lemma hm_map_len [simp]: "logical_len (hm_map purecap os) = 16"
  by (simp add: hm_map_def host_sizes)

lemma hm_load_result:
  assumes "full_write os"
  shows "hm_load_compile_and_call purecap os v h c start =
    (case hm_stage v (hm_code c) of Inl k \<Rightarrow> (Inr k, start)
     | Inr fn \<Rightarrow> (case fn (hm_map purecap os) 16 of
         Inl sg \<Rightarrow> (Inl (deliver h sg), start\<lparr>owned := {Vm}\<rparr>)
       | Inr r \<Rightarrow> (Inr 0, start\<lparr>sent := le_bytes 8 r\<rparr>)))"
  by (auto simp: hm_load_compile_and_call_def hm_stage_def Let_def proc_defs start_def
      HELPER_MAP_LOOKUP_def write_all_full [OF assms] split: option.splits sum.splits prod.splits)

lemma hm_child_result_host:
  assumes "full_write os"
  shows "child_result (hm_child False os v c) =
    (case hm_stage v (hm_code c) of Inl k \<Rightarrow> (Exits k, [])
     | Inr fn \<Rightarrow> (case fn (hm_map False os) 16 of Inl sg \<Rightarrow> (Dies sg, [])
       | Inr r \<Rightarrow> (Exits 0, le_bytes 8 r)))"
  by (auto simp: hm_child_def child_result_def pbind_def pret_def hm_load_result [OF assms] deliver_def
      split: sum.splits)

lemma hm_child_result_purecap:
  assumes "full_write os" and "signals_ok os"
  shows "child_result (hm_child True os v c) =
    (case hm_stage v (hm_code c) of Inl k \<Rightarrow> (Exits k, [])
     | Inr fn \<Rightarrow> (case fn (hm_map True os) 16 of
         Inl sg \<Rightarrow> (if sg = SIGPROT \<or> sg = SIGSEGV
           then Exits (hm_trap_handler (hm_expectation c = HM_EXPECT_TRAP)) else Dies sg, [])
       | Inr r \<Rightarrow> (Exits 0, le_bytes 8 r)))"
  using assms(2)
  by (auto simp: hm_child_def child_result_def pbind_def pret_def hm_load_result [OF assms(1)]
      deliver_def hm_install_trap_handlers_def signals_ok_def Let_def split: sum.splits)

definition hm_kernel_ok :: "bool \<Rightarrow> os \<Rightarrow> bool" where
  "hm_kernel_ok purecap os \<longleftrightarrow> host_kernel_ok os \<and> (purecap \<longrightarrow> signals_ok os)"

lemma hm_outcome_host:
  assumes "hm_kernel_ok False os"
  shows "hm_run_case_child False os v c =
    (case hm_stage v (hm_code c) of
       Inl k \<Rightarrow> zero_run_outcome\<lparr>ro_exit_status := k\<rparr>
     | Inr fn \<Rightarrow> (case fn (hm_map False os) 16 of
         Inl sg \<Rightarrow> zero_run_outcome\<lparr>ro_signalled := True, ro_signal := sg\<rparr>
       | Inr r \<Rightarrow> zero_run_outcome\<lparr>ro_returned := True, ro_value := r\<rparr>))"
proof -
  have k: "full_write os" "honest_read os" "pipe_ok os" "fork_ok os" "waitpid_ok os"
    using assms by (simp_all add: hm_kernel_ok_def host_kernel_ok_def)
  show ?thesis
    using k hm_stage_code [of v "hm_code c"]
    by (auto simp: hm_run_case_child_def hm_child_result_host wait_child_def zero_run_outcome_def
        read_pipe_whole split: prod.split sum.splits)
qed

lemma hm_outcome_purecap:
  assumes "hm_kernel_ok True os"
  shows "hm_run_case_child True os v c =
    (case hm_stage v (hm_code c) of
       Inl k \<Rightarrow> zero_run_outcome\<lparr>ro_exit_status := k\<rparr>
     | Inr fn \<Rightarrow> (case fn (hm_map True os) 16 of
         Inl sg \<Rightarrow>
           if sg = SIGPROT \<or> sg = SIGSEGV then
             if hm_expectation c = HM_EXPECT_TRAP
             then zero_run_outcome\<lparr>ro_exit_status := 100, ro_signalled := True, ro_signal := SIGPROT\<rparr>
             else zero_run_outcome\<lparr>ro_exit_status := 31\<rparr>
           else zero_run_outcome\<lparr>ro_signalled := True, ro_signal := sg\<rparr>
       | Inr r \<Rightarrow> zero_run_outcome\<lparr>ro_returned := True, ro_value := r\<rparr>))"
proof -
  have k: "full_write os" "honest_read os" "pipe_ok os" "fork_ok os" "waitpid_ok os" "signals_ok os"
    using assms by (simp_all add: hm_kernel_ok_def host_kernel_ok_def)
  show ?thesis
    using k hm_stage_code [of v "hm_code c"]
    by (auto simp: hm_run_case_child_def hm_child_result_purecap wait_child_def zero_run_outcome_def
        read_pipe_whole hm_trap_handler_def split: prod.split sum.splits)
qed

lemma hm_failed_le_1: "hm_failed purecap os v c \<le> 1"
  by (simp add: hm_failed_def)

interpretation hm_suite: suite "\<lambda>(os, c). hm_failed purecap os v c" for purecap and v :: "'v ubpf"
  by unfold_locales (auto simp: hm_failed_le_1 simp del: One_nat_def)

lemma hm_main_zero:
  "hm_main purecap env v = 0 \<longleftrightarrow>
     (\<forall>i < length helper_map_cases. hm_failed purecap (env i) v (helper_map_cases ! i) = 0)"
  by (simp only: hm_main_def Let_def hm_suite.exit_zero ball_paired prod.case)

section \<open>What the programs do\<close>

definition hm_helpers :: helpers where
  "hm_helpers imm = (if imm = HELPER_MAP_LOOKUP then Some (Cap (map_lookup_helper 0 0 0 0 0 (MemObj, 0)))
     else None)"

definition hm_memory :: "bool \<Rightarrow> os \<Rightarrow> memory" where
  "hm_memory purecap os r = (case r of MemObj \<Rightarrow> hm_map purecap os | StackObj \<Rightarrow> machine_stack 4096)"

definition hm_policy :: "bool \<Rightarrow> policy" where
  "hm_policy purecap = (if purecap then Cheri else Host)"

definition hm_run :: "bool \<Rightarrow> os \<Rightarrow> u8 list \<Rightarrow> nat \<Rightarrow> stop option" where
  "hm_run purecap os code n =
     run (hm_policy purecap) hm_helpers code n (entry (hm_policy purecap) (hm_memory purecap os) 16)"

lemma program_HM_INSN:
  "\<forall>f\<in>set fs. fields_ok f \<Longrightarrow> program HM_INSN fs = program INSN fs"
  unfolding program_def HM_INSN_raw
  by (rule arg_cong [where f = concat], rule map_cong)
    (auto simp: fields_ok_def BPF_RAW_eq_INSN)

lemma hm_run_program:
  "\<forall>f\<in>set fs. fields_ok f \<Longrightarrow>
   hm_run purecap os (program HM_INSN fs) n =
     run_fields (hm_policy purecap) hm_helpers fs n
       (entry (hm_policy purecap) (hm_memory purecap os) 16)"
  by (simp add: hm_run_def program_HM_INSN run_program)

lemma hm_run_unique: "hm_run p os code n = Some s \<Longrightarrow> hm_run p os code k = Some t \<Longrightarrow> s = t"
  unfolding hm_run_def
  by (cases "n \<le> k") (metis option.inject run_more_fuel nat_le_linear)+

text \<open>The value or fault each case shows, on either build.\<close>

definition hm_stop :: "bool \<Rightarrow> helper_map_case \<Rightarrow> stop" where
  "hm_stop purecap c =
     (if hm_expectation c = HM_EXPECT_RETURN then Returned (hm_expected c)
      else if purecap then Faulted BoundsTrap
      else Returned (if hm_code c = helper_map_read_oob then HOST_OOB_SENTINEL else 0))"

lemma hm_write_not_read: "helper_map_write_oob \<noteq> helper_map_read_oob"
  by (simp add: hm_progs program_def HM_INSN_def HELPER_MAP_LOOKUP_def)

lemmas hm_eval = HELPER_MAP_LOOKUP_def hm_policy_def hm_helpers_def hm_memory_def hm_map_def
  map_lookup_helper_def host_sizes prepare_map_def put_word_def memset0_def Let_def

lemma hm_cases_run:
  "\<forall>c\<in>set helper_map_cases. hm_run purecap os (hm_code c) 10 = Some (hm_stop purecap c)"
  unfolding helper_map_cases_def
  by (cases purecap; simp only: list.set ball_simps helper_map_case.simps hm_stop_def; intro conjI)
    (simp_all add: hm_write_not_read, simp_all add: hm_progs hm_run_program fields_ok_def hm_eval
       HOST_OOB_SENTINEL_def machine_eval)

section \<open>Properties\<close>

text \<open>C16: the helper programs do what the table says, on both builds. On the purecap build
  the two controls return the map word and the byte written through the helper's pointer,
  and the two out-of-bounds programs stop with a bounds fault. On the host build, whose
  allocation reaches past the map value, all four return: the controls the same two values,
  the out-of-bounds read the sentinel behind the map, the out-of-bounds write 0.\<close>
theorem hm_expectations_hold:
  "list_all (\<lambda>c. hm_run True os (hm_code c) 10 =
       Some (if hm_expectation c = HM_EXPECT_TRAP then Faulted BoundsTrap
             else Returned (hm_expected c))) helper_map_cases \<and>
   map (\<lambda>c. hm_run False os (hm_code c) 10) helper_map_cases =
     map Some [Returned 0x2000, Returned 0x5a, Returned HOST_OOB_SENTINEL, Returned 0]"
proof (intro conjI)
  have t: "hm_stop True c = (if hm_expectation c = HM_EXPECT_TRAP then Faulted BoundsTrap
      else Returned (hm_expected c))" for c
    by (cases "hm_expectation c") (simp_all add: hm_stop_def)
  show "list_all (\<lambda>c. hm_run True os (hm_code c) 10 =
       Some (if hm_expectation c = HM_EXPECT_TRAP then Faulted BoundsTrap
             else Returned (hm_expected c))) helper_map_cases"
    using hm_cases_run [of True os] by (simp add: list_all_iff t)
  show "map (\<lambda>c. hm_run False os (hm_code c) 10) helper_map_cases =
     map Some [Returned 0x2000, Returned 0x5a, Returned HOST_OOB_SENTINEL, Returned 0]"
    using hm_cases_run [of False os]
    by (simp add: helper_map_cases_def hm_stop_def hm_write_not_read)
qed

lemma hm_purecap_passes:
  assumes "hm_kernel_ok True os"
  shows "hm_case_passed True c (hm_run_case_child True os v c) \<longleftrightarrow>
    (\<exists>fn. hm_stage v (hm_code c) = Inr fn \<and>
      (case hm_expectation c of
         HM_EXPECT_RETURN \<Rightarrow> fn (hm_map True os) 16 = Inr (hm_expected c)
       | HM_EXPECT_TRAP \<Rightarrow> fn (hm_map True os) 16 \<in> {Inl SIGPROT, Inl SIGSEGV}))"
  unfolding hm_outcome_purecap [OF assms]
  by (cases "hm_expectation c")
    (auto simp: hm_case_passed_def zero_run_outcome_def split: sum.splits)

text \<open>C17: the purecap verdict. With a well-behaved kernel a control passes exactly when
  the compiled program returned the expected word through the pipe, and a trap case passes
  exactly when the call raised SIGPROT \<open>or\<close> SIGSEGV.\<close>
theorem hm_purecap_verdict:
  assumes "hm_kernel_ok True os"
  shows "hm_case_passed True c (hm_run_case_child True os v c) \<longleftrightarrow>
    (\<exists>fn. hm_stage v (hm_code c) = Inr fn \<and>
      (case hm_expectation c of
         HM_EXPECT_RETURN \<Rightarrow> fn (hm_map True os) 16 = Inr (hm_expected c)
       | HM_EXPECT_TRAP \<Rightarrow> fn (hm_map True os) 16 \<in> {Inl SIGPROT, Inl SIGSEGV}))"
  using assms by (rule hm_purecap_passes)

lemma demo_hm_kernel: "hm_kernel_ok p (demo_os i)"
  by (simp add: hm_kernel_ok_def demo_host_kernel) (simp add: signals_ok_def demo_os_def)

definition demo_hm_vm :: "int + u64 \<Rightarrow> u8 list ubpf" where
  "demo_hm_vm r = demo_vm (\<lambda>_. r)\<lparr>ubpf_compile := \<lambda>_. Inr (\<lambda>_ _. r)\<rparr>"

lemma demo_hm_stage: "hm_stage (demo_hm_vm r) code = Inr (\<lambda>_ _. r)"
  by (simp add: hm_stage_def demo_hm_vm_def demo_vm_def)

theorem hm_purecap_verdict_witness:
  "\<not> hm_case_passed True (helper_map_cases ! 2)
     (hm_run_case_child True (demo_os 0) (demo_hm_vm (Inl SIGILL)) (helper_map_cases ! 2))"
  unfolding hm_purecap_verdict [OF demo_hm_kernel]
  by (simp add: demo_hm_stage helper_map_cases_def)

text \<open>C36: the signal the suite reports is not always the signal that happened. The handler
  exits 100 for SIGSEGV as well, and the parent turns every exit code 100 into SIGPROT: a
  trap case whose program died of SIGSEGV is reported as a SIGPROT and passes.\<close>
theorem hm_segv_reported_as_sigprot:
  assumes "hm_kernel_ok True os" and "hm_stage v (hm_code c) = Inr fn"
    and "fn (hm_map True os) 16 = Inl SIGSEGV" and "hm_expectation c = HM_EXPECT_TRAP"
  shows "ro_signal (hm_run_case_child True os v c) = SIGPROT \<and>
    hm_case_passed True c (hm_run_case_child True os v c) \<and>
    hm_verdict True c (hm_run_case_child True os v c) = ''CHERI behavior matched''"
  using assms by (simp add: hm_outcome_purecap hm_case_passed_def hm_verdict_def)

theorem hm_segv_reported_as_sigprot_witness:
  "ro_signal (hm_run_case_child True (demo_os 0) (demo_hm_vm (Inl SIGSEGV)) (helper_map_cases ! 2)) =
     SIGPROT"
  by (rule hm_segv_reported_as_sigprot [THEN conjunct1, OF demo_hm_kernel demo_hm_stage])
    (simp_all add: helper_map_cases_def)

definition hm_implements :: "bool \<Rightarrow> os \<Rightarrow> 'v ubpf \<Rightarrow> u8 list \<Rightarrow> bool" where
  "hm_implements purecap os v code \<longleftrightarrow>
     (\<exists>fn n s. hm_stage v code = Inr fn \<and> hm_run purecap os code n = Some s \<and>
        stop_signal s = Some (fn (hm_map purecap os) 16))"

lemma hm_case_ok:
  assumes "hm_kernel_ok purecap os" and "hm_implements purecap os v (hm_code c)"
    and "c \<in> set helper_map_cases"
  shows "hm_failed purecap os v c = 0"
proof -
  obtain fn n s where st: "hm_stage v (hm_code c) = Inr fn" "hm_run purecap os (hm_code c) n = Some s"
    "stop_signal s = Some (fn (hm_map purecap os) 16)"
    using assms(2) by (auto simp: hm_implements_def)
  have "s = hm_stop purecap c"
    using hm_cases_run [of purecap os] assms(3) hm_run_unique [OF st(2)] by blast
  with st(3) have v: "fn (hm_map purecap os) 16 = the (stop_signal (hm_stop purecap c))"
    by (metis option.sel)
  show ?thesis
    using assms(1) st(1) v
    by (cases purecap; cases "hm_expectation c")
      (simp_all add: hm_failed_def hm_outcome_purecap hm_outcome_host hm_case_passed_def hm_stop_def
        stop_signal_def zero_run_outcome_def)
qed

text \<open>C15: the suite accepts a correct JIT on either build: with a well-behaved kernel and
  compiled code that does what the eBPF programs do under the memory policy of the build,
  \<open>main\<close> returns 0.\<close>
theorem hm_main_accepts:
  assumes "\<forall>i. hm_kernel_ok purecap (env i)"
    and "\<forall>i. \<forall>c\<in>set helper_map_cases. hm_implements purecap (env i) v (hm_code c)"
  shows "hm_main purecap env v = 0"
  unfolding hm_main_zero
proof (intro allI impI)
  fix i assume "i < length helper_map_cases"
  then have "helper_map_cases ! i \<in> set helper_map_cases" by simp
  then show "hm_failed purecap (env i) v (helper_map_cases ! i) = 0"
    using assms by (intro hm_case_ok) auto
qed

definition demo_map_vm :: "bool \<Rightarrow> u8 list ubpf" where
  "demo_map_vm purecap = demo_vm (\<lambda>_. Inr 0)\<lparr>ubpf_compile := \<lambda>code. Inr (\<lambda>_ _.
     case hm_run purecap (demo_os 0) code 10 of
       Some s \<Rightarrow> (case stop_signal s of Some r \<Rightarrow> r | None \<Rightarrow> Inl 34) | None \<Rightarrow> Inl 34)\<rparr>"

theorem hm_main_accepts_witness: "hm_main True demo_os (demo_map_vm True) = 0"
proof (rule hm_main_accepts)
  show "\<forall>i. \<forall>c\<in>set helper_map_cases. hm_implements True (demo_os i) (demo_map_vm True) (hm_code c)"
  proof (intro allI ballI)
    fix i c assume c: "c \<in> set helper_map_cases"
    have r: "hm_run True (demo_os j) (hm_code c) 10 = Some (hm_stop True c)" for j
      using hm_cases_run c by blast
    have "hm_stage (demo_map_vm True) (hm_code c) = Inr (\<lambda>_ _.
        case hm_run True (demo_os 0) (hm_code c) 10 of
        Some s \<Rightarrow> (case stop_signal s of Some r \<Rightarrow> r | None \<Rightarrow> Inl 34) | None \<Rightarrow> Inl 34)"
      by (simp add: hm_stage_def demo_map_vm_def demo_vm_def)
    moreover have "\<exists>r. stop_signal (hm_stop True c) = Some r"
      by (simp add: stop_signal_def hm_stop_def)
    ultimately show "hm_implements True (demo_os i) (demo_map_vm True) (hm_code c)"
      unfolding hm_implements_def using r by (intro exI conjI) (assumption, assumption, auto)
  qed
qed (simp add: demo_hm_kernel)

end
