(* ===== verification/Suite_Translate.thy ===== *)
theory Suite_Translate
  imports Suite_Helper_Map
begin

text \<open>
  \<open>test_cheri_translate_reject.c\<close>: the CHERI translator must accept fourteen programs and
  refuse five, each with a known message. The translator is a parameter; what is proved is
  the verdict of the harness, and what the programs on both lists do when they run.
\<close>

section \<open>Programs\<close>

definition tr_scalar :: "u8 list" where
  "tr_scalar = program INSN
     [(0xb7, 0, 0, 0, 42), (0x95, 0, 0, 0, 0)]"

definition tr_stack_store_load :: "u8 list" where
  "tr_stack_store_load = program INSN
     [(0xb7, 0, 0, 0, 42),
      (0x7b, 0xa, 0, -8, 0),
      (0xb7, 0, 0, 0, 0),
      (0x79, 0, 0xa, -8, 0),
      (0x95, 0, 0, 0, 0)]"

definition tr_immediate_stack_store :: "u8 list" where
  "tr_immediate_stack_store = program INSN
     [(0x7a, 0xa, 0, -8, 42), (0x95, 0, 0, 0, 0)]"

definition tr_context_load :: "u8 list" where
  "tr_context_load = program INSN
     [(0x79, 0, 1, 0, 0), (0x95, 0, 0, 0, 0)]"

definition tr_context_width_loads :: "u8 list" where
  "tr_context_width_loads = program INSN
     [(0x71, 0, 1, 8, 0),
      (0x69, 0, 1, 8, 0),
      (0x61, 0, 1, 8, 0),
      (0x79, 0, 1, 8, 0),
      (0x91, 0, 1, 8, 0),
      (0x89, 0, 1, 8, 0),
      (0x81, 0, 1, 8, 0),
      (0x95, 0, 0, 0, 0)]"

definition tr_context_store :: "u8 list" where
  "tr_context_store = program INSN
     [(0xb7, 0, 0, 0, 42), (0x7b, 1, 0, 0, 0), (0x95, 0, 0, 0, 0)]"

definition tr_capability_stack_store :: "u8 list" where
  "tr_capability_stack_store = program INSN
     [(0xbf, 2, 1, 0, 0), (0x7b, 0xa, 2, -8, 0), (0x95, 0, 0, 0, 0)]"

definition tr_context_oob_load :: "u8 list" where
  "tr_context_oob_load = program INSN
     [(0x79, 0, 1, 4096, 0), (0x95, 0, 0, 0, 0)]"

definition tr_context_ptr_add_load :: "u8 list" where
  "tr_context_ptr_add_load = program INSN
     [(0xbf, 6, 1, 0, 0),
      (0x07, 6, 0, 0, 8),
      (0x79, 0, 6, 0, 0),
      (0x95, 0, 0, 0, 0)]"

definition tr_context_ptr_add_oob_load :: "u8 list" where
  "tr_context_ptr_add_oob_load = program INSN
     [(0xbf, 6, 1, 0, 0),
      (0x07, 6, 0, 0, 4096),
      (0x79, 0, 6, 0, 0),
      (0x95, 0, 0, 0, 0)]"

definition tr_branch_preserves_context :: "u8 list" where
  "tr_branch_preserves_context = program INSN
     [(0xbf, 6, 1, 0, 0),
      (0xb7, 0, 0, 0, 0),
      (0x15, 0, 0, 1, 0),
      (0xb7, 0, 0, 0, 1),
      (0x79, 0, 6, 8, 0),
      (0x95, 0, 0, 0, 0)]"

definition tr_branch_join_clobbered_context :: "u8 list" where
  "tr_branch_join_clobbered_context = program INSN
     [(0xbf, 6, 1, 0, 0),
      (0xb7, 0, 0, 0, 0),
      (0x15, 0, 0, 2, 0),
      (0xb7, 6, 0, 0, 0),
      (0x05, 0, 0, 0, 0),
      (0x79, 0, 6, 8, 0),
      (0x95, 0, 0, 0, 0)]"

definition tr_stack_ptr_add_store_load :: "u8 list" where
  "tr_stack_ptr_add_store_load = program INSN
     [(0xbf, 2, 10, 0, 0),
      (0x07, 2, 0, 0, -16),
      (0xb7, 0, 0, 0, 42),
      (0x7b, 2, 0, 8, 0),
      (0x79, 0, 2, 8, 0),
      (0x95, 0, 0, 0, 0)]"

definition tr_stack_width_store_loads :: "u8 list" where
  "tr_stack_width_store_loads = program INSN
     [(0xb7, 0, 0, 0, 0x12345678),
      (0x73, 0xa, 0, -1, 0),
      (0x71, 0, 0xa, -1, 0),
      (0x6b, 0xa, 0, -2, 0),
      (0x69, 0, 0xa, -2, 0),
      (0x63, 0xa, 0, -4, 0),
      (0x61, 0, 0xa, -4, 0),
      (0x7b, 0xa, 0, -16, 0),
      (0x79, 0, 0xa, -16, 0),
      (0x72, 0xa, 0, -17, -1),
      (0x91, 0, 0xa, -17, 0),
      (0x6a, 0xa, 0, -20, -1),
      (0x89, 0, 0xa, -20, 0),
      (0x62, 0xa, 0, -24, -1),
      (0x81, 0, 0xa, -24, 0),
      (0x95, 0, 0, 0, 0)]"

definition tr_stack_reg_index_store_load :: "u8 list" where
  "tr_stack_reg_index_store_load = program INSN
     [(0xb7, 2, 0, 0, 3),
      (0xb7, 4, 0, 0, 0x5a),
      (0xbf, 5, 10, 0, 0),
      (0x07, 5, 0, 0, -40),
      (0x0f, 5, 2, 0, 0),
      (0x73, 5, 4, 0, 0),
      (0x71, 0, 5, 0, 0),
      (0x95, 0, 0, 0, 0)]"

definition tr_stack_reg_sub_store_load :: "u8 list" where
  "tr_stack_reg_sub_store_load = program INSN
     [(0xb7, 0, 0, 0, 42),
      (0xb7, 2, 0, 0, 8),
      (0xbf, 5, 10, 0, 0),
      (0x1f, 5, 2, 0, 0),
      (0x7b, 5, 0, 0, 0),
      (0x79, 0, 5, 0, 0),
      (0x95, 0, 0, 0, 0)]"

definition tr_uninit_stack_ptr_add_load :: "u8 list" where
  "tr_uninit_stack_ptr_add_load = program INSN
     [(0xbf, 2, 10, 0, 0),
      (0x07, 2, 0, 0, -8),
      (0x79, 0, 2, 0, 0),
      (0x95, 0, 0, 0, 0)]"

definition tr_clobbered_r1_load :: "u8 list" where
  "tr_clobbered_r1_load = program INSN
     [(0xb7, 1, 0, 0, 0), (0x79, 0, 1, 0, 0), (0x95, 0, 0, 0, 0)]"

definition tr_pointer_leak :: "u8 list" where
  "tr_pointer_leak = program INSN
     [(0xbf, 2, 10, 0, 0), (0xbf, 0, 2, 0, 0), (0x95, 0, 0, 0, 0)]"

lemmas tr_progs =
  tr_scalar_def
  tr_stack_store_load_def
  tr_immediate_stack_store_def
  tr_context_load_def
  tr_context_width_loads_def
  tr_context_store_def
  tr_capability_stack_store_def
  tr_context_oob_load_def
  tr_context_ptr_add_load_def
  tr_context_ptr_add_oob_load_def
  tr_branch_preserves_context_def
  tr_branch_join_clobbered_context_def
  tr_stack_ptr_add_store_load_def
  tr_stack_width_store_loads_def
  tr_stack_reg_index_store_load_def
  tr_stack_reg_sub_store_load_def
  tr_uninit_stack_ptr_add_load_def
  tr_clobbered_r1_load_def
  tr_pointer_leak_def

definition tr_accepts :: "(string \<times> u8 list) list" where
  "tr_accepts =
    [(''scalar_mov_exit'', tr_scalar),
     (''context_load'', tr_context_load),
     (''context_width_loads'', tr_context_width_loads),
     (''context_oob_load'', tr_context_oob_load),
     (''context_ptr_add_load'', tr_context_ptr_add_load),
     (''context_ptr_add_oob_load'', tr_context_ptr_add_oob_load),
     (''branch_preserves_context'', tr_branch_preserves_context),
     (''stack_store_load'', tr_stack_store_load),
     (''stack_ptr_add_store_load'', tr_stack_ptr_add_store_load),
     (''stack_width_store_loads'', tr_stack_width_store_loads),
     (''stack_reg_index_store_load'', tr_stack_reg_index_store_load),
     (''stack_reg_sub_store_load'', tr_stack_reg_sub_store_load),
     (''uninit_stack_ptr_add_load'', tr_uninit_stack_ptr_add_load),
     (''immediate_stack_store'', tr_immediate_stack_store)]"

definition tr_rejects :: "(string \<times> u8 list) list" where
  "tr_rejects =
    [(''context_store'', tr_context_store),
     (''capability_stack_store'', tr_capability_stack_store),
     (''clobbered_r1_load'', tr_clobbered_r1_load),
     (''branch_join_clobbered_context'', tr_branch_join_clobbered_context),
     (''pointer_leak'', tr_pointer_leak)]"

section \<open>The harness\<close>

definition translate_with_cheri_backend :: "'v ubpf \<Rightarrow> u8 list \<Rightarrow> (int \<times> string option) proc" where
  "translate_with_cheri_backend v prog =
     (case ubpf_create v of None \<Rightarrow> pret (-1, None)
      | Some vm0 \<Rightarrow> pseq (acquire Vm)
        (let vm = set_jit_translate_cheri v vm0 in
         case ubpf_load v vm prog of
           Inl errmsg \<Rightarrow> pseq (acquire_msg errmsg) (pseq (release Vm) (pret (-1, errmsg)))
         | Inr vm' \<Rightarrow> (case ubpf_translate_ex v vm' of
             (rc, errmsg) \<Rightarrow> pseq (acquire_msg errmsg) (pseq (release Vm) (pret (rc, errmsg))))))"

definition expect_translate_ok :: "'v ubpf \<Rightarrow> u8 list \<Rightarrow> nat proc" where
  "expect_translate_ok v prog =
     pbind (translate_with_cheri_backend v prog) (\<lambda>(rc, errmsg).
       if rc \<noteq> 0 then pseq (free_msg errmsg) (pret 1) else pret 0)"

definition tr_reject_messages :: "string list" where
  "tr_reject_messages =
     [''does not yet support memory opcode'', ''tracked context or stack capabilities'',
      ''tracked context, stack, or map-value capabilities'', ''tracked stack capabilities'',
      ''tracked stack or map-value capabilities'', ''does not allow storing a capability value'',
      ''does not allow returning a capability value'']"

definition expect_translate_reject :: "'v ubpf \<Rightarrow> u8 list \<Rightarrow> nat proc" where
  "expect_translate_reject v prog =
     pbind (translate_with_cheri_backend v prog) (\<lambda>(rc, errmsg).
       if rc = 0 then pret 1
       else let matched = (case errmsg of None \<Rightarrow> False
              | Some e \<Rightarrow> \<exists>msg \<in> set tr_reject_messages. strstr e msg) in
         pseq (free_msg errmsg) (pret (if matched then 0 else 1)))"

definition tr_main :: "'v ubpf \<Rightarrow> nat" where
  "tr_main v =
     (let failures =
        sum_list (map (\<lambda>(nm, prog). proc_value (expect_translate_ok v prog)) tr_accepts) +
        sum_list (map (\<lambda>(nm, prog). proc_value (expect_translate_reject v prog)) tr_rejects)
      in if failures = 0 then 0 else 1)"

section \<open>Verdicts\<close>

text \<open>The answer of the translator for a program, through creation and loading.\<close>

definition translation :: "'v ubpf \<Rightarrow> u8 list \<Rightarrow> int \<times> string option" where
  "translation v prog =
     (case ubpf_create v of None \<Rightarrow> (-1, None)
      | Some vm \<Rightarrow> (case ubpf_load v (set_jit_translate_cheri v vm) prog of
          Inl errmsg \<Rightarrow> (-1, errmsg) | Inr vm' \<Rightarrow> ubpf_translate_ex v vm'))"

lemma translate_start:
  "translate_with_cheri_backend v prog start =
     (Inr (translation v prog),
      start\<lparr>owned := (if snd (translation v prog) = None then {} else {Errmsg})\<rparr>)"
  by (auto simp: translate_with_cheri_backend_def translation_def proc_defs start_def Let_def
      split: option.splits sum.splits prod.splits)

lemma expect_ok_value: "proc_value (expect_translate_ok v prog) = (if fst (translation v prog) = 0 then 0 else 1)"
  by (auto simp: expect_translate_ok_def proc_value_def translate_start proc_defs split: prod.splits)

definition refused :: "'v ubpf \<Rightarrow> u8 list \<Rightarrow> bool" where
  "refused v prog \<longleftrightarrow> fst (translation v prog) \<noteq> 0 \<and>
     (\<exists>e. snd (translation v prog) = Some e \<and> (\<exists>msg \<in> set tr_reject_messages. strstr e msg))"

lemma expect_reject_value:
  "proc_value (expect_translate_reject v prog) = (if refused v prog then 0 else 1)"
  by (auto simp: expect_translate_reject_def refused_def proc_value_def translate_start proc_defs
      split: prod.splits option.splits)

interpretation tr_ok_suite: suite "\<lambda>(nm :: string, prog). proc_value (expect_translate_ok v prog)"
  for v :: "'v ubpf"
  by unfold_locales (auto simp: expect_ok_value)

interpretation tr_reject_suite: suite "\<lambda>(nm :: string, prog). proc_value (expect_translate_reject v prog)"
  for v :: "'v ubpf"
  by unfold_locales (auto simp: expect_reject_value)

lemma tr_main_zero:
  "tr_main v = 0 \<longleftrightarrow> (\<forall>(nm, prog)\<in>set tr_accepts. fst (translation v prog) = 0) \<and>
     (\<forall>(nm, prog)\<in>set tr_rejects. refused v prog)"
proof -
  have "tr_main v = 0 \<longleftrightarrow>
    sum_list (map (\<lambda>(nm, prog). proc_value (expect_translate_ok v prog)) tr_accepts) = 0 \<and>
    sum_list (map (\<lambda>(nm, prog). proc_value (expect_translate_reject v prog)) tr_rejects) = 0"
    by (simp add: tr_main_def Let_def)
  then show ?thesis
    by (simp only: tr_ok_suite.all_pass tr_reject_suite.all_pass)
      (simp add: expect_ok_value expect_reject_value case_prod_unfold)
qed

section \<open>What the programs do\<close>

text \<open>A program called on any two-word context, with an eBPF stack of any content.\<close>

definition tr_run :: "u8 list \<Rightarrow> u64 \<Rightarrow> u64 \<Rightarrow> (nat \<Rightarrow> u8) \<Rightarrow> stop option" where
  "tr_run prog a b c = run Cheri no_helper prog 20
     (entry Cheri (cheri_memory [a, b] \<lparr>logical_len = 4096, backing_len = 4096, content = c\<rparr>) 16)"

lemma tr_run_program:
  "\<forall>f\<in>set fs. fields_ok f \<Longrightarrow> tr_run (program INSN fs) a b c = run_fields Cheri no_helper fs 20
     (entry Cheri (cheri_memory [a, b] \<lparr>logical_len = 4096, backing_len = 4096, content = c\<rparr>) 16)"
  by (simp add: tr_run_def run_program)

text \<open>Loaded bytes of a word put together again, in the form evaluation leaves them.\<close>

lemma joined_bytes:
  fixes b :: u64
  shows "ucast (ucast b :: u8) OR push_bit 8 (ucast (ucast (drop_bit 8 b) :: u8)) OR
      push_bit 16 (ucast (ucast (drop_bit 16 b) :: u8)) OR
      push_bit 24 (ucast (ucast (drop_bit 24 b) :: u8)) = take_bit 32 b"
    and "ucast (ucast b :: u8) OR push_bit 8 (ucast (ucast (drop_bit 8 b) :: u8)) OR
      push_bit 16 (ucast (ucast (drop_bit 16 b) :: u8)) OR
      push_bit 24 (ucast (ucast (drop_bit 24 b) :: u8)) OR
      push_bit 32 (ucast (ucast (drop_bit 32 b) :: u8)) OR
      push_bit 40 (ucast (ucast (drop_bit 40 b) :: u8)) OR
      push_bit 48 (ucast (ucast (drop_bit 48 b) :: u8)) OR
      push_bit 56 (ucast (ucast (drop_bit 56 b) :: u8)) = b"
  using of_le_le_bytes_take [of 4 b] of_le_le_bytes [of 8 b] by (simp_all add: bytes_eval)

lemma signed_32: "word_of_int (signed_take_bit 31 (uint (take_bit 32 b))) = signed_take_bit 31 (b :: u64)"
  by (rule bit_word_eqI) (auto simp: bit_simps min_def)

lemma tr_accepts_run:
  "map (\<lambda>(nm, prog). tr_run prog a b c) tr_accepts =
     map Some [Returned 42, Returned a, Returned (signed_take_bit 31 b), Faulted BoundsTrap,
       Returned b, Faulted BoundsTrap, Returned b, Returned 42, Returned 42,
       Returned 0xffffffffffffffff, Returned 0x5a, Returned 42,
       Returned (of_le (get_bytes 4088 8 c)), NotANumber]"
  unfolding tr_accepts_def tr_progs no_helper_def
  by (simp only: list.map prod.case list.inject; intro conjI refl)
    (simp_all add: tr_run_program fields_ok_def machine_eval no_helper_def joined_bytes signed_32)

lemma tr_rejects_run:
  "map (\<lambda>(nm, prog). tr_run prog a b c) tr_rejects =
     map Some [Returned 42, CapabilityStored, NotACapability, Returned b, ReturnedCap (StackObj, 4096)]"
  unfolding tr_rejects_def tr_progs
  by (simp only: list.map prod.case list.inject; intro conjI refl)
    (simp_all add: tr_run_program fields_ok_def machine_eval no_helper_def joined_bytes)

section \<open>Properties\<close>

text \<open>C27: the exit status of the translator test is 0 exactly when every program of the
  accept list translates and every program of the reject list is refused with a message
  that contains one of the seven known phrases; a refusal without a message, or with
  another one, fails.\<close>
theorem tr_main_verdict:
  "tr_main v = (if list_all (\<lambda>(nm, prog). fst (translation v prog) = 0) tr_accepts \<and>
     list_all (\<lambda>(nm, prog). refused v prog) tr_rejects then 0 else 1)"
proof -
  have "tr_main v = 0 \<or> tr_main v = 1" by (simp add: tr_main_def Let_def)
  then show ?thesis using tr_main_zero [of v] by (auto simp: list_all_iff)
qed

text \<open>C28: what each program of the two lists does, for every context of two words \<open>a, b\<close> and
  every content \<open>c\<close> of the eBPF stack, within twenty instructions. The accepted programs, in
  the order of the list: the constant; the first word; the sign-extended low half of the
  second word after seven loads of all widths; a bounds trap at 4096; the second word and a
  bounds trap through a moved pointer; the second word behind a branch; five stack programs
  with their stored value (the width program ends with an all-ones sign extension); the
  eight bytes below the frame pointer, whatever they are; and one that exits with an unset
  \<open>r0\<close>. The refused programs: a context store and a load behind a join, which would run
  cleanly and are refused conservatively; a stored capability, a load through a number, and
  a returned stack pointer.\<close>
theorem tr_program_outcomes:
  "map (\<lambda>(nm, prog). tr_run prog a b c) tr_accepts =
     map Some [Returned 42, Returned a, Returned (signed_take_bit 31 b), Faulted BoundsTrap,
       Returned b, Faulted BoundsTrap, Returned b, Returned 42, Returned 42,
       Returned 0xffffffffffffffff, Returned 0x5a, Returned 42,
       Returned (of_le (get_bytes 4088 8 c)), NotANumber] \<and>
   map (\<lambda>(nm, prog). tr_run prog a b c) tr_rejects =
     map Some [Returned 42, CapabilityStored, NotACapability, Returned b, ReturnedCap (StackObj, 4096)]"
  using tr_accepts_run tr_rejects_run by blast

lemma expect_reject_iff:
  "proc_value (expect_translate_reject v prog) = 0 \<longleftrightarrow> refused v prog"
  by (simp add: expect_reject_value)

lemma phrase_cases:
  "(\<exists>msg \<in> set tr_reject_messages. strstr e msg) \<longleftrightarrow>
     (\<exists>p \<in> {''does not yet support memory opcode'', ''tracked context or stack capabilities'',
        ''tracked context, stack, or map-value capabilities'', ''tracked stack capabilities'',
        ''tracked stack or map-value capabilities'', ''does not allow storing a capability value'',
        ''does not allow returning a capability value''}. has_phrase e p)"
  by (simp add: tr_reject_messages_def strstr_iff has_phrase_def)

text \<open>The two phrases only the translator test knows contain none of the five.\<close>

lemma map_value_phrases:
  assumes "e \<in> {''tracked context, stack, or map-value capabilities'',
    ''tracked stack or map-value capabilities''}"
  shows "\<not> (\<exists>msg \<in> set oj_reject_messages. strstr e msg)"
proof -
  have "\<not> (\<exists>msg \<in> set oj_reject_messages. strstr ''tracked stack or map-value capabilities'' msg)"
    by code_simp
  moreover have "\<not> (\<exists>msg \<in> set oj_reject_messages.
      strstr ''tracked context, stack, or map-value capabilities'' msg)"
    by code_simp
  ultimately show ?thesis using assms by blast
qed

text \<open>C38: what each of the two suites takes for a proper refusal, exactly. The translator test
  passes a program iff the translation failed with a message that contains one of its seven
  phrases; the compile suite iff the machine loaded the program and \<open>ubpf_compile\<close> failed
  with a message that contains one of its five. They disagree: a backend that refuses with
  one of the two map-value phrases, as a message of its own, passes the translator test and
  fails the compile suite.\<close>
theorem refusal_verdicts:
  "(proc_value (expect_translate_reject v prog) = 0 \<longleftrightarrow>
      fst (translation v prog) \<noteq> 0 \<and> (\<exists>e. snd (translation v prog) = Some e \<and>
        (\<exists>p \<in> {''does not yet support memory opcode'', ''tracked context or stack capabilities'',
          ''tracked context, stack, or map-value capabilities'', ''tracked stack capabilities'',
          ''tracked stack or map-value capabilities'', ''does not allow storing a capability value'',
          ''does not allow returning a capability value''}. has_phrase e p))) \<and>
   (proc_value (expect_compile_reject v prog) = 0 \<longleftrightarrow>
      (\<exists>e. compile_refusal v prog = Some e \<and>
        (\<exists>p \<in> {''does not yet support memory opcode'', ''tracked context or stack capabilities'',
          ''tracked stack capabilities'', ''does not allow storing a capability value'',
          ''does not allow returning a capability value''}. has_phrase e p))) \<and>
   (\<forall>e \<in> {''tracked context, stack, or map-value capabilities'',
        ''tracked stack or map-value capabilities''}.
      fst (translation v prog) \<noteq> 0 \<longrightarrow> snd (translation v prog) = Some e \<longrightarrow>
      compile_refusal v prog = Some e \<longrightarrow>
      proc_value (expect_translate_reject v prog) = 0 \<and> proc_value (expect_compile_reject v prog) \<noteq> 0)"
proof (intro conjI ballI impI)
  show t: "proc_value (expect_translate_reject v prog) = 0 \<longleftrightarrow>
      fst (translation v prog) \<noteq> 0 \<and> (\<exists>e. snd (translation v prog) = Some e \<and>
        (\<exists>p \<in> {''does not yet support memory opcode'', ''tracked context or stack capabilities'',
          ''tracked context, stack, or map-value capabilities'', ''tracked stack capabilities'',
          ''tracked stack or map-value capabilities'', ''does not allow storing a capability value'',
          ''does not allow returning a capability value''}. has_phrase e p))"
    unfolding expect_reject_iff refused_def phrase_cases ..
  show c: "proc_value (expect_compile_reject v prog) = 0 \<longleftrightarrow>
      (\<exists>e. compile_refusal v prog = Some e \<and>
        (\<exists>p \<in> {''does not yet support memory opcode'', ''tracked context or stack capabilities'',
          ''tracked stack capabilities'', ''does not allow storing a capability value'',
          ''does not allow returning a capability value''}. has_phrase e p))"
    unfolding expect_compile_reject_refused refused_by_compiler_def ..
  fix e
  assume e: "e \<in> {''tracked context, stack, or map-value capabilities'',
      ''tracked stack or map-value capabilities''}"
    and f: "fst (translation v prog) \<noteq> 0" "snd (translation v prog) = Some e"
    and r: "compile_refusal v prog = Some e"
  have m: "e \<in> set tr_reject_messages"
    using e by (elim insertE emptyE) (simp_all add: tr_reject_messages_def)
  have "strstr e e" unfolding strstr_iff by (rule exI [of _ "[]"]) simp
  with m f show "proc_value (expect_translate_reject v prog) = 0"
    unfolding expect_reject_iff refused_def by blast
  show "proc_value (expect_compile_reject v prog) \<noteq> 0"
    using map_value_phrases [OF e] r
    by (auto simp: expect_compile_reject_passes compile_refusal_def split: option.splits sum.splits)
qed

theorem refusal_verdicts_witness:
  "let v = demo_vm (\<lambda>_. Inr 0)
     \<lparr>ubpf_translate_ex := \<lambda>_. (-1, Some ''tracked stack or map-value capabilities''),
      ubpf_compile := \<lambda>_. Inl (Some ''tracked stack or map-value capabilities'')\<rparr>
   in proc_value (expect_translate_reject v tr_context_store) = 0 \<and>
      proc_value (expect_compile_reject v tr_context_store) \<noteq> 0"
proof -
  let ?v = "demo_vm (\<lambda>_. Inr 0)
     \<lparr>ubpf_translate_ex := \<lambda>_. (-1, Some ''tracked stack or map-value capabilities''),
      ubpf_compile := \<lambda>_. Inl (Some ''tracked stack or map-value capabilities'')\<rparr>"
  have "fst (translation ?v tr_context_store) \<noteq> 0"
    "snd (translation ?v tr_context_store) = Some ''tracked stack or map-value capabilities''"
    "compile_refusal ?v tr_context_store = Some ''tracked stack or map-value capabilities''"
    by (simp_all add: translation_def compile_refusal_def demo_vm_def)
  then show ?thesis
    unfolding Let_def
    using refusal_verdicts [of ?v tr_context_store, THEN conjunct2, THEN conjunct2] by blast
qed

end
