(* ===== verification/Suite_Exploit.thy ===== *)
theory Suite_Exploit
  imports Suite_Translate
begin

text \<open>
  The exploit test bench: the three verifier-rejected programs of \<open>exploit_programs.h\<close> and
  the runner of \<open>exploit_tests.c\<close>, which executes each under the interpreter, the stock
  JIT and, on purecap, the CHERI JIT, and counts what the CHERI JIT did not block.
\<close>

section \<open>Programs\<close>

definition exploit_oob_read :: "u8 list" where
  "exploit_oob_read = BPF_MOV64_REG 6 1 @ BPF_LDX_MEM BPF_DW 0 6 4096 @ BPF_EXIT"

definition exploit_pointer_leak :: "u8 list" where
  "exploit_pointer_leak = BPF_MOV64_REG 2 10 @ BPF_MOV64_REG 0 2 @ BPF_EXIT"

definition exploit_uninit_read :: "u8 list" where
  "exploit_uninit_read =
     BPF_MOV64_REG 2 10 @ BPF_ALU64_IMM BPF_ADD 2 (-8) @ BPF_LDX_MEM BPF_DW 0 2 0 @ BPF_EXIT"

definition MEM_SIZE :: nat where "MEM_SIZE = 64"

definition mem_buffer :: object where
  "mem_buffer = \<lparr>logical_len = MEM_SIZE, backing_len = MEM_SIZE,
     content = (\<lambda>i. if i < MEM_SIZE then 0xAA else 0)\<rparr>"

record exploit_test =
  ex_name :: string
  ex_description :: string
  ex_verifier_rejects :: string
  ex_cheri_fix :: string
  ex_has_safe_return :: bool
  ex_safe_return :: u64
  ex_code :: "u8 list"
  ex_mem :: object
  ex_mem_len :: nat

definition exploit_tests :: "exploit_test list" where
  "exploit_tests =
    [\<lparr>ex_name = ''OOB read past mem buffer'',
      ex_description = ''r0 = *(u64 *)(r1 + 4096); exit'',
      ex_verifier_rejects = ''pointer arithmetic exceeds mem bounds'',
      ex_cheri_fix = ''capability bounds violation on load'',
      ex_has_safe_return = False, ex_safe_return = 0,
      ex_code = exploit_oob_read, ex_mem = mem_buffer, ex_mem_len = MEM_SIZE\<rparr>,
     \<lparr>ex_name = ''Pointer leakage via r0'',
      ex_description = ''r0 = r10 (stack ptr); exit'',
      ex_verifier_rejects = ''R0 must be scalar at exit, not pointer'',
      ex_cheri_fix = ''requires register-kind tracking or ABI sanitization'',
      ex_has_safe_return = False, ex_safe_return = 0,
      ex_code = exploit_pointer_leak, ex_mem = mem_buffer, ex_mem_len = MEM_SIZE\<rparr>,
     \<lparr>ex_name = ''Uninitialized stack read'',
      ex_description = ''r0 = *(u64 *)(r10 - 8); exit (slot never written)'',
      ex_verifier_rejects = ''stack read without prior write to same slot'',
      ex_cheri_fix = ''bounded stack zeroing prevents disclosure; verifier tracking still needed for semantics'',
      ex_has_safe_return = True, ex_safe_return = 0,
      ex_code = exploit_uninit_read, ex_mem = mem_buffer, ex_mem_len = MEM_SIZE\<rparr>]"

section \<open>Results\<close>

datatype test_result = RESULT_EXPLOIT_SUCCEEDED | RESULT_EXPLOIT_BLOCKED | RESULT_CRASH | RESULT_ERROR

fun result_code :: "test_result \<Rightarrow> int" where
  "result_code RESULT_EXPLOIT_SUCCEEDED = 0"
| "result_code RESULT_EXPLOIT_BLOCKED = 1"
| "result_code RESULT_CRASH = 2"
| "result_code RESULT_ERROR = 3"

fun result_str :: "test_result \<Rightarrow> string" where
  "result_str RESULT_EXPLOIT_SUCCEEDED = ''EXPLOIT SUCCEEDED''"
| "result_str RESULT_EXPLOIT_BLOCKED = ''blocked''"
| "result_str RESULT_CRASH = ''crash''"
| "result_str RESULT_ERROR = ''error''"

record exploit_outcome =
  eo_result :: test_result
  eo_ret_val :: u64
  eo_signal :: int

definition zero_exploit_outcome :: exploit_outcome where
  "zero_exploit_outcome = \<lparr>eo_result = RESULT_EXPLOIT_SUCCEEDED, eo_ret_val = 0, eo_signal = 0\<rparr>"

section \<open>Children\<close>

definition write_payload_or_exit :: "os \<Rightarrow> u8 list \<Rightarrow> unit proc" where
  "write_payload_or_exit os payload s =
     (let n = write_rc os 0 (length payload);
          s' = s\<lparr>sent := sent s @ take (nat n) payload\<rparr> in
      if n \<noteq> int (length payload) then (Inl (Exits (result_code RESULT_ERROR)), s') else (Inr (), s'))"

definition interpreter_child :: "os \<Rightarrow> 'v ubpf \<Rightarrow> u8 list \<Rightarrow> object \<Rightarrow> nat \<Rightarrow> int proc" where
  "interpreter_child os v code mem mem_len =
     (case ubpf_create v of None \<Rightarrow> pexit (result_code RESULT_ERROR)
      | Some vm \<Rightarrow> pseq (acquire Vm)
        (case ubpf_load v vm code of
           Inl errmsg \<Rightarrow> pseq (acquire_msg errmsg) (pseq (free_msg errmsg)
             (pseq (release Vm) (pexit (result_code RESULT_ERROR))))
         | Inr vm' \<Rightarrow>
           pbind (pcall Map.empty (ubpf_exec v vm' mem mem_len)) (\<lambda>rc.
           pseq (release Vm)
           (case rc of None \<Rightarrow> pexit (result_code RESULT_EXPLOIT_BLOCKED)
            | Some rv \<Rightarrow> pseq (write_payload_or_exit os (le_bytes 8 rv))
                (pexit (result_code RESULT_EXPLOIT_SUCCEEDED))))))"

definition jit_child :: "bool \<Rightarrow> os \<Rightarrow> 'v ubpf \<Rightarrow> u8 list \<Rightarrow> object \<Rightarrow> nat \<Rightarrow> bool \<Rightarrow> int proc" where
  "jit_child purecap os v code mem mem_len use_stock =
     (case ubpf_create v of None \<Rightarrow> pexit (result_code RESULT_ERROR)
      | Some vm0 \<Rightarrow> pseq (acquire Vm)
        (let vm = (if purecap then ubpf_use_stock_jit v vm0 use_stock else vm0) in
         case ubpf_load v vm code of
           Inl errmsg \<Rightarrow> pseq (acquire_msg errmsg) (pseq (free_msg errmsg)
             (pseq (release Vm) (pexit (result_code RESULT_ERROR))))
         | Inr vm' \<Rightarrow> (case ubpf_compile v vm' of
             Inl errmsg \<Rightarrow> pseq (acquire_msg errmsg) (pseq (free_msg errmsg) (pseq (release Vm)
               (if purecap \<and> \<not> use_stock then pexit (result_code RESULT_EXPLOIT_BLOCKED)
                else pexit (result_code RESULT_ERROR))))
           | Inr jit \<Rightarrow>
             pbind (pcall Map.empty (jit mem mem_len)) (\<lambda>rv.
             pseq (write_payload_or_exit os (le_bytes 8 rv))
             (pseq (release Vm) (pexit (result_code RESULT_EXPLOIT_SUCCEEDED)))))))"

section \<open>Runners\<close>

text \<open>The return code of \<open>waitpid\<close> is not looked at: when it fails, the status is still the
  0 it was initialised with.\<close>

definition judge_exploit :: "os \<Rightarrow> ending \<times> u8 list \<Rightarrow> exploit_outcome" where
  "judge_exploit os r =
     (let (n, payload) = read_pipe os (snd r);
          status = (case wait_child os (fst r) of None \<Rightarrow> Exited 0 | Some st \<Rightarrow> st);
          out = zero_exploit_outcome
      in if WIFSIGNALED status then out\<lparr>eo_result := RESULT_CRASH, eo_signal := WTERMSIG status\<rparr>
      else if WIFEXITED status then
        let code = WEXITSTATUS status in
        if code = result_code RESULT_EXPLOIT_SUCCEEDED \<and> n = 8
        then out\<lparr>eo_result := RESULT_EXPLOIT_SUCCEEDED, eo_ret_val := payload\<rparr>
        else if code = result_code RESULT_EXPLOIT_BLOCKED then out\<lparr>eo_result := RESULT_EXPLOIT_BLOCKED\<rparr>
        else out\<lparr>eo_result := RESULT_ERROR\<rparr>
      else out\<lparr>eo_result := RESULT_CRASH\<rparr>)"

definition run_interpreter :: "os \<Rightarrow> 'v ubpf \<Rightarrow> u8 list \<Rightarrow> object \<Rightarrow> nat \<Rightarrow> exploit_outcome" where
  "run_interpreter os v code mem mem_len =
     (if \<not> pipe_ok os then zero_exploit_outcome\<lparr>eo_result := RESULT_ERROR\<rparr>
      else if \<not> fork_ok os then zero_exploit_outcome\<lparr>eo_result := RESULT_ERROR\<rparr>
      else judge_exploit os (child_result (interpreter_child os v code mem mem_len)))"

definition run_jit_backend ::
  "bool \<Rightarrow> os \<Rightarrow> 'v ubpf \<Rightarrow> u8 list \<Rightarrow> object \<Rightarrow> nat \<Rightarrow> bool \<Rightarrow> exploit_outcome" where
  "run_jit_backend purecap os v code mem mem_len use_stock =
     (if \<not> pipe_ok os then zero_exploit_outcome\<lparr>eo_result := RESULT_ERROR\<rparr>
      else if \<not> fork_ok os then zero_exploit_outcome\<lparr>eo_result := RESULT_ERROR\<rparr>
      else judge_exploit os (child_result (jit_child purecap os v code mem mem_len use_stock)))"

definition run_jit :: "os \<Rightarrow> 'v ubpf \<Rightarrow> u8 list \<Rightarrow> object \<Rightarrow> nat \<Rightarrow> exploit_outcome" where
  "run_jit os v code mem mem_len = run_jit_backend False os v code mem mem_len False"

definition run_jit_stock :: "os \<Rightarrow> 'v ubpf \<Rightarrow> u8 list \<Rightarrow> object \<Rightarrow> nat \<Rightarrow> exploit_outcome" where
  "run_jit_stock os v code mem mem_len = run_jit_backend True os v code mem mem_len True"

definition run_jit_cheri :: "os \<Rightarrow> 'v ubpf \<Rightarrow> u8 list \<Rightarrow> object \<Rightarrow> nat \<Rightarrow> exploit_outcome" where
  "run_jit_cheri os v code mem mem_len = run_jit_backend True os v code mem mem_len False"

section \<open>Verdicts and \<open>main\<close>\<close>

definition jit_vuln :: "exploit_outcome \<Rightarrow> bool" where
  "jit_vuln oc \<longleftrightarrow> eo_result oc = RESULT_EXPLOIT_SUCCEEDED \<or> eo_result oc = RESULT_CRASH"

definition cheri_safe_return :: "exploit_test \<Rightarrow> exploit_outcome \<Rightarrow> bool" where
  "cheri_safe_return t oc \<longleftrightarrow> eo_result oc = RESULT_EXPLOIT_SUCCEEDED \<and> ex_has_safe_return t \<and>
     eo_ret_val oc = ex_safe_return t"

definition cheri_blocked :: "exploit_test \<Rightarrow> exploit_outcome \<Rightarrow> bool" where
  "cheri_blocked t oc \<longleftrightarrow> eo_result oc = RESULT_CRASH \<or> eo_result oc = RESULT_EXPLOIT_BLOCKED \<or>
     cheri_safe_return t oc"

definition cheri_missed :: "os \<Rightarrow> 'v ubpf \<Rightarrow> exploit_test \<Rightarrow> nat" where
  "cheri_missed os v t =
     (if cheri_blocked t (run_jit_cheri os v (ex_code t) (ex_mem t) (ex_mem_len t)) then 0 else 1)"

text \<open>Each test runs three children, the interpreter, the stock JIT and the CHERI JIT (on the
  host two); each has its own kernel answers. The result is the number of baseline failures
  and the exit status.\<close>

definition exploit_main :: "bool \<Rightarrow> (nat \<Rightarrow> os) \<Rightarrow> (nat \<Rightarrow> os) \<Rightarrow> 'v ubpf \<Rightarrow> nat \<times> nat" where
  "exploit_main purecap env cheri_env v =
     (let failures = sum_list (map (\<lambda>(os, t).
            if jit_vuln (if purecap then run_jit_stock os v (ex_code t) (ex_mem t) (ex_mem_len t)
                         else run_jit os v (ex_code t) (ex_mem t) (ex_mem_len t)) then 1 else 0)
            (paired env exploit_tests));
          cheri_failures = sum_list (map (\<lambda>(os, t). cheri_missed os v t) (paired cheri_env exploit_tests))
      in (failures, if purecap then (if cheri_failures = 0 then 0 else 1) else 0))"

section \<open>What a runner sees\<close>

datatype backend_run = NoProgram | NotCompiled | Ran "int + u64"

definition jit_backend :: "bool \<Rightarrow> 'v ubpf \<Rightarrow> u8 list \<Rightarrow> object \<Rightarrow> nat \<Rightarrow> bool \<Rightarrow> backend_run" where
  "jit_backend purecap v code mem mem_len use_stock =
     (case ubpf_create v of None \<Rightarrow> NoProgram
      | Some vm \<Rightarrow> (case ubpf_load v (if purecap then ubpf_use_stock_jit v vm use_stock else vm) code of
          Inl _ \<Rightarrow> NoProgram
        | Inr vm' \<Rightarrow> (case ubpf_compile v vm' of
            Inl _ \<Rightarrow> NotCompiled | Inr jit \<Rightarrow> Ran (jit mem mem_len))))"

lemma write_payload_full:
  "full_write os \<Longrightarrow> write_rc os 0 8 = 8 \<Longrightarrow>
   write_payload_or_exit os (le_bytes 8 r) s = (Inr (), s\<lparr>sent := sent s @ le_bytes 8 r\<rparr>)"
  by (simp add: write_payload_or_exit_def Let_def)

text \<open>POSIX: a write of eight bytes to a pipe is atomic.\<close>

definition exploit_kernel_ok :: "os \<Rightarrow> bool" where
  "exploit_kernel_ok os \<longleftrightarrow> host_kernel_ok os \<and> write_rc os 0 8 = 8"

lemma jit_child_result:
  assumes "exploit_kernel_ok os"
  shows "child_result (jit_child purecap os v code mem mem_len use_stock) =
    (case jit_backend purecap v code mem mem_len use_stock of
       NoProgram \<Rightarrow> (Exits 3, [])
     | NotCompiled \<Rightarrow> (Exits (if purecap \<and> \<not> use_stock then 1 else 3), [])
     | Ran (Inl sg) \<Rightarrow> (Dies sg, [])
     | Ran (Inr r) \<Rightarrow> (Exits 0, le_bytes 8 r))"
proof (cases "ubpf_create v")
  case None
  then show ?thesis by (simp add: jit_child_def jit_backend_def child_result_def proc_defs)
next
  case (Some vm)
  note c = this
  show ?thesis
  proof (cases "ubpf_load v (if purecap then ubpf_use_stock_jit v vm use_stock else vm) code")
    case (Inl e)
    then show ?thesis using c
      by (cases e) (simp_all add: jit_child_def jit_backend_def child_result_def proc_defs)
  next
    case (Inr vm')
    note l = this
    show ?thesis
    proof (cases "ubpf_compile v vm'")
      case (Inl e)
      then show ?thesis using c l
        by (cases e) (simp_all add: jit_child_def jit_backend_def child_result_def proc_defs)
    next
      case (Inr jit)
      then show ?thesis using c l assms
        by (cases "jit mem mem_len")
          (simp_all add: jit_child_def jit_backend_def child_result_def proc_defs deliver_def
            write_payload_full exploit_kernel_ok_def host_kernel_ok_def)
    qed
  qed
qed

lemma run_jit_backend_outcome:
  assumes "exploit_kernel_ok os"
  shows "run_jit_backend purecap os v code mem mem_len use_stock =
    (case jit_backend purecap v code mem mem_len use_stock of
       NoProgram \<Rightarrow> zero_exploit_outcome\<lparr>eo_result := RESULT_ERROR\<rparr>
     | NotCompiled \<Rightarrow> zero_exploit_outcome\<lparr>eo_result :=
         (if purecap \<and> \<not> use_stock then RESULT_EXPLOIT_BLOCKED else RESULT_ERROR)\<rparr>
     | Ran (Inl sg) \<Rightarrow> zero_exploit_outcome\<lparr>eo_result := RESULT_CRASH, eo_signal := sg\<rparr>
     | Ran (Inr r) \<Rightarrow> zero_exploit_outcome\<lparr>eo_ret_val := r\<rparr>)"
proof -
  have k: "honest_read os" "pipe_ok os" "fork_ok os" "waitpid_ok os"
    using assms by (simp_all add: exploit_kernel_ok_def host_kernel_ok_def)
  show ?thesis
  proof (cases "jit_backend purecap v code mem mem_len use_stock")
    case (Ran r)
    then show ?thesis
      by (cases r) (simp_all add: run_jit_backend_def jit_child_result [OF assms] judge_exploit_def
          wait_child_def zero_exploit_outcome_def read_pipe_whole k case_prod_unfold)
  qed (simp_all add: run_jit_backend_def jit_child_result [OF assms] judge_exploit_def k
      wait_child_def zero_exploit_outcome_def case_prod_unfold)
qed

lemma cheri_missed_iff:
  assumes "exploit_kernel_ok os"
  shows "cheri_missed os v t = 0 \<longleftrightarrow>
    (case jit_backend True v (ex_code t) (ex_mem t) (ex_mem_len t) False of
       NoProgram \<Rightarrow> False | NotCompiled \<Rightarrow> True | Ran (Inl sg) \<Rightarrow> True
     | Ran (Inr r) \<Rightarrow> ex_has_safe_return t \<and> r = ex_safe_return t)"
  unfolding cheri_missed_def run_jit_cheri_def run_jit_backend_outcome [OF assms]
  by (auto simp: cheri_blocked_def cheri_safe_return_def zero_exploit_outcome_def
      split: backend_run.split sum.split)

interpretation exploit_suite: suite "\<lambda>(os, t). cheri_missed os v t" for v :: "'v ubpf"
  by unfold_locales (auto simp: cheri_missed_def)

lemma exploit_main_zero:
  "snd (exploit_main True env cheri_env v) = 0 \<longleftrightarrow>
     (\<forall>i < length exploit_tests. cheri_missed (cheri_env i) v (exploit_tests ! i) = 0)"
proof -
  have "snd (exploit_main True env cheri_env v) = 0 \<longleftrightarrow>
      sum_list (map (\<lambda>(os, t). cheri_missed os v t) (paired cheri_env exploit_tests)) = 0"
    by (simp add: exploit_main_def Let_def)
  then show ?thesis by (simp only: exploit_suite.all_pass ball_paired prod.case)
qed

section \<open>What the exploits do\<close>

lemma exploit_programs:
  "exploit_oob_read = program INSN [(0xbf, 6, 1, 0, 0), (0x79, 0, 6, 4096, 0), (0x95, 0, 0, 0, 0)]"
  "exploit_pointer_leak = program INSN [(0xbf, 2, 10, 0, 0), (0xbf, 0, 2, 0, 0), (0x95, 0, 0, 0, 0)]"
  "exploit_uninit_read = program INSN
     [(0xbf, 2, 10, 0, 0), (0x07, 2, 0, 0, -8), (0x79, 0, 2, 0, 0), (0x95, 0, 0, 0, 0)]"
  by (simp_all add: exploit_oob_read_def exploit_pointer_leak_def exploit_uninit_read_def program_def
      insn_simps)

definition exploit_memory :: "object \<Rightarrow> memory" where
  "exploit_memory stack r = (case r of MemObj \<Rightarrow> mem_buffer | StackObj \<Rightarrow> stack)"

definition exploit_run :: "policy \<Rightarrow> object \<Rightarrow> u8 list \<Rightarrow> nat \<Rightarrow> stop option" where
  "exploit_run pol stack code n =
     run pol no_helper code n (entry pol (exploit_memory stack) (of_nat MEM_SIZE))"

lemmas exploit_eval = exploit_run_def exploit_programs run_program fields_ok_def exploit_memory_def
  mem_buffer_def MEM_SIZE_def no_helper_def

lemma exploit_oob_run: "exploit_run Cheri stack exploit_oob_read 10 = Some (Faulted BoundsTrap)"
  by (simp add: exploit_eval machine_eval)

lemma exploit_leak_run:
  "exploit_run pol stack exploit_pointer_leak 10 =
     Some (ReturnedCap (StackObj, of_nat (bound pol (exploit_memory stack) StackObj)))"
  by (simp add: exploit_eval run_fields_numeral step_fields_def step_alu_def next_pc_def set_reg_def
      alu_val_def step_exit_def entry_def)

lemma exploit_uninit_run:
  assumes "logical_len stack = 4096" and "backing_len stack = 4096"
  shows "exploit_run pol stack exploit_uninit_read 10 =
    Some (Returned (of_le (get_bytes 4088 8 (content stack))))"
proof -
  have b: "bound pol (exploit_memory stack) StackObj = 4096"
    using assms by (cases pol) (simp_all add: bound.simps exploit_memory_def)
  have c: "exploit_memory stack StackObj = stack" by (simp add: exploit_memory_def)
  show ?thesis
    using b c
    by (simp add: exploit_run_def exploit_programs run_program fields_ok_def run_fields_numeral
        step_fields_def step_alu_def load_reg_def mem_load_def width_of_def next_pc_def set_reg_def
        alu_val_def alu_def imm_val_eval padd_def step_exit_def entry_def)
qed

lemma exploit_run_unique:
  "exploit_run pol stack code n = Some s \<Longrightarrow> exploit_run pol stack code k = Some t \<Longrightarrow> s = t"
  unfolding exploit_run_def by (cases "n \<le> k") (metis option.inject run_more_fuel nat_le_linear)+

section \<open>Properties\<close>

text \<open>C13: what each exploit does under capability bounds. The out-of-bounds read of the
  64-byte buffer traps whatever the stack is; the pointer leak runs through and returns a
  stack capability, so no bounds check stops it; the uninitialised read stays in bounds and
  discloses the eight stack bytes below the frame pointer, under either memory policy and
  for any stack content, which is 0 exactly when those bytes were zeroed.\<close>
theorem exploit_behaviour:
  "exploit_run Cheri stack exploit_oob_read 10 = Some (Faulted BoundsTrap) \<and>
   exploit_run pol stack exploit_pointer_leak 10 =
     Some (ReturnedCap (StackObj, of_nat (bound pol (exploit_memory stack) StackObj))) \<and>
   exploit_run pol \<lparr>logical_len = 4096, backing_len = 4096, content = c\<rparr> exploit_uninit_read 10 =
     Some (Returned (of_le (get_bytes 4088 8 c)))"
  using exploit_oob_run exploit_leak_run exploit_uninit_run
    [of "\<lparr>logical_len = 4096, backing_len = 4096, content = c\<rparr>"]
  by simp

text \<open>C14: the CHERI verdict of the bench is exact. With a well-behaved kernel a test counts
  as missed exactly when the program could not be loaded, or ran and returned anything but
  its declared safe value; a compile refusal and a crash by \<open>any\<close> signal count as blocked.\<close>
theorem exploit_cheri_verdict:
  assumes "exploit_kernel_ok os"
  shows "cheri_missed os v t = 0 \<longleftrightarrow>
    (case jit_backend True v (ex_code t) (ex_mem t) (ex_mem_len t) False of
       NoProgram \<Rightarrow> False | NotCompiled \<Rightarrow> True | Ran (Inl sg) \<Rightarrow> True
     | Ran (Inr r) \<Rightarrow> ex_has_safe_return t \<and> r = ex_safe_return t)"
  using assms by (rule cheri_missed_iff)

lemma demo_exploit_kernel: "exploit_kernel_ok (demo_os i)"
  by (simp add: exploit_kernel_ok_def demo_host_kernel) (simp add: demo_os_def)

theorem exploit_cheri_verdict_witness:
  "cheri_missed (demo_os 0) (demo_hm_vm (Inr 0)) (exploit_tests ! 1) \<noteq> 0"
  unfolding exploit_cheri_verdict [OF demo_exploit_kernel]
  by (simp add: exploit_tests_def jit_backend_def demo_hm_vm_def demo_vm_def)

text \<open>A CHERI backend that conforms: it refuses a program that misuses a capability and
  runs any other one as the reference machine does, on a zeroed stack.\<close>

definition misuses_capability :: "stop \<Rightarrow> bool" where
  "misuses_capability s \<longleftrightarrow> (case s of ReturnedCap _ \<Rightarrow> True | CapabilityStored \<Rightarrow> True
     | NotACapability \<Rightarrow> True | _ \<Rightarrow> False)"

definition backend_conforms :: "'v ubpf \<Rightarrow> exploit_test \<Rightarrow> bool" where
  "backend_conforms v t \<longleftrightarrow>
     (\<exists>n s. exploit_run Cheri (machine_stack 4096) (ex_code t) n = Some s \<and>
       (if misuses_capability s
        then jit_backend True v (ex_code t) (ex_mem t) (ex_mem_len t) False = NotCompiled
        else \<exists>r. stop_signal s = Some r \<and>
          jit_backend True v (ex_code t) (ex_mem t) (ex_mem_len t) False = Ran r))"

lemma machine_stack_zero: "of_le (get_bytes 4088 8 (content (machine_stack 4096))) = (0 :: u64)"
  by (simp add: machine_stack_def bytes_eval)

lemma exploit_tests_run:
  "t \<in> set exploit_tests \<Longrightarrow>
   exploit_run Cheri (machine_stack 4096) (ex_code t) 10 =
     Some (if ex_has_safe_return t then Returned (ex_safe_return t)
           else if ex_name t = ''Pointer leakage via r0''
           then ReturnedCap (StackObj, of_nat (bound Cheri (exploit_memory (machine_stack 4096)) StackObj))
           else Faulted BoundsTrap)"
  using exploit_uninit_run [of "machine_stack 4096" Cheri]
  by (auto simp: exploit_tests_def exploit_oob_run exploit_leak_run machine_stack_zero)
    (simp_all add: machine_stack_def)

lemma conforming_test_blocked:
  assumes "exploit_kernel_ok os" and "t \<in> set exploit_tests" and "backend_conforms v t"
  shows "cheri_missed os v t = 0"
proof -
  obtain n s where r: "exploit_run Cheri (machine_stack 4096) (ex_code t) n = Some s"
    and c: "if misuses_capability s
      then jit_backend True v (ex_code t) (ex_mem t) (ex_mem_len t) False = NotCompiled
      else \<exists>r. stop_signal s = Some r \<and>
        jit_backend True v (ex_code t) (ex_mem t) (ex_mem_len t) False = Ran r"
    using assms(3) unfolding backend_conforms_def by blast
  note s = exploit_run_unique [OF r exploit_tests_run [OF assms(2)]]
  show ?thesis
    using c unfolding cheri_missed_iff [OF assms(1)] s
    by (auto simp: misuses_capability_def stop_signal_def split: if_splits)
qed

text \<open>C12: the bench accepts a backend that combines the two defences. If the CHERI backend
  refuses programs that misuse capabilities, enforces bounds, and zeroes the eBPF stack,
  then all three exploits are blocked and \<open>main\<close> on purecap returns 0.\<close>
theorem exploit_main_accepts:
  assumes "\<forall>i. exploit_kernel_ok (cheri_env i)"
    and "\<forall>t\<in>set exploit_tests. backend_conforms v t"
  shows "snd (exploit_main True env cheri_env v) = 0"
  unfolding exploit_main_zero
proof (intro allI impI)
  fix i assume "i < length exploit_tests"
  then have "exploit_tests ! i \<in> set exploit_tests" by simp
  with assms show "cheri_missed (cheri_env i) v (exploit_tests ! i) = 0"
    by (intro conforming_test_blocked) auto
qed

definition demo_exploit_vm :: "u8 list ubpf" where
  "demo_exploit_vm = demo_vm (\<lambda>_. Inr 0)\<lparr>ubpf_compile := \<lambda>code.
     case exploit_run Cheri (machine_stack 4096) code 10 of
       Some s \<Rightarrow> if misuses_capability s then Inl None else Inr (\<lambda>_ _. the (stop_signal s))
     | None \<Rightarrow> Inl None\<rparr>"

theorem exploit_main_accepts_witness: "snd (exploit_main True demo_os demo_os demo_exploit_vm) = 0"
proof (rule exploit_main_accepts)
  show "\<forall>t\<in>set exploit_tests. backend_conforms demo_exploit_vm t"
  proof
    fix t assume t: "t \<in> set exploit_tests"
    show "backend_conforms demo_exploit_vm t"
      unfolding backend_conforms_def using exploit_tests_run [OF t]
      by (intro exI conjI, assumption)
        (auto simp: jit_backend_def demo_exploit_vm_def demo_vm_def misuses_capability_def stop_signal_def)
  qed
qed (simp add: demo_exploit_kernel)

end
