(* ===== verification/A64_Emit.thy ===== *)
theory A64_Emit
  imports Bpf_Insn Process
begin

text \<open>
  The code generators of the reproduction programs: \<open>emit_u32\<close>, the load encoder and
  \<open>emit_program\<close> of \<open>test_cheri_direct_jit_repro.c\<close>, and the tail-helper compiler of
  \<open>test_cheri_tail_helper_context.c\<close>. The words they emit are read back by a small
  decoder of the Morello instructions involved, as the table of verified encodings at the
  top of the first file gives them.
\<close>

section \<open>Emission\<close>

text \<open>\<open>buf\<close> is the mapped page; a copy that would leave it faults.\<close>

definition emit_u32 :: "handlers \<Rightarrow> u32 \<Rightarrow> u8 list \<times> nat \<Rightarrow> (u8 list \<times> nat) proc" where
  "emit_u32 h insn p =
     (case p of (buf, offset) \<Rightarrow>
      if offset + 4 \<le> length buf
      then pret (take offset buf @ le_bytes 4 insn @ drop (offset + 4) buf, offset + 4)
      else pcall h (Inl SIGPROT))"

definition encode_ldr_x0_c0_offset :: "u32 \<Rightarrow> u32 proc" where
  "encode_ldr_x0_c0_offset byte_offset =
     (if byte_offset mod 8 \<noteq> 0 \<or> 0x1000 \<le> byte_offset div 8 then pexit 100
      else pret (0xf9400000 OR push_bit 10 (byte_offset div 8)))"

datatype repro_program = PROGRAM_CONST42 | PROGRAM_TAG_C0 | PROGRAM_LEN_C0 | PROGRAM_LOAD_C0_OFFSET

definition emit_program ::
  "handlers \<Rightarrow> u8 list \<times> nat \<Rightarrow> repro_program \<Rightarrow> u32 \<Rightarrow> (u8 list \<times> nat) proc" where
  "emit_program h p prg byte_offset =
     pbind (case prg of
        PROGRAM_CONST42 \<Rightarrow> emit_u32 h 0x52800540 p
      | PROGRAM_TAG_C0 \<Rightarrow>
          pbind (emit_u32 h 0xc2c09008 p) (\<lambda>p1.
          pbind (emit_u32 h 0xf100011f p1) (\<lambda>p2.
          emit_u32 h 0x1a9f07e0 p2))
      | PROGRAM_LEN_C0 \<Rightarrow> emit_u32 h 0xc2c03000 p
      | PROGRAM_LOAD_C0_OFFSET \<Rightarrow>
          pbind (encode_ldr_x0_c0_offset byte_offset) (\<lambda>w. emit_u32 h w p)) (\<lambda>p'.
     emit_u32 h 0xc2c253c0 p')"

text \<open>The words of each program, and the page after emission.\<close>

definition ldr_ok :: "u32 \<Rightarrow> bool" where
  "ldr_ok byte_offset \<longleftrightarrow> byte_offset mod 8 = 0 \<and> byte_offset div 8 < 0x1000"

definition program_words :: "repro_program \<Rightarrow> u32 \<Rightarrow> u32 list" where
  "program_words prg byte_offset =
     (case prg of
        PROGRAM_CONST42 \<Rightarrow> [0x52800540]
      | PROGRAM_TAG_C0 \<Rightarrow> [0xc2c09008, 0xf100011f, 0x1a9f07e0]
      | PROGRAM_LEN_C0 \<Rightarrow> [0xc2c03000]
      | PROGRAM_LOAD_C0_OFFSET \<Rightarrow> [0xf9400000 OR push_bit 10 (byte_offset div 8)]) @ [0xc2c253c0]"

definition words_bytes :: "u32 list \<Rightarrow> u8 list" where
  "words_bytes ws = concat (map (le_bytes 4) ws)"

lemma length_words_bytes [simp]: "length (words_bytes ws) = 4 * length ws"
  by (induction ws) (simp_all add: words_bytes_def)

lemma words_bytes_simps [simp]:
  "words_bytes [] = []" "words_bytes (w # ws) = le_bytes 4 w @ words_bytes ws"
  "words_bytes (ws @ vs) = words_bytes ws @ words_bytes vs"
  by (simp_all add: words_bytes_def)

lemma emit_u32_ok:
  "length front = n \<Longrightarrow> 4 \<le> length rest \<Longrightarrow>
   emit_u32 h w (front @ rest, n) s = (Inr (front @ le_bytes 4 w @ drop 4 rest, n + 4), s)"
  by (simp add: emit_u32_def pret_def)

text \<open>Emission in the shape the generators use it: after a prefix of emitted words.\<close>

lemma emit_after:
  assumes "4 * length ws + 4 \<le> length page"
  shows "emit_u32 h w (words_bytes ws @ drop (4 * length ws) page, 4 * length ws) s =
    (Inr (words_bytes (ws @ [w]) @ drop (4 * length (ws @ [w])) page, 4 * length (ws @ [w])), s)"
  using assms by (subst emit_u32_ok) (simp_all add: add.commute)

lemmas emit_1 = emit_after [of "[]", simplified]
lemmas emit_2 = emit_after [of "[a]" for a, simplified]
lemmas emit_3 = emit_after [of "[a, b]" for a b, simplified]
lemmas emit_4 = emit_after [of "[a, b, c]" for a b c, simplified]
lemmas emit_5 = emit_after [of "[a, b, c, d]" for a b c d, simplified]

lemma emit_program_ok:
  assumes "16 \<le> length page" and "prg = PROGRAM_LOAD_C0_OFFSET \<longrightarrow> ldr_ok byte_offset"
  shows "emit_program h (page, 0) prg byte_offset s =
    (Inr (words_bytes (program_words prg byte_offset) @
          drop (4 * length (program_words prg byte_offset)) page,
          4 * length (program_words prg byte_offset)), s)"
  using assms
  by (cases prg)
    (simp_all add: emit_program_def program_words_def pbind_def emit_1 emit_2 emit_3 emit_4
      encode_ldr_x0_c0_offset_def ldr_ok_def pret_def linorder_not_le [symmetric])

lemma emit_program_bad_offset:
  "\<not> ldr_ok byte_offset \<Longrightarrow>
   emit_program h p PROGRAM_LOAD_C0_OFFSET byte_offset s = (Inl (Exits 100), s)"
  by (auto simp: emit_program_def pbind_def encode_ldr_x0_c0_offset_def ldr_ok_def pexit_def
      linorder_not_less)

section \<open>Reading the words back\<close>

text \<open>Registers hold nothing, a number, a pointer into the argument array, or the helper.\<close>

datatype aval = ANone | ANum u64 | ACap u64 | AHelper

datatype morello =
  MovzW nat u32 | MovzX nat u32 | LdrX nat nat u32 | GcTag nat nat | CmpZero nat | CsetNe nat
| GcLen nat nat | MovC nat nat | MovX nat nat | RetC nat | BrC nat

definition field :: "nat \<Rightarrow> nat \<Rightarrow> u32 \<Rightarrow> u32" where
  "field lo n w = take_bit n (drop_bit lo w)"

definition rd_of :: "u32 \<Rightarrow> nat" where "rd_of w = unat (field 0 5 w)"
definition rn_of :: "u32 \<Rightarrow> nat" where "rn_of w = unat (field 5 5 w)"

definition decode :: "u32 \<Rightarrow> morello option" where
  "decode w =
     (if w AND 0xffe00000 = 0x52800000 then Some (MovzW (rd_of w) (field 5 16 w))
      else if w AND 0xffe00000 = 0xd2800000 then Some (MovzX (rd_of w) (field 5 16 w))
      else if w AND 0xffc00000 = 0xf9400000 then Some (LdrX (rd_of w) (rn_of w) (field 10 12 w))
      else if w AND 0xfffffc00 = 0xc2c09000 then Some (GcTag (rd_of w) (rn_of w))
      else if w AND 0xfffffc1f = 0xf100001f then Some (CmpZero (rn_of w))
      else if w AND 0xffffffe0 = 0x1a9f07e0 then Some (CsetNe (rd_of w))
      else if w AND 0xfffffc00 = 0xc2c03000 then Some (GcLen (rd_of w) (rn_of w))
      else if w AND 0xfffffc00 = 0xc2c1d000 then Some (MovC (rd_of w) (rn_of w))
      else if w AND 0xffe0ffe0 = 0xaa0003e0 then Some (MovX (rd_of w) (unat (field 16 5 w)))
      else if w AND 0xfffffc1f = 0xc2c25000 then Some (RetC (rn_of w))
      else if w AND 0xfffffc1f = 0xc2c21000 then Some (BrC (rn_of w))
      else None)"

lemma decode_emitted:
  "decode 0x52800540 = Some (MovzW 0 42)" "decode 0xc2c09008 = Some (GcTag 8 0)"
  "decode 0xf100011f = Some (CmpZero 8)" "decode 0x1a9f07e0 = Some (CsetNe 0)"
  "decode 0xc2c03000 = Some (GcLen 0 0)" "decode 0xc2c253c0 = Some (RetC 30)"
  "decode 0xc2c1d003 = Some (MovC 3 0)" "decode 0xc2c1d020 = Some (MovC 0 1)"
  "decode 0xaa0203e1 = Some (MovX 1 2)" "decode 0xc2c21060 = Some (BrC 3)"
  by (simp_all add: decode_def rd_of_def rn_of_def field_def)

lemma u32_eq_bits: "(x :: u32) = y \<longleftrightarrow> (\<forall>i\<in>set [0..<32]. bit x i = bit y i)"
  by (auto simp: bit_eq_iff dest: bit_imp_le_length)

lemma small_take_bit: "unat (imm :: u32) < 2 ^ k \<Longrightarrow> take_bit k imm = imm"
  by (simp add: word_unat_eq_iff unsigned_take_bit_eq take_bit_nat_eq_self)

lemma small_bits: "unat (imm :: u32) < 2 ^ k \<Longrightarrow> k \<le> i \<Longrightarrow> \<not> bit imm i"
  by (metis small_take_bit bit_take_bit_iff leD)

lemma decode_ldr:
  assumes "unat (imm :: u32) < 0x1000"
  shows "decode (0xf9400000 OR push_bit 10 imm) = Some (LdrX 0 0 imm)"
proof -
  let ?w = "0xf9400000 OR push_bit 10 imm :: u32"
  note s = small_bits [of imm 12, simplified, OF assms]
  have m: "?w AND 0xffc00000 = 0xf9400000"
    unfolding u32_eq_bits by (simp add: bit_simps s upt_rec)
  have f: "field 10 12 ?w = imm" "field 0 5 ?w = 0" "field 5 5 ?w = 0"
    unfolding u32_eq_bits field_def by (simp_all add: bit_simps s upt_rec)
  have "bit (?w AND 0xffe00000) 29" by (simp add: bit_simps)
  then have "?w AND 0xffe00000 \<noteq> 0x52800000" "?w AND 0xffe00000 \<noteq> 0xd2800000" by auto
  then show ?thesis using m f by (simp add: decode_def rd_of_def rn_of_def)
qed

lemma decode_movz_x2:
  assumes "unat (imm :: u32) < 0x10000"
  shows "decode (0xd2800002 OR push_bit 5 imm) = Some (MovzX 2 imm)"
proof -
  let ?w = "0xd2800002 OR push_bit 5 imm :: u32"
  note s = small_bits [of imm 16, simplified, OF assms]
  have m: "?w AND 0xffe00000 = 0xd2800000"
    unfolding u32_eq_bits by (simp add: bit_simps s upt_rec)
  have f: "field 5 16 ?w = imm" "field 0 5 ?w = 2"
    unfolding u32_eq_bits field_def by (simp_all add: bit_simps s upt_rec)
  show ?thesis using m f by (simp add: decode_def rd_of_def)
qed
section \<open>Executing the words\<close>

record mor =
  mregs :: "nat \<Rightarrow> aval"
  zflag :: bool

datatype mstop = MRet u64 | MTrap | MStuck | MHelper aval aval aval

definition set_mreg :: "nat \<Rightarrow> aval \<Rightarrow> mor \<Rightarrow> mor" where
  "set_mreg r v s = s\<lparr>mregs := (mregs s)(r := v)\<rparr>"

fun mstep :: "memory \<Rightarrow> morello \<Rightarrow> mor \<Rightarrow> mstop + mor" where
  "mstep m (MovzW xd imm) s = Inr (set_mreg xd (ANum (ucast imm)) s)"
| "mstep m (MovzX xd imm) s = Inr (set_mreg xd (ANum (ucast imm)) s)"
| "mstep m (LdrX xd xn imm) s =
     (case mregs s xn of
        ACap off \<Rightarrow> (case mem_load Cheri m (MemObj, off + 8 * ucast imm) 8 of
            Inl _ \<Rightarrow> Inl MTrap | Inr bs \<Rightarrow> Inr (set_mreg xd (ANum (of_le bs)) s))
      | ANum _ \<Rightarrow> Inl MTrap | _ \<Rightarrow> Inl MStuck)"
| "mstep m (GcTag xd xn) s =
     (case mregs s xn of
        ACap _ \<Rightarrow> Inr (set_mreg xd (ANum 1) s) | AHelper \<Rightarrow> Inr (set_mreg xd (ANum 1) s)
      | ANum _ \<Rightarrow> Inr (set_mreg xd (ANum 0) s) | ANone \<Rightarrow> Inl MStuck)"
| "mstep m (CmpZero xn) s =
     (case mregs s xn of ANum x \<Rightarrow> Inr (s\<lparr>zflag := (x = 0)\<rparr>) | _ \<Rightarrow> Inl MStuck)"
| "mstep m (CsetNe xd) s = Inr (set_mreg xd (ANum (if zflag s then 0 else 1)) s)"
| "mstep m (GcLen xd xn) s =
     (case mregs s xn of
        ACap _ \<Rightarrow> Inr (set_mreg xd (ANum (of_nat (logical_len (m MemObj)))) s) | _ \<Rightarrow> Inl MStuck)"
| "mstep m (MovC xd xn) s = Inr (set_mreg xd (mregs s xn) s)"
| "mstep m (MovX xd xm) s =
     (case mregs s xm of ANum x \<Rightarrow> Inr (set_mreg xd (ANum x) s) | _ \<Rightarrow> Inl MStuck)"
| "mstep m (RetC xn) s =
     (if xn = 30 then case mregs s 0 of ANum x \<Rightarrow> Inl (MRet x) | _ \<Rightarrow> Inl MStuck else Inl MStuck)"
| "mstep m (BrC xn) s =
     (if mregs s xn = AHelper then Inl (MHelper (mregs s 0) (mregs s 1) (mregs s 2)) else Inl MStuck)"

fun mrun :: "memory \<Rightarrow> u32 list \<Rightarrow> mor \<Rightarrow> mstop" where
  "mrun m [] s = MStuck"
| "mrun m (w # ws) s =
     (case decode w of None \<Rightarrow> MStuck
      | Some i \<Rightarrow> (case mstep m i s of Inl r \<Rightarrow> r | Inr s' \<Rightarrow> mrun m ws s'))"

definition args :: "aval list \<Rightarrow> mor" where
  "args vs = \<lparr>mregs = (\<lambda>r. if r < length vs then vs ! r else ANone), zflag = False\<rparr>"

text \<open>The words of a code page.\<close>

definition page_words :: "u8 list \<Rightarrow> nat \<Rightarrow> u32 list" where
  "page_words page n = map (\<lambda>i. of_le (take 4 (drop (4 * i) page))) [0..<n]"

lemma page_words_emitted: "page_words (words_bytes ws @ rest) (length ws) = ws"
proof (induction ws)
  case Nil
  then show ?case by (simp add: page_words_def)
next
  case (Cons w ws)
  have "of_le (take 4 (le_bytes 4 w @ words_bytes ws @ rest)) = w"
    using c32.dec_prefix [of w "words_bytes ws @ rest"] by simp
  moreover have "map (\<lambda>i. of_le (take 4 (drop (4 * i) (le_bytes 4 w @ words_bytes ws @ rest))))
      [Suc 0..<Suc (length ws)] = page_words (words_bytes ws @ rest) (length ws)"
    unfolding page_words_def map_Suc_upt [symmetric] map_map by simp
  ultimately show ?case
    using Cons by (simp add: page_words_def upt_conv_Cons del: upt_Suc)
qed

text \<open>What each generated program computes from its argument.\<close>

definition program_result :: "memory \<Rightarrow> repro_program \<Rightarrow> u32 \<Rightarrow> aval list \<Rightarrow> mstop" where
  "program_result m prg byte_offset vs =
     (let a = (if vs = [] then ANone else hd vs) in
      case prg of
        PROGRAM_CONST42 \<Rightarrow> MRet 42
      | PROGRAM_TAG_C0 \<Rightarrow>
          (case a of ACap _ \<Rightarrow> MRet 1 | AHelper \<Rightarrow> MRet 1 | ANum _ \<Rightarrow> MRet 0 | ANone \<Rightarrow> MStuck)
      | PROGRAM_LEN_C0 \<Rightarrow>
          (case a of ACap _ \<Rightarrow> MRet (of_nat (logical_len (m MemObj))) | _ \<Rightarrow> MStuck)
      | PROGRAM_LOAD_C0_OFFSET \<Rightarrow>
          (case a of
             ACap off \<Rightarrow> (case rd64 Cheri (MemObj, off + ucast byte_offset) m of
                 Inl _ \<Rightarrow> MTrap | Inr (v, _) \<Rightarrow> MRet v)
           | ANum _ \<Rightarrow> MTrap | _ \<Rightarrow> MStuck))"

lemma eight_times_div:
  assumes "ldr_ok b"
  shows "8 * ucast (b div 8) = (ucast b :: u64)"
proof -
  have "unat b mod 8 = 0" using assms by (simp add: ldr_ok_def word_unat_eq_iff unat_mod)
  then have e: "8 * (unat b div 8) = unat b" by presburger
  have lt: "unat b < 2 ^ 32" using unsigned_less [of b, where 'a = nat] by simp
  have u1: "unat (ucast (b div 8) :: u64) = unat b div 8"
    using lt by (simp add: unat_div unsigned_ucast_eq take_bit_nat_eq_self)
  have u2: "unat (ucast b :: u64) = unat b"
    using lt by (simp add: unsigned_ucast_eq take_bit_nat_eq_self)
  show ?thesis
    unfolding word_unat_eq_iff u2 using e u1 lt by (simp add: unat_word_ariths)
qed

lemma decode_ldr_ok: "ldr_ok b \<Longrightarrow> decode (0xf9400000 OR push_bit 10 (b div 8)) = Some (LdrX 0 0 (b div 8))"
  by (rule decode_ldr) (simp add: ldr_ok_def word_less_nat_alt)

lemma rd64_load: "rd64 Cheri p m = (case mem_load Cheri m p 8 of Inl e \<Rightarrow> Inl e | Inr bs \<Rightarrow> Inr (of_le bs, m))"
  by (simp add: rd64_def mbind_def rd_def split: sum.split)

lemma mrun_program:
  assumes "prg = PROGRAM_LOAD_C0_OFFSET \<longrightarrow> ldr_ok byte_offset"
  shows "mrun m (program_words prg byte_offset) (args vs) = program_result m prg byte_offset vs"
proof -
  obtain a where a: "a = (if vs = [] then ANone else hd vs)" by blast
  then have r0: "mregs (args vs) 0 = a" by (cases vs) (simp_all add: args_def)
  show ?thesis
    using assms
    by (cases prg; cases a)
      (simp_all add: program_words_def program_result_def a [symmetric] r0 decode_emitted decode_ldr_ok
        set_mreg_def eight_times_div rd64_load split: sum.split)
qed

end
