(* ===== verification/Suite_Direct.thy ===== *)
theory Suite_Direct
  imports A64_Emit Sigprot_Child Suite_Host Bpf_Machine Fixtures
begin

text \<open>
  The direct-JIT reproduction \<open>test_cheri_direct_jit_repro.c\<close>: generated words are placed in
  an mmap'ed page under six combinations of protections, sealing and entry mode, and each
  page is entered in a child with a constant, a tag, a length, an in-bounds load, an
  out-of-bounds load and a load through a plain address. The virtual-memory calls and the
  entry into the page belong to the kernel and the processor: they are the fields of
  \<open>vmk\<close>, over an unspecified kernel state.
\<close>

section \<open>The variants\<close>

datatype prot = PROT_READ | PROT_WRITE | PROT_EXEC | PROT_CAP

record repro_variant =
  rv_name :: string
  mmap_prot :: "prot set"
  mprotect_prot :: "prot set"
  use_mprotect :: bool
  make_sentry_before_mprotect :: bool
  use_sentry :: bool
  use_capmode_entry :: bool

definition variants :: "repro_variant list" where
  "variants =
    [\<lparr>rv_name = ''rwx_current_no_mprotect'',
      mmap_prot = {PROT_READ, PROT_WRITE, PROT_EXEC, PROT_CAP}, mprotect_prot = {},
      use_mprotect = False, make_sentry_before_mprotect = False, use_sentry = True,
      use_capmode_entry = True\<rparr>,
     \<lparr>rv_name = ''rwx_current_then_rx_sentry_after'',
      mmap_prot = {PROT_READ, PROT_WRITE, PROT_EXEC, PROT_CAP},
      mprotect_prot = {PROT_READ, PROT_EXEC, PROT_CAP},
      use_mprotect = True, make_sentry_before_mprotect = False, use_sentry = True,
      use_capmode_entry = True\<rparr>,
     \<lparr>rv_name = ''rwx_current_then_rx_sentry_before'',
      mmap_prot = {PROT_READ, PROT_WRITE, PROT_EXEC, PROT_CAP},
      mprotect_prot = {PROT_READ, PROT_EXEC, PROT_CAP},
      use_mprotect = True, make_sentry_before_mprotect = True, use_sentry = True,
      use_capmode_entry = True\<rparr>,
     \<lparr>rv_name = ''rw_current_max_rwx_then_rx'',
      mmap_prot = {PROT_READ, PROT_WRITE, PROT_CAP},
      mprotect_prot = {PROT_READ, PROT_EXEC, PROT_CAP},
      use_mprotect = True, make_sentry_before_mprotect = False, use_sentry = True,
      use_capmode_entry = True\<rparr>,
     \<lparr>rv_name = ''rwx_current_no_prot_cap'',
      mmap_prot = {PROT_READ, PROT_WRITE, PROT_EXEC}, mprotect_prot = {},
      use_mprotect = False, make_sentry_before_mprotect = False, use_sentry = True,
      use_capmode_entry = True\<rparr>,
     \<lparr>rv_name = ''rwx_current_raw_entry_no_mprotect'',
      mmap_prot = {PROT_READ, PROT_WRITE, PROT_EXEC, PROT_CAP}, mprotect_prot = {},
      use_mprotect = False, make_sentry_before_mprotect = False, use_sentry = False,
      use_capmode_entry = True\<rparr>]"

section \<open>Kernel and processor\<close>

datatype procctl_cmd = PROC_PROTMAX_CTL | PROC_WXMAP_CTL

datatype procctl_arg = PROC_PROTMAX_FORCE_ENABLE | PROC_PROTMAX_FORCE_DISABLE
| PROC_WX_MAPPINGS_PERMIT | PROC_WX_MAPPINGS_DISALLOW_EXEC

record entry_cap =
  entry_addr :: u64
  entry_sentry :: bool

record 'm vmk =
  vm_mmap :: "'m \<Rightarrow> prot set \<Rightarrow> prot set \<Rightarrow> (u64 \<times> 'm) option"
  vm_mprotect :: "'m \<Rightarrow> u64 \<Rightarrow> prot set \<Rightarrow> 'm option"
  vm_procctl :: "'m \<Rightarrow> procctl_cmd \<Rightarrow> procctl_arg \<Rightarrow> 'm option"
  vm_enter :: "'m \<Rightarrow> entry_cap \<Rightarrow> u8 list \<Rightarrow> aval list \<Rightarrow> memory \<Rightarrow> int + u64"

section \<open>Compiling into a page\<close>

definition make_entry_cap :: "u64 \<Rightarrow> repro_variant \<Rightarrow> entry_cap" where
  "make_entry_cap code variant =
     \<lparr>entry_addr = (if use_capmode_entry variant then code OR 1 else code),
      entry_sentry = use_sentry variant\<rparr>"

definition compile_generated_program ::
  "'m vmk \<Rightarrow> 'm \<Rightarrow> handlers \<Rightarrow> repro_program \<Rightarrow> u32 \<Rightarrow> repro_variant \<Rightarrow>
   (entry_cap \<times> u8 list \<times> 'm) option proc" where
  "compile_generated_program k m h prg byte_offset variant =
     (let page_size = 4096;
          max_prot = {PROT_READ, PROT_WRITE, PROT_EXEC} \<union>
            (if PROT_CAP \<in> mmap_prot variant \<or> PROT_CAP \<in> mprotect_prot variant then {PROT_CAP} else {})
      in case vm_mmap k m (mmap_prot variant) max_prot of None \<Rightarrow> pret None
      | Some (code, m1) \<Rightarrow>
        pbind (emit_program h (replicate page_size 0, 0) prg byte_offset) (\<lambda>(page, pc).
        let ent = (if make_sentry_before_mprotect variant then Some (make_entry_cap code variant)
              else None);
            m2 = (if use_mprotect variant then vm_mprotect k m1 code (mprotect_prot variant) else Some m1)
        in case m2 of None \<Rightarrow> pret None
        | Some m' \<Rightarrow> pret (Some (case ent of Some e \<Rightarrow> e | None \<Rightarrow> make_entry_cap code variant, page, m'))))"

section \<open>The children\<close>

definition direct_mem :: "u64 list" where
  "direct_mem = [0x1111111111111111, 0xfeedfacecafebeef]"

definition direct_memory :: memory where
  "direct_memory = cheri_memory direct_mem (machine_stack 0)"

definition run_const42_child :: "os \<Rightarrow> 'm vmk \<Rightarrow> 'm \<Rightarrow> repro_variant \<Rightarrow> nat" where
  "run_const42_child os k m variant =
     wait_for_child os (forked os (
       pbind (install_sigprot_handler os False) (\<lambda>h.
       pbind (compile_generated_program k m h PROGRAM_CONST42 0 variant) (\<lambda>fn.
       case fn of None \<Rightarrow> pexit 10
       | Some (ent, page, m') \<Rightarrow>
         pbind (pcall h (vm_enter k m' ent page [] direct_memory)) (\<lambda>result.
         pexit (if result = 42 then 0 else 21)))))) False"

definition run_tag_child :: "os \<Rightarrow> 'm vmk \<Rightarrow> 'm \<Rightarrow> repro_variant \<Rightarrow> nat" where
  "run_tag_child os k m variant =
     wait_for_child os (forked os (
       pbind (install_sigprot_handler os False) (\<lambda>h.
       pbind (compile_generated_program k m h PROGRAM_TAG_C0 0 variant) (\<lambda>fn.
       case fn of None \<Rightarrow> pexit 10
       | Some (ent, page, m') \<Rightarrow>
         pbind (pcall h (vm_enter k m' ent page [ACap 0] direct_memory)) (\<lambda>result.
         pexit (if result = 1 then 0 else 21)))))) False"

definition run_len_child :: "os \<Rightarrow> 'm vmk \<Rightarrow> 'm \<Rightarrow> repro_variant \<Rightarrow> nat" where
  "run_len_child os k m variant =
     wait_for_child os (forked os (
       pbind (install_sigprot_handler os False) (\<lambda>h.
       pbind (compile_generated_program k m h PROGRAM_LEN_C0 0 variant) (\<lambda>fn.
       case fn of None \<Rightarrow> pexit 10
       | Some (ent, page, m') \<Rightarrow>
         pbind (pcall h (vm_enter k m' ent page [ACap 0] direct_memory)) (\<lambda>result.
         pexit (if result = of_nat (8 * length direct_mem) then 0 else 21)))))) False"

definition run_load_child :: "os \<Rightarrow> 'm vmk \<Rightarrow> 'm \<Rightarrow> repro_variant \<Rightarrow> u32 \<Rightarrow> bool \<Rightarrow> nat" where
  "run_load_child os k m variant offset expect_trap =
     wait_for_child os (forked os (
       pbind (install_sigprot_handler os expect_trap) (\<lambda>h.
       pbind (compile_generated_program k m h PROGRAM_LOAD_C0_OFFSET offset variant) (\<lambda>fn.
       case fn of None \<Rightarrow> pexit 10
       | Some (ent, page, m') \<Rightarrow>
         pbind (pcall h (vm_enter k m' ent page [ACap 0] direct_memory)) (\<lambda>result.
         if expect_trap then pexit 20
         else pexit (if result = direct_mem ! 1 then 0 else 21)))))) expect_trap"

text \<open>The address of the array is a number the kernel chose.\<close>

definition run_scalar_address_load_child :: "os \<Rightarrow> 'm vmk \<Rightarrow> 'm \<Rightarrow> repro_variant \<Rightarrow> nat" where
  "run_scalar_address_load_child os k m variant =
     wait_for_child os (forked os (
       pbind (install_sigprot_handler os True) (\<lambda>h.
       pbind (compile_generated_program k m h PROGRAM_LOAD_C0_OFFSET 8 variant) (\<lambda>fn.
       case fn of None \<Rightarrow> pexit 10
       | Some (ent, page, m') \<Rightarrow>
         let addr = junk os 0 in
         pbind (pcall h (vm_enter k m' ent page [ANum addr] direct_memory)) (\<lambda>result.
         pexit 20))))) True"

definition run_elf_text_load_child :: "os \<Rightarrow> nat" where
  "run_elf_text_load_child os =
     wait_for_child os (forked os (
       pbind (install_sigprot_handler os False) (\<lambda>h.
       pbind (pcall h (case elf_c_load_ref Cheri (MemObj, 0) direct_memory of
           Inl f \<Rightarrow> Inl (fault_signal f) | Inr (v, _) \<Rightarrow> Inr v)) (\<lambda>c_result.
       pexit (if c_result = direct_mem ! 1 then 0 else 21))))) False"

text \<open>A \<open>procctl\<close> that fails is reported and otherwise ignored.\<close>

definition apply_procctl :: "'m vmk \<Rightarrow> procctl_cmd \<Rightarrow> procctl_arg \<Rightarrow> 'm \<Rightarrow> 'm" where
  "apply_procctl k cmd ctl m = (case vm_procctl k m cmd ctl of None \<Rightarrow> m | Some m' \<Rightarrow> m')"

definition run_procctl_load_child ::
  "os \<Rightarrow> 'm vmk \<Rightarrow> 'm \<Rightarrow> repro_variant \<Rightarrow> procctl_arg \<Rightarrow> procctl_arg \<Rightarrow> nat" where
  "run_procctl_load_child os k m variant protmax_ctl wxmap_ctl =
     wait_for_child os (forked os (
       pbind (install_sigprot_handler os False) (\<lambda>h.
       let m1 = apply_procctl k PROC_PROTMAX_CTL protmax_ctl m;
           m2 = apply_procctl k PROC_WXMAP_CTL wxmap_ctl m1 in
       pbind (compile_generated_program k m2 h PROGRAM_LOAD_C0_OFFSET 8 variant) (\<lambda>fn.
       case fn of None \<Rightarrow> pexit 10
       | Some (ent, page, m') \<Rightarrow>
         pbind (pcall h (vm_enter k m' ent page [ACap 0] direct_memory)) (\<lambda>result.
         pexit (if result = direct_mem ! 1 then 0 else 21)))))) False"

section \<open>\<open>main\<close>\<close>

datatype direct_case = ElfText | Procctl repro_variant procctl_arg procctl_arg
| Const42 repro_variant | TagC0 repro_variant | LenC0 repro_variant
| LoadC0 repro_variant u32 bool | ScalarLoad repro_variant

fun direct_run :: "'m vmk \<Rightarrow> 'm \<Rightarrow> os \<Rightarrow> direct_case \<Rightarrow> nat" where
  "direct_run k m os ElfText = run_elf_text_load_child os"
| "direct_run k m os (Procctl v p w) = run_procctl_load_child os k m v p w"
| "direct_run k m os (Const42 v) = run_const42_child os k m v"
| "direct_run k m os (TagC0 v) = run_tag_child os k m v"
| "direct_run k m os (LenC0 v) = run_len_child os k m v"
| "direct_run k m os (LoadC0 v off tr) = run_load_child os k m v off tr"
| "direct_run k m os (ScalarLoad v) = run_scalar_address_load_child os k m v"

text \<open>The children in the order \<open>main\<close> starts them.\<close>

definition direct_cases :: "direct_case list" where
  "direct_cases =
     [ElfText,
      Procctl (variants ! 1) PROC_PROTMAX_FORCE_ENABLE PROC_WX_MAPPINGS_PERMIT,
      Procctl (variants ! 1) PROC_PROTMAX_FORCE_DISABLE PROC_WX_MAPPINGS_DISALLOW_EXEC] @
     concat (map (\<lambda>v. [Const42 v, TagC0 v, LenC0 v, LoadC0 v 8 False, LoadC0 v 4096 True,
       ScalarLoad v]) variants)"

definition direct_main :: "(nat \<Rightarrow> os) \<Rightarrow> 'm vmk \<Rightarrow> 'm \<Rightarrow> nat" where
  "direct_main env k m =
     (let failures = sum_list (map (\<lambda>(os, c). direct_run k m os c) (paired env direct_cases))
      in if failures = 0 then 0 else 1)"

lemma direct_run_le_1: "direct_run k m os c \<le> 1"
  by (cases c)
    (simp_all add: run_elf_text_load_child_def run_procctl_load_child_def run_const42_child_def
      run_tag_child_def run_len_child_def run_load_child_def run_scalar_address_load_child_def
      wait_for_child_le_1 del: One_nat_def)

interpretation direct_suite: suite "\<lambda>(os, c). direct_run k m os c" for k :: "'m vmk" and m
  by unfold_locales (auto simp: direct_run_le_1 simp del: One_nat_def)

lemma direct_main_zero:
  "direct_main env k m = 0 \<longleftrightarrow>
     (\<forall>i < length direct_cases. direct_run k m (env i) (direct_cases ! i) = 0)"
proof -
  have "direct_main env k m = 0 \<longleftrightarrow>
      sum_list (map (\<lambda>(os, c). direct_run k m os c) (paired env direct_cases)) = 0"
    by (simp add: direct_main_def Let_def)
  then show ?thesis by (simp only: direct_suite.all_pass ball_paired prod.case)
qed

section \<open>What the page holds\<close>

definition max_prot :: "repro_variant \<Rightarrow> prot set" where
  "max_prot variant = {PROT_READ, PROT_WRITE, PROT_EXEC} \<union>
     (if PROT_CAP \<in> mmap_prot variant \<or> PROT_CAP \<in> mprotect_prot variant then {PROT_CAP} else {})"

definition mapped :: "'m vmk \<Rightarrow> 'm \<Rightarrow> repro_variant \<Rightarrow> (entry_cap \<times> 'm) option" where
  "mapped k m variant =
     (case vm_mmap k m (mmap_prot variant) (max_prot variant) of None \<Rightarrow> None
      | Some (code, m1) \<Rightarrow> map_option (Pair (make_entry_cap code variant))
          (if use_mprotect variant then vm_mprotect k m1 code (mprotect_prot variant) else Some m1))"

definition code_page :: "repro_program \<Rightarrow> u32 \<Rightarrow> u8 list" where
  "code_page prg off = words_bytes (program_words prg off) @
     drop (4 * length (program_words prg off)) (replicate 4096 0)"

lemma compile_generated_program_ok:
  assumes "prg = PROGRAM_LOAD_C0_OFFSET \<longrightarrow> ldr_ok off"
  shows "compile_generated_program k m h prg off variant s =
    (Inr (map_option (\<lambda>(e, m'). (e, code_page prg off, m')) (mapped k m variant)), s)"
  using emit_program_ok [of "replicate 4096 0" prg off h s, OF _ assms]
  by (auto simp: compile_generated_program_def mapped_def max_prot_def code_page_def proc_defs Let_def
      split: option.splits)

lemma code_page_words:
  "page_words (code_page prg off) (length (program_words prg off)) = program_words prg off"
  by (simp add: code_page_def page_words_emitted)

section \<open>How a child ends\<close>

lemma direct_child_end:
  assumes "prg = PROGRAM_LOAD_C0_OFFSET \<longrightarrow> ldr_ok off"
  shows "child_end (pbind (install_sigprot_handler os ex) (\<lambda>h.
       pbind (compile_generated_program k m h prg off variant) (\<lambda>fn.
       case fn of None \<Rightarrow> pexit 10
       | Some (ent, page, m') \<Rightarrow>
         pbind (pcall h (vm_enter k m' ent page vs direct_memory)) (\<lambda>result. pexit (f result))))) =
    (if \<not> sigaction_ok os SIGPROT then Exits 11
     else case mapped k m variant of None \<Rightarrow> Exits 10
     | Some (e, m') \<Rightarrow> (case vm_enter k m' e (code_page prg off) vs direct_memory of
         Inl sg \<Rightarrow> if sg = SIGPROT then Exits (sigprot_handler ex) else Dies sg
       | Inr r \<Rightarrow> Exits (f r)))"
  by (auto simp: compile_generated_program_ok [OF assms] child_end_bind
      install_sigprot_handler_cases pbind_def pexit_def pcall_def deliver_def
      split: option.splits sum.splits)

definition direct_outcome ::
  "'m vmk \<Rightarrow> 'm \<Rightarrow> repro_variant \<Rightarrow> repro_program \<Rightarrow> u32 \<Rightarrow> aval list \<Rightarrow> (int + u64) option" where
  "direct_outcome k m variant prg off vs =
     map_option (\<lambda>(e, m'). vm_enter k m' e (code_page prg off) vs direct_memory) (mapped k m variant)"

lemma direct_wait_return:
  assumes "prg = PROGRAM_LOAD_C0_OFFSET \<longrightarrow> ldr_ok off"
  shows "wait_for_child os (forked os (pbind (install_sigprot_handler os False) (\<lambda>h.
       pbind (compile_generated_program k m h prg off variant) (\<lambda>fn.
       case fn of None \<Rightarrow> pexit 10
       | Some (ent, page, m') \<Rightarrow>
         pbind (pcall h (vm_enter k m' ent page vs direct_memory)) (\<lambda>result.
         pexit (if P result then 0 else 21)))))) False = 0 \<longleftrightarrow>
    fork_ok os \<and> waitpid_ok os \<and> sigaction_ok os SIGPROT \<and>
    (\<exists>r. direct_outcome k m variant prg off vs = Some (Inr r) \<and> P r)"
  unfolding wait_for_child_return forked_def direct_child_end [OF assms] direct_outcome_def
  by (auto simp: sigprot_handler_def split: option.splits sum.splits if_splits)

lemma direct_wait_trap:
  assumes "prg = PROGRAM_LOAD_C0_OFFSET \<longrightarrow> ldr_ok off"
  shows "wait_for_child os (forked os (pbind (install_sigprot_handler os True) (\<lambda>h.
       pbind (compile_generated_program k m h prg off variant) (\<lambda>fn.
       case fn of None \<Rightarrow> pexit 10
       | Some (ent, page, m') \<Rightarrow>
         pbind (pcall h (vm_enter k m' ent page vs direct_memory)) (\<lambda>result. pexit 20))))) True = 0 \<longleftrightarrow>
    fork_ok os \<and> waitpid_ok os \<and>
    (sigaction_ok os SIGPROT \<longrightarrow> (\<forall>r. direct_outcome k m variant prg off vs \<noteq> Some (Inr r)))"
  unfolding wait_for_child_trap forked_def direct_child_end [OF assms] direct_outcome_def
  by (auto simp: sigprot_handler_def split: option.splits sum.splits if_splits)

definition direct_kernel_ok :: "os \<Rightarrow> bool" where
  "direct_kernel_ok os \<longleftrightarrow> fork_ok os \<and> waitpid_ok os \<and> sigaction_ok os SIGPROT"

lemma ldr_ok_8: "ldr_ok 8" and ldr_ok_4096: "ldr_ok 4096"
  by (simp_all add: ldr_ok_def)

lemma run_load_return:
  "ldr_ok off \<Longrightarrow> run_load_child os k m variant off False = 0 \<longleftrightarrow>
    direct_kernel_ok os \<and>
    direct_outcome k m variant PROGRAM_LOAD_C0_OFFSET off [ACap 0] = Some (Inr (direct_mem ! 1))"
  unfolding run_load_child_def if_False by (subst direct_wait_return) (auto simp: direct_kernel_ok_def)

lemma run_load_trap:
  "ldr_ok off \<Longrightarrow> run_load_child os k m variant off True = 0 \<longleftrightarrow>
    fork_ok os \<and> waitpid_ok os \<and> (sigaction_ok os SIGPROT \<longrightarrow>
      (\<forall>r. direct_outcome k m variant PROGRAM_LOAD_C0_OFFSET off [ACap 0] \<noteq> Some (Inr r)))"
  unfolding run_load_child_def if_True by (subst direct_wait_trap) auto

lemma run_load_bad_offset:
  assumes "\<not> ldr_ok off" and "fork_ok os" and "waitpid_ok os"
  shows "run_load_child os k m variant off True = 0"
proof -
  have "compile_generated_program k m h PROGRAM_LOAD_C0_OFFSET off variant s =
      (if vm_mmap k m (mmap_prot variant) (max_prot variant) = None then (Inr None, s)
       else (Inl (Exits 100), s))" for h s
    using emit_program_bad_offset [OF assms(1)]
    by (auto simp: compile_generated_program_def max_prot_def proc_defs Let_def split: option.splits)
  then have "child_end (pbind (install_sigprot_handler os True) (\<lambda>h.
       pbind (compile_generated_program k m h PROGRAM_LOAD_C0_OFFSET off variant) (\<lambda>fn.
       case fn of None \<Rightarrow> pexit 10
       | Some (ent, page, m') \<Rightarrow>
         pbind (pcall h (vm_enter k m' ent page [ACap 0] direct_memory)) (\<lambda>result. pexit 20))))
      \<in> {Exits 10, Exits 11, Exits 100}"
    by (simp add: child_end_bind install_sigprot_handler_cases pbind_def pexit_def)
  then show ?thesis
    unfolding run_load_child_def if_True wait_for_child_trap forked_def using assms(2,3) by auto
qed

lemma run_elf: "direct_kernel_ok os \<Longrightarrow> run_elf_text_load_child os = 0"
  unfolding run_elf_text_load_child_def wait_for_child_return forked_def
  by (simp add: direct_kernel_ok_def child_end_bind install_sigprot_handler_cases pcall_def pbind_def
      pexit_def elf_c_load_ref_def ptr_simps direct_memory_def direct_mem_def mem_simps
      word_in_words_content)

lemma length_program_words: "length (program_words prg off) \<le> 4"
  by (cases prg) (simp_all add: program_words_def)

section \<open>Properties\<close>

text \<open>C4: the code generator is correct. \<open>emit_program\<close> writes a program at the start of the
  page and touches no byte after it; read back from the page and executed on the decoded
  Morello instructions, the words return 42, the tag of their argument, the length of its
  object, or the word at the given offset, and trap exactly when the load leaves the object
  or the argument is a plain number, for every memory, argument list and encodable offset.
  An offset that is misaligned or too large for the field ends the process with 100.\<close>
theorem emit_program_computes:
  assumes "16 \<le> length page"
  shows "if prg = PROGRAM_LOAD_C0_OFFSET \<and> \<not> ldr_ok off
    then emit_program h (page, 0) prg off s = (Inl (Exits 100), s)
    else \<exists>n buf. emit_program h (page, 0) prg off s = (Inr (buf, 4 * n), s) \<and>
      length buf = length page \<and> drop (4 * n) buf = drop (4 * n) page \<and>
      mrun m (page_words buf n) (args vs) = program_result m prg off vs"
proof (cases "prg = PROGRAM_LOAD_C0_OFFSET \<and> \<not> ldr_ok off")
  case True
  then show ?thesis by (simp add: emit_program_bad_offset)
next
  case False
  then have ok: "prg = PROGRAM_LOAD_C0_OFFSET \<longrightarrow> ldr_ok off" by simp
  let ?ws = "program_words prg off"
  have n: "4 * length ?ws \<le> length page" using length_program_words [of prg off] assms by linarith
  show ?thesis
    using False emit_program_ok [OF assms ok, of h s] mrun_program [OF ok, of m vs] n
    by (auto intro!: exI [of _ "length ?ws"] simp: page_words_emitted)
qed

theorem emit_program_computes_witness:
  "\<exists>n buf. emit_program Map.empty (replicate 4096 0, 0) PROGRAM_LOAD_C0_OFFSET 4096 start =
     (Inr (buf, 4 * n), start) \<and> mrun direct_memory (page_words buf n) (args [ACap 0]) = MTrap"
proof -
  have "program_result direct_memory PROGRAM_LOAD_C0_OFFSET 4096 [ACap 0] = MTrap"
    by (simp add: program_result_def direct_memory_def direct_mem_def mem_simps)
  then show ?thesis
    using emit_program_computes [of "replicate 4096 0" PROGRAM_LOAD_C0_OFFSET 4096 Map.empty start
        direct_memory "[ACap 0]"]
    by (auto simp: ldr_ok_4096)
qed

text \<open>The verdict of an in-bounds load is exact: the child must have forked, installed
  its handler, mapped and protected the page, and the entered code must have returned the
  second word of the array.\<close>
lemma direct_load_verdict:
  assumes "ldr_ok off"
  shows "run_load_child os k m variant off False = 0 \<longleftrightarrow>
    direct_kernel_ok os \<and>
    direct_outcome k m variant PROGRAM_LOAD_C0_OFFSET off [ACap 0] = Some (Inr (direct_mem ! 1))"
  using assms by (rule run_load_return)

lemma mrun_append: "mrun m ws s \<noteq> MStuck \<Longrightarrow> mrun m (ws @ vs) s = mrun m ws s"
  by (induction ws arbitrary: s) (auto split: option.splits sum.splits)

lemma page_words_prefix:
  "length ws \<le> n \<Longrightarrow> \<exists>vs. page_words (words_bytes ws @ rest) n = ws @ vs"
proof -
  assume le: "length ws \<le> n"
  then have "[0..<n] = [0..<length ws] @ [length ws..<n]"
    by (metis le_add_diff_inverse upt_add_eq_append zero_le)
  then have "page_words (words_bytes ws @ rest) n = page_words (words_bytes ws @ rest) (length ws) @
      map (\<lambda>i. of_le (take 4 (drop (4 * i) (words_bytes ws @ rest)))) [length ws..<n]"
    by (simp add: page_words_def)
  then show ?thesis by (metis page_words_emitted)
qed

text \<open>
  The contract of kernel and processor. \<open>perm m a\<close> is the current protection of the page at
  \<open>a\<close> in kernel state \<open>m\<close>, as an observer sees it. The kernel maps a page-aligned page with
  the protection asked for, if that is within the maximum, and later changes it within the
  maximum given to \<open>mmap\<close>. The processor executes the words of an executable page in C64
  state exactly when it is entered through an odd address, as the port's notes explain;
  entered through the even address it executes them as A64, where a load uses the untagged
  default capability and traps. Nothing is said of a page that is not executable.
\<close>

fun mstop_signal :: "mstop \<Rightarrow> (int + u64) option" where
  "mstop_signal (MRet v) = Some (Inr v)"
| "mstop_signal MTrap = Some (Inl SIGPROT)"
| "mstop_signal _ = None"

definition page_aligned :: "u64 \<Rightarrow> bool" where
  "page_aligned a \<longleftrightarrow> a AND 0xfff = 0"

definition kernel_maps :: "'m vmk \<Rightarrow> ('m \<Rightarrow> u64 \<Rightarrow> prot set) \<Rightarrow> bool" where
  "kernel_maps k perm \<longleftrightarrow> (\<forall>m p q. p \<subseteq> q \<longrightarrow>
     (\<exists>code m1. vm_mmap k m p q = Some (code, m1) \<and> page_aligned code \<and> perm m1 code = p \<and>
       (\<forall>r. r \<subseteq> q \<longrightarrow> (\<exists>m2. vm_mprotect k m1 code r = Some m2 \<and> perm m2 code = r))))"

definition cpu_conforms :: "'m vmk \<Rightarrow> ('m \<Rightarrow> u64 \<Rightarrow> prot set) \<Rightarrow> bool" where
  "cpu_conforms k perm \<longleftrightarrow> (\<forall>m code e prg off vs mem r.
     page_aligned code \<longrightarrow> PROT_EXEC \<in> perm m code \<longrightarrow>
     (prg = PROGRAM_LOAD_C0_OFFSET \<longrightarrow> ldr_ok off) \<longrightarrow>
     (entry_addr e = code OR 1 \<longrightarrow>
       mstop_signal (mrun mem (page_words (code_page prg off) (length (program_words prg off))) (args vs))
         = Some r \<longrightarrow> vm_enter k m e (code_page prg off) vs mem = r) \<and>
     (entry_addr e = code \<longrightarrow> prg = PROGRAM_LOAD_C0_OFFSET \<longrightarrow>
       vm_enter k m e (code_page prg off) vs mem = Inl SIGPROT))"

text \<open>An instance: protections are kept per page, entry checks them and the entry mode.\<close>

definition demo_vmk :: "(u64 \<Rightarrow> prot set) vmk" where
  "demo_vmk = \<lparr>vm_mmap = (\<lambda>m p q. Some (0x10000, m(0x10000 := p))),
     vm_mprotect = (\<lambda>m a p. Some (m(a := p))),
     vm_procctl = (\<lambda>_ _ _. None),
     vm_enter = (\<lambda>m e page vs mem.
       if bit (entry_addr e) 0 \<and> PROT_EXEC \<in> m (entry_addr e AND NOT 1)
       then case mrun mem (page_words page 4) (args vs) of MRet v \<Rightarrow> Inr v | _ \<Rightarrow> Inl SIGPROT
       else Inl SIGPROT)\<rparr>"

definition demo_kernel_state :: "u64 \<Rightarrow> prot set" where
  "demo_kernel_state = (\<lambda>_. {})"

lemma page_aligned_entry:
  assumes "page_aligned code"
  shows "bit (code OR 1) 0" "(code OR 1) AND NOT 1 = code" "\<not> bit code 0"
proof -
  have z: "\<not> bit code 0"
  proof
    assume "bit code 0"
    then have "bit (code AND 0xfff) 0" by (simp add: bit_simps)
    then show False using assms by (simp add: page_aligned_def)
  qed
  then show "\<not> bit code 0" .
  show "bit (code OR 1) 0" by (simp add: bit_simps)
  show "(code OR 1) AND NOT 1 = code"
  proof (rule bit_word_eqI)
    fix n
    show "bit ((code OR 1) AND NOT 1) n = bit code n"
      using z by (cases n) (auto simp: bit_simps dest: bit_imp_le_length)
  qed
qed

lemma demo_cpu: "cpu_conforms demo_vmk id"
  unfolding cpu_conforms_def
proof (intro allI impI conjI)
  fix m code and e :: entry_cap and prg off vs mem r
  assume a: "page_aligned code" "PROT_EXEC \<in> id m code" "entry_addr e = code OR 1"
  assume "mstop_signal (mrun mem (page_words (code_page prg off) (length (program_words prg off))) (args vs))
       = Some r"
  then have s: "mstop_signal (mrun mem (program_words prg off) (args vs)) = Some r"
    unfolding code_page_words .
  then have "mrun mem (program_words prg off) (args vs) \<noteq> MStuck" by auto
  moreover obtain ws where "page_words (code_page prg off) 4 = program_words prg off @ ws"
    using page_words_prefix [OF length_program_words] unfolding code_page_def by blast
  ultimately have "mrun mem (page_words (code_page prg off) 4) (args vs) =
      mrun mem (program_words prg off) (args vs)" by (simp add: mrun_append)
  with s a show "vm_enter demo_vmk m e (code_page prg off) vs mem = r"
    by (cases "mrun mem (program_words prg off) (args vs)")
      (simp_all add: demo_vmk_def page_aligned_entry page_aligned_entry(2) [simplified])
next
  fix m code and e :: entry_cap and prg off vs mem
  assume "page_aligned code" "entry_addr e = code"
  then show "vm_enter demo_vmk m e (code_page prg off) vs mem = Inl SIGPROT"
    by (simp add: demo_vmk_def page_aligned_entry)
qed

lemma demo_maps: "kernel_maps demo_vmk id"
  by (simp add: kernel_maps_def demo_vmk_def page_aligned_def)

lemma demo_direct_kernel: "direct_kernel_ok (demo_os i)"
  by (simp add: direct_kernel_ok_def demo_os_def)

text \<open>A variant can be entered if it ends with an executable page and forms a capability-mode
  entry; all six do.\<close>

definition enterable :: "repro_variant \<Rightarrow> bool" where
  "enterable variant \<longleftrightarrow> use_capmode_entry variant \<and>
     PROT_EXEC \<in> (if use_mprotect variant then mprotect_prot variant else mmap_prot variant)"

lemma variants_enterable: "variant \<in> set variants \<Longrightarrow> enterable variant"
  by (auto simp: variants_def enterable_def)

lemma prot_within_max: "mmap_prot variant \<subseteq> max_prot variant" "mprotect_prot variant \<subseteq> max_prot variant"
proof -
  have "p \<in> {PROT_READ, PROT_WRITE, PROT_EXEC, PROT_CAP}" for p by (cases p) simp_all
  then show "mmap_prot variant \<subseteq> max_prot variant" "mprotect_prot variant \<subseteq> max_prot variant"
    unfolding max_prot_def by auto
qed

lemma kernel_mapsD:
  assumes "kernel_maps k perm" and "p \<subseteq> q"
  shows "\<exists>code m1. vm_mmap k m p q = Some (code, m1) \<and> page_aligned code \<and> perm m1 code = p \<and>
    (\<forall>r. r \<subseteq> q \<longrightarrow> (\<exists>m2. vm_mprotect k m1 code r = Some m2 \<and> perm m2 code = r))"
  using assms(1) [unfolded kernel_maps_def, THEN spec, THEN spec, THEN spec, THEN mp, OF assms(2)] .

lemma mapped_entry:
  assumes "kernel_maps k perm"
  shows "\<exists>code m'. mapped k m variant = Some (make_entry_cap code variant, m') \<and> page_aligned code \<and>
    perm m' code = (if use_mprotect variant then mprotect_prot variant else mmap_prot variant)"
proof -
  obtain code m1 where mm: "vm_mmap k m (mmap_prot variant) (max_prot variant) = Some (code, m1)"
    "page_aligned code" "perm m1 code = mmap_prot variant"
    "\<forall>r. r \<subseteq> max_prot variant \<longrightarrow> (\<exists>m2. vm_mprotect k m1 code r = Some m2 \<and> perm m2 code = r)"
    using kernel_mapsD [OF assms prot_within_max(1), of m variant] by blast
  obtain m2 where "vm_mprotect k m1 code (mprotect_prot variant) = Some m2"
    "perm m2 code = mprotect_prot variant"
    using mm(4) prot_within_max(2) [of variant] by blast
  with mm show ?thesis
    by (intro exI [of _ code] exI [of _ "if use_mprotect variant then m2 else m1"])
      (simp add: mapped_def)
qed

lemma conforming_outcome:
  assumes "cpu_conforms k perm" and "kernel_maps k perm" and "enterable variant"
    and "prg = PROGRAM_LOAD_C0_OFFSET \<longrightarrow> ldr_ok off"
    and "mstop_signal (program_result direct_memory prg off vs) = Some r"
  shows "direct_outcome k m variant prg off vs = Some r"
proof -
  obtain code m' where c: "mapped k m variant = Some (make_entry_cap code variant, m')"
    "page_aligned code" "PROT_EXEC \<in> perm m' code"
    using mapped_entry [OF assms(2), of m variant] assms(3) unfolding enterable_def by auto
  have "entry_addr (make_entry_cap code variant) = code OR 1"
    using assms(3) by (simp add: make_entry_cap_def enterable_def)
  moreover have "mstop_signal (mrun direct_memory
      (page_words (code_page prg off) (length (program_words prg off))) (args vs)) = Some r"
    using assms(5) mrun_program [OF assms(4), of direct_memory vs] by (simp add: code_page_words)
  ultimately have "vm_enter k m' (make_entry_cap code variant) (code_page prg off) vs direct_memory = r"
    using assms(1,4) c(2,3) unfolding cpu_conforms_def by blast
  with c(1) show ?thesis by (simp add: direct_outcome_def)
qed

text \<open>The root cause the port's notes record: without the capability-mode bit the in-bounds
  load traps, so its child fails.\<close>

lemma even_entry_fails:
  assumes "cpu_conforms k perm" and "kernel_maps k perm" and "enterable variant" and "direct_kernel_ok os"
  shows "run_load_child os k m (variant\<lparr>use_capmode_entry := False\<rparr>) 8 False = 1"
proof -
  let ?v = "variant\<lparr>use_capmode_entry := False\<rparr>"
  obtain code m' where c: "mapped k m ?v = Some (make_entry_cap code ?v, m')"
    "page_aligned code"
    "perm m' code = (if use_mprotect ?v then mprotect_prot ?v else mmap_prot ?v)"
    using mapped_entry [OF assms(2), of m ?v] by blast
  have x: "PROT_EXEC \<in> perm m' code"
    using c(3) assms(3) by (simp add: enterable_def split: if_splits)
  have "entry_addr (make_entry_cap code ?v) = code" by (simp add: make_entry_cap_def)
  then have "vm_enter k m' (make_entry_cap code ?v) (code_page PROGRAM_LOAD_C0_OFFSET 8) [ACap 0]
      direct_memory = Inl SIGPROT"
    using assms(1) c(2) x ldr_ok_8 unfolding cpu_conforms_def by blast
  with c(1) have "direct_outcome k m ?v PROGRAM_LOAD_C0_OFFSET 8 [ACap 0] = Some (Inl SIGPROT)"
    by (simp add: direct_outcome_def)
  then have "run_load_child os k m ?v 8 False \<noteq> 0" by (simp add: run_load_return ldr_ok_8)
  moreover have "run_load_child os k m ?v 8 False \<le> 1"
    by (simp add: run_load_child_def wait_for_child_le_1 del: One_nat_def)
  ultimately show ?thesis by simp
qed

lemma direct_results:
  "program_result direct_memory PROGRAM_CONST42 0 [] = MRet 42"
  "program_result direct_memory PROGRAM_TAG_C0 0 [ACap 0] = MRet 1"
  "program_result direct_memory PROGRAM_LEN_C0 0 [ACap 0] = MRet 16"
  "program_result direct_memory PROGRAM_LOAD_C0_OFFSET 8 [ACap 0] = MRet (direct_mem ! 1)"
  "program_result direct_memory PROGRAM_LOAD_C0_OFFSET 4096 [ACap 0] = MTrap"
  "program_result direct_memory PROGRAM_LOAD_C0_OFFSET 8 [ANum addr] = MTrap"
  by (simp_all add: program_result_def direct_memory_def direct_mem_def mem_simps
      word_in_words_content cheri_memory_def)

text \<open>C35: the expected-trap children can pass without ever entering the page. If the mapping
  is refused, if the handler cannot be installed, or if the offset cannot be encoded at
  all, the child exits with 10, 11 or 100 and the parent reports the expected trap.\<close>
theorem direct_trap_pass_without_entry:
  assumes "fork_ok os" and "waitpid_ok os"
    and "mapped k m variant = None \<or> \<not> sigaction_ok os SIGPROT \<or> \<not> ldr_ok off"
  shows "run_load_child os k m variant off True = 0"
proof (cases "ldr_ok off")
  case True
  then show ?thesis using assms by (auto simp: run_load_trap direct_outcome_def)
next
  case False
  then show ?thesis using assms(1,2) by (rule run_load_bad_offset)
qed

theorem direct_trap_pass_without_entry_witness:
  "run_load_child (demo_os 0) demo_vmk demo_kernel_state (variants ! 0) 4095 True = 0"
  by (rule direct_trap_pass_without_entry) (simp_all add: demo_os_def ldr_ok_def)

lemma direct_cases_variants:
  "c \<in> set direct_cases \<Longrightarrow>
     c = ElfText \<or> (\<exists>v\<in>set variants. c \<in> {Const42 v, TagC0 v, LenC0 v, LoadC0 v 8 False,
       LoadC0 v 4096 True, ScalarLoad v} \<or> (\<exists>p w. c = Procctl v p w))"
  by (auto simp: direct_cases_def variants_def)

lemma direct_case_accepted:
  assumes "cpu_conforms k perm" and "kernel_maps k perm" and "direct_kernel_ok os" and "c \<in> set direct_cases"
  shows "direct_run k m os c = 0"
proof -
  note out = conforming_outcome [OF assms(1,2)]
  have kk: "fork_ok os" "waitpid_ok os" "sigaction_ok os SIGPROT"
    using assms(3) by (simp_all add: direct_kernel_ok_def)
  have load8: "run_load_child os k m variant 8 False = 0" if "enterable variant" for m variant
    using out [OF that, of PROGRAM_LOAD_C0_OFFSET 8 "[ACap 0]" "Inr (direct_mem ! 1)" m] assms(3)
    by (simp add: run_load_return ldr_ok_8 direct_results)
  have load4096: "run_load_child os k m variant 4096 True = 0" if "enterable variant" for variant
    using out [OF that, of PROGRAM_LOAD_C0_OFFSET 4096 "[ACap 0]" "Inl SIGPROT" m] kk
    by (simp add: run_load_trap ldr_ok_4096 direct_results)
  have scalar: "run_scalar_address_load_child os k m variant = 0" if "enterable variant" for variant
    using out [OF that, of PROGRAM_LOAD_C0_OFFSET 8 "[ANum (junk os 0)]" "Inl SIGPROT" m] kk
    unfolding run_scalar_address_load_child_def Let_def
    by (subst direct_wait_trap) (simp_all add: ldr_ok_8 direct_results)
  have const: "run_const42_child os k m variant = 0" if "enterable variant" for variant
    using out [OF that, of PROGRAM_CONST42 0 "[]" "Inr 42" m] kk
    unfolding run_const42_child_def by (subst direct_wait_return) (simp_all add: direct_results)
  have tag: "run_tag_child os k m variant = 0" if "enterable variant" for variant
    using out [OF that, of PROGRAM_TAG_C0 0 "[ACap 0]" "Inr 1" m] kk
    unfolding run_tag_child_def by (subst direct_wait_return) (simp_all add: direct_results)
  have len: "run_len_child os k m variant = 0" if "enterable variant" for variant
    using out [OF that, of PROGRAM_LEN_C0 0 "[ACap 0]" "Inr 16" m] kk
    unfolding run_len_child_def
    by (subst direct_wait_return) (simp_all add: direct_results direct_mem_def)
  have ctl: "run_procctl_load_child os k m variant p w = 0" if "enterable variant" for variant p w
    using load8 [OF that, of "apply_procctl k PROC_WXMAP_CTL w (apply_procctl k PROC_PROTMAX_CTL p m)"]
    by (simp only: run_procctl_load_child_def run_load_child_def Let_def if_False)
  show ?thesis
    using direct_cases_variants [OF assms(4)] load8 load4096 scalar const tag len ctl run_elf [OF assms(3)]
    by (auto dest!: variants_enterable)
qed

text \<open>C10: the reproduction succeeds on a machine that enforces capabilities. If fork, wait
  and sigaction succeed, the kernel maps and protects pages within the maximum protection
  asked for, and the processor executes the words of an executable page that is entered at
  its capability-mode (odd) address, then all 39 children end as expected and \<open>main\<close> returns
  0, whatever \<open>procctl\<close> answers: the loads inside the array return its second word, the load
  at 4096 and the load through the array's address trap. An even entry, a page that ends
  without execute permission or a protection outside the maximum is not covered by the
  contract, so the proof needs the bit that \<open>make_entry_cap\<close> sets and the protections of
  every variant.\<close>
theorem direct_main_accepts:
  assumes "cpu_conforms k perm" and "kernel_maps k perm" and "\<forall>i. direct_kernel_ok (env i)"
  shows "direct_main env k m = 0"
  unfolding direct_main_zero
proof (intro allI impI)
  fix i assume "i < length direct_cases"
  then have "direct_cases ! i \<in> set direct_cases" by simp
  then show "direct_run k m (env i) (direct_cases ! i) = 0"
    using assms by (intro direct_case_accepted) auto
qed

theorem direct_main_accepts_witness: "direct_main demo_os demo_vmk demo_kernel_state = 0"
  by (rule direct_main_accepts [OF demo_cpu demo_maps]) (simp add: demo_direct_kernel)

end
