(* ===== verification/Suite_Tail.thy ===== *)
theory Suite_Tail
  imports Suite_Direct Suite_Objjit
begin

text \<open>
  Two early proofs of concept for context loads. \<open>test_cheri_tail_helper_context.c\<close>
  recognises the two-instruction program \<open>r0 = *(u64 *)(r1 + off); exit\<close> and emits a tail
  call to a C helper; \<open>test_cheri_context_load.c\<close> compiles the same program with \<open>ubpf\<close>.
  Both run an in-bounds and an out-of-bounds load in children without signal handlers.
\<close>

section \<open>The tail-helper compiler\<close>

definition tail_words :: "u32 \<Rightarrow> u32 list" where
  "tail_words offset =
     [0xc2c1d003, 0xc2c1d020, 0xaa0203e1, 0xd2800002 OR push_bit 5 offset, 0xc2c21060]"

text \<open>\<open>page\<close> is what \<open>mmap\<close> returns; the result is the return code and the code page.\<close>

definition compile_final_context_load_tail_helper ::
  "u8 list option \<Rightarrow> u8 list \<Rightarrow> (int \<times> u8 list option) proc" where
  "compile_final_context_load_tail_helper page prog =
     (if length prog \<noteq> 16 \<or> prog ! 0 \<noteq> 0x79 \<or> insn_dst prog \<noteq> 0 \<or> insn_src prog \<noteq> 1 \<or> prog ! 8 \<noteq> 0x95
      then pret (1, None)
      else let offset = read_i16 (drop 2 prog) in
        if offset < 0 then pret (1, None)
        else case page of None \<Rightarrow> pret (1, None)
        | Some code \<Rightarrow>
          pbind (emit_u32 Map.empty 0xc2c1d003 (code, 0)) (\<lambda>p1.
          pbind (emit_u32 Map.empty 0xc2c1d020 p1) (\<lambda>p2.
          pbind (emit_u32 Map.empty 0xaa0203e1 p2) (\<lambda>p3.
          pbind (emit_u32 Map.empty (0xd2800002 OR push_bit 5 (word_of_int offset)) p3) (\<lambda>p4.
          pbind (emit_u32 Map.empty 0xc2c21060 p4) (\<lambda>p5. pret (0, Some (fst p5))))))))"

definition tail_supported :: "u8 list \<Rightarrow> bool" where
  "tail_supported prog \<longleftrightarrow> length prog = 16 \<and> prog ! 0 = 0x79 \<and> insn_dst prog = 0 \<and>
     insn_src prog = 1 \<and> prog ! 8 = 0x95 \<and> 0 \<le> read_i16 (drop 2 prog)"

lemma length_tail_words: "length (tail_words offset) = 5"
  by (simp add: tail_words_def)

lemma tail_compile_result:
  assumes "\<forall>code. page = Some code \<longrightarrow> 20 \<le> length code"
  shows "compile_final_context_load_tail_helper page prog s =
    (Inr (if tail_supported prog \<and> page \<noteq> None
      then (0, Some (words_bytes (tail_words (word_of_int (read_i16 (drop 2 prog)))) @ drop 20 (the page)))
      else (1, None)), s)"
  using assms
  by (auto simp: compile_final_context_load_tail_helper_def tail_supported_def tail_words_def Let_def
      pret_def pbind_def emit_1 emit_2 emit_3 emit_4 emit_5 split: option.splits)

lemma read_i16_range: "read_i16 p < 32768"
proof -
  have "sint (w :: u16) < 2 ^ 15" for w using sint_lt [of w] by simp
  then show ?thesis by (simp add: read_i16_def)
qed

lemma tail_offset_word:
  assumes "tail_supported prog"
  shows "unat (word_of_int (read_i16 (drop 2 prog)) :: u32) = nat (read_i16 (drop 2 prog))"
proof -
  have "0 \<le> read_i16 (drop 2 prog)" "read_i16 (drop 2 prog) < 2 ^ 32"
    using assms read_i16_range [of "drop 2 prog"] by (simp_all add: tail_supported_def)
  then show ?thesis by (simp add: unsigned_of_int take_bit_int_eq_self)
qed

lemma tail_words_run:
  assumes "unat offset < 0x10000"
  shows "mrun m (tail_words offset) (args [AHelper, a, ANum l]) = MHelper a (ANum l) (ANum (ucast offset))"
  using decode_movz_x2 [OF assms]
  by (simp add: tail_words_def decode_emitted args_def set_mreg_def)

section \<open>Its children\<close>

text \<open>\<open>enter\<close> is the processor: a call of the page with the helper, the context and its
  length. Neither parent looks at the result of \<open>fork\<close> or \<open>waitpid\<close>: without a status the
  variable keeps its initial 0.\<close>

type_synonym tail_jit = "u8 list \<Rightarrow> aval list \<Rightarrow> memory \<Rightarrow> int + u64"

definition unchecked_status :: "os \<Rightarrow> ending option \<Rightarrow> wait_status" where
  "unchecked_status os child = (case waitpid_status os child of None \<Rightarrow> Exited 0 | Some st \<Rightarrow> st)"

definition words_memory :: "u64 list \<Rightarrow> memory" where
  "words_memory ws = cheri_memory ws (machine_stack 0)"

definition run_child_expect_value :: "os \<Rightarrow> tail_jit \<Rightarrow> u8 list \<Rightarrow> u64 \<Rightarrow> nat" where
  "run_child_expect_value os enter page expected =
     (let mem = [0x1111111111111111, 0xfeedfacecafebeef];
          status = unchecked_status os (forked os (
            pbind (pcall Map.empty (enter page [AHelper, ACap 0, ANum (of_nat (8 * length mem))]
                (words_memory mem))) (\<lambda>result.
            pexit (if result = expected then 0 else 2))))
      in if WIFSIGNALED status then 1
         else if \<not> WIFEXITED status \<or> WEXITSTATUS status \<noteq> 0 then 1 else 0)"

definition run_child_expect_trap :: "os \<Rightarrow> tail_jit \<Rightarrow> u8 list \<Rightarrow> nat" where
  "run_child_expect_trap os enter page =
     (let mem = [0x1111111111111111, 0x2222222222222222];
          status = unchecked_status os (forked os (
            pbind (pcall Map.empty (enter page [AHelper, ACap 0, ANum (of_nat (8 * length mem))]
                (words_memory mem))) (\<lambda>result. pexit 2)))
      in if WIFSIGNALED status then 0 else 1)"

definition tail_in_bounds_prog :: "u8 list" where
  "tail_in_bounds_prog = program INSN [(0x79, 0, 1, 8, 0), (0x95, 0, 0, 0, 0)]"

definition tail_oob_prog :: "u8 list" where
  "tail_oob_prog = program INSN [(0x79, 0, 1, 4096, 0), (0x95, 0, 0, 0, 0)]"

text \<open>The two pages are the answers to the two calls of \<open>mmap\<close>.\<close>

text \<open>What \<open>main\<close> does with a compilation: a return code other than 0 ends the program.\<close>

definition tail_compiled :: "u8 list option \<Rightarrow> u8 list \<Rightarrow> u8 list option" where
  "tail_compiled page prog =
     (case fst (compile_final_context_load_tail_helper page prog start) of
        Inr (rc, out) \<Rightarrow> if rc \<noteq> 0 then None else out
      | Inl _ \<Rightarrow> None)"

definition tail_main :: "(nat \<Rightarrow> os) \<Rightarrow> tail_jit \<Rightarrow> u8 list option \<Rightarrow> u8 list option \<Rightarrow> nat" where
  "tail_main env enter page1 page2 =
     (case tail_compiled page1 tail_in_bounds_prog of None \<Rightarrow> 1
      | Some in_bounds \<Rightarrow>
        (case tail_compiled page2 tail_oob_prog of None \<Rightarrow> 1
         | Some oob \<Rightarrow>
           let failures = run_child_expect_value (env 0) enter in_bounds 0xfeedfacecafebeef +
                 run_child_expect_trap (env 1) enter oob
           in if failures = 0 then 0 else 1))"

lemma expect_value_iff:
  "run_child_expect_value os enter page expected = 0 \<longleftrightarrow>
     (fork_ok os \<and> waitpid_ok os \<longrightarrow>
       enter page [AHelper, ACap 0, ANum 16] (words_memory [0x1111111111111111, 0xfeedfacecafebeef])
         = Inr expected)"
  by (cases "fork_ok os"; cases "waitpid_ok os";
      cases "enter page [AHelper, ACap 0, ANum 16] (words_memory [0x1111111111111111, 0xfeedfacecafebeef])")
    (simp_all add: run_child_expect_value_def unchecked_status_def waitpid_status_def forked_def
      child_end_bind pcall_def pexit_def deliver_def Let_def)

lemma expect_trap_iff:
  "run_child_expect_trap os enter page = 0 \<longleftrightarrow> fork_ok os \<and> waitpid_ok os \<and>
     (\<exists>sg. enter page [AHelper, ACap 0, ANum 16]
        (words_memory [0x1111111111111111, 0x2222222222222222]) = Inl sg)"
  by (cases "fork_ok os"; cases "waitpid_ok os";
      cases "enter page [AHelper, ACap 0, ANum 16] (words_memory [0x1111111111111111, 0x2222222222222222])")
    (simp_all add: run_child_expect_trap_def unchecked_status_def waitpid_status_def forked_def
      child_end_bind pcall_def pexit_def deliver_def Let_def)

section \<open>The \<open>ubpf\<close> version\<close>

definition cl_compile_program :: "'v ubpf \<Rightarrow> u8 list \<Rightarrow> jit_fn option proc" where
  "cl_compile_program v prog =
     (case ubpf_create v of None \<Rightarrow> pret None
      | Some vm \<Rightarrow> pseq (acquire Vm)
        (case ubpf_load v vm prog of
           Inl errmsg \<Rightarrow> pseq (acquire_msg errmsg) (pseq (free_msg errmsg)
             (pseq (release Vm) (pret None)))
         | Inr vm' \<Rightarrow> (case ubpf_compile v vm' of
             Inl errmsg \<Rightarrow> pseq (acquire_msg errmsg) (pseq (free_msg errmsg)
               (pseq (release Vm) (pret None)))
           | Inr fn \<Rightarrow> pret (Some fn))))"

lemma cl_compile_program_same: "cl_compile_program = compile_with_ubpf"
  by (simp add: fun_eq_iff cl_compile_program_def compile_with_ubpf_def)

definition cl_in_bounds_prog :: "u8 list" where
  "cl_in_bounds_prog = program INSN [(0x79, 0, 1, 8, 0), (0x95, 0, 0, 0, 0)]"

definition cl_oob_prog :: "u8 list" where
  "cl_oob_prog = program INSN [(0x79, 0, 1, 4096, 0), (0x95, 0, 0, 0, 0)]"

definition run_in_bounds_context_load :: "'v ubpf \<Rightarrow> int proc" where
  "run_in_bounds_context_load v =
     (let mem = [0x1111111111111111, 0xfeedfacecafebeef] in
      pbind (cl_compile_program v cl_in_bounds_prog) (\<lambda>fn_opt.
      case fn_opt of None \<Rightarrow> pret 1
      | Some fn \<Rightarrow>
        pbind (pcall Map.empty (fn (words_object mem) (8 * length mem))) (\<lambda>result.
        if result \<noteq> mem ! 1 then pret 1 else pret 0)))"

definition run_child_and_wait :: "os \<Rightarrow> int proc \<Rightarrow> nat" where
  "run_child_and_wait os child_fn =
     (case waitpid_status os (forked os child_fn) of None \<Rightarrow> 1
      | Some status \<Rightarrow>
        if WIFSIGNALED status then 1
        else let exit_status = (if WIFEXITED status then WEXITSTATUS status else 1) in
          if exit_status \<noteq> 0 then 1 else 0)"

text \<open>The out-of-bounds program is compiled in the parent.\<close>

definition test_oob_context_load_faults :: "os \<Rightarrow> 'v ubpf \<Rightarrow> nat" where
  "test_oob_context_load_faults os v =
     (let mem = [0x1111111111111111, 0x2222222222222222] in
      case fst (cl_compile_program v cl_oob_prog start) of
        Inr (Some fn) \<Rightarrow>
          (case waitpid_status os (forked os (
              pbind (pcall Map.empty (fn (words_object mem) (8 * length mem))) (\<lambda>result. pexit 2))) of
             None \<Rightarrow> 1
           | Some status \<Rightarrow> if WIFSIGNALED status then 0 else 1)
      | _ \<Rightarrow> 1)"

definition cl_main :: "(nat \<Rightarrow> os) \<Rightarrow> 'v ubpf \<Rightarrow> nat" where
  "cl_main env v =
     (let failures = run_child_and_wait (env 0) (run_in_bounds_context_load v) +
        test_oob_context_load_faults (env 1) v
      in if failures = 0 then 0 else 1)"

lemma in_bounds_passes:
  "run_child_and_wait os (run_in_bounds_context_load v) = 0 \<longleftrightarrow>
     fork_ok os \<and> waitpid_ok os \<and>
     (\<exists>fn. compiled v cl_in_bounds_prog = Some fn \<and>
       fn (words_object [0x1111111111111111, 0xfeedfacecafebeef]) 16 = Inr 0xfeedfacecafebeef)"
  by (auto simp: run_child_and_wait_def waitpid_status_def forked_def run_in_bounds_context_load_def
      child_end_bind cl_compile_program_same compile_with_ubpf_start pbind_def pcall_def pret_def
      deliver_def Let_def split: option.splits sum.splits if_splits)

lemma oob_child:
  "child_end (pbind (pcall Map.empty r) (\<lambda>result. pexit 2)) =
     (case r of Inl sg \<Rightarrow> Dies sg | Inr _ \<Rightarrow> Exits 2)"
  by (cases r) (simp_all add: child_end_bind pcall_def pexit_def deliver_def)

lemma oob_passes:
  "test_oob_context_load_faults os v = 0 \<longleftrightarrow>
     fork_ok os \<and> waitpid_ok os \<and>
     (\<exists>fn sg. compiled v cl_oob_prog = Some fn \<and>
       fn (words_object [0x1111111111111111, 0x2222222222222222]) 16 = Inl sg)"
proof (cases "compiled v cl_oob_prog")
  case None
  then show ?thesis
    by (simp add: test_oob_context_load_faults_def cl_compile_program_same compile_with_ubpf_start)
next
  case (Some fn)
  then show ?thesis
    by (cases "fork_ok os"; cases "waitpid_ok os";
        cases "fn (words_object [0x1111111111111111, 0x2222222222222222]) 16")
      (simp_all add: test_oob_context_load_faults_def cl_compile_program_same
        compile_with_ubpf_start waitpid_status_def forked_def oob_child Let_def)
qed

section \<open>What the two proofs of concept show\<close>

lemma tail_fields:
  assumes "tail_supported prog"
  shows "\<exists>i. read_fields (insn_at prog 0) = (0x79, 0, 1, read_i16 (drop 2 prog), i)"
    and "\<exists>d s e i. read_fields (insn_at prog 1) = (0x95, d, s, e, i)"
proof -
  have l: "length prog = 16" using assms by (simp add: tail_supported_def)
  have "read_i16 (drop 2 (take 8 prog)) = read_i16 (drop 2 prog)"
    using l by (simp add: read_i16_def)
  moreover have "insn_dst (take 8 prog) = insn_dst prog" "insn_src (take 8 prog) = insn_src prog"
    using l by (simp_all add: insn_dst_def insn_src_def)
  ultimately show "\<exists>i. read_fields (insn_at prog 0) = (0x79, 0, 1, read_i16 (drop 2 prog), i)"
    using assms l by (simp add: read_fields_def insn_at_def tail_supported_def)
  show "\<exists>d s e i. read_fields (insn_at prog 1) = (0x95, d, s, e, i)"
    using assms l by (simp add: read_fields_def insn_at_def tail_supported_def)
qed

text \<open>What the machine makes of a supported program: the load of the helper.\<close>

lemma tail_machine:
  assumes "tail_supported prog"
  shows "run Cheri h prog 2 (entry Cheri m len) =
    Some (case ctx_load_u64_helper Cheri (MemObj, 0) len (word_of_int (read_i16 (drop 2 prog))) m of
      Inl f \<Rightarrow> Faulted f | Inr (v, _) \<Rightarrow> Returned v)"
proof -
  obtain i d s e j where f: "read_fields (insn_at prog 0) = (0x79, 0, 1, read_i16 (drop 2 prog), i)"
    "read_fields (insn_at prog (Suc 0)) = (0x95, d, s, e, j)"
    using tail_fields [OF assms] by auto
  have l: "length prog = 16" using assms by (simp add: tail_supported_def)
  have "run Cheri h prog (Suc (Suc 0)) (entry Cheri m len) =
    Some (case ctx_load_u64_helper Cheri (MemObj, 0) len (word_of_int (read_i16 (drop 2 prog))) m of
      Inl f \<Rightarrow> Faulted f | Inr (v, _) \<Rightarrow> Returned v)"
    by (cases "mem_load Cheri m (padd (MemObj, 0) (word_of_int (read_i16 (drop 2 prog)))) 8")
      (simp_all add: step_def l f step_fields_def load_reg_def next_pc_def set_reg_def
        step_exit_def entry_def ctx_load_u64_helper_def rd64_load width_of_def Let_def)
  then show ?thesis by (simp add: numeral_2_eq_2)
qed

text \<open>C3: the tail-helper compiler is correct on the programs it accepts. For a supported
  program it reports success and fills the page with five words that, entered with the
  helper, the context pointer and its length, leave for the helper with the context, the
  length and the instruction's offset; and what the helper then loads, or the bounds trap
  it takes, is what eBPF defines for the program. Every other program is refused with 1.\<close>
theorem tail_helper_refines_bpf:
  assumes "20 \<le> length code"
  shows "if tail_supported prog
    then \<exists>page. compile_final_context_load_tail_helper (Some code) prog s = (Inr (0, Some page), s) \<and>
      mrun m (page_words page 5) (args [AHelper, ACap 0, ANum len]) =
        MHelper (ACap 0) (ANum len) (ANum (word_of_int (read_i16 (drop 2 prog)))) \<and>
      run Cheri h prog 2 (entry Cheri m len) =
        Some (case ctx_load_u64_helper Cheri (MemObj, 0) len (word_of_int (read_i16 (drop 2 prog))) m of
          Inl f \<Rightarrow> Faulted f | Inr (v, _) \<Rightarrow> Returned v)
    else compile_final_context_load_tail_helper (Some code) prog s = (Inr (1, None), s)"
proof (cases "tail_supported prog")
  case True
  let ?off = "read_i16 (drop 2 prog)"
  let ?page = "words_bytes (tail_words (word_of_int ?off)) @ drop 20 code"
  have "0 \<le> ?off" using True by (simp add: tail_supported_def)
  then have "unat (word_of_int ?off :: u32) < 0x10000" "ucast (word_of_int ?off :: u32) = (word_of_int ?off :: u64)"
    using read_i16_range [of "drop 2 prog"] tail_offset_word [OF True]
    by (simp_all add: nat_less_iff word_uint_eq_iff unsigned_ucast_eq unsigned_of_int take_bit_int_eq_self)
  then have "mrun m (tail_words (word_of_int ?off)) (args [AHelper, ACap 0, ANum len]) =
      MHelper (ACap 0) (ANum len) (ANum (word_of_int ?off))"
    by (simp add: tail_words_run)
  moreover have "page_words ?page 5 = tail_words (word_of_int ?off)"
    using page_words_emitted [of "tail_words (word_of_int ?off)" "drop 20 code"]
    unfolding length_tail_words .
  ultimately show ?thesis
    using True assms tail_machine [OF True] by (simp add: tail_compile_result)
next
  case False
  then show ?thesis using assms by (simp add: tail_compile_result)
qed

lemma tail_programs_supported: "tail_supported tail_in_bounds_prog" "tail_supported tail_oob_prog"
  by (simp_all add: tail_supported_def tail_in_bounds_prog_def tail_oob_prog_def program_def INSN_def
      read_i16_def insn_dst_def insn_src_def)

theorem tail_helper_refines_bpf_witness:
  "\<exists>page. compile_final_context_load_tail_helper (Some (replicate 4096 0)) tail_in_bounds_prog start =
     (Inr (0, Some page), start)"
  using tail_helper_refines_bpf [where code = "replicate 4096 0" and prog = tail_in_bounds_prog
      and s = start and m = direct_memory and len = 16 and h = no_helper]
  by (auto simp: tail_programs_supported)

text \<open>C37: the expected-value child of the tail-helper program passes when it never ran. If
  \<open>fork\<close> fails, \<open>waitpid\<close> fails too, the status keeps its initial 0, and the parent
  reports that the in-bounds load matched.\<close>
theorem tail_fork_failure_passes:
  assumes "\<not> fork_ok os"
  shows "run_child_expect_value os enter page expected = 0"
  using assms by (simp add: expect_value_iff)

theorem tail_fork_failure_passes_witness:
  "run_child_expect_value (demo_os 0\<lparr>fork_ok := False\<rparr>) (\<lambda>_ _ _. Inr 1) [] 2 = 0"
  by (rule tail_fork_failure_passes) simp

end
