(* ===== verification/Suite_Loader.thy ===== *)
theory Suite_Loader
  imports Sigprot_Child Suite_Generated Fixtures
begin

text \<open>
  The two programs that call code a dynamic loader mapped: \<open>test_cheri_loader_jit_repro.c\<close>
  loads the compiled C payload, \<open>test_cheri_objjit_context_repro.c\<close> the objects generated
  for a load at offset 8 and at offset 4096. The loader is a parameter. The interface both
  rely on is the locale \<open>loader_client\<close>: when a call passes, and what the two cases of
  \<open>main\<close> then show.
\<close>

section \<open>The loader\<close>

text \<open>A loaded function is called on the two-word array. \<open>dl_sym\<close> returns an address and
  what \<open>dlerror\<close> then says.\<close>

type_synonym load_fn = "object \<Rightarrow> int + u64"

record 'h dl =
  dl_open :: "string \<Rightarrow> 'h option"
  dl_sym :: "'h \<Rightarrow> string \<Rightarrow> load_fn \<times> string option"

definition loader_mem :: "u64 list" where
  "loader_mem = [0x1111111111111111, 0xfeedfacecafebeef]"

definition resolved :: "'h dl \<Rightarrow> string \<Rightarrow> string \<Rightarrow> load_fn option" where
  "resolved d lib sy =
     (case dl_open d lib of None \<Rightarrow> None
      | Some h \<Rightarrow> (case dl_sym d h sy of (fn, None) \<Rightarrow> Some fn | (fn, Some _) \<Rightarrow> None))"

section \<open>\<open>test_cheri_loader_jit_repro.c\<close>\<close>

definition LIB_PATH :: string where
  "LIB_PATH = ''/mnt/libcheri_loader_jit_payload.so''"

definition lj_sigprot_handler :: "bool \<Rightarrow> int" where
  "lj_sigprot_handler expect_sigprot = (if expect_sigprot then 0 else 31)"

definition lj_install_sigprot_handler :: "os \<Rightarrow> bool \<Rightarrow> handlers proc" where
  "lj_install_sigprot_handler os expect_trap =
     (if \<not> sigaction_ok os SIGPROT then pexit 11
      else pret [SIGPROT \<mapsto> lj_sigprot_handler expect_trap])"

definition lj_wait_for_child :: "os \<Rightarrow> ending option \<Rightarrow> bool \<Rightarrow> nat" where
  "lj_wait_for_child os child expect_trap =
     (case waitpid_status os child of None \<Rightarrow> 1
      | Some status \<Rightarrow>
        if WIFSIGNALED status then (if expect_trap then 0 else 1)
        else let exit_status = (if WIFEXITED status then WEXITSTATUS status else 99) in
          if expect_trap then (if exit_status = 20 then 1 else 0)
          else (if exit_status = 0 then 0 else 1))"

definition loaded_call_child :: "os \<Rightarrow> 'h dl \<Rightarrow> string \<Rightarrow> bool \<Rightarrow> int proc" where
  "loaded_call_child os d sy expect_trap =
     pbind (lj_install_sigprot_handler os expect_trap) (\<lambda>h.
     case dl_open d LIB_PATH of None \<Rightarrow> pexit 10
     | Some lib \<Rightarrow>
       (case dl_sym d lib sy of
          (fn, Some err) \<Rightarrow> pexit 11
        | (fn, None) \<Rightarrow>
          pbind (pcall h (fn (words_object loader_mem))) (\<lambda>result.
          if expect_trap then pexit 20
          else pexit (if result = loader_mem ! 1 then 0 else 21))))"

definition run_loaded_call :: "os \<Rightarrow> 'h dl \<Rightarrow> string \<Rightarrow> bool \<Rightarrow> nat" where
  "run_loaded_call os d sy expect_trap =
     lj_wait_for_child os (forked os (loaded_call_child os d sy expect_trap)) expect_trap"

definition loader_main :: "(nat \<Rightarrow> os) \<Rightarrow> 'h dl \<Rightarrow> nat" where
  "loader_main env d =
     (let failures = run_loaded_call (env 0) d ''loader_jit_load_u64'' False +
        run_loaded_call (env 1) d ''loader_jit_load_u64_oob'' True
      in if failures = 0 then 0 else 1)"

section \<open>\<open>test_cheri_objjit_context_repro.c\<close>\<close>

definition IN_BOUNDS_LIB :: string where
  "IN_BOUNDS_LIB = ''/mnt/cheri_objjit_offset_8.so''"

definition OOB_LIB :: string where
  "OOB_LIB = ''/mnt/cheri_objjit_offset_4096.so''"

definition ENTRY_SYMBOL :: string where
  "ENTRY_SYMBOL = ''bpf_entry''"

definition oc_sigprot_handler :: "bool \<Rightarrow> int" where
  "oc_sigprot_handler expect_sigprot = (if expect_sigprot then 0 else 31)"

definition oc_install_sigprot_handler :: "os \<Rightarrow> bool \<Rightarrow> handlers proc" where
  "oc_install_sigprot_handler os expect_trap =
     (if \<not> sigaction_ok os SIGPROT then pexit 11
      else pret [SIGPROT \<mapsto> oc_sigprot_handler expect_trap])"

definition oc_wait_for_child :: "os \<Rightarrow> ending option \<Rightarrow> bool \<Rightarrow> nat" where
  "oc_wait_for_child os child expect_trap =
     (case waitpid_status os child of None \<Rightarrow> 1
      | Some status \<Rightarrow>
        if WIFSIGNALED status then (if expect_trap then 0 else 1)
        else let exit_status = (if WIFEXITED status then WEXITSTATUS status else 99) in
          if expect_trap then (if exit_status = 20 then 1 else 0)
          else (if exit_status = 0 then 0 else 1))"

definition generated_object_child :: "os \<Rightarrow> 'h dl \<Rightarrow> string \<Rightarrow> bool \<Rightarrow> int proc" where
  "generated_object_child os d lib_path expect_trap =
     pbind (oc_install_sigprot_handler os expect_trap) (\<lambda>h.
     case dl_open d lib_path of None \<Rightarrow> pexit 10
     | Some lib \<Rightarrow>
       (case dl_sym d lib ENTRY_SYMBOL of
          (fn, Some err) \<Rightarrow> pexit 11
        | (fn, None) \<Rightarrow>
          pbind (pcall h (fn (words_object loader_mem))) (\<lambda>result.
          if expect_trap then pexit 20
          else pexit (if result = loader_mem ! 1 then 0 else 21))))"

definition run_generated_object :: "os \<Rightarrow> 'h dl \<Rightarrow> string \<Rightarrow> bool \<Rightarrow> nat" where
  "run_generated_object os d lib_path expect_trap =
     oc_wait_for_child os (forked os (generated_object_child os d lib_path expect_trap)) expect_trap"

definition objctx_main :: "(nat \<Rightarrow> os) \<Rightarrow> 'h dl \<Rightarrow> nat" where
  "objctx_main env d =
     (let failures = run_generated_object (env 0) d IN_BOUNDS_LIB False +
        run_generated_object (env 1) d OOB_LIB True
      in if failures = 0 then 0 else 1)"

lemma loader_copies:
  "lj_sigprot_handler = sigprot_handler" "oc_sigprot_handler = sigprot_handler"
  "lj_install_sigprot_handler = install_sigprot_handler"
  "oc_install_sigprot_handler = install_sigprot_handler"
  "lj_wait_for_child = wait_for_child" "oc_wait_for_child = wait_for_child"
  by (simp_all add: fun_eq_iff lj_sigprot_handler_def oc_sigprot_handler_def sigprot_handler_def
      lj_install_sigprot_handler_def oc_install_sigprot_handler_def install_sigprot_handler_def
      lj_wait_for_child_def oc_wait_for_child_def wait_for_child_def)

section \<open>What a call through the loader shows\<close>

text \<open>\<open>find\<close> is how a case resolves its function, \<open>call\<close> runs the case in a child.\<close>

locale loader_client =
  fixes find :: "'h dl \<Rightarrow> string \<Rightarrow> load_fn option"
    and call :: "os \<Rightarrow> 'h dl \<Rightarrow> string \<Rightarrow> bool \<Rightarrow> nat"
  assumes call_return: "call os d c False = 0 \<longleftrightarrow>
      fork_ok os \<and> waitpid_ok os \<and> sigaction_ok os SIGPROT \<and>
      (\<exists>fn. find d c = Some fn \<and> fn (words_object loader_mem) = Inr (loader_mem ! 1))"
    and call_trap: "call os d c True = 0 \<longleftrightarrow>
      fork_ok os \<and> waitpid_ok os \<and>
      (sigaction_ok os SIGPROT \<longrightarrow> (\<forall>fn r. find d c = Some fn \<longrightarrow> fn (words_object loader_mem) \<noteq> Inr r))"
begin

lemma differential:
  assumes "\<forall>i. kernel_ok (env i)"
    and "find d a = Some f" "f (words_object loader_mem) = Inr (loader_mem ! 1)"
    and "\<forall>g r. find d b = Some g \<longrightarrow> g (words_object loader_mem) \<noteq> Inr r"
  shows "call (env (0::nat)) d a False + call (env 1) d b True = 0"
  using assms by (simp add: call_return call_trap kernel_ok_def signals_ok_def)

lemma only_inner_call_matters:
  assumes "\<forall>i. kernel_ok (env i)" and "find d b = None"
  shows "call (env (0::nat)) d a False + call (env 1) d b True = 0 \<longleftrightarrow>
    (\<exists>f. find d a = Some f \<and> f (words_object loader_mem) = Inr (loader_mem ! 1))"
  using assms by (simp add: call_return call_trap kernel_ok_def signals_ok_def)

end

text \<open>Both children are the same function of the library, the symbol and the flag.\<close>

definition loader_end :: "os \<Rightarrow> 'h dl \<Rightarrow> string \<Rightarrow> string \<Rightarrow> bool \<Rightarrow> ending" where
  "loader_end os d lib sy trap =
     (if \<not> sigaction_ok os SIGPROT then Exits 11
      else case resolved d lib sy of
        None \<Rightarrow> Exits (if dl_open d lib = None then 10 else 11)
      | Some fn \<Rightarrow> judged_end (fn (words_object loader_mem)) (\<lambda>r. r = loader_mem ! 1) trap)"

lemma loaded_call_end:
  "child_end (loaded_call_child os d sy trap) = loader_end os d LIB_PATH sy trap"
proof (cases "dl_open d LIB_PATH")
  case None
  then show ?thesis
    by (simp add: loaded_call_child_def loader_end_def child_end_bind loader_copies
        install_sigprot_handler_cases resolved_def pexit_def)
next
  case (Some lib)
  obtain fn err where "dl_sym d lib sy = (fn, err)" by fastforce
  with Some show ?thesis
    by (cases err; cases "fn (words_object loader_mem)")
      (simp_all add: loaded_call_child_def loader_end_def child_end_bind loader_copies
        install_sigprot_handler_cases resolved_def proc_defs judged_end_def deliver_def)
qed

lemma generated_object_end:
  "child_end (generated_object_child os d lib trap) = loader_end os d lib ENTRY_SYMBOL trap"
proof (cases "dl_open d lib")
  case None
  then show ?thesis
    by (simp add: generated_object_child_def loader_end_def child_end_bind loader_copies
        install_sigprot_handler_cases resolved_def pexit_def)
next
  case (Some obj)
  obtain fn err where "dl_sym d obj ENTRY_SYMBOL = (fn, err)" by fastforce
  with Some show ?thesis
    by (cases err; cases "fn (words_object loader_mem)")
      (simp_all add: generated_object_child_def loader_end_def child_end_bind loader_copies
        install_sigprot_handler_cases resolved_def proc_defs judged_end_def deliver_def)
qed

lemmas loader_children = loaded_call_end generated_object_end

lemma loader_end_passes:
  "wait_for_child os (if fork_ok os then Some (loader_end os d lib sy False) else None) False = 0 \<longleftrightarrow>
     fork_ok os \<and> waitpid_ok os \<and> sigaction_ok os SIGPROT \<and>
     (\<exists>fn. resolved d lib sy = Some fn \<and> fn (words_object loader_mem) = Inr (loader_mem ! 1))"
  "wait_for_child os (if fork_ok os then Some (loader_end os d lib sy True) else None) True = 0 \<longleftrightarrow>
     fork_ok os \<and> waitpid_ok os \<and>
     (sigaction_ok os SIGPROT \<longrightarrow>
       (\<forall>fn r. resolved d lib sy = Some fn \<longrightarrow> fn (words_object loader_mem) \<noteq> Inr r))"
  by (auto simp: wait_for_child_return wait_for_child_trap loader_end_def judged_end_def
      sigprot_handler_def split: option.splits sum.splits if_splits)

interpretation lj: loader_client "\<lambda>d. resolved d LIB_PATH" run_loaded_call
  by unfold_locales
    (simp_all only: run_loaded_call_def loader_copies forked_def loader_children loader_end_passes)

interpretation oc: loader_client "\<lambda>d lib. resolved d lib ENTRY_SYMBOL" run_generated_object
  by unfold_locales
    (simp_all only: run_generated_object_def loader_copies forked_def loader_children loader_end_passes)

section \<open>The two programs\<close>

text \<open>What a C function of the payload shows its caller.\<close>

definition payload_outcome :: "u64 mop \<Rightarrow> object \<Rightarrow> int + u64" where
  "payload_outcome f stack =
     (case f (cheri_memory loader_mem stack) of
        Inl e \<Rightarrow> Inl (fault_signal e) | Inr (v, _) \<Rightarrow> Inr v)"

lemma payload_outcomes:
  "payload_outcome (loader_jit_load_u64 Cheri (MemObj, 0)) stack = Inr (loader_mem ! 1)"
  "payload_outcome (loader_jit_load_u64_oob Cheri (MemObj, 0)) stack = Inl SIGPROT"
  by (simp_all add: payload_outcome_def loader_jit_load_u64_def loader_jit_load_u64_oob_def
      word_ptr_def padd_def loader_mem_def mem_simps word_in_words_content cheri_memory_def
      bound_memories)

text \<open>C32: the loader reproduction accepts a loader that works. If the kernel calls succeed and
  the two symbols resolve to code that does what the C payload does on the two-word array
  under capability bounds, \<open>main\<close> returns 0: the in-bounds symbol returns the second word
  and the other one traps.\<close>
theorem loader_main_accepts:
  assumes "\<forall>i. kernel_ok (env i)"
    and "resolved d LIB_PATH ''loader_jit_load_u64'' = Some f"
    and "f (words_object loader_mem) = payload_outcome (loader_jit_load_u64 Cheri (MemObj, 0)) stack"
    and "resolved d LIB_PATH ''loader_jit_load_u64_oob'' = Some g"
    and "g (words_object loader_mem) = payload_outcome (loader_jit_load_u64_oob Cheri (MemObj, 0)) stack"
  shows "loader_main env d = 0"
  using lj.differential [OF assms(1,2), of "''loader_jit_load_u64_oob''"] assms(3-5)
  by (simp add: loader_main_def payload_outcomes)

definition demo_dl :: "string dl" where
  "demo_dl = \<lparr>dl_open = (\<lambda>path. if path = OOB_LIB then None else Some path),
     dl_sym = (\<lambda>_ sy. (\<lambda>_. if sy = ''loader_jit_load_u64_oob'' then Inl SIGPROT
       else Inr (loader_mem ! 1), None))\<rparr>"

theorem loader_main_accepts_witness: "loader_main demo_os demo_dl = 0"
  by (rule loader_main_accepts)
    (simp_all add: demo_kernel_ok resolved_def demo_dl_def LIB_PATH_def OOB_LIB_def payload_outcomes)

text \<open>C33: the object reproduction does not notice that its out-of-bounds object is missing. If
  the object for offset 4096 cannot be opened or has no \<open>bpf_entry\<close>, the child exits 10 or
  11, the parent counts that as the trap, and \<open>main\<close> reports the in-bounds/OOB
  differential exactly when the in-bounds call returned the second word.\<close>
theorem objctx_missing_oob_object:
  assumes "\<forall>i. kernel_ok (env i)" and "resolved d OOB_LIB ENTRY_SYMBOL = None"
  shows "objctx_main env d = 0 \<longleftrightarrow>
    (\<exists>f. resolved d IN_BOUNDS_LIB ENTRY_SYMBOL = Some f \<and>
      f (words_object loader_mem) = Inr (loader_mem ! 1))"
  using oc.only_inner_call_matters [OF assms, of IN_BOUNDS_LIB]
  by (simp add: objctx_main_def Let_def)

theorem objctx_missing_oob_object_witness: "objctx_main demo_os demo_dl = 0"
  by (subst objctx_missing_oob_object)
    (simp_all add: demo_kernel_ok resolved_def demo_dl_def OOB_LIB_def IN_BOUNDS_LIB_def ENTRY_SYMBOL_def)

end
