(* ===== verification/Suite_Scalar.thy ===== *)
theory Suite_Scalar
  imports Suite_Objjit
begin

text \<open>
  The scalar smoke tests: \<open>test_m2.c\<close> (moves and arithmetic), \<open>test_m2_jmp.c\<close> (jumps),
  \<open>test_m3.c\<close> (stack accesses), \<open>test42.c\<close> and \<open>ubpf_test.c\<close> (one constant). They run a
  program on the interpreter and on the JIT and print what they saw; apart from
  \<open>ubpf_test.c\<close> their exit status is always 0, so the printed lines are the result and are
  what is modelled.
\<close>

section \<open>Printed lines\<close>

datatype scalar_line =
  Title string
| InterpBlocked
| ResultLine string u64 u64 bool
| CrashLine string int
| LoadFailed string "string option"
| CompileFailed string "string option"
| InterpRc int u64
| PlainResult string u64
| ExitLine string int

definition JIT_LABEL :: "bool \<Rightarrow> string" where
  "JIT_LABEL purecap = (if purecap then ''cheri_jit'' else ''jit'')"

text \<open>A child prints lines and ends. The parent waits and adds a line for a crash; \<open>unset\<close>
  is what the status variable holds when \<open>waitpid\<close> stores nothing, since its result is not
  checked.\<close>

type_synonym printing = "scalar_line list \<times> ending"

definition crash_lines :: "string \<Rightarrow> wait_status \<Rightarrow> scalar_line list" where
  "crash_lines label status =
     (if WIFSIGNALED status then [CrashLine label (WTERMSIG status)] else [])"

definition scalar_status :: "os \<Rightarrow> wait_status \<Rightarrow> ending \<Rightarrow> wait_status" where
  "scalar_status os unset e = (if fork_ok os \<and> waitpid_ok os then status_of e else unset)"

definition scalar_fork :: "os \<Rightarrow> wait_status \<Rightarrow> string \<Rightarrow> printing \<Rightarrow> scalar_line list" where
  "scalar_fork os unset label child =
     (if fork_ok os then fst child else []) @ crash_lines label (scalar_status os unset (snd child))"

definition NULL_object :: object where
  "NULL_object = words_object []"

section \<open>\<open>test_m2.c\<close>\<close>

text \<open>The result of \<open>ubpf_load\<close> is ignored: a failed load leaves the machine without a
  program. Nor is the result of \<open>ubpf_create\<close> checked; \<open>null_vm\<close> is how a child ends that
  hands \<open>ubpf\<close> a null machine.\<close>

definition load_ignored :: "'v ubpf \<Rightarrow> 'v \<Rightarrow> u8 list \<Rightarrow> 'v" where
  "load_ignored v vm prog = (case ubpf_load v vm prog of Inl _ \<Rightarrow> vm | Inr vm' \<Rightarrow> vm')"

definition m2_interp_child :: "ending \<Rightarrow> 'v ubpf \<Rightarrow> u8 list \<Rightarrow> u64 \<Rightarrow> object \<Rightarrow> nat \<Rightarrow> printing" where
  "m2_interp_child null_vm v prog expected mem mem_len =
     (case ubpf_create v of None \<Rightarrow> ([], null_vm)
      | Some vm \<Rightarrow>
        (case ubpf_exec v (load_ignored v vm prog) mem mem_len of
           Inl sg \<Rightarrow> ([], Dies sg)
         | Inr None \<Rightarrow> ([InterpBlocked], Exits 0)
         | Inr (Some r) \<Rightarrow> ([ResultLine ''interp'' r expected (r = expected)], Exits 0)))"

definition m2_jit_child ::
  "string \<Rightarrow> ending \<Rightarrow> 'v ubpf \<Rightarrow> u8 list \<Rightarrow> u64 \<Rightarrow> object \<Rightarrow> nat \<Rightarrow> printing" where
  "m2_jit_child label null_vm v prog expected mem mem_len =
     (case ubpf_create v of None \<Rightarrow> ([], null_vm)
      | Some vm \<Rightarrow>
        (case ubpf_compile v (load_ignored v vm prog) of
           Inl e \<Rightarrow> ([CompileFailed label e], Exits 1)
         | Inr j \<Rightarrow> (case j mem mem_len of
             Inl sg \<Rightarrow> ([], Dies sg)
           | Inr r \<Rightarrow> ([ResultLine label r expected (r = expected)], Exits 0))))"

definition m2_test ::
  "bool \<Rightarrow> os \<times> os \<Rightarrow> wait_status \<Rightarrow> ending \<Rightarrow> 'v ubpf \<Rightarrow> u8 list \<Rightarrow> u64 \<Rightarrow> object \<Rightarrow> nat
    \<Rightarrow> scalar_line list" where
  "m2_test purecap oss unset null_vm v prog expected mem mem_len =
     scalar_fork (fst oss) unset ''interp'' (m2_interp_child null_vm v prog expected mem mem_len) @
     scalar_fork (snd oss) (Exited 0) (JIT_LABEL purecap)
       (m2_jit_child (JIT_LABEL purecap) null_vm v prog expected mem mem_len)"

definition m2_cases :: "(string \<times> u8 list \<times> u64) list" where
  "m2_cases =
    [(''test1: mov64_imm r0=42'',
      program INSN [(0xb7, 0, 0, 0, 42), (0x95, 0, 0, 0, 0)], 42),
     (''test2: mov64_reg r1=42, r0=r1'',
      program INSN [(0xb7, 1, 0, 0, 42), (0xbf, 0, 1, 0, 0), (0x95, 0, 0, 0, 0)], 42),
     (''test3: add64_imm r0=10, r0+=32'',
      program INSN [(0xb7, 0, 0, 0, 10), (0x07, 0, 0, 0, 32), (0x95, 0, 0, 0, 0)], 42),
     (''test4: sub64_imm r0=100, r0-=58'',
      program INSN [(0xb7, 0, 0, 0, 100), (0x17, 0, 0, 0, 58), (0x95, 0, 0, 0, 0)], 42),
     (''test5: add64_reg r1=20, r2=22, r0=r1+r2'',
      program INSN [(0xb7, 1, 0, 0, 20), (0xb7, 2, 0, 0, 22), (0xbf, 0, 1, 0, 0),
        (0x0f, 0, 2, 0, 0), (0x95, 0, 0, 0, 0)], 42),
     (''test6: sub64_reg r1=100, r2=58, r0=r1-r2'',
      program INSN [(0xb7, 1, 0, 0, 100), (0xb7, 2, 0, 0, 58), (0xbf, 0, 1, 0, 0),
        (0x1f, 0, 2, 0, 0), (0x95, 0, 0, 0, 0)], 42),
     (''test7: compound add r0=5+10+20+7'',
      program INSN [(0xb7, 0, 0, 0, 5), (0x07, 0, 0, 0, 10), (0x07, 0, 0, 0, 20),
        (0x07, 0, 0, 0, 7), (0x95, 0, 0, 0, 0)], 42)]"

definition m2_main ::
  "bool \<Rightarrow> (nat \<Rightarrow> os \<times> os) \<Rightarrow> wait_status \<Rightarrow> ending \<Rightarrow> 'v ubpf \<Rightarrow> scalar_line list" where
  "m2_main purecap env unset null_vm v =
     concat (map (\<lambda>(oss, title, prog, expected).
       Title title # m2_test purecap oss unset null_vm v prog expected NULL_object 0)
       (paired env m2_cases))"

section \<open>\<open>test_m2_jmp.c\<close>\<close>

definition jmp_interp_child :: "ending \<Rightarrow> 'v ubpf \<Rightarrow> u8 list \<Rightarrow> u64 \<Rightarrow> printing" where
  "jmp_interp_child null_vm v prog expected =
     (case ubpf_create v of None \<Rightarrow> ([], null_vm)
      | Some vm \<Rightarrow>
        (case ubpf_load v vm prog of
           Inl e \<Rightarrow> ([LoadFailed ''interp'' e], Exits 1)
         | Inr vm' \<Rightarrow> (case ubpf_exec v vm' NULL_object 0 of
             Inl sg \<Rightarrow> ([], Dies sg)
           | Inr None \<Rightarrow> ([InterpBlocked], Exits 0)
           | Inr (Some r) \<Rightarrow> ([ResultLine ''interp'' r expected (r = expected)], Exits 0))))"

definition jmp_jit_child :: "string \<Rightarrow> ending \<Rightarrow> 'v ubpf \<Rightarrow> u8 list \<Rightarrow> u64 \<Rightarrow> printing" where
  "jmp_jit_child label null_vm v prog expected =
     (case ubpf_create v of None \<Rightarrow> ([], null_vm)
      | Some vm \<Rightarrow>
        (case ubpf_load v vm prog of
           Inl e \<Rightarrow> ([LoadFailed label e], Exits 1)
         | Inr vm' \<Rightarrow> (case ubpf_compile v vm' of
             Inl e \<Rightarrow> ([CompileFailed label e], Exits 1)
           | Inr j \<Rightarrow> (case j NULL_object 0 of
               Inl sg \<Rightarrow> ([], Dies sg)
             | Inr r \<Rightarrow> ([ResultLine label r expected (r = expected)], Exits 0)))))"

definition jmp_test ::
  "bool \<Rightarrow> os \<times> os \<Rightarrow> wait_status \<Rightarrow> ending \<Rightarrow> 'v ubpf \<Rightarrow> u8 list \<Rightarrow> u64 \<Rightarrow> scalar_line list" where
  "jmp_test purecap oss unset null_vm v prog expected =
     scalar_fork (fst oss) unset ''interp'' (jmp_interp_child null_vm v prog expected) @
     scalar_fork (snd oss) (Exited 0) (JIT_LABEL purecap)
       (jmp_jit_child (JIT_LABEL purecap) null_vm v prog expected)"

definition jmp_cases :: "(string \<times> u8 list \<times> u64) list" where
  "jmp_cases =
    [(''test1: JEQ_IMM taken (r0==0 -> +2)'',
      program INSN [(0xb7, 0, 0, 0, 0), (0x15, 0, 0, 2, 0), (0xb7, 0, 0, 0, 99),
        (0x95, 0, 0, 0, 0), (0xb7, 0, 0, 0, 42), (0x95, 0, 0, 0, 0)], 42),
     (''test2: JEQ_IMM not taken (r0==1)'',
      program INSN [(0xb7, 0, 0, 0, 1), (0x15, 0, 0, 1, 0), (0xb7, 0, 0, 0, 42),
        (0x95, 0, 0, 0, 0)], 42),
     (''test3: JGT_IMM (r0=5 > 3 -> +2)'',
      program INSN [(0xb7, 0, 0, 0, 5), (0x25, 0, 0, 2, 3), (0xb7, 0, 0, 0, 99),
        (0x95, 0, 0, 0, 0), (0xb7, 0, 0, 0, 42), (0x95, 0, 0, 0, 0)], 42),
     (''test4: JNE_IMM (r0=7 != 0 -> +1)'',
      program INSN [(0xb7, 0, 0, 0, 7), (0x55, 0, 0, 1, 0), (0xb7, 0, 0, 0, 99),
        (0xb7, 0, 0, 0, 42), (0x95, 0, 0, 0, 0)], 42),
     (''test5: JEQ_REG taken (r1==r2 -> +1)'',
      program INSN [(0xb7, 1, 0, 0, 5), (0xb7, 2, 0, 0, 5), (0x1d, 1, 2, 1, 0),
        (0xb7, 0, 0, 0, 99), (0xb7, 0, 0, 0, 42), (0x95, 0, 0, 0, 0)], 42),
     (''test6: loop (3 iterations, r0 should be 3)'',
      program INSN [(0xb7, 0, 0, 0, 0), (0xb7, 1, 0, 0, 3), (0x07, 0, 0, 0, 1),
        (0x17, 1, 0, 0, 1), (0x55, 1, 0, -3, 0), (0x95, 0, 0, 0, 0)], 3)]"

definition jmp_main ::
  "bool \<Rightarrow> (nat \<Rightarrow> os \<times> os) \<Rightarrow> wait_status \<Rightarrow> ending \<Rightarrow> 'v ubpf \<Rightarrow> scalar_line list" where
  "jmp_main purecap env unset null_vm v =
     concat (map (\<lambda>(oss, title, prog, expected).
       Title title # jmp_test purecap oss unset null_vm v prog expected) (paired env jmp_cases))"

section \<open>\<open>test_m3.c\<close>\<close>

definition m3_test ::
  "os \<times> os \<Rightarrow> wait_status \<Rightarrow> ending \<Rightarrow> 'v ubpf \<Rightarrow> u8 list \<Rightarrow> u64 \<Rightarrow> scalar_line list" where
  "m3_test oss unset null_vm v prog expected =
     scalar_fork (fst oss) unset ''interp'' (m2_interp_child null_vm v prog expected NULL_object 0) @
     scalar_fork (snd oss) (Exited 0) ''cheri_jit''
       (m2_jit_child ''cheri_jit'' null_vm v prog expected NULL_object 0)"

definition m3_cases :: "(string \<times> u8 list \<times> u64) list" where
  "m3_cases =
    [(''test1: stack store+load (r10-8)'',
      program INSN [(0xb7, 0, 0, 0, 42), (0x7b, 0xa, 0, -8, 0), (0xb7, 0, 0, 0, 0),
        (0x79, 0, 0, -8, 0), (0x95, 0, 0, 0, 0)], 42),
     (''test2: stack load uninit (r10-8)'',
      program INSN [(0x79, 0, 0, -8, 0), (0x95, 0, 0, 0, 0)], 0),
     (''test3: stack store+load (r10-256)'',
      program INSN [(0xb7, 0, 0, 0, 99), (0x7b, 0xa, 0, -256, 0), (0xb7, 0, 0, 0, 0),
        (0x79, 0, 0, -256, 0), (0x95, 0, 0, 0, 0)], 99)]"

definition m3_main :: "(nat \<Rightarrow> os \<times> os) \<Rightarrow> wait_status \<Rightarrow> ending \<Rightarrow> 'v ubpf \<Rightarrow> scalar_line list" where
  "m3_main env unset null_vm v =
     concat (map (\<lambda>(oss, title, prog, expected).
       Title title # m3_test oss unset null_vm v prog expected) (paired env m3_cases))"

section \<open>\<open>test42.c\<close> and \<open>ubpf_test.c\<close>\<close>

definition prog42 :: "u8 list" where
  "prog42 = [0xb7,0,0,0,0x2a,0,0,0, 0x95,0,0,0,0,0,0,0]"

text \<open>The interpreter of \<open>test42.c\<close> runs in the parent; \<open>rc\<close> is what a failing \<open>ubpf_exec\<close>
  returns and \<open>junk\<close> the result variable it leaves unset.\<close>

definition test42_jit_child :: "string \<Rightarrow> ending \<Rightarrow> 'v ubpf \<Rightarrow> printing" where
  "test42_jit_child label null_vm v =
     (case ubpf_create v of None \<Rightarrow> ([], null_vm)
      | Some vm \<Rightarrow>
        (case ubpf_compile v (load_ignored v vm prog42) of
           Inl e \<Rightarrow> ([CompileFailed label e], Exits 1)
         | Inr j \<Rightarrow> (case j NULL_object 0 of
             Inl sg \<Rightarrow> ([], Dies sg)
           | Inr r \<Rightarrow> ([PlainResult label r], Exits 0))))"

definition test42_main :: "bool \<Rightarrow> os \<Rightarrow> wait_status \<Rightarrow> ending \<Rightarrow> int \<Rightarrow> 'v ubpf \<Rightarrow> printing" where
  "test42_main purecap os unset null_vm rc v =
     (case ubpf_create v of None \<Rightarrow> ([], null_vm)
      | Some vm \<Rightarrow>
        (case ubpf_exec v (load_ignored v vm prog42) NULL_object 0 of
           Inl sg \<Rightarrow> ([], Dies sg)
         | Inr r \<Rightarrow>
           let child = test42_jit_child (JIT_LABEL purecap) null_vm v;
               status = scalar_status os unset (snd child)
           in ((case r of None \<Rightarrow> InterpRc rc (junk os 0) | Some x \<Rightarrow> InterpRc 0 x)
               # (if fork_ok os then fst child else [])
               @ (if WIFSIGNALED status then [CrashLine (JIT_LABEL purecap) (WTERMSIG status)]
                  else [ExitLine (JIT_LABEL purecap) (WEXITSTATUS status)]),
               Exits 0)))"

text \<open>\<open>ubpf_test.c\<close> runs everything in one process and checks every call.\<close>

definition ubpf_test_main :: "'v ubpf \<Rightarrow> (int \<times> scalar_line list) proc" where
  "ubpf_test_main v =
     (case ubpf_create v of None \<Rightarrow> pret (1, [])
      | Some vm \<Rightarrow> pseq (acquire Vm)
        (case ubpf_load v vm prog42 of
           Inl errmsg \<Rightarrow> pseq (acquire_msg errmsg) (pseq (free_msg errmsg)
             (pseq (release Vm) (pret (1, []))))
         | Inr vm' \<Rightarrow>
           pbind (pcall Map.empty (ubpf_exec v vm' NULL_object 0)) (\<lambda>r.
           case r of None \<Rightarrow> pseq (release Vm) (pret (1, []))
           | Some result \<Rightarrow>
             (case ubpf_compile v vm' of
                Inl errmsg \<Rightarrow> pseq (acquire_msg errmsg) (pseq (free_msg errmsg)
                  (pseq (release Vm) (pret (2, [PlainResult ''interpreter'' result]))))
              | Inr jit \<Rightarrow>
                pbind (pcall Map.empty (jit NULL_object 0)) (\<lambda>result2.
                pseq (release Vm)
                (pret (0, [PlainResult ''interpreter'' result, PlainResult ''JIT'' result2])))))))"

section \<open>What the programs compute\<close>

definition scalar_expected :: "(string \<times> u8 list \<times> u64) list \<Rightarrow> nat \<Rightarrow> bool" where
  "scalar_expected cs n = list_all (\<lambda>(title, prog, expected).
     bpf_call no_helper prog [] n = Some (Returned expected)) cs"

lemma m2_cases_run: "scalar_expected m2_cases 20"
  unfolding scalar_expected_def m2_cases_def no_helper_def
  by (simp only: list.pred_inject prod.case; intro conjI TrueI)
    (simp_all add: bpf_call_program fields_ok_def machine_eval)

lemma jmp_cases_run: "scalar_expected jmp_cases 20"
  unfolding scalar_expected_def jmp_cases_def no_helper_def
  by (simp only: list.pred_inject prod.case; intro conjI TrueI)
    (simp_all add: bpf_call_program fields_ok_def machine_eval)

lemma prog42_program: "prog42 = program INSN [(0xb7, 0, 0, 0, 42), (0x95, 0, 0, 0, 0)]"
  by (simp add: prog42_def program_def INSN_def)

lemma prog42_run: "bpf_call no_helper prog42 [] 20 = Some (Returned 42)"
  unfolding prog42_program no_helper_def
  by (simp add: bpf_call_program fields_ok_def machine_eval)

text \<open>The stack programs of \<open>test_m3.c\<close> as their comments describe them: the load goes
  through \<open>r10\<close>.\<close>

definition m3_intended :: "(u8 list \<times> u64) list" where
  "m3_intended =
    [(program INSN [(0xb7, 0, 0, 0, 42), (0x7b, 0xa, 0, -8, 0), (0xb7, 0, 0, 0, 0),
        (0x79, 0, 0xa, -8, 0), (0x95, 0, 0, 0, 0)], 42),
     (program INSN [(0x79, 0, 0xa, -8, 0), (0x95, 0, 0, 0, 0)], 0),
     (program INSN [(0xb7, 0, 0, 0, 99), (0x7b, 0xa, 0, -256, 0), (0xb7, 0, 0, 0, 0),
        (0x79, 0, 0xa, -256, 0), (0x95, 0, 0, 0, 0)], 99)]"

text \<open>C30: the expected values of the scalar tests are what eBPF computes. Each of the seven
  move and arithmetic programs of \<open>test_m2.c\<close>, the six jump programs of \<open>test_m2_jmp.c\<close> (the
  three-round loop included) and the constant of \<open>test42.c\<close> and \<open>ubpf_test.c\<close> returns the
  listed value; twenty instructions are enough.\<close>
theorem scalar_expectations_hold:
  "scalar_expected m2_cases 20 \<and> scalar_expected jmp_cases 20 \<and>
   bpf_call no_helper prog42 [] 20 = Some (Returned 42)"
  using m2_cases_run jmp_cases_run prog42_run by simp

text \<open>C31: the stack programs of \<open>test_m3.c\<close> do not do what their comments say. Their loads name
  source register 0, so each of the three stops at a load through something that is not a
  pointer, and none returns the value the test expects; with source register 10, as
  commented, the same programs return 42, 0 and 99.\<close>
theorem m3_loads_wrong_register:
  "list_all (\<lambda>(title, prog, expected). bpf_call no_helper prog [] 20 = Some NotACapability) m3_cases \<and>
   list_all (\<lambda>(prog, expected). bpf_call no_helper prog [] 20 = Some (Returned expected)) m3_intended \<and>
   map snd m3_intended = map (\<lambda>(title, prog, expected). expected) m3_cases"
  unfolding m3_cases_def m3_intended_def no_helper_def
  by (simp only: list.pred_inject prod.case list.map snd_conv; intro conjI TrueI refl)
    (simp_all add: bpf_call_program fields_ok_def machine_eval)

section \<open>What the programs print\<close>

text \<open>The interpreter and the compiled code return what the eBPF program returns.\<close>

definition scalar_implements :: "'v ubpf \<Rightarrow> u8 list \<Rightarrow> bool" where
  "scalar_implements v prog \<longleftrightarrow>
     (\<exists>vm vm' j. ubpf_create v = Some vm \<and> ubpf_load v vm prog = Inr vm' \<and> ubpf_compile v vm' = Inr j \<and>
       (\<forall>n r. bpf_call no_helper prog [] n = Some (Returned r) \<longrightarrow>
         ubpf_exec v vm' NULL_object 0 = Inr (Some r) \<and> j NULL_object 0 = Inr r))"

definition ok_lines :: "string \<Rightarrow> (string \<times> u8 list \<times> u64) list \<Rightarrow> scalar_line list" where
  "ok_lines label cs = concat (map (\<lambda>(title, prog, expected).
     [Title title, ResultLine ''interp'' expected expected True, ResultLine label expected expected True]) cs)"

lemma scalar_fork_exits:
  "fork_ok os \<Longrightarrow> waitpid_ok os \<Longrightarrow> scalar_fork os unset label (ls, Exits n) = ls"
  by (simp add: scalar_fork_def scalar_status_def crash_lines_def)

lemma scalar_test_lines:
  assumes "\<forall>os\<in>{fst oss, snd oss}. fork_ok os \<and> waitpid_ok os" and "scalar_implements v prog"
    and "bpf_call no_helper prog [] n = Some (Returned expected)"
  shows "m2_test purecap oss unset null_vm v prog expected NULL_object 0 =
      [ResultLine ''interp'' expected expected True, ResultLine (JIT_LABEL purecap) expected expected True]"
    and "jmp_test purecap oss unset null_vm v prog expected =
      [ResultLine ''interp'' expected expected True, ResultLine (JIT_LABEL purecap) expected expected True]"
proof -
  obtain vm vm' j where v: "ubpf_create v = Some vm" "ubpf_load v vm prog = Inr vm'"
    "ubpf_compile v vm' = Inr j" "ubpf_exec v vm' NULL_object 0 = Inr (Some expected)"
    "j NULL_object 0 = Inr expected"
    using assms(2,3) unfolding scalar_implements_def by blast
  show "m2_test purecap oss unset null_vm v prog expected NULL_object 0 =
      [ResultLine ''interp'' expected expected True, ResultLine (JIT_LABEL purecap) expected expected True]"
    using v assms(1)
    by (simp add: m2_test_def m2_interp_child_def m2_jit_child_def load_ignored_def scalar_fork_exits)
  show "jmp_test purecap oss unset null_vm v prog expected =
      [ResultLine ''interp'' expected expected True, ResultLine (JIT_LABEL purecap) expected expected True]"
    using v assms(1)
    by (simp add: jmp_test_def jmp_interp_child_def jmp_jit_child_def scalar_fork_exits)
qed

lemma concat_paired:
  "(\<And>i c. c \<in> set cs \<Longrightarrow> f (env i, c) = g c) \<Longrightarrow> concat (map f (paired env cs)) = concat (map g cs)"
proof -
  assume h: "\<And>i c. c \<in> set cs \<Longrightarrow> f (env i, c) = g c"
  have "map f (paired env cs) = map g cs"
    by (rule nth_equalityI) (simp_all add: paired_def h)
  then show ?thesis by simp
qed

text \<open>C29: what a conforming machine makes the two scalar tests print. If every \<open>fork\<close> and
  \<open>waitpid\<close> succeeds and both the interpreter and the compiled code return what eBPF
  defines, then both programs print, for every case and in order, its title and a matching
  result for the interpreter and for the JIT, and nothing else.\<close>
theorem scalar_reports:
  assumes "\<forall>i. \<forall>os\<in>{fst (env i), snd (env i)}. fork_ok os \<and> waitpid_ok os"
    and "\<forall>(title, prog, expected)\<in>set (m2_cases @ jmp_cases). scalar_implements v prog"
  shows "m2_main purecap env unset null_vm v = ok_lines (JIT_LABEL purecap) m2_cases \<and>
    jmp_main purecap env unset null_vm v = ok_lines (JIT_LABEL purecap) jmp_cases"
proof -
  have run: "bpf_call no_helper prog [] 20 = Some (Returned expected)"
    if "(title, prog, expected) \<in> set (m2_cases @ jmp_cases)" for title prog expected
    using that m2_cases_run jmp_cases_run unfolding scalar_expected_def list_all_iff by fastforce
  have imp: "scalar_implements v prog"
    if "(title, prog, expected) \<in> set (m2_cases @ jmp_cases)" for title prog expected
    using that assms(2) by blast
  note lines = scalar_test_lines [OF spec [OF assms(1)] imp run]
  have m2: "m2_main purecap env unset null_vm v = ok_lines (JIT_LABEL purecap) m2_cases"
    unfolding m2_main_def ok_lines_def
    by (rule concat_paired; clarsimp; rule lines(1)) auto
  have "jmp_main purecap env unset null_vm v = ok_lines (JIT_LABEL purecap) jmp_cases"
    unfolding jmp_main_def ok_lines_def
    by (rule concat_paired; clarsimp; rule lines(2)) auto
  with m2 show ?thesis by simp
qed

definition demo_scalar_vm :: "u8 list ubpf" where
  "demo_scalar_vm = demo_vm (\<lambda>_. Inr 0)
     \<lparr>ubpf_exec := \<lambda>prog _ _. case bpf_call no_helper prog [] 20 of Some (Returned r) \<Rightarrow> Inr (Some r) | _ \<Rightarrow> Inr None,
      ubpf_compile := \<lambda>prog. Inr (\<lambda>_ _. case bpf_call no_helper prog [] 20 of Some (Returned r) \<Rightarrow> Inr r | _ \<Rightarrow> Inl 34)\<rparr>"

lemma demo_scalar: "bpf_call no_helper prog [] 20 = Some (Returned r) \<Longrightarrow> scalar_implements demo_scalar_vm prog"
  unfolding scalar_implements_def
  by (rule exI [of _ "[]"], rule exI [of _ prog])
    (auto simp: demo_scalar_vm_def demo_vm_def dest: bpf_call_unique)

theorem scalar_reports_witness:
  "m2_main True (\<lambda>i. (demo_os i, demo_os i)) Stopped (Dies 34) demo_scalar_vm =
     ok_lines ''cheri_jit'' m2_cases"
proof -
  have "\<forall>(title, prog, expected)\<in>set (m2_cases @ jmp_cases). scalar_implements demo_scalar_vm prog"
    using m2_cases_run jmp_cases_run unfolding scalar_expected_def list_all_iff
    by (auto intro: demo_scalar)
  then show ?thesis
    using scalar_reports [of "\<lambda>i. (demo_os i, demo_os i)" demo_scalar_vm True Stopped "Dies 34"]
    by (simp add: demo_os_def JIT_LABEL_def)
qed

text \<open>C39: \<open>ubpf_test.c\<close> frees what it owns on every path that returns, and its exit status
  speaks of the calls and not of the value: it is 0 exactly when the machine was created,
  the program loaded, interpreted and compiled, and the compiled code returned, whatever
  the two results are.\<close>
theorem ubpf_test_exit:
  "leak_free (ubpf_test_main v) \<and>
   ((\<exists>ls s. ubpf_test_main v start = (Inr (0, ls), s)) \<longleftrightarrow>
    (\<exists>vm vm' x j y. ubpf_create v = Some vm \<and> ubpf_load v vm prog42 = Inr vm' \<and>
       ubpf_exec v vm' NULL_object 0 = Inr (Some x) \<and> ubpf_compile v vm' = Inr j \<and>
       j NULL_object 0 = Inr y))"
  by (auto simp: ubpf_test_main_def leak_free_def proc_defs start_def
      split: option.splits sum.splits)

end
