(* ===== verification/Suite_Probes.thy ===== *)
theory Suite_Probes
  imports A64_Emit
begin

text \<open>
  Two probes that run hand-assembled words: \<open>test_instruction_matrix.c\<close> enters fourteen short
  sequences, each in a child, and prints how it ended; \<open>test_m3_isolated.c\<close> stores to a data
  page through an address built in \<open>x19\<close>. Both build the address with one \<open>movz\<close> and two
  \<open>movk\<close>. The hardware is a parameter, the words are the model.
\<close>

section \<open>Building an address in \<open>x19\<close>\<close>

definition movz_x19 :: "u64 \<Rightarrow> u32" where
  "movz_x19 addr = ucast (0xd2800000 OR push_bit 5 (addr AND 0xffff) OR 19)"

definition movk16_x19 :: "u64 \<Rightarrow> u32" where
  "movk16_x19 addr = ucast (0xf2a00000 OR push_bit 5 (drop_bit 16 addr AND 0xffff) OR 19)"

definition movk32_x19 :: "u64 \<Rightarrow> u32" where
  "movk32_x19 addr = ucast (0xf2c00000 OR push_bit 5 (drop_bit 32 addr AND 0xffff) OR 19)"

text \<open>What a 64-bit wide move does to \<open>x19\<close>: \<open>movz\<close> clears the rest of the register, \<open>movk\<close>
  keeps it; bits 21 and 22 select the halfword.\<close>

definition wide_move :: "u32 \<Rightarrow> u64 \<Rightarrow> u64 option" where
  "wide_move w x =
     (let hw = 16 * unat (field 21 2 w); imm = ucast (field 5 16 w) :: u64 in
      if w AND 0xff80001f = 0xd2800013 then Some (push_bit hw imm)
      else if w AND 0xff80001f = 0xf2800013
        then Some ((x AND NOT (push_bit hw 0xffff)) OR push_bit hw imm)
      else None)"

fun x19_after :: "u32 list \<Rightarrow> u64 \<Rightarrow> u64 option" where
  "x19_after [] x = Some x"
| "x19_after (w # ws) x = (case wide_move w x of None \<Rightarrow> None | Some y \<Rightarrow> x19_after ws y)"

lemma u64_eq_bits: "(x :: u64) = y \<longleftrightarrow> (\<forall>i\<in>set [0..<64]. bit x i = bit y i)"
  by (auto simp: bit_eq_iff dest: bit_imp_le_length)

lemma wide_words:
  "movz_x19 addr AND 0xff80001f = 0xd2800013" "field 21 2 (movz_x19 addr) = 0"
  "field 5 16 (movz_x19 addr) = ucast (take_bit 16 addr)"
  "movk16_x19 addr AND 0xff80001f = 0xf2800013" "field 21 2 (movk16_x19 addr) = 1"
  "field 5 16 (movk16_x19 addr) = ucast (take_bit 16 (drop_bit 16 addr))"
  "movk32_x19 addr AND 0xff80001f = 0xf2800013" "field 21 2 (movk32_x19 addr) = 2"
  "field 5 16 (movk32_x19 addr) = ucast (take_bit 16 (drop_bit 32 addr))"
  unfolding u32_eq_bits field_def movz_x19_def movk16_x19_def movk32_x19_def
  by (simp_all add: bit_simps upt_rec)

text \<open>The three words leave the low 48 bits of the address in \<open>x19\<close>, whatever it held: the
  address itself for every user-space address, and not the capability.\<close>

lemma address_words:
  "x19_after [movz_x19 addr, movk16_x19 addr, movk32_x19 addr] x = Some (take_bit 48 addr)"
proof -
  let ?lo = "take_bit 16 addr" and ?mid = "take_bit 16 (drop_bit 16 addr)"
    and ?hi = "take_bit 16 (drop_bit 32 addr)"
  have u: "ucast (ucast (take_bit 16 y) :: u32) = take_bit 16 (y :: u64)" for y
    by (rule bit_word_eqI) (auto simp: bit_simps)
  have m: "(0xffff :: u64) = mask 16" by (simp add: mask_eq_exp_minus_1)
  have "((?lo AND NOT (push_bit 16 (mask 16))) OR push_bit 16 ?mid) AND NOT (push_bit 32 (mask 16)) OR
      push_bit 32 ?hi = take_bit 48 addr"
  proof (rule bit_word_eqI)
    fix n :: nat
    assume "n < LENGTH(64)"
    then show "bit (((?lo AND NOT (push_bit 16 (mask 16))) OR push_bit 16 ?mid) AND
        NOT (push_bit 32 (mask 16)) OR push_bit 32 ?hi) n = bit (take_bit 48 addr) n"
      by (cases "n < 16"; cases "n < 32") (auto simp: bit_simps)
  qed
  then show ?thesis
    unfolding x19_after.simps wide_move_def wide_words u Let_def m by simp
qed

section \<open>\<open>test_instruction_matrix.c\<close>\<close>

datatype matrix_line =
  MmapFailed string | RanOk string u64 | Crashed string string int | ExitedWith string int

definition signal_name :: "int \<Rightarrow> string" where
  "signal_name sig = (if sig = 34 then ''SIGPROT'' else if sig = 11 then ''SIGSEGV'' else ''?'')"

text \<open>\<open>mapped\<close> says whether \<open>mmap\<close> succeeds, \<open>enter\<close> is the processor; \<open>unset\<close> is what the
  status holds when \<open>waitpid\<close> stores nothing. The result and the printed lines.\<close>

definition run_test ::
  "os \<Rightarrow> wait_status \<Rightarrow> bool \<Rightarrow> (u32 list \<Rightarrow> int + u64) \<Rightarrow> string \<Rightarrow> u32 list \<Rightarrow> nat \<Rightarrow> int \<times> matrix_line list" where
  "run_test os unset mapped enter nm code code_len =
     (if \<not> mapped then (-1, [MmapFailed nm])
      else let words = take (code_len div 4) code;
          child = (case enter words of Inl sg \<Rightarrow> ([], Dies sg) | Inr r \<Rightarrow> ([RanOk nm r], Exits 0));
          printed = (if fork_ok os then fst child else []);
          s = (if fork_ok os \<and> waitpid_ok os then status_of (snd child) else unset)
      in if WIFSIGNALED s
         then (WTERMSIG s, printed @ [Crashed nm (signal_name (WTERMSIG s)) (WTERMSIG s)])
         else let rc = WEXITSTATUS s in (0, printed @ (if rc \<noteq> 0 then [ExitedWith nm rc] else [])))"

definition matrix_cases :: "u64 \<Rightarrow> (string \<times> u32 list \<times> nat) list" where
  "matrix_cases data_addr =
     [(''sub_csp'',
       [0x028083f0, 0xd2800540, 0x020083f0, 0xc2c253c0], 16),
      (''ret_c30'',
       [0xd2800540, 0xc2c253c0], 8),
      (''movz_x0'',
       [0xd2800540, 0xc2c253c0], 8),
      (''orr_x0_xzr_x1'',
       [0xaa0103e0, 0xc2c253c0], 8),
      (''add_x0_x1_x2'',
       [0x8b020020, 0xc2c253c0], 8),
      (''sub_x0_x1_x2'',
       [0xcb020020, 0xc2c253c0], 8),
      (''b_forward'',
       [0x14000001, 0xd2800540, 0xc2c253c0], 12),
      (''bl_forward'',
       [0x94000001, 0xd2800540, 0xc2c253c0], 12),
      (''str_x5_x19_sep_page'',
       [movz_x19 data_addr, movk16_x19 data_addr, movk32_x19 data_addr, 0xd2800545, 0xf9000265,
        0xd2800000, 0xc2c253c0], 28),
      (''stur_x5_x19_neg8'',
       [movz_x19 data_addr, movk16_x19 data_addr, movk32_x19 data_addr, 0xd2800545, 0xf81f8265,
        0xd2800000, 0xc2c253c0], 28),
      (''str_x5_sp'',
       [0xd2800545, 0xf90003e5, 0xd2800000, 0xc2c253c0], 16),
      (''ldr_x5_x19_sep_page'',
       [movz_x19 data_addr, movk16_x19 data_addr, movk32_x19 data_addr, 0xf9400265, 0xaa0503e0,
        0xc2c253c0], 24),
      (''str_c30_c0'',
       [0xc200001e, 0xd2800000, 0xc2c253c0], 12),
      (''ldr_c30_c0'',
       [0xc240001e, 0xd2800000, 0xc2c253c0], 12)]"

text \<open>The lines of \<open>main\<close> for the fourteen runs, in order.\<close>

definition matrix_main ::
  "(nat \<Rightarrow> os) \<Rightarrow> wait_status \<Rightarrow> bool \<Rightarrow> (u32 list \<Rightarrow> int + u64) \<Rightarrow> u64 \<Rightarrow> matrix_line list" where
  "matrix_main env unset mapped enter data_addr =
     concat (map (\<lambda>(os, nm, code, code_len). snd (run_test os unset mapped enter nm code code_len))
       (paired env (matrix_cases data_addr)))"

text \<open>The byte counts are the sizes of the arrays, so every copy reads exactly its array and
  stays in the page.\<close>

lemma matrix_lengths:
  "list_all (\<lambda>(nm, code, code_len). code_len = 4 * length code \<and> code_len \<le> 4096) (matrix_cases data_addr)"
  by (simp add: matrix_cases_def)

text \<open>What a run reports when the kernel calls succeed: exactly how the sequence ended.\<close>

lemma run_test_report:
  assumes "fork_ok os" and "waitpid_ok os" and "code_len = 4 * length code"
  shows "run_test os unset True enter nm code code_len =
    (case enter code of
       Inl sg \<Rightarrow> (sg, [Crashed nm (signal_name sg) sg])
     | Inr r \<Rightarrow> (0, [RanOk nm r]))"
  using assms by (simp add: run_test_def Let_def split: sum.split)

text \<open>The sequences that store or load through \<open>x19\<close> begin with the three address words; no
  sequence uses the stack page that \<open>main\<close> maps as well.\<close>

lemma matrix_addressed:
  "\<forall>(nm, code, code_len)\<in>set (matrix_cases data_addr).
     nm \<in> {''str_x5_x19_sep_page'', ''stur_x5_x19_neg8'', ''ldr_x5_x19_sep_page''} \<longrightarrow>
       x19_after (take 3 code) x = Some (take_bit 48 data_addr)"
  by (simp add: matrix_cases_def address_words eval_nat_numeral del: x19_after.simps)

section \<open>\<open>test_m3_isolated.c\<close>\<close>

datatype iso_line =
  DataBefore "u8 list" | JitReturned u64 | DataAfter "u8 list" | JitCrashed int
| StoreSucceeded u8 | StoreFailed

definition iso_code :: "u64 \<Rightarrow> u32 list" where
  "iso_code data_addr =
     [movz_x19 data_addr, movk16_x19 data_addr, movk32_x19 data_addr,
      0xd2800545, 0xf9000265, 0xd2800000, 0xc2c253c0]"

text \<open>The data page is private to a process: the child works on its own copy. \<open>enter\<close> runs
  the code on a page and gives the outcome and the page after it.\<close>

definition iso_main ::
  "os \<Rightarrow> wait_status \<Rightarrow> u64 option \<Rightarrow> bool \<Rightarrow> (u32 list \<Rightarrow> u8 list \<Rightarrow> (int + u64) \<times> u8 list) \<Rightarrow>
   nat \<times> iso_line list" where
  "iso_main os unset data jit_mapped enter =
     (case data of None \<Rightarrow> (1, [])
      | Some data_addr \<Rightarrow>
        if \<not> jit_mapped then (1, [])
        else let data_page = replicate 4096 0;
            child = (case enter (iso_code data_addr) data_page of
                (Inl sg, _) \<Rightarrow> ([], Dies sg)
              | (Inr r, page) \<Rightarrow> ([JitReturned r, DataAfter (take 8 page)], Exits 0));
            printed = DataBefore (take 8 data_page) # (if fork_ok os then fst child else []);
            s = (if fork_ok os \<and> waitpid_ok os then status_of (snd child) else unset)
        in (0, printed @ [if WIFSIGNALED s then JitCrashed (WTERMSIG s)
                          else if data_page ! 0 = 42 \<and> data_page ! 1 = 0
                          then StoreSucceeded (data_page ! 0) else StoreFailed]))"

text \<open>The program never reports a successful store, whatever the hardware does: the parent
  looks at its own copy of a private page, which only the child has written.\<close>

lemma iso_never_succeeds: "StoreSucceeded b \<notin> set (snd (iso_main os unset data jit_mapped enter))"
  by (auto simp: iso_main_def Let_def split: option.splits sum.splits prod.splits)

end
