(* ===== verification/Spec2Isabelle.thy ===== *)
theory Spec2Isabelle
  imports Cap_Contract Suite_Generated Suite_Host Suite_Helper_Map Suite_Translate Suite_Objjit
    Suite_Exploit Suite_Direct Suite_Tail Suite_Loader Suite_Scalar
    Suite_Probes
begin

text \<open>
  A verification development for the CHERI eBPF test bench (\<open>src/workspace\<close>).

  \<^bold>\<open>The program.\<close> The repository holds the C programs that exercise a capability-aware
  eBPF JIT. The JIT itself lives in the submodule \<open>ubpf\<close>, which is not part of the
  repository. What is here is: byte-coded eBPF programs and C fixtures compiled to eBPF;
  harnesses that load, compile and call such a program in a forked child and judge how the
  child ended; code generators that write Morello instructions into a page; and a small
  contract on which registers hold capabilities. Each harness is an independent program;
  they share conventions (exit codes, expected traps, two prepared words), which are
  copied from file to file in the source and modelled copy by copy here, with lemmas that
  the copies agree where they do.

  \<^bold>\<open>Theories, in dependency order.\<close>
  \<^item> \<open>Prelude\<close>: bytes and little-endian words (locale of codecs), memory as byte functions,
    and the locale \<open>suite\<close> of programs that count failing cases.
  \<^item> \<open>Bpf_Insn\<close>: the encoders \<open>INSN\<close>, \<open>BPF_RAW\<close> and the field readers; the locale
    \<open>insn_format\<close> is what a reader relies on.
  \<^item> \<open>Cap_Contract\<close>: \<open>cheri_jit_contract.h\<close> as a record of register states, refined to an
    abstract map from registers to authorities.
  \<^item> \<open>Object_Memory\<close>, \<open>Fixtures\<close>, \<open>Fixture_Props\<close>: the two memory objects a program sees
    (locale \<open>checked_memory\<close>, interpreted for the capability and the host policy), the
    fixtures of \<open>bpf/*.c\<close> as state-and-fault functions, and their bounds.
  \<^item> \<open>Harness_Memory\<close>, \<open>Generated_Cases\<close>: preparation of the objects and the case table of
    \<open>generated_bpf_cases.h\<close>.
  \<^item> \<open>Process\<close>, \<open>Sigprot_Child\<close>: a child process as a function of what it owns and has
    written; signals, wait statuses, \<open>write_all\<close>, \<open>read_file\<close>; the handler-and-wait
    protocol of the CHERI programs.
  \<^item> \<open>Suite_Generated\<close> (\<open>test_cheri_generated_bpf.c\<close>), \<open>Suite_Host\<close>
    (\<open>test_generated_bpf_host.c\<close>): the two runners of the generated cases.
  \<^item> \<open>Bpf_Machine\<close>: a reference eBPF machine, the specification for byte programs.
  \<^item> \<open>Objjit_Programs\<close>, \<open>Suite_Objjit\<close> (\<open>test_cheri_objjit_compile.c\<close>), \<open>Suite_Translate\<close>
    (\<open>test_cheri_translate_reject.c\<close>), \<open>Suite_Helper_Map\<close> (\<open>test_helper_map_cap.c\<close>),
    \<open>Suite_Exploit\<close> (\<open>exploit_programs.h\<close>, \<open>exploit_tests.c\<close>), \<open>Suite_Scalar\<close>
    (\<open>test_m2.c\<close>, \<open>test_m2_jmp.c\<close>, \<open>test_m3.c\<close>, \<open>test42.c\<close>, \<open>ubpf_test.c\<close>): suites of byte
    programs.
  \<^item> \<open>A64_Emit\<close>, \<open>Suite_Direct\<close> (\<open>test_cheri_direct_jit_repro.c\<close>), \<open>Suite_Tail\<close>
    (\<open>test_cheri_tail_helper_context.c\<close>, \<open>test_cheri_context_load.c\<close>): emission of
    instruction words, a decoder and evaluator for them, and the reproductions that run
    them.
  \<^item> \<open>Suite_Loader\<close> (\<open>test_cheri_loader_jit_repro.c\<close>, \<open>test_cheri_objjit_context_repro.c\<close>):
    code mapped by the dynamic loader.
  \<^item> \<open>Suite_Probes\<close> (\<open>test_instruction_matrix.c\<close>, \<open>test_m3_isolated.c\<close>): hand-assembled
    sequences entered in a child; the address they build and what the programs report.

  \<^bold>\<open>State and operations.\<close> A C function of a child is an element of \<open>'a proc\<close>, a function
  from \<open>pstate\<close> (owned resources, misuse flag, bytes sent) to an end of the process or a
  value; \<open>pexit\<close> is \<open>_exit\<close>, \<open>pcall\<close> calls code that may raise a signal, \<open>acquire\<close> and
  \<open>release\<close> stand for creation and freeing. The parent's part is a function of the child's
  end. Memory accesses of C code are \<open>'a mop\<close>, functions from the two objects to a fault or
  a value and new objects. Words keep their C width; counts of failures are naturals. A
  \<open>main\<close> returns its exit status; programs whose only result is what they print return the
  printed lines.

  \<^bold>\<open>Parameters.\<close> \<open>os\<close> holds the kernel's answers (one per child, so that they may differ
  from case to case), \<open>ubpf\<close> the calls of the virtual machine, \<open>dl\<close> the dynamic loader,
  \<open>vmk\<close> mapping calls and the processor. What they answer is assumed only in named
  hypotheses: \<open>kernel_ok\<close> and its variants (the calls succeed), \<open>honest_write\<close> (POSIX),
  \<open>implements\<close>, \<open>vm_conforms\<close>, \<open>backend_conforms\<close> (compiled code does what the program does),
  \<open>refused_by_compiler\<close> (an unsupported program is refused with a documented message),
  \<open>kernel_maps\<close> and \<open>cpu_conforms\<close> (pages get the protection asked for; an executable page
  entered in capability mode runs its words). Each theorem with such a hypothesis has a
  witness with concrete answers. One thing is assumed by the types: the functions of \<open>ubpf\<close>
  that create, load, compile and translate return. Signals come from running a program, on
  the interpreter or compiled, and from the harness's own memory accesses. A child whose
  handlers are installed before \<open>ubpf\<close> is called, as in the generated and map suites, would
  judge a crash inside those functions like a trap of the program; that case is outside the
  model, and the exact verdicts are to be read with it excluded.

  \<^bold>\<open>What the lemmas show.\<close> For each suite: the verdict of a case is characterised exactly;
  the expectations in its table are what the programs do, on the reference machine or in
  the C semantics of the fixture; and \<open>main\<close> accepts an implementation that does that. For
  the code generators: the emitted words compute what their comments say. For resources:
  no returning path leaks. Where a suite accepts too much (an expected trap that passes
  without a run, a crash reported as a capability trap, a failed \<open>fork\<close> reported as a match,
  loads through the wrong register, two suites with different ideas of a refusal), a theorem
  states it.

  \<^bold>\<open>Bounds and fuel.\<close> \<open>run\<close> takes a bound on executed instructions; \<open>bpf_call_more_fuel\<close> and
  \<open>bpf_call_unique\<close> show that a result does not depend on it, and the theorems give results
  for 10 or 20 steps, more than any of the programs executes. The eBPF stack has 4096 zero
  bytes there and arbitrary content in the exploit theorems. \<open>write_all_loop\<close> is total by
  the bytes left to write.

  \<^bold>\<open>Not modelled.\<close> Diagnostics and formatted output except where a program has no other
  result; capability dumps; the \<open>ubpf\<close> sources; the other hardware
  probes (\<open>test_prologue.c\<close>, \<open>test_m3_dump*.c\<close>, \<open>test_b.c\<close>, \<open>test_jit_dump.c\<close>), the platform
  probes (\<open>test_tag*.c\<close>, \<open>test_perms.c\<close>, \<open>test_text_store.c\<close>, \<open>test_file_backed.c\<close>) and the
  Python emitter
  \<open>tools/cheri_objjit_emit.py\<close>. The last two groups are next: the mapping probes over \<open>vmk\<close>, and the emitter as a
  refinement of the tail-helper compiler's recognition of one-load programs.
\<close>

end
